(* ===== verification/Prelude.thy ===== *)
theory Prelude
  imports Main "HOL-Library.Word"
begin

text \<open>
  Prelude of the development: the machine types of the Go program, the conversions between them,
  and the generic lemmas on words, maps and lists that the component theories share.

  Go's fixed-width integers are words of their width. Signed values are read with \<open>sint\<close> and
  compared with the signed orders; \<open>+\<close>, \<open>-\<close> and \<open>*\<close> wrap as in Go. Go's \<open>int\<close> is 64 bits
  wide, as on every platform the server is built for. A Go string is a sequence of bytes, which
  is what a HOL \<open>string\<close> is.
\<close>

section \<open>Machine types\<close>

type_synonym byte = "8 word"
type_synonym u16 = "16 word"
type_synonym u32 = "32 word"
type_synonym i32 = "32 word"
type_synonym i64 = "64 word"
type_synonym go_int = "64 word"
type_synonym go_time = int

text \<open>The conversions \<open>int64(x)\<close> and \<open>int32(x)\<close> of a signed value: sign extension and truncation.\<close>

abbreviation to_i64 :: "i32 \<Rightarrow> i64" where "to_i64 x \<equiv> scast x"
abbreviation to_i32 :: "i64 \<Rightarrow> i32" where "to_i32 x \<equiv> scast x"

text \<open>The constants \<open>math.MaxInt32\<close> and \<open>math.MaxInt64\<close>, as 64-bit values.\<close>

definition max_int32 :: i64 where "max_int32 = 2147483647"
definition max_int64 :: i64 where "max_int64 = 9223372036854775807"

section \<open>Collections of facts\<close>

named_theorems signed_defs \<open>signed comparisons and casts read as integers\<close>
named_theorems go_defs \<open>definitions of the model that proofs unfold\<close>

section \<open>Signed arithmetic without overflow\<close>

lemma sint_32_range: "- 2147483648 \<le> sint (x :: 32 word)" "sint (x :: 32 word) < 2147483648"
  using sint_range_size [of x] by (simp_all add: word_size)

lemma sint_64_range:
  "- 9223372036854775808 \<le> sint (x :: 64 word)" "sint (x :: 64 word) < 9223372036854775808"
  using sint_range_size [of x] by (simp_all add: word_size)

lemma sint_to_i64 [simp]: "sint (to_i64 x) = sint x"
  using sint_32_range [of x] by (simp add: signed_scast_eq signed_take_bit_int_eq_self)

lemma sint_to_i32:
  "- 2147483648 \<le> sint x \<Longrightarrow> sint x < 2147483648 \<Longrightarrow> sint (to_i32 x) = sint x"
  by (simp add: signed_scast_eq signed_take_bit_int_eq_self)

lemma sint_add_64:
  fixes x y :: "64 word"
  assumes "- 9223372036854775808 \<le> sint x + sint y" "sint x + sint y < 9223372036854775808"
  shows "sint (x + y) = sint x + sint y"
  using assms by (simp add: sint_word_ariths signed_take_bit_int_eq_self)

lemma sint_sub_64:
  fixes x y :: "64 word"
  assumes "- 9223372036854775808 \<le> sint x - sint y" "sint x - sint y < 9223372036854775808"
  shows "sint (x - y) = sint x - sint y"
  using assms by (simp add: sint_word_ariths signed_take_bit_int_eq_self)

lemma sint_mul_64:
  fixes x y :: "64 word"
  assumes "- 9223372036854775808 \<le> sint x * sint y" "sint x * sint y < 9223372036854775808"
  shows "sint (x * y) = sint x * sint y"
  using assms by (simp add: sint_word_ariths signed_take_bit_int_eq_self)

lemma sint_add_32:
  fixes x y :: "32 word"
  assumes "- 2147483648 \<le> sint x + sint y" "sint x + sint y < 2147483648"
  shows "sint (x + y) = sint x + sint y"
  using assms by (simp add: sint_word_ariths signed_take_bit_int_eq_self)

lemma sint_of_int_64:
  "- 9223372036854775808 \<le> n \<Longrightarrow> n < 9223372036854775808 \<Longrightarrow> sint (word_of_int n :: 64 word) = n"
  by (simp add: sint_sbintrunc' signed_take_bit_int_eq_self)

lemma sint_max_int32 [simp]: "sint max_int32 = 2147483647"
  by (simp add: max_int32_def)

lemma sint_max_int64 [simp]: "sint max_int64 = 9223372036854775807"
  by (simp add: max_int64_def)

lemmas [signed_defs] = word_sless_alt word_sle_eq

section \<open>Little-endian byte sequences\<close>

text \<open>
  \<open>binary.LittleEndian.PutUint16\<close>, \<open>PutUint32\<close> and their readers: the value's bytes, least
  significant first. A byte \<open>ucast\<close>s to the wider word without a sign.
\<close>

definition put_u16 :: "u16 \<Rightarrow> byte list" where
  "put_u16 v = [ucast v, ucast (drop_bit 8 v)]"

definition put_u32 :: "u32 \<Rightarrow> byte list" where
  "put_u32 v = [ucast v, ucast (drop_bit 8 v), ucast (drop_bit 16 v), ucast (drop_bit 24 v)]"

fun get_u16 :: "byte list \<Rightarrow> u16" where
  "get_u16 (b0 # b1 # _) = or (ucast b0) (push_bit 8 (ucast b1))"
| "get_u16 _ = 0"

fun get_u32 :: "byte list \<Rightarrow> u32" where
  "get_u32 (b0 # b1 # b2 # b3 # _) =
     or (or (ucast b0) (push_bit 8 (ucast b1))) (or (push_bit 16 (ucast b2)) (push_bit 24 (ucast b3)))"
| "get_u32 _ = 0"

lemma length_put [simp]: "length (put_u16 v) = 2" "length (put_u32 w) = 4"
  by (simp_all add: put_u16_def put_u32_def)

lemma get_put_u16 [simp]: "get_u16 (put_u16 v @ r) = v"
  unfolding put_u16_def by (auto intro!: bit_word_eqI simp: bit_simps)

lemma get_put_u32 [simp]: "get_u32 (put_u32 v @ r) = v"
proof (rule bit_word_eqI)
  fix n assume "n < LENGTH(32)"
  then consider "n < 8" | "8 \<le> n" "n < 16" | "16 \<le> n" "n < 24" | "24 \<le> n" "n < 32"
    by fastforce
  then show "bit (get_u32 (put_u32 v @ r)) n = bit v n"
    by cases (auto simp: put_u32_def bit_simps)
qed

lemma byte_high_bits: "\<not> bit (a :: byte) (8 + n)" "\<not> bit (a :: byte) (16 + n)"
  "\<not> bit (a :: byte) (24 + n)"
  using bit_imp_le_length [of a "8 + n"] bit_imp_le_length [of a "16 + n"]
    bit_imp_le_length [of a "24 + n"] by auto

lemma put_get_u16: "put_u16 (get_u16 [a, b]) = [a, b]"
  unfolding put_u16_def
  by (auto intro!: bit_word_eqI simp: bit_simps byte_high_bits)

lemma put_get_u32: "put_u32 (get_u32 [a, b, c, d]) = [a, b, c, d]"
  unfolding put_u32_def
  by (auto intro!: bit_word_eqI simp: bit_simps byte_high_bits)

text \<open>A list of known length is its elements: how the readers above meet a slice of a frame.\<close>

lemma put_get_u16_list:
  assumes "length xs = 2" shows "put_u16 (get_u16 xs) = xs"
proof -
  from assms obtain a b where "xs = [a, b]"
    by (auto simp: numeral_2_eq_2 length_Suc_conv)
  then show ?thesis by (simp only: put_get_u16)
qed

lemma put_get_u32_list:
  assumes "length xs = 4" shows "put_u32 (get_u32 xs) = xs"
proof -
  from assms obtain a b c d where "xs = [a, b, c, d]"
    by (auto simp: eval_nat_numeral length_Suc_conv)
  then show ?thesis by (simp only: put_get_u32)
qed

end
