(* ===== verification/Go_Strings.thy ===== *)
theory Go_Strings
  imports Prelude "HOL-Library.Sublist"
begin

text \<open>
  The parts of Go's standard library on strings and numbers in text that the program uses, on
  byte strings: \<open>strings.HasPrefix\<close>, \<open>strings.CutPrefix\<close>, \<open>strings.TrimSpace\<close>,
  \<open>strings.SplitN(s, sep, 2)\<close>, \<open>strconv.FormatInt(n, 10)\<close> (also the \<open>%d\<close> verb) and
  \<open>strconv.ParseInt(s, 10, 64)\<close>. The lemmas show that a formatted number parses back and that a
  separator not occurring in the first part splits a string where it was joined.
\<close>

section \<open>Bytes of a literal outside ASCII\<close>

definition bytes_of :: "nat list \<Rightarrow> string" where
  "bytes_of ns = map char_of ns"

section \<open>Prefixes\<close>

definition has_prefix :: "string \<Rightarrow> string \<Rightarrow> bool" where
  "has_prefix s p = (take (length p) s = p)"

definition cut_prefix :: "string \<Rightarrow> string \<Rightarrow> string \<times> bool" where
  "cut_prefix s p = (if has_prefix s p then (drop (length p) s, True) else (s, False))"

lemma has_prefix_append [simp]: "has_prefix (p @ s) p"
  by (simp add: has_prefix_def)

lemma has_prefix_iff: "has_prefix s p \<longleftrightarrow> prefix p s"
  by (metis append_eq_conv_conj has_prefix_def prefix_def)

lemma has_prefixE:
  assumes "has_prefix s p" obtains r where "s = p @ r"
  using assms by (auto simp: has_prefix_iff prefix_def)

section \<open>Trimming white space\<close>

text \<open>
  The UTF-8 encodings of the code points of \<open>unicode.IsSpace\<close>. \<open>TrimSpace\<close> decodes runes from
  either end; a code point is at an end exactly when its encoding is, because the first byte of an
  encoding is never a continuation byte, and a byte that is no encoding is not white space.
\<close>

definition space_encodings :: "string list" where
  "space_encodings =
     map (\<lambda>n. [char_of n]) ([0x09, 0x0A, 0x0B, 0x0C, 0x0D, 0x20] :: nat list)
     @ [bytes_of [0xC2, 0x85], bytes_of [0xC2, 0xA0], bytes_of [0xE1, 0x9A, 0x80]]
     @ map (\<lambda>n. bytes_of [0xE2, 0x80, n])
         ([0x80, 0x81, 0x82, 0x83, 0x84, 0x85, 0x86, 0x87, 0x88, 0x89, 0x8A, 0xA8, 0xA9, 0xAF] :: nat list)
     @ [bytes_of [0xE2, 0x81, 0x9F], bytes_of [0xE3, 0x80, 0x80]]"

definition leading :: "string list \<Rightarrow> string \<Rightarrow> string option" where
  "leading ps s = find (\<lambda>p. p \<noteq> [] \<and> has_prefix s p) ps"

lemma leading_Some: "leading ps s = Some p \<Longrightarrow> p \<in> set ps \<and> p \<noteq> [] \<and> has_prefix s p"
  unfolding leading_def by (metis (mono_tags, lifting) find_Some_iff nth_mem)

lemma leading_shorter: "leading ps s = Some p \<Longrightarrow> length (drop (length p) s) < length s"
  by (drule leading_Some) (auto simp: has_prefix_iff prefix_def)

function trim_leading :: "string list \<Rightarrow> string \<Rightarrow> string" where
  "trim_leading ps s =
     (case leading ps s of None \<Rightarrow> s | Some p \<Rightarrow> trim_leading ps (drop (length p) s))"
  by pat_completeness auto
termination
  by (relation "measure (\<lambda>(ps, s). length s)") (auto dest: leading_shorter)

declare trim_leading.simps [simp del]

definition trim_left :: "string \<Rightarrow> string" where
  "trim_left s = trim_leading space_encodings s"

definition trim_right :: "string \<Rightarrow> string" where
  "trim_right s = rev (trim_leading (map rev space_encodings) (rev s))"

definition trim_space :: "string \<Rightarrow> string" where
  "trim_space s = trim_right (trim_left s)"

lemma trim_leading_length: "length (trim_leading ps s) \<le> length s"
proof (induction ps s rule: trim_leading.induct)
  case (1 ps s)
  show ?case
  proof (cases "leading ps s")
    case None
    then show ?thesis by (simp add: trim_leading.simps [of ps s])
  next
    case (Some p)
    from "1.IH" [OF Some] leading_shorter [OF Some] show ?thesis
      by (simp add: trim_leading.simps [of ps s] Some)
  qed
qed

lemma trim_leading_fixpoint: "leading ps s = None \<Longrightarrow> trim_leading ps s = s"
  by (simp add: trim_leading.simps [of ps s])

lemma trim_leading_done: "leading ps (trim_leading ps s) = None"
proof (induction ps s rule: trim_leading.induct)
  case (1 ps s)
  then show ?case
    by (cases "leading ps s") (simp_all add: trim_leading.simps [of ps s])
qed

lemma trim_leading_id_iff: "trim_leading ps s = s \<longleftrightarrow> leading ps s = None"
  by (metis trim_leading_done trim_leading_fixpoint)

lemma trim_space_Nil [simp]: "trim_space [] = []"
proof -
  have "leading ps [] = None" for ps
    unfolding leading_def find_None_iff by (auto simp: has_prefix_def)
  then show ?thesis
    by (simp add: trim_space_def trim_left_def trim_right_def trim_leading_fixpoint)
qed

lemma trim_space_id:
  "leading space_encodings s = None \<Longrightarrow> leading (map rev space_encodings) (rev s) = None \<Longrightarrow> trim_space s = s"
  by (simp add: trim_space_def trim_left_def trim_right_def trim_leading_fixpoint)

section \<open>Decimal numbers\<close>

fun show_nat :: "nat \<Rightarrow> string" where
  "show_nat n = (if n < 10 then [char_of (48 + n)] else show_nat (n div 10) @ [char_of (48 + n mod 10)])"

declare show_nat.simps [simp del]

definition show_int :: "int \<Rightarrow> string" where
  "show_int n = (if n < 0 then ''-'' @ show_nat (nat (- n)) else show_nat (nat n))"

definition show_i64 :: "i64 \<Rightarrow> string" where "show_i64 n = show_int (sint n)"
definition show_i32 :: "i32 \<Rightarrow> string" where "show_i32 n = show_int (sint n)"

definition digit_value :: "char \<Rightarrow> nat option" where
  "digit_value c = (let n = of_char c :: nat in if 48 \<le> n \<and> n \<le> 57 then Some (n - 48) else None)"

fun parse_digits :: "nat \<Rightarrow> string \<Rightarrow> nat option" where
  "parse_digits acc [] = Some acc"
| "parse_digits acc (c # cs) =
     (case digit_value c of None \<Rightarrow> None | Some d \<Rightarrow> parse_digits (acc * 10 + d) cs)"

text \<open>\<open>strconv.ParseInt(s, 10, 64)\<close>: \<open>None\<close> is its error, whatever its kind.\<close>

definition parse_int :: "string \<Rightarrow> i64 option" where
  "parse_int s =
     (case s of [] \<Rightarrow> None
      | c # cs \<Rightarrow>
        let neg = (c = CHR ''-''); digits = (if c = CHR ''-'' \<or> c = CHR ''+'' then cs else s)
        in if digits = [] then None
           else case parse_digits 0 digits of None \<Rightarrow> None
             | Some n \<Rightarrow>
                 if neg then (if n \<le> 2 ^ 63 then Some (word_of_int (- int n)) else None)
                 else (if n < 2 ^ 63 then Some (word_of_int (int n)) else None))"

lemma parse_digits_append:
  "parse_digits acc (xs @ ys) =
     (case parse_digits acc xs of None \<Rightarrow> None | Some n \<Rightarrow> parse_digits n ys)"
  by (induction xs arbitrary: acc) (auto split: option.splits)

lemma digit_value_char [simp]: "d < 10 \<Longrightarrow> digit_value (char_of (48 + d)) = Some d"
  by (simp add: digit_value_def Let_def)

lemma parse_show_nat: "parse_digits 0 (show_nat n) = Some n"
proof (induction n rule: show_nat.induct)
  case (1 n)
  show ?case
  proof (cases "n < 10")
    case True
    then show ?thesis by (simp add: show_nat.simps [of n])
  next
    case False
    with "1.IH" have "parse_digits 0 (show_nat (n div 10)) = Some (n div 10)" by simp
    with False show ?thesis by (simp add: show_nat.simps [of n] parse_digits_append)
  qed
qed

lemma show_nat_digits: "c \<in> set (show_nat n) \<Longrightarrow> 48 \<le> (of_char c :: nat) \<and> (of_char c :: nat) \<le> 57"
proof (induction n rule: show_nat.induct)
  case (1 n)
  show ?case
  proof (cases "n < 10")
    case True
    with "1.prems" show ?thesis by (simp add: show_nat.simps [of n])
  next
    case False
    with "1.prems" consider "c \<in> set (show_nat (n div 10))" | "c = char_of (48 + n mod 10)"
      by (auto simp: show_nat.simps [of n])
    then show ?thesis using "1.IH" False by cases auto
  qed
qed

lemma show_nat_not_Nil [simp]: "show_nat n \<noteq> []"
  by (simp add: show_nat.simps [of n])

lemma show_int_no_colon: "CHR '':'' \<notin> set (show_int n)"
proof -
  have "CHR '':'' \<notin> set (show_nat k)" for k
    using show_nat_digits [of "CHR '':''" k] by auto
  then show ?thesis by (simp add: show_int_def)
qed

lemma show_nat_hd: "show_nat n = c # cs \<Longrightarrow> c \<noteq> CHR ''-'' \<and> c \<noteq> CHR ''+''"
  using show_nat_digits [of c n] by auto

lemma parse_show_i64: "parse_int (show_i64 n) = Some n"
proof (cases "sint n < 0")
  case True
  with sint_64_range [of n] show ?thesis
    by (simp add: show_i64_def show_int_def parse_int_def parse_show_nat Let_def)
next
  case False
  obtain c cs where s: "show_nat (nat (sint n)) = c # cs"
    by (cases "show_nat (nat (sint n))") auto
  from parse_show_nat [of "nat (sint n)"] s False sint_64_range [of n] show_nat_hd [OF s]
  show ?thesis by (simp add: show_i64_def show_int_def parse_int_def Let_def)
qed

section \<open>Splitting at the first separator\<close>

text \<open>\<open>strings.SplitN(s, ":", 2)\<close> with a separator of one byte: the parts, one or two.\<close>

definition split2 :: "char \<Rightarrow> string \<Rightarrow> string list" where
  "split2 c s = (let a = takeWhile (\<lambda>x. x \<noteq> c) s; r = dropWhile (\<lambda>x. x \<noteq> c) s
                 in if r = [] then [a] else [a, tl r])"

lemma split2_join:
  assumes "c \<notin> set a" shows "split2 c (a @ c # b) = [a, b]"
proof -
  from assms have "takeWhile (\<lambda>x. x \<noteq> c) (a @ c # b) = a"
    by (induction a) auto
  moreover from assms have "dropWhile (\<lambda>x. x \<noteq> c) (a @ c # b) = c # b"
    by (induction a) auto
  ultimately show ?thesis by (simp add: split2_def Let_def)
qed

end
