(* ===== verification/Go_Errors.thy ===== *)
theory Go_Errors
  imports Go_Strings
begin

text \<open>
  Go's error values. A value of the interface \<open>error\<close> that is not nil is a \<open>go_error\<close>; a nil error
  is the right side of a sum or \<open>None\<close>. The program's package-level error variables are the
  constructors of \<open>sentinel\<close>; the error struct types of the program have a constructor each. Errors
  of code outside the repository carry the text of their \<open>Error\<close> method.
  \<open>errors.Is\<close> and \<open>errors.As\<close> walk the chain of causes.
\<close>

datatype sentinel =
    ErrNotFound                       \<comment> \<open>store: not found\<close>
  | GormErrRecordNotFound             \<comment> \<open>gorm: record not found\<close>
  | ErrMalformedSettlementArchive
  | ErrDuplicateCombatSettlement
  | ErrInvalidPlayerRepositoryResult
  | ErrInvalidArchiveRepositoryResult
  | ErrMalformedStoredArchive
  | ErrInvalidLoginCode
  | ErrWechatUpstreamResponse
  | ErrFatalProtocol
  | ErrFrameTooLarge
  | ErrInvalidHeader
  | ErrConnectionClosed
  | ErrSendBufferFull
  | ErrServerAlreadyStarted
  | HttpErrServerClosed

datatype go_error =
    Sentinel sentinel                 \<comment> \<open>a package-level variable\<close>
  | Text string                       \<comment> \<open>\<open>errors.New\<close> or \<open>fmt.Errorf\<close> without \<open>%w\<close>\<close>
  | Wrap string go_error string       \<comment> \<open>\<open>fmt.Errorf\<close> with one \<open>%w\<close>: the text before it, the cause, the text after it\<close>
  | BizError go_int string            \<comment> \<open>\<open>*protocol.BizError\<close>: code and message\<close>
  | LoginOperationError string go_error  \<comment> \<open>\<open>*login.loginOperationError\<close>: stage and cause\<close>
  | ExchangeError go_error            \<comment> \<open>\<open>*login.exchangeError\<close>\<close>
  | WechatTransportError go_error     \<comment> \<open>\<open>*login.wechatTransportError\<close>\<close>
  | UrlError string string "go_error option"  \<comment> \<open>\<open>*url.Error\<close>: operation, URL (its text left unescaped) and cause, which may be nil\<close>
  | MySQLError nat string             \<comment> \<open>\<open>*mysql.MySQLError\<close>: number and message\<close>
  | External string                   \<comment> \<open>any other error of code outside the repository\<close>

fun sentinel_text :: "sentinel \<Rightarrow> string" where
  "sentinel_text ErrNotFound = ''store: not found''"
| "sentinel_text GormErrRecordNotFound = ''record not found''"
| "sentinel_text ErrMalformedSettlementArchive = ''store: malformed settlement archive''"
| "sentinel_text ErrDuplicateCombatSettlement = ''store: duplicate combat settlement''"
| "sentinel_text ErrInvalidPlayerRepositoryResult = ''login: player repository returned nil player''"
| "sentinel_text ErrInvalidArchiveRepositoryResult = ''game: archive repository returned nil archive''"
| "sentinel_text ErrMalformedStoredArchive = ''game: malformed stored protobuf archive''"
| "sentinel_text ErrInvalidLoginCode = ''invalid login code''"
| "sentinel_text ErrWechatUpstreamResponse = ''wechat upstream response invalid''"
| "sentinel_text ErrFatalProtocol = ''fatal protocol violation''"
| "sentinel_text ErrFrameTooLarge = ''frame exceeds application limit''"
| "sentinel_text ErrInvalidHeader = ''invalid frame header''"
| "sentinel_text ErrConnectionClosed = ''transport connection closed''"
| "sentinel_text ErrSendBufferFull = ''transport send buffer full''"
| "sentinel_text ErrServerAlreadyStarted = ''transport server already started''"
| "sentinel_text HttpErrServerClosed = ''http: Server closed''"

text \<open>The text of an error: its \<open>Error\<close> method.\<close>

fun error_text :: "go_error \<Rightarrow> string" where
  "error_text (Sentinel s) = sentinel_text s"
| "error_text (Text t) = t"
| "error_text (Wrap pre e post) = pre @ error_text e @ post"
| "error_text (BizError code msg) = msg"
| "error_text (LoginOperationError stage e) = ''login operation '' @ stage @ '' failed''"
| "error_text (ExchangeError e) = ''exchange login code failed''"
| "error_text (WechatTransportError e) = ''wechat API request failed''"
| "error_text (UrlError op url None) = op @ '' \"'' @ url @ ''\": %!s(<nil>)''"
| "error_text (UrlError op url (Some e)) = op @ '' \"'' @ url @ ''\": '' @ error_text e"
| "error_text (MySQLError n msg) = ''Error '' @ show_nat n @ '': '' @ msg"
| "error_text (External t) = t"

text \<open>The cause of an error: its \<open>Unwrap\<close> method, where it has one.\<close>

fun unwrap :: "go_error \<Rightarrow> go_error option" where
  "unwrap (Wrap pre e post) = Some e"
| "unwrap (LoginOperationError stage e) = Some e"
| "unwrap (ExchangeError e) = Some e"
| "unwrap (WechatTransportError e) = Some e"
| "unwrap (UrlError op url e) = e"
| "unwrap _ = None"

text \<open>The chain that \<open>errors.Is\<close> and \<open>errors.As\<close> walk, the error itself first.\<close>

fun error_chain :: "go_error \<Rightarrow> go_error list" where
  "error_chain (Wrap pre e post) = Wrap pre e post # error_chain e"
| "error_chain (LoginOperationError stage e) = LoginOperationError stage e # error_chain e"
| "error_chain (ExchangeError e) = ExchangeError e # error_chain e"
| "error_chain (WechatTransportError e) = WechatTransportError e # error_chain e"
| "error_chain (UrlError op url (Some e)) = UrlError op url (Some e) # error_chain e"
| "error_chain e = [e]"

definition errors_is :: "go_error \<Rightarrow> sentinel \<Rightarrow> bool" where
  "errors_is e s = (Sentinel s \<in> set (error_chain e))"

lemma errors_is_simps [simp]:
  "errors_is (Sentinel s') s = (s' = s)"
  "errors_is (Text t) s = False"
  "errors_is (Wrap pre e post) s = errors_is e s"
  "errors_is (BizError code msg) s = False"
  "errors_is (LoginOperationError stage e) s = errors_is e s"
  "errors_is (ExchangeError e) s = errors_is e s"
  "errors_is (WechatTransportError e) s = errors_is e s"
  "errors_is (UrlError op url (Some e)) s = errors_is e s"
  "errors_is (UrlError op url None) s = False"
  "errors_is (MySQLError n msg) s = False"
  "errors_is (External t) s = False"
  by (auto simp: errors_is_def)

lemma error_chain_unwrap:
  "error_chain e = e # (case unwrap e of None \<Rightarrow> [] | Some c \<Rightarrow> error_chain c)"
  by (cases e rule: error_chain.cases) auto

end
