(* ===== verification/Go_Float.thy ===== *)
theory Go_Float
  imports Prelude
begin

text \<open>
  IEEE 754 binary64 and binary32 values as Go's \<open>float64\<close> and \<open>float32\<close> hold them: the bits, the
  value they stand for, and the operations the program uses (conversion from integers and between
  the widths, \<open>+\<close>, \<open>*\<close>, the comparisons, truncation to \<open>int32\<close>), each rounded to nearest, ties to
  even. The constants of the source are ratios rounded once, as the Go compiler rounds them.
  A product and a sum are rounded separately, as on amd64 (Go may fuse them on other machines).
\<close>

section \<open>Values\<close>

text \<open>\<open>FFin neg m e\<close> is \<open>m * 2 ^ e\<close>, negated when \<open>neg\<close>; zero keeps its sign.\<close>

datatype fval = FNaN | FInf bool | FFin bool int int

function nbits :: "int \<Rightarrow> int" where
  "nbits n = (if n \<le> 0 then 0 else 1 + nbits (n div 2))"
  by pat_completeness auto
termination by (relation "measure nat") auto

declare nbits.simps [simp del]

text \<open>
  A format: the bits of its significand, the least exponent of the last bit, and the exponent at
  which it overflows.
\<close>

record fformat =
  precision :: nat
  emin :: int
  emax :: int

definition binary64 :: fformat where "binary64 = \<lparr>precision = 53, emin = - 1074, emax = 1024\<rparr>"
definition binary32 :: fformat where "binary32 = \<lparr>precision = 24, emin = - 149, emax = 128\<rparr>"

text \<open>
  The quotient of \<open>n * 2 ^ k\<close> by \<open>d\<close>, rounded to the nearest integer, ties to even; \<open>k\<close> may be
  negative.
\<close>

definition scaled :: "int \<Rightarrow> int \<Rightarrow> int" where
  "scaled n k = n * 2 ^ nat k"

definition div_even :: "int \<Rightarrow> int \<Rightarrow> int \<Rightarrow> int" where
  "div_even n d k =
     (let a = scaled n k; b = scaled d (- k); q = a div b; r = a mod b
      in if b < 2 * r \<or> (2 * r = b \<and> odd q) then q + 1 else q)"

text \<open>The exponent at which \<open>n / d * 2 ^ e\<close> has the format's precision, not below its least.\<close>

definition round_exponent :: "fformat \<Rightarrow> int \<Rightarrow> int \<Rightarrow> int \<Rightarrow> int" where
  "round_exponent F n d e =
     (let f = e + nbits n - nbits d - int (precision F);
          f' = (if scaled d (f - e) * 2 ^ precision F \<le> scaled n (e - f) then f + 1 else f)
      in max f' (emin F))"

text \<open>The value of the format nearest to \<open>n / d * 2 ^ e\<close>.\<close>

definition round_ratio :: "fformat \<Rightarrow> bool \<Rightarrow> int \<Rightarrow> int \<Rightarrow> int \<Rightarrow> fval" where
  "round_ratio F neg n d e =
     (if n = 0 then FFin neg 0 (emin F)
      else let f = round_exponent F n d e;
               q = div_even n d (e - f);
               (m, g) = (if q = 2 ^ precision F then (2 ^ (precision F - 1), f + 1) else (q, f))
           in if emax F < g + int (precision F) then FInf neg else FFin neg m g)"

section \<open>Bits\<close>

datatype float64 = F64 "64 word"
datatype float32 = F32 "32 word"

definition decode_fval :: "fformat \<Rightarrow> int \<Rightarrow> int \<Rightarrow> int \<Rightarrow> bool \<Rightarrow> fval" where
  "decode_fval F ones mant ex neg =
     (if ex = ones then (if mant = 0 then FInf neg else FNaN)
      else if ex = 0 then FFin neg mant (emin F)
      else FFin neg (2 ^ (precision F - 1) + mant) (ex + emin F - 1))"

fun f64_val :: "float64 \<Rightarrow> fval" where
  "f64_val (F64 w) =
     (let n = uint w in decode_fval binary64 2047 (n mod 2 ^ 52) (n div 2 ^ 52 mod 2 ^ 11) (2 ^ 63 \<le> n))"

fun f32_val :: "float32 \<Rightarrow> fval" where
  "f32_val (F32 w) =
     (let n = uint w in decode_fval binary32 255 (n mod 2 ^ 23) (n div 2 ^ 23 mod 2 ^ 8) (2 ^ 31 \<le> n))"

text \<open>The bits of a value the format represents; a NaN is the quiet one.\<close>

fun encode_fval :: "fformat \<Rightarrow> int \<Rightarrow> int \<Rightarrow> fval \<Rightarrow> int" where
  "encode_fval F ones sbit FNaN = ones * 2 ^ (precision F - 1) + 2 ^ (precision F - 2)"
| "encode_fval F ones sbit (FInf neg) = (if neg then sbit else 0) + ones * 2 ^ (precision F - 1)"
| "encode_fval F ones sbit (FFin neg m e) =
     (if neg then sbit else 0)
     + (if m < 2 ^ (precision F - 1) then m
        else (e - emin F + 1) * 2 ^ (precision F - 1) + (m - 2 ^ (precision F - 1)))"

definition f64_of :: "fval \<Rightarrow> float64" where
  "f64_of v = F64 (word_of_int (encode_fval binary64 2047 (2 ^ 63) v))"

definition f32_of :: "fval \<Rightarrow> float32" where
  "f32_of v = F32 (word_of_int (encode_fval binary32 255 (2 ^ 31) v))"

section \<open>Operations\<close>

text \<open>The signed significand at the exponent \<open>e\<close>, which is not above the value's own.\<close>

definition at_exponent :: "bool \<Rightarrow> int \<Rightarrow> int \<Rightarrow> int \<Rightarrow> int" where
  "at_exponent neg m e e' = (if neg then -1 else 1) * m * 2 ^ nat (e - e')"

fun fval_less :: "fval \<Rightarrow> fval \<Rightarrow> bool" where
  "fval_less FNaN _ = False"
| "fval_less _ FNaN = False"
| "fval_less (FInf neg) (FInf neg') = (neg \<and> \<not> neg')"
| "fval_less (FInf neg) (FFin _ _ _) = neg"
| "fval_less (FFin _ _ _) (FInf neg) = (\<not> neg)"
| "fval_less (FFin n1 m1 e1) (FFin n2 m2 e2) =
     (let e = min e1 e2 in at_exponent n1 m1 e1 e < at_exponent n2 m2 e2 e)"

definition round_int :: "fformat \<Rightarrow> bool \<Rightarrow> int \<Rightarrow> int \<Rightarrow> fval" where
  "round_int F neg0 m e =
     (if m = 0 then FFin neg0 0 (emin F) else round_ratio F (m < 0) \<bar>m\<bar> 1 e)"

fun fval_mul :: "fformat \<Rightarrow> fval \<Rightarrow> fval \<Rightarrow> fval" where
  "fval_mul F FNaN _ = FNaN"
| "fval_mul F _ FNaN = FNaN"
| "fval_mul F (FInf a) (FInf b) = FInf (a \<noteq> b)"
| "fval_mul F (FInf a) (FFin b m e) = (if m = 0 then FNaN else FInf (a \<noteq> b))"
| "fval_mul F (FFin b m e) (FInf a) = (if m = 0 then FNaN else FInf (a \<noteq> b))"
| "fval_mul F (FFin a m e) (FFin b m' e') = round_ratio F (a \<noteq> b) (m * m') 1 (e + e')"

fun fval_add :: "fformat \<Rightarrow> fval \<Rightarrow> fval \<Rightarrow> fval" where
  "fval_add F FNaN _ = FNaN"
| "fval_add F _ FNaN = FNaN"
| "fval_add F (FInf a) (FInf b) = (if a = b then FInf a else FNaN)"
| "fval_add F (FInf a) (FFin _ _ _) = FInf a"
| "fval_add F (FFin _ _ _) (FInf a) = FInf a"
| "fval_add F (FFin a m e) (FFin b m' e') =
     (let f = min e e' in round_int F (a \<and> b) (at_exponent a m e f + at_exponent b m' e' f) f)"

fun fval_round :: "fformat \<Rightarrow> fval \<Rightarrow> fval" where
  "fval_round F (FFin neg m e) = round_ratio F neg m 1 e"
| "fval_round F v = v"

definition f64_is_nan :: "float64 \<Rightarrow> bool" where "f64_is_nan x = (f64_val x = FNaN)"
definition f64_is_inf :: "float64 \<Rightarrow> bool" where
  "f64_is_inf x = (case f64_val x of FInf _ \<Rightarrow> True | _ \<Rightarrow> False)"
definition f64_less :: "float64 \<Rightarrow> float64 \<Rightarrow> bool" where
  "f64_less x y = fval_less (f64_val x) (f64_val y)"
definition f64_mul :: "float64 \<Rightarrow> float64 \<Rightarrow> float64" where
  "f64_mul x y = f64_of (fval_mul binary64 (f64_val x) (f64_val y))"
definition f64_add :: "float64 \<Rightarrow> float64 \<Rightarrow> float64" where
  "f64_add x y = f64_of (fval_add binary64 (f64_val x) (f64_val y))"
definition f64_of_int :: "int \<Rightarrow> float64" where
  "f64_of_int n = f64_of (round_int binary64 False n 0)"
definition f64_to_f32 :: "float64 \<Rightarrow> float32" where
  "f64_to_f32 x = f32_of (fval_round binary32 (f64_val x))"
definition f32_to_f64 :: "float32 \<Rightarrow> float64" where
  "f32_to_f64 x = f64_of (fval_round binary64 (f32_val x))"

text \<open>A decimal constant \<open>n / 10 ^ k\<close> of the source, at either width.\<close>

definition f64_lit :: "int \<Rightarrow> nat \<Rightarrow> float64" where
  "f64_lit n k = f64_of (round_ratio binary64 False n (10 ^ k) 0)"
definition f32_lit :: "int \<Rightarrow> nat \<Rightarrow> float32" where
  "f32_lit n k = f32_of (round_ratio binary32 False n (10 ^ k) 0)"

text \<open>
  \<open>int32(x)\<close>: truncation towards zero. Out of range, and for a NaN, Go leaves the result to the
  implementation; on amd64 it is the least \<open>int32\<close>. \<open>int64(x)\<close> likewise.
\<close>

fun fval_trunc :: "fval \<Rightarrow> int option" where
  "fval_trunc (FFin neg m e) =
     Some ((if neg then -1 else 1) * (if 0 \<le> e then m * 2 ^ nat e else m div 2 ^ nat (- e)))"
| "fval_trunc _ = None"

definition f64_to_i32 :: "float64 \<Rightarrow> i32" where
  "f64_to_i32 x =
     (case fval_trunc (f64_val x) of
        Some n \<Rightarrow> if - (2 ^ 31) \<le> n \<and> n < 2 ^ 31 then word_of_int n else word_of_int (- (2 ^ 31))
      | None \<Rightarrow> word_of_int (- (2 ^ 31)))"

definition f64_to_i64 :: "float64 \<Rightarrow> i64" where
  "f64_to_i64 x =
     (case fval_trunc (f64_val x) of
        Some n \<Rightarrow> if - (2 ^ 63) \<le> n \<and> n < 2 ^ 63 then word_of_int n else word_of_int (- (2 ^ 63))
      | None \<Rightarrow> word_of_int (- (2 ^ 63)))"

text \<open>The quotient is nearest: within half of the divisor.\<close>

lemma div_even_nearest:
  assumes "0 < d"
  shows "\<bar>div_even n d k * scaled d (- k) - scaled n k\<bar> * 2 \<le> scaled d (- k)"
proof -
  define a b where "a = scaled n k" and "b = scaled d (- k)"
  define q r where "q = a div b" and "r = a mod b"
  have b: "0 < b" using assms by (simp add: b_def scaled_def)
  have a: "a = q * b + r" and r: "0 \<le> r" "r < b"
    using b by (simp_all add: q_def r_def)
  have e: "div_even n d k = (if b < 2 * r \<or> (2 * r = b \<and> odd q) then q + 1 else q)"
    by (simp add: div_even_def Let_def q_def r_def a_def b_def)
  have "(q + 1) * b - a = b - r" "q * b - a = - r" by (simp_all add: a algebra_simps)
  then show ?thesis using r by (auto simp: e simp flip: a_def b_def)
qed

end
