(* ===== verification/Messages.thy ===== *)
theory Messages
  imports Go_Errors Go_Float
begin

text \<open>
  The protobuf messages of \<open>internal/protocolpb\<close> as the generated Go structs hold them: one record per
  message with the struct's exported fields (a pointer field is an option, a repeated field a list;
  a message without fields is a one-constructor datatype), and the sum of those that travel as whole
  frames or are stored as bytes, for Go's interface \<open>proto.Message\<close>. The wire format belongs to the protobuf library: it is the parameter
  \<open>codec\<close>, with its documented laws as predicates.
\<close>

text \<open>An open proto3 enum: any \<open>int32\<close>.\<close>

type_synonym battle_outcome = i32

definition BattleOutcome_UNSPECIFIED :: battle_outcome where "BattleOutcome_UNSPECIFIED = 0"
definition BattleOutcome_VICTORY :: battle_outcome where "BattleOutcome_VICTORY = 1"
definition BattleOutcome_DEFEAT :: battle_outcome where "BattleOutcome_DEFEAT = 2"

record login_req =
  lq_code :: string

record login_resp =
  lr_uid :: i64
  lr_nickname :: string
  lr_token :: string

record heartbeat_req =
  hbq_timestamp :: i64

record heartbeat_resp =
  hbr_timestamp :: i64

record player_archive =
  pa_schema_version :: i32
  pa_gold :: i32
  pa_exp :: i32
  pa_best_score :: i64
  pa_total_kills :: i64
  pa_total_games :: i64
  pa_highest_cleared_dungeon :: i32
  pa_talent_points :: i32
  pa_unlocked_styles :: "i32 list"
  pa_last_style_id :: i32

record save_archive_req =
  saq_archive :: "player_archive option"

record save_archive_resp =
  sar_success :: bool

datatype load_archive_req = LoadArchiveReq

record load_archive_resp =
  lar_found :: bool
  lar_archive :: "player_archive option"

record get_rank_req =
  grq_rank_type :: i32
  grq_start :: i32
  grq_count :: i32

record rank_item =
  ri_uid :: i64
  ri_nickname :: string
  ri_level :: i32
  ri_score :: i64
  ri_rank :: i32

record get_rank_resp =
  grr_ranks :: "rank_item list"

record score_metadata =
  smd_duration_ms :: i64
  smd_kills :: i32
  smd_dungeon_level :: i32
  smd_style_id :: i32
  smd_player_level :: i32

record submit_score_req =
  ssq_score :: i64
  ssq_metadata :: "score_metadata option"

record submit_score_resp =
  ssr_success :: bool
  ssr_best_score :: i64

record combat_result_req =
  cq_run_id :: string
  cq_dungeon_level :: i32
  cq_score :: i64
  cq_kills :: i32
  cq_survival_time :: float64
  cq_style_id :: i32
  cq_outcome :: battle_outcome
  cq_player_level :: i32

record combat_result_resp =
  cr_success :: bool
  cr_duplicate :: bool
  cr_reward_gold :: i32
  cr_reward_exp :: i32
  cr_best_score :: i64
  cr_archive :: "player_archive option"
  cr_run_id :: string

record enemy_config_item =
  ec_id :: i32
  ec_name :: string
  ec_hp :: i32
  ec_damage :: i32
  ec_speed :: float32
  ec_attack_range :: float32
  ec_enemy_type :: string

datatype get_enemy_configs_req = GetEnemyConfigsReq

record get_enemy_configs_resp =
  gecr_configs :: "enemy_config_item list"

record dungeon_config_item =
  dc_level :: i32
  dc_room_count :: i32
  dc_enemy_density :: float32
  dc_boss_id :: i32

record get_dungeon_config_req =
  gdq_level :: i32

record get_dungeon_config_resp =
  gdr_level :: i32
  gdr_room_count :: i32
  gdr_enemy_density :: float32
  gdr_boss_id :: i32
  gdr_enemy_configs :: "enemy_config_item list"

record style_config_item =
  sc_style_id :: i32
  sc_style_name :: string
  sc_damage_mult :: float32
  sc_speed_mult :: float32
  sc_parry_mult :: float32
  sc_dash_speed_mult :: float32
  sc_dash_cost_mult :: float32
  sc_special_resource_max :: i32
  sc_special_resource_name :: string
  sc_description :: string

datatype get_style_configs_req = GetStyleConfigsReq

record get_style_configs_resp =
  gscr_styles :: "style_config_item list"

record unlock_style_req =
  usq_style_id :: i32

record unlock_style_resp =
  usr_success :: bool
  usr_gold_cost :: i32

record player_stats_data =
  psd_level :: i32
  psd_exp :: i32
  psd_gold :: i32
  psd_max_hp :: i32
  psd_max_stamina :: i32
  psd_attack_power :: i32
  psd_unlocked_styles :: "i32 list"

datatype get_player_stats_req = GetPlayerStatsReq

record get_player_stats_resp =
  gpr_level :: i32
  gpr_exp :: i32
  gpr_gold :: i32
  gpr_max_hp :: i32
  gpr_max_stamina :: i32
  gpr_attack_power :: i32
  gpr_unlocked_styles :: "i32 list"

record update_player_stats_req =
  upq_level :: i32
  upq_exp :: i32
  upq_gold :: i32
  upq_max_hp :: i32
  upq_max_stamina :: i32
  upq_attack_power :: i32
  upq_unlocked_styles :: "i32 list"

record update_player_stats_resp =
  upr_success :: bool

record create_order_req =
  coq_product_id :: i32

record create_order_resp =
  cor_order_no :: string

record pay_result_notify =
  prn_order_no :: string
  prn_status :: string
  prn_product_id :: i32

record gm_command_req =
  gmq_cmd :: string
  gmq_args_json :: "byte list"

record gm_command_resp =
  gmr_cmd :: string
  gmr_result :: string

record error_resp =
  er_code :: i32
  er_msg :: string

datatype (plugins del: "quickcheck") message =
    M_LoginReq login_req
  | M_LoginResp login_resp
  | M_HeartbeatReq heartbeat_req
  | M_HeartbeatResp heartbeat_resp
  | M_PlayerArchive player_archive
  | M_SaveArchiveReq save_archive_req
  | M_SaveArchiveResp save_archive_resp
  | M_LoadArchiveReq load_archive_req
  | M_LoadArchiveResp load_archive_resp
  | M_GetRankReq get_rank_req
  | M_GetRankResp get_rank_resp
  | M_SubmitScoreReq submit_score_req
  | M_SubmitScoreResp submit_score_resp
  | M_CombatResultReq combat_result_req
  | M_CombatResultResp combat_result_resp
  | M_GetEnemyConfigsReq get_enemy_configs_req
  | M_GetEnemyConfigsResp get_enemy_configs_resp
  | M_GetDungeonConfigReq get_dungeon_config_req
  | M_GetDungeonConfigResp get_dungeon_config_resp
  | M_GetStyleConfigsReq get_style_configs_req
  | M_GetStyleConfigsResp get_style_configs_resp
  | M_UnlockStyleReq unlock_style_req
  | M_UnlockStyleResp unlock_style_resp
  | M_GetPlayerStatsReq get_player_stats_req
  | M_GetPlayerStatsResp get_player_stats_resp
  | M_UpdatePlayerStatsReq update_player_stats_req
  | M_UpdatePlayerStatsResp update_player_stats_resp
  | M_CreateOrderReq create_order_req
  | M_CreateOrderResp create_order_resp
  | M_PayResultNotify pay_result_notify
  | M_GMCommandReq gm_command_req
  | M_GMCommandResp gm_command_resp
  | M_ErrorResp error_resp

datatype (plugins del: "quickcheck") message_type =
    T_LoginReq
  | T_LoginResp
  | T_HeartbeatReq
  | T_HeartbeatResp
  | T_PlayerArchive
  | T_SaveArchiveReq
  | T_SaveArchiveResp
  | T_LoadArchiveReq
  | T_LoadArchiveResp
  | T_GetRankReq
  | T_GetRankResp
  | T_SubmitScoreReq
  | T_SubmitScoreResp
  | T_CombatResultReq
  | T_CombatResultResp
  | T_GetEnemyConfigsReq
  | T_GetEnemyConfigsResp
  | T_GetDungeonConfigReq
  | T_GetDungeonConfigResp
  | T_GetStyleConfigsReq
  | T_GetStyleConfigsResp
  | T_UnlockStyleReq
  | T_UnlockStyleResp
  | T_GetPlayerStatsReq
  | T_GetPlayerStatsResp
  | T_UpdatePlayerStatsReq
  | T_UpdatePlayerStatsResp
  | T_CreateOrderReq
  | T_CreateOrderResp
  | T_PayResultNotify
  | T_GMCommandReq
  | T_GMCommandResp
  | T_ErrorResp

fun type_of_message :: "message \<Rightarrow> message_type" where
  "type_of_message (M_LoginReq _) = T_LoginReq"
| "type_of_message (M_LoginResp _) = T_LoginResp"
| "type_of_message (M_HeartbeatReq _) = T_HeartbeatReq"
| "type_of_message (M_HeartbeatResp _) = T_HeartbeatResp"
| "type_of_message (M_PlayerArchive _) = T_PlayerArchive"
| "type_of_message (M_SaveArchiveReq _) = T_SaveArchiveReq"
| "type_of_message (M_SaveArchiveResp _) = T_SaveArchiveResp"
| "type_of_message (M_LoadArchiveReq _) = T_LoadArchiveReq"
| "type_of_message (M_LoadArchiveResp _) = T_LoadArchiveResp"
| "type_of_message (M_GetRankReq _) = T_GetRankReq"
| "type_of_message (M_GetRankResp _) = T_GetRankResp"
| "type_of_message (M_SubmitScoreReq _) = T_SubmitScoreReq"
| "type_of_message (M_SubmitScoreResp _) = T_SubmitScoreResp"
| "type_of_message (M_CombatResultReq _) = T_CombatResultReq"
| "type_of_message (M_CombatResultResp _) = T_CombatResultResp"
| "type_of_message (M_GetEnemyConfigsReq _) = T_GetEnemyConfigsReq"
| "type_of_message (M_GetEnemyConfigsResp _) = T_GetEnemyConfigsResp"
| "type_of_message (M_GetDungeonConfigReq _) = T_GetDungeonConfigReq"
| "type_of_message (M_GetDungeonConfigResp _) = T_GetDungeonConfigResp"
| "type_of_message (M_GetStyleConfigsReq _) = T_GetStyleConfigsReq"
| "type_of_message (M_GetStyleConfigsResp _) = T_GetStyleConfigsResp"
| "type_of_message (M_UnlockStyleReq _) = T_UnlockStyleReq"
| "type_of_message (M_UnlockStyleResp _) = T_UnlockStyleResp"
| "type_of_message (M_GetPlayerStatsReq _) = T_GetPlayerStatsReq"
| "type_of_message (M_GetPlayerStatsResp _) = T_GetPlayerStatsResp"
| "type_of_message (M_UpdatePlayerStatsReq _) = T_UpdatePlayerStatsReq"
| "type_of_message (M_UpdatePlayerStatsResp _) = T_UpdatePlayerStatsResp"
| "type_of_message (M_CreateOrderReq _) = T_CreateOrderReq"
| "type_of_message (M_CreateOrderResp _) = T_CreateOrderResp"
| "type_of_message (M_PayResultNotify _) = T_PayResultNotify"
| "type_of_message (M_GMCommandReq _) = T_GMCommandReq"
| "type_of_message (M_GMCommandResp _) = T_GMCommandResp"
| "type_of_message (M_ErrorResp _) = T_ErrorResp"

section \<open>The protobuf library\<close>

text \<open>\<open>proto.Marshal\<close> and \<open>proto.Unmarshal\<close> into a new message of a type. \<open>Unmarshal\<close> resets its
  target first, so its result does not depend on the target's old fields.\<close>

record codec =
  marshal :: "message \<Rightarrow> go_error + byte list"
  unmarshal :: "message_type \<Rightarrow> byte list \<Rightarrow> go_error + message"

text \<open>The library's laws: decoding yields a message of the requested type, and what was encoded
  decodes to the same message.\<close>

definition codec_typed :: "codec \<Rightarrow> bool" where
  "codec_typed C \<longleftrightarrow> (\<forall>t bs m. unmarshal C t bs = Inr m \<longrightarrow> type_of_message m = t)"

definition codec_roundtrip :: "codec \<Rightarrow> bool" where
  "codec_roundtrip C \<longleftrightarrow>
     (\<forall>m bs. marshal C m = Inr bs \<longrightarrow> unmarshal C (type_of_message m) bs = Inr m)"

lemma codec_roundtripD:
  "codec_roundtrip C \<Longrightarrow> marshal C m = Inr bs \<Longrightarrow> unmarshal C (type_of_message m) bs = Inr m"
  by (simp add: codec_roundtrip_def)

text \<open>The library functions at the two messages that are stored as bytes.\<close>

definition unmarshal_archive :: "codec \<Rightarrow> byte list \<Rightarrow> go_error + player_archive" where
  "unmarshal_archive C bs =
     (case unmarshal C T_PlayerArchive bs of
        Inl e \<Rightarrow> Inl e
      | Inr (M_PlayerArchive a) \<Rightarrow> Inr a
      | Inr _ \<Rightarrow> Inl (External ''proto: message type mismatch''))"

definition unmarshal_combat_result :: "codec \<Rightarrow> byte list \<Rightarrow> go_error + combat_result_resp" where
  "unmarshal_combat_result C bs =
     (case unmarshal C T_CombatResultResp bs of
        Inl e \<Rightarrow> Inl e
      | Inr (M_CombatResultResp r) \<Rightarrow> Inr r
      | Inr _ \<Rightarrow> Inl (External ''proto: message type mismatch''))"

lemma unmarshal_archive_marshal:
  "codec_roundtrip C \<Longrightarrow> marshal C (M_PlayerArchive a) = Inr bs \<Longrightarrow> unmarshal_archive C bs = Inr a"
  using codec_roundtripD [of C "M_PlayerArchive a" bs] by (simp add: unmarshal_archive_def)

lemma unmarshal_combat_result_marshal:
  "codec_roundtrip C \<Longrightarrow> marshal C (M_CombatResultResp r) = Inr bs \<Longrightarrow> unmarshal_combat_result C bs = Inr r"
  using codec_roundtripD [of C "M_CombatResultResp r" bs] by (simp add: unmarshal_combat_result_def)

text \<open>The nil-safe getter the archive handler uses.\<close>

definition get_archive_field :: "save_archive_req option \<Rightarrow> player_archive option" where
  "get_archive_field x = (case x of None \<Rightarrow> None | Some r \<Rightarrow> saq_archive r)"

text \<open>The zero value of a message: what \<open>&protocolpb.PlayerArchive{}\<close> holds.\<close>

definition zero_archive :: player_archive where
  "zero_archive = \<lparr>pa_schema_version = 0, pa_gold = 0, pa_exp = 0, pa_best_score = 0,
     pa_total_kills = 0, pa_total_games = 0, pa_highest_cleared_dungeon = 0, pa_talent_points = 0,
     pa_unlocked_styles = [], pa_last_style_id = 0\<rparr>"

end
