(* ===== verification/Protocol.thy ===== *)
theory Protocol
  imports Messages
begin

text \<open>
  The package \<open>internal/protocol\<close>: message ids, error codes, business errors, the canonical route table
  and the frame codec (10-byte little-endian header \<open>[Length uint32][MsgID uint16][Seq uint32]\<close>, the
  length counting the header, then the protobuf body; at most 64 KiB). The lemmas show that
  \<open>decode\<close> accepts exactly the byte strings \<open>encode\<close> lays out, and what the route table maps.
\<close>

section \<open>Message ids and error codes\<close>

definition MsgID_LoginReq :: u16 where "MsgID_LoginReq = 1001"
definition MsgID_LoginResp :: u16 where "MsgID_LoginResp = 1002"
definition MsgID_HeartbeatReq :: u16 where "MsgID_HeartbeatReq = 1003"
definition MsgID_HeartbeatResp :: u16 where "MsgID_HeartbeatResp = 1004"
definition MsgID_SaveArchiveReq :: u16 where "MsgID_SaveArchiveReq = 2001"
definition MsgID_SaveArchiveResp :: u16 where "MsgID_SaveArchiveResp = 2002"
definition MsgID_LoadArchiveReq :: u16 where "MsgID_LoadArchiveReq = 2003"
definition MsgID_LoadArchiveResp :: u16 where "MsgID_LoadArchiveResp = 2004"
definition MsgID_GetRankReq :: u16 where "MsgID_GetRankReq = 3001"
definition MsgID_GetRankResp :: u16 where "MsgID_GetRankResp = 3002"
definition MsgID_SubmitScoreReq :: u16 where "MsgID_SubmitScoreReq = 3003"
definition MsgID_SubmitScoreResp :: u16 where "MsgID_SubmitScoreResp = 3004"
definition MsgID_CombatResultReq :: u16 where "MsgID_CombatResultReq = 4001"
definition MsgID_CombatResultResp :: u16 where "MsgID_CombatResultResp = 4002"
definition MsgID_GetEnemyConfigsReq :: u16 where "MsgID_GetEnemyConfigsReq = 4003"
definition MsgID_GetEnemyConfigsResp :: u16 where "MsgID_GetEnemyConfigsResp = 4004"
definition MsgID_GetDungeonConfigReq :: u16 where "MsgID_GetDungeonConfigReq = 4005"
definition MsgID_GetDungeonConfigResp :: u16 where "MsgID_GetDungeonConfigResp = 4006"
definition MsgID_GetStyleConfigsReq :: u16 where "MsgID_GetStyleConfigsReq = 4007"
definition MsgID_GetStyleConfigsResp :: u16 where "MsgID_GetStyleConfigsResp = 4008"
definition MsgID_UnlockStyleReq :: u16 where "MsgID_UnlockStyleReq = 4009"
definition MsgID_UnlockStyleResp :: u16 where "MsgID_UnlockStyleResp = 4010"
definition MsgID_GetPlayerStatsReq :: u16 where "MsgID_GetPlayerStatsReq = 4011"
definition MsgID_GetPlayerStatsResp :: u16 where "MsgID_GetPlayerStatsResp = 4012"
definition MsgID_UpdatePlayerStatsReq :: u16 where "MsgID_UpdatePlayerStatsReq = 4013"
definition MsgID_UpdatePlayerStatsResp :: u16 where "MsgID_UpdatePlayerStatsResp = 4014"
definition MsgID_CreateOrderReq :: u16 where "MsgID_CreateOrderReq = 5001"
definition MsgID_CreateOrderResp :: u16 where "MsgID_CreateOrderResp = 5002"
definition MsgID_PayResultNotify :: u16 where "MsgID_PayResultNotify = 5003"
definition MsgID_GMCommandReq :: u16 where "MsgID_GMCommandReq = 6001"
definition MsgID_GMCommandResp :: u16 where "MsgID_GMCommandResp = 6002"
definition MsgID_Error :: u16 where "MsgID_Error = 9999"

definition ErrSuccess :: go_int where "ErrSuccess = 0"
definition ErrInternal :: go_int where "ErrInternal = 10001"
definition ErrInvalidParam :: go_int where "ErrInvalidParam = 10002"
definition ErrTooFrequent :: go_int where "ErrTooFrequent = 10003"
definition ErrUnauthorized :: go_int where "ErrUnauthorized = 10004"
definition ErrLoginInvalidCode :: go_int where "ErrLoginInvalidCode = 20001"
definition ErrLoginWechatFailed :: go_int where "ErrLoginWechatFailed = 20002"
definition ErrLoginTokenExpired :: go_int where "ErrLoginTokenExpired = 20003"
definition ErrArchiveSaveFailed :: go_int where "ErrArchiveSaveFailed = 30001"
definition ErrArchiveNotFound :: go_int where "ErrArchiveNotFound = 30002"
definition ErrRankInvalidType :: go_int where "ErrRankInvalidType = 40001"
definition ErrRankInvalidRange :: go_int where "ErrRankInvalidRange = 40002"
definition ErrCombatInvalidResult :: go_int where "ErrCombatInvalidResult = 50001"
definition ErrCombatCheatDetected :: go_int where "ErrCombatCheatDetected = 50002"
definition ErrCombatConfigNotFound :: go_int where "ErrCombatConfigNotFound = 50003"
definition ErrCombatStyleLocked :: go_int where "ErrCombatStyleLocked = 50004"
definition ErrCombatInsufficientGold :: go_int where "ErrCombatInsufficientGold = 50005"
definition ErrPaymentUnavailable :: go_int where "ErrPaymentUnavailable = 60001"

lemmas msg_id_defs = MsgID_LoginReq_def MsgID_LoginResp_def MsgID_HeartbeatReq_def MsgID_HeartbeatResp_def
  MsgID_SaveArchiveReq_def MsgID_SaveArchiveResp_def MsgID_LoadArchiveReq_def
  MsgID_LoadArchiveResp_def MsgID_GetRankReq_def MsgID_GetRankResp_def MsgID_SubmitScoreReq_def
  MsgID_SubmitScoreResp_def MsgID_CombatResultReq_def MsgID_CombatResultResp_def
  MsgID_GetEnemyConfigsReq_def MsgID_GetEnemyConfigsResp_def MsgID_GetDungeonConfigReq_def
  MsgID_GetDungeonConfigResp_def MsgID_GetStyleConfigsReq_def MsgID_GetStyleConfigsResp_def
  MsgID_UnlockStyleReq_def MsgID_UnlockStyleResp_def MsgID_GetPlayerStatsReq_def
  MsgID_GetPlayerStatsResp_def MsgID_UpdatePlayerStatsReq_def MsgID_UpdatePlayerStatsResp_def
  MsgID_CreateOrderReq_def MsgID_CreateOrderResp_def MsgID_PayResultNotify_def
  MsgID_GMCommandReq_def MsgID_GMCommandResp_def MsgID_Error_def

lemmas err_code_defs = ErrSuccess_def ErrInternal_def ErrInvalidParam_def ErrTooFrequent_def ErrUnauthorized_def
  ErrLoginInvalidCode_def ErrLoginWechatFailed_def ErrLoginTokenExpired_def
  ErrArchiveSaveFailed_def ErrArchiveNotFound_def ErrRankInvalidType_def ErrRankInvalidRange_def
  ErrCombatInvalidResult_def ErrCombatCheatDetected_def ErrCombatConfigNotFound_def
  ErrCombatStyleLocked_def ErrCombatInsufficientGold_def ErrPaymentUnavailable_def

definition IsSuccess :: "go_int \<Rightarrow> bool" where
  "IsSuccess code = (code = ErrSuccess)"

definition NewBizError :: "go_int \<Rightarrow> string \<Rightarrow> go_error" where
  "NewBizError code msg = BizError code msg"

section \<open>Routes\<close>

record route =
  request_id :: u16
  response_id :: u16
  request_prototype :: message_type
  response_prototype :: message_type

definition canonical_routes :: "route list" where
  "canonical_routes =
     [\<lparr>request_id = MsgID_LoginReq, response_id = MsgID_LoginResp, request_prototype = T_LoginReq, response_prototype = T_LoginResp\<rparr>,
      \<lparr>request_id = MsgID_HeartbeatReq, response_id = MsgID_HeartbeatResp, request_prototype = T_HeartbeatReq, response_prototype = T_HeartbeatResp\<rparr>,
      \<lparr>request_id = MsgID_SaveArchiveReq, response_id = MsgID_SaveArchiveResp, request_prototype = T_SaveArchiveReq, response_prototype = T_SaveArchiveResp\<rparr>,
      \<lparr>request_id = MsgID_LoadArchiveReq, response_id = MsgID_LoadArchiveResp, request_prototype = T_LoadArchiveReq, response_prototype = T_LoadArchiveResp\<rparr>,
      \<lparr>request_id = MsgID_GetRankReq, response_id = MsgID_GetRankResp, request_prototype = T_GetRankReq, response_prototype = T_GetRankResp\<rparr>,
      \<lparr>request_id = MsgID_SubmitScoreReq, response_id = MsgID_SubmitScoreResp, request_prototype = T_SubmitScoreReq, response_prototype = T_SubmitScoreResp\<rparr>,
      \<lparr>request_id = MsgID_CombatResultReq, response_id = MsgID_CombatResultResp, request_prototype = T_CombatResultReq, response_prototype = T_CombatResultResp\<rparr>,
      \<lparr>request_id = MsgID_GetEnemyConfigsReq, response_id = MsgID_GetEnemyConfigsResp, request_prototype = T_GetEnemyConfigsReq, response_prototype = T_GetEnemyConfigsResp\<rparr>,
      \<lparr>request_id = MsgID_GetDungeonConfigReq, response_id = MsgID_GetDungeonConfigResp, request_prototype = T_GetDungeonConfigReq, response_prototype = T_GetDungeonConfigResp\<rparr>,
      \<lparr>request_id = MsgID_GetStyleConfigsReq, response_id = MsgID_GetStyleConfigsResp, request_prototype = T_GetStyleConfigsReq, response_prototype = T_GetStyleConfigsResp\<rparr>,
      \<lparr>request_id = MsgID_UnlockStyleReq, response_id = MsgID_UnlockStyleResp, request_prototype = T_UnlockStyleReq, response_prototype = T_UnlockStyleResp\<rparr>,
      \<lparr>request_id = MsgID_GetPlayerStatsReq, response_id = MsgID_GetPlayerStatsResp, request_prototype = T_GetPlayerStatsReq, response_prototype = T_GetPlayerStatsResp\<rparr>,
      \<lparr>request_id = MsgID_UpdatePlayerStatsReq, response_id = MsgID_UpdatePlayerStatsResp, request_prototype = T_UpdatePlayerStatsReq, response_prototype = T_UpdatePlayerStatsResp\<rparr>,
      \<lparr>request_id = MsgID_CreateOrderReq, response_id = MsgID_CreateOrderResp, request_prototype = T_CreateOrderReq, response_prototype = T_CreateOrderResp\<rparr>,
      \<lparr>request_id = MsgID_GMCommandReq, response_id = MsgID_GMCommandResp, request_prototype = T_GMCommandReq, response_prototype = T_GMCommandResp\<rparr>]"

definition all_message_ids :: "u16 list" where
  "all_message_ids =
    [MsgID_LoginReq, MsgID_LoginResp, MsgID_HeartbeatReq, MsgID_HeartbeatResp,
     MsgID_SaveArchiveReq, MsgID_SaveArchiveResp, MsgID_LoadArchiveReq, MsgID_LoadArchiveResp,
     MsgID_GetRankReq, MsgID_GetRankResp, MsgID_SubmitScoreReq, MsgID_SubmitScoreResp,
     MsgID_CombatResultReq, MsgID_CombatResultResp, MsgID_GetEnemyConfigsReq,
     MsgID_GetEnemyConfigsResp, MsgID_GetDungeonConfigReq, MsgID_GetDungeonConfigResp,
     MsgID_GetStyleConfigsReq, MsgID_GetStyleConfigsResp, MsgID_UnlockStyleReq,
     MsgID_UnlockStyleResp, MsgID_GetPlayerStatsReq, MsgID_GetPlayerStatsResp,
     MsgID_UpdatePlayerStatsReq, MsgID_UpdatePlayerStatsResp, MsgID_CreateOrderReq,
     MsgID_CreateOrderResp, MsgID_PayResultNotify, MsgID_GMCommandReq, MsgID_GMCommandResp,
     MsgID_Error]"

definition Routes :: "route list" where "Routes = canonical_routes"
definition AllMessageIDs :: "u16 list" where "AllMessageIDs = all_message_ids"

definition RouteFor :: "u16 \<Rightarrow> route option" where
  "RouteFor rid = find (\<lambda>r. request_id r = rid) canonical_routes"

lemma RouteFor_Some:
  "RouteFor rid = Some r \<Longrightarrow> r \<in> set canonical_routes \<and> request_id r = rid"
  unfolding RouteFor_def by (auto simp: find_Some_iff)

lemma RouteFor_mem:
  "distinct (map request_id rs) \<Longrightarrow> r \<in> set rs \<Longrightarrow> find (\<lambda>q. request_id q = request_id r) rs = Some r"
  by (induction rs) auto

section \<open>Frames\<close>

definition HeaderSize :: nat where "HeaderSize = 10"
definition MaxFrameSize :: nat where "MaxFrameSize = 64 * 1024"

text \<open>The struct \<open>protocol.Message\<close>, a decoded frame.\<close>

record frame =
  MsgID :: u16
  Seq :: u32
  Body :: "byte list"

text \<open>The bytes of a frame, as \<open>Encode\<close> fills them in.\<close>

definition frame_bytes :: "u16 \<Rightarrow> u32 \<Rightarrow> byte list \<Rightarrow> byte list" where
  "frame_bytes msg_id seq body =
     put_u32 (of_nat (HeaderSize + length body)) @ put_u16 msg_id @ put_u32 seq @ body"

definition Encode :: "codec \<Rightarrow> u16 \<Rightarrow> u32 \<Rightarrow> message option \<Rightarrow> go_error + byte list" where
  "Encode C msg_id seq payload =
     (case payload of
        None \<Rightarrow> Inl (Text ''protobuf payload is nil'')
      | Some m \<Rightarrow>
         (case marshal C m of
            Inl e \<Rightarrow> Inl (Wrap ''marshal protobuf payload: '' e [])
          | Inr body \<Rightarrow>
              let total_len = HeaderSize + length body
              in if total_len > MaxFrameSize then Inl (Sentinel ErrFrameTooLarge)
                 else Inr (frame_bytes msg_id seq body)))"

definition Decode :: "byte list \<Rightarrow> go_error + frame" where
  "Decode data =
     (if length data < HeaderSize then Inl (Sentinel ErrInvalidHeader)
      else
        let total_len = get_u32 (take 4 data)
        in if unat total_len \<noteq> length data
           then Inl (Text (''frame length mismatch: declared='' @ show_nat (unat total_len)
                           @ '' actual='' @ show_nat (length data)))
           else if unat total_len > MaxFrameSize then Inl (Sentinel ErrFrameTooLarge)
           else Inr \<lparr>MsgID = get_u16 (take 2 (drop 4 data)),
                     Seq = get_u32 (take 4 (drop 6 data)),
                     Body = drop HeaderSize data\<rparr>)"

lemma length_frame_bytes [simp]: "length (frame_bytes i s b) = HeaderSize + length b"
  by (simp add: frame_bytes_def HeaderSize_def)

text \<open>Reading back the fields of a laid-out frame.\<close>

lemma frame_bytes_fields:
  "get_u32 (take 4 (frame_bytes i s b)) = of_nat (HeaderSize + length b)"
  "get_u16 (take 2 (drop 4 (frame_bytes i s b))) = i"
  "get_u32 (take 4 (drop 6 (frame_bytes i s b))) = s"
  "drop HeaderSize (frame_bytes i s b) = b"
proof -
  have d4: "drop 4 (frame_bytes i s b) = put_u16 i @ put_u32 s @ b"
    by (simp add: frame_bytes_def)
  have "drop 2 (drop 4 (frame_bytes i s b)) = put_u32 s @ b" by (simp add: d4)
  then have d6: "drop 6 (frame_bytes i s b) = put_u32 s @ b" by simp
  have "drop 4 (drop 6 (frame_bytes i s b)) = b" by (simp add: d6)
  then show "drop HeaderSize (frame_bytes i s b) = b" by (simp add: HeaderSize_def)
  show "get_u16 (take 2 (drop 4 (frame_bytes i s b))) = i"
    using get_put_u16 [of i "[]"] by (simp add: d4)
  show "get_u32 (take 4 (drop 6 (frame_bytes i s b))) = s"
    using get_put_u32 [of s "[]"] by (simp add: d6)
  show "get_u32 (take 4 (frame_bytes i s b)) = of_nat (HeaderSize + length b)"
    using get_put_u32 [of "of_nat (HeaderSize + length b)" "[]"] by (simp add: frame_bytes_def)
qed

lemma Decode_frame_bytes:
  assumes "HeaderSize + length b \<le> MaxFrameSize"
  shows "Decode (frame_bytes i s b) = Inr \<lparr>MsgID = i, Seq = s, Body = b\<rparr>"
proof -
  have "unat (of_nat (HeaderSize + length b) :: u32) = HeaderSize + length b"
    using assms by (subst unat_of_nat) (simp add: MaxFrameSize_def HeaderSize_def)
  then show ?thesis using assms by (simp add: Decode_def frame_bytes_fields)
qed

text \<open>Any byte string long enough for a header is the layout of the fields read from it.\<close>

lemma header_layout:
  assumes "HeaderSize \<le> length data"
  shows "data = put_u32 (get_u32 (take 4 data)) @ put_u16 (get_u16 (take 2 (drop 4 data)))
           @ put_u32 (get_u32 (take 4 (drop 6 data))) @ drop HeaderSize data"
proof -
  have "put_u32 (get_u32 (take 4 data)) = take 4 data"
    "put_u16 (get_u16 (take 2 (drop 4 data))) = take 2 (drop 4 data)"
    "put_u32 (get_u32 (take 4 (drop 6 data))) = take 4 (drop 6 data)"
    using assms by (auto intro!: put_get_u32_list put_get_u16_list simp: HeaderSize_def)
  moreover have "data = take 4 data @ take 2 (drop 4 data) @ take 4 (drop 6 data) @ drop 10 data"
    using append_take_drop_id [of 4 data] append_take_drop_id [of 2 "drop 4 data"]
      append_take_drop_id [of 4 "drop 6 data"] by simp
  ultimately show ?thesis by (simp add: HeaderSize_def)
qed

lemma Decode_iff:
  "Decode data = Inr f \<longleftrightarrow>
     data = frame_bytes (MsgID f) (Seq f) (Body f) \<and> length data \<le> MaxFrameSize"
proof
  assume ok: "Decode data = Inr f"
  then have len: "HeaderSize \<le> length data" and total: "unat (get_u32 (take 4 data)) = length data"
    and max: "length data \<le> MaxFrameSize"
    and f: "f = \<lparr>MsgID = get_u16 (take 2 (drop 4 data)), Seq = get_u32 (take 4 (drop 6 data)),
                 Body = drop HeaderSize data\<rparr>"
    by (auto simp: Decode_def Let_def split: if_splits)
  have "get_u32 (take 4 data) = of_nat (HeaderSize + length (drop HeaderSize data))"
    using len by (simp flip: total)
  then show "data = frame_bytes (MsgID f) (Seq f) (Body f) \<and> length data \<le> MaxFrameSize"
    using header_layout [OF len] max by (simp add: f frame_bytes_def)
next
  assume "data = frame_bytes (MsgID f) (Seq f) (Body f) \<and> length data \<le> MaxFrameSize"
  then show "Decode data = Inr f"
    using Decode_frame_bytes [of "Body f" "MsgID f" "Seq f"] by (metis frame.surjective length_frame_bytes old.unit.exhaust)
qed

lemma Encode_Inr:
  assumes "Encode C i seq payload = Inr data"
  shows "\<exists>body. Decode data = Inr \<lparr>MsgID = i, Seq = seq, Body = body\<rparr>"
  using assms by (auto simp: Encode_def Let_def Decode_frame_bytes split: option.splits sum.splits if_splits)

section \<open>Properties\<close>

text \<open>
  C16: The decoder accepts a byte string exactly when it is the canonical layout (length, message id,
  sequence number, body, little-endian) of the frame it returns and has at most 64 KiB. So no two byte
  strings decode to the same frame, and every malformed, truncated, padded or oversized input is an error.
\<close>

theorem Decode_exact:
  "Decode data = Inr f \<longleftrightarrow>
     data = frame_bytes (MsgID f) (Seq f) (Body f) \<and> length data \<le> MaxFrameSize"
  by (rule Decode_iff)

text \<open>
  C17: The encoder succeeds exactly when the payload is not nil, the library marshals it and the frame fits
  in 64 KiB, and then its output is a frame that decodes to the given message id and sequence number and
  the marshalled body: whatever the server sends, a peer's decoder reads back.
\<close>

theorem Encode_Decode:
  "Encode C msg_id seq payload = Inr data \<longleftrightarrow>
     (\<exists>m body. payload = Some m \<and> marshal C m = Inr body
        \<and> HeaderSize + length body \<le> MaxFrameSize
        \<and> Decode data = Inr \<lparr>MsgID = msg_id, Seq = seq, Body = body\<rparr>)"
  by (auto simp: Encode_def Let_def Decode_frame_bytes Decode_iff split: option.splits sum.splits)

text \<open>
  The route table is a function: a request id has at most one route and the lookup finds it; requests
  and responses have distinct ids, a response's id follows its request's, all of them are among the 32
  message ids of the protocol, and no two routes share a request type.
\<close>

theorem RouteFor_table:
  "(RouteFor rid = Some r \<longleftrightarrow> r \<in> set canonical_routes \<and> request_id r = rid)
   \<and> distinct (map request_id canonical_routes @ map response_id canonical_routes)
   \<and> list_all (\<lambda>q. response_id q = request_id q + 1
         \<and> request_id q \<in> set all_message_ids \<and> response_id q \<in> set all_message_ids) canonical_routes
   \<and> distinct all_message_ids \<and> length all_message_ids = 32
   \<and> distinct (map request_prototype canonical_routes)"
proof (intro conjI)
  have d: "distinct (map request_id canonical_routes @ map response_id canonical_routes)"
    by (simp add: canonical_routes_def msg_id_defs)
  then show "distinct (map request_id canonical_routes @ map response_id canonical_routes)" .
  from d have "distinct (map request_id canonical_routes)" by simp
  then show "RouteFor rid = Some r \<longleftrightarrow> r \<in> set canonical_routes \<and> request_id r = rid"
    using RouteFor_mem [of canonical_routes r] RouteFor_Some [of rid r] by (auto simp: RouteFor_def)
qed (simp_all add: canonical_routes_def all_message_ids_def msg_id_defs)

end
