(* ===== verification/Go_Format.thy ===== *)
theory Go_Format
  imports Go_Float Go_Strings
begin

text \<open>
  The shortest decimal text of a \<open>float64\<close>, as \<open>strconv\<close> computes it: the fewest digits that read back as the
  same number, the nearest such decimal. The verb \<open>%g\<close> of \<open>fmt\<close>, which is
  \<open>strconv.FormatFloat(x, 'g', -1, 64)\<close> with a sign on infinities, uses an exponent below -4 and from 6 on.
\<close>

section \<open>Decimal digits of a positive ratio\<close>

text \<open>The decimal point: the exponent \<open>p\<close> with \<open>10 ^ (p - 1) <= num / den < 10 ^ p\<close>.\<close>

definition decimal_point :: "int \<Rightarrow> int \<Rightarrow> int" where
  "decimal_point num den =
     (if den \<le> num then int (length (show_nat (nat (num div den))))
      else let k = length (show_nat (nat (den div num)))
           in if den = num * 10 ^ (k - 1) then 2 - int k else 1 - int k)"

text \<open>Does the decimal \<open>d * 10 ^ k\<close> with a sign read back as \<open>x\<close>?\<close>

definition reads_back :: "bool \<Rightarrow> int \<Rightarrow> int \<Rightarrow> float64 \<Rightarrow> bool" where
  "reads_back neg d k x =
     (f64_of (round_ratio binary64 neg (d * 10 ^ nat k) (10 ^ nat (- k)) 0) = x)"

text \<open>A decimal of \<open>n\<close> digits that reads back: the nearer neighbour if both do, else the one that does.\<close>

definition try_digits :: "bool \<Rightarrow> int \<Rightarrow> int \<Rightarrow> int \<Rightarrow> float64 \<Rightarrow> nat \<Rightarrow> int option" where
  "try_digits neg num den dp x n =
     (let k = dp - int n;
          a = num * 10 ^ nat (- k); b = den * 10 ^ nat k;
          lo = a div b; r = a mod b; hi = (if r = 0 then lo else lo + 1);
          lo_ok = reads_back neg lo k x; hi_ok = reads_back neg hi k x
      in if lo_ok \<and> hi_ok then Some (if 2 * r < b \<or> (2 * r = b \<and> even lo) then lo else hi)
         else if lo_ok then Some lo else if hi_ok then Some hi else None)"

fun first_some :: "(nat \<Rightarrow> 'a option) \<Rightarrow> nat list \<Rightarrow> (nat \<times> 'a) option" where
  "first_some f [] = None"
| "first_some f (n # ns) = (case f n of Some y \<Rightarrow> Some (n, y) | None \<Rightarrow> first_some f ns)"

definition strip_zeros :: "string \<Rightarrow> string" where
  "strip_zeros s = rev (dropWhile (\<lambda>c. c = CHR ''0'') (rev s))"

text \<open>Digits without trailing zeros, and the decimal point; 17 digits are always enough.\<close>

definition shortest :: "bool \<Rightarrow> int \<Rightarrow> int \<Rightarrow> float64 \<Rightarrow> string \<times> int" where
  "shortest neg m e x =
     (if m = 0 then ([], 0)
      else
        let num = scaled m e; den = scaled 1 (- e); dp = decimal_point num den
        in case first_some (try_digits neg num den dp x) [1..<18] of
             None \<Rightarrow> ([], 0)
           | Some (n, d) \<Rightarrow>
               let ds = show_nat (nat d) in (strip_zeros ds, dp + int (length ds) - int n))"

section \<open>Layouts\<close>

text \<open>\<open>%e\<close>: one digit, the rest after a point, and an exponent, of at least two digits if \<open>pad\<close>.\<close>

definition layout_e :: "bool \<Rightarrow> bool \<Rightarrow> string \<Rightarrow> int \<Rightarrow> string" where
  "layout_e pad neg ds dp =
     (let ex = dp - 1; a = show_nat (nat \<bar>ex\<bar>)
      in (if neg then ''-'' else []) @ take 1 ds @ (if length ds > 1 then ''.'' @ drop 1 ds else [])
         @ ''e'' @ (if ex < 0 then ''-'' else ''+'') @ (if pad \<and> length a < 2 then ''0'' @ a else a))"

text \<open>\<open>%f\<close>: digits before the point, padded with zeros, and the digits after it.\<close>

definition layout_f :: "bool \<Rightarrow> string \<Rightarrow> int \<Rightarrow> string" where
  "layout_f neg ds dp =
     (let k = nat dp;
          whole = (if 0 < dp then take k ds @ replicate (k - length ds) (CHR ''0'') else ''0'');
          part = (if 0 < dp then drop k ds else replicate (nat (- dp)) (CHR ''0'') @ ds)
      in (if neg then ''-'' else []) @ whole @ (if ds = [] \<or> part = [] then [] else ''.'' @ part))"

definition format_g :: "float64 \<Rightarrow> string" where
  "format_g x =
     (case f64_val x of
        FNaN \<Rightarrow> ''NaN''
      | FInf neg \<Rightarrow> if neg then ''-Inf'' else ''+Inf''
      | FFin neg m e \<Rightarrow>
          (case shortest neg m e x of (ds, dp) \<Rightarrow>
             if ds \<noteq> [] \<and> (dp - 1 < - 4 \<or> 6 \<le> dp - 1) then layout_e True neg ds dp else layout_f neg ds dp))"

text \<open>A number as \<open>encoding/json\<close> writes it: an exponent below 1e-6 and from 1e21 on, without padding; a NaN or
  an infinity is an unsupported value.\<close>

definition format_json :: "float64 \<Rightarrow> string option" where
  "format_json x =
     (case f64_val x of
        FFin neg m e \<Rightarrow>
          (case shortest neg m e x of (ds, dp) \<Rightarrow>
             let small = fval_less (FFin False m e) (f64_val (f64_lit 1 6));
                 large = \<not> fval_less (FFin False m e) (f64_val (f64_lit 1000000000000000000000 0))
             in Some (if m \<noteq> 0 \<and> (small \<or> large) then layout_e False neg ds dp else layout_f neg ds dp))
      | _ \<Rightarrow> None)"

end
