(* ===== verification/Combat_Config.thy ===== *)
theory Combat_Config
  imports Messages Go_Format
begin

text \<open>
  The combat tables of \<open>internal/combat/config.go\<close>: the global parameters, the enemy and style tables, and the
  dungeon of a level, whose room count and enemy density grow with the level up to a cap. Densities are
  computed in \<open>float64\<close> and stored as \<open>float32\<close>. Texts outside ASCII are given by their UTF-8 bytes.
\<close>

section \<open>Parameters\<close>

record combat_config =
  MaxHp :: go_int
  MaxStamina :: go_int
  BaseAttackPower :: go_int
  DashCost :: go_int
  HeavyAttackCost :: go_int
  ParryCost :: go_int
  ParryWindow :: float64
  cfg_GoldPerKill :: go_int
  cfg_ExpPerKill :: go_int
  MaxScorePerLevel :: go_int
  MaxKillsMultiplier :: float64

definition DefaultCombatConfig :: combat_config where
  "DefaultCombatConfig =
     \<lparr>MaxHp = 100, MaxStamina = 100, BaseAttackPower = 10, DashCost = 25, HeavyAttackCost = 30,
      ParryCost = 15, ParryWindow = f64_lit 3 1, cfg_GoldPerKill = 5, cfg_ExpPerKill = 10,
      MaxScorePerLevel = 10000, MaxKillsMultiplier = f64_lit 3 0\<rparr>"

section \<open>Tables\<close>

definition GetEnemyConfigs :: "enemy_config_item list" where
  "GetEnemyConfigs =
    [\<lparr>ec_id = 1,
       ec_name = bytes_of [0xE6, 0x9D, 0x82, 0xE5, 0x85, 0xB5],
       ec_hp = 30,
       ec_damage = 10,
       ec_speed = f32_lit 2 0,
       ec_attack_range = f32_lit 12 1,
       ec_enemy_type = ''grunt''\<rparr>,
     \<lparr>ec_id = 2,
       ec_name = bytes_of [0xE5, 0xBC, 0x93, 0xE6, 0x89, 0x8B],
       ec_hp = 20,
       ec_damage = 8,
       ec_speed = f32_lit 15 1,
       ec_attack_range = f32_lit 6 0,
       ec_enemy_type = ''archer''\<rparr>,
     \<lparr>ec_id = 3,
       ec_name = bytes_of [0xE7, 0xB2, 0xBE, 0xE8, 0x8B, 0xB1],
       ec_hp = 80,
       ec_damage = 20,
       ec_speed = f32_lit 3 0,
       ec_attack_range = f32_lit 15 1,
       ec_enemy_type = ''elite''\<rparr>,
     \<lparr>ec_id = 4,
       ec_name = ''Boss'',
       ec_hp = 300,
       ec_damage = 25,
       ec_speed = f32_lit 25 1,
       ec_attack_range = f32_lit 2 0,
       ec_enemy_type = ''boss''\<rparr>]"

definition GetDungeonConfig :: "go_int \<Rightarrow> dungeon_config_item" where
  "GetDungeonConfig level =
     (let room_count = 8 + level * 2;
          room_count' = (if 20 <s room_count then 20 else room_count);
          enemy_density = f64_add (f64_lit 1 0) (f64_mul (f64_of_int (sint (level - 1))) (f64_lit 15 2));
          enemy_density' = (if f64_less (f64_lit 3 0) enemy_density then f64_lit 3 0 else enemy_density)
      in \<lparr>dc_level = to_i32 level, dc_room_count = to_i32 room_count',
          dc_enemy_density = f64_to_f32 enemy_density', dc_boss_id = 4\<rparr>)"

definition GetStyleConfigs :: "style_config_item list" where
  "GetStyleConfigs =
    [\<lparr>sc_style_id = 1,
       sc_style_name = bytes_of [0xE5, 0x88, 0x83],
       sc_damage_mult = f32_lit 1 0,
       sc_speed_mult = f32_lit 12 1,
       sc_parry_mult = f32_lit 1 0,
       sc_dash_speed_mult = f32_lit 1 0,
       sc_dash_cost_mult = f32_lit 1 0,
       sc_special_resource_max = 100,
       sc_special_resource_name = bytes_of [0xE6, 0x80, 0x92, 0xE6, 0xB0, 0x94],
       sc_description = bytes_of [0xE9, 0xAB, 0x98, 0xE9, 0x80, 0x9F, 0xE8, 0xBF, 0x9E, 0xE5, 0x87, 0xBB,
         0xE6, 0xB5, 0x81, 0xE6, 0xB4, 0xBE, 0xEF, 0xBC, 0x8C, 0xE5, 0x88, 0x83, 0xE9, 0xA3, 0x8E, 0xE6,
         0x9A, 0xB4, 0xE6, 0xB6, 0x88, 0xE8, 0x80, 0x97, 0xE6, 0x80, 0x92, 0xE6, 0xB0, 0x94]\<rparr>,
     \<lparr>sc_style_id = 2,
       sc_style_name = bytes_of [0xE5, 0x8D, 0xB0],
       sc_damage_mult = f32_lit 8 1,
       sc_speed_mult = f32_lit 1 0,
       sc_parry_mult = f32_lit 15 1,
       sc_dash_speed_mult = f32_lit 1 0,
       sc_dash_cost_mult = f32_lit 1 0,
       sc_special_resource_max = 5,
       sc_special_resource_name = bytes_of [0xE5, 0x8D, 0xB0, 0xE8, 0xAE, 0xB0],
       sc_description = bytes_of [0xE5, 0xBC, 0xB9, 0xE5, 0x8F, 0x8D, 0xE5, 0xBC, 0xBA, 0xE5, 0x8C, 0x96,
         0xE6, 0xB5, 0x81, 0xE6, 0xB4, 0xBE, 0xEF, 0xBC, 0x8C, 0xE5, 0xBC, 0xB9, 0xE5, 0x8F, 0x8D, 0xE6,
         0x94, 0xBE, 0xE7, 0xBD, 0xAE, 0xE5, 0x8D, 0xB0, 0xE8, 0xAE, 0xB0, 0xE5, 0x8F, 0xAF, 0xE5, 0xBC,
         0x95, 0xE7, 0x88, 0x86]\<rparr>,
     \<lparr>sc_style_id = 3,
       sc_style_name = bytes_of [0xE6, 0xAF, 0x92],
       sc_damage_mult = f32_lit 6 1,
       sc_speed_mult = f32_lit 1 0,
       sc_parry_mult = f32_lit 8 1,
       sc_dash_speed_mult = f32_lit 1 0,
       sc_dash_cost_mult = f32_lit 1 0,
       sc_special_resource_max = 100,
       sc_special_resource_name = bytes_of [0xE6, 0xAF, 0x92, 0xE6, 0xB6, 0xB2],
       sc_description = bytes_of [0xE6, 0x8C, 0x81, 0xE7, 0xBB, 0xAD, 0xE4, 0xBC, 0xA4, 0xE5, 0xAE, 0xB3,
         0xE6, 0xB5, 0x81, 0xE6, 0xB4, 0xBE, 0xEF, 0xBC, 0x8C, 0xE6, 0x94, 0xBB, 0xE5, 0x87, 0xBB, 0xE5,
         0x8F, 0xA0, 0xE6, 0xAF, 0x92, 0xEF, 0xBC, 0x8C, 0xE6, 0xAF, 0x92, 0xE9, 0x9B, 0xBE, 0xE8, 0x8C,
         0x83, 0xE5, 0x9B, 0xB4] @ ''DoT''\<rparr>,
     \<lparr>sc_style_id = 4,
       sc_style_name = bytes_of [0xE8, 0xA1, 0x80],
       sc_damage_mult = f32_lit 15 1,
       sc_speed_mult = f32_lit 8 1,
       sc_parry_mult = f32_lit 6 1,
       sc_dash_speed_mult = f32_lit 1 0,
       sc_dash_cost_mult = f32_lit 1 0,
       sc_special_resource_max = 100,
       sc_special_resource_name = bytes_of [0xE9, 0xB2, 0x9C, 0xE8, 0xA1, 0x80],
       sc_description = bytes_of [0xE9, 0xAB, 0x98, 0xE9, 0xA3, 0x8E, 0xE9, 0x99, 0xA9, 0xE9, 0xAB, 0x98,
         0xE5, 0x9B, 0x9E, 0xE6, 0x8A, 0xA5, 0xE6, 0xB5, 0x81, 0xE6, 0xB4, 0xBE, 0xEF, 0xBC, 0x8C, 0xE8,
         0xA1, 0x80, 0xE7, 0xA5, 0xAD, 0xE6, 0x89, 0xA3] @ ''HP'' @ bytes_of [0xE6, 0x8D, 0xA2, 0xE7, 0x88,
         0x86, 0xE5, 0x8F, 0x91, 0xE4, 0xBC, 0xA4, 0xE5, 0xAE, 0xB3]\<rparr>,
     \<lparr>sc_style_id = 5,
       sc_style_name = bytes_of [0xE5, 0x89, 0x91],
       sc_damage_mult = f32_lit 12 1,
       sc_speed_mult = f32_lit 1 0,
       sc_parry_mult = f32_lit 13 1,
       sc_dash_speed_mult = f32_lit 1 0,
       sc_dash_cost_mult = f32_lit 1 0,
       sc_special_resource_max = 100,
       sc_special_resource_name = bytes_of [0xE4, 0xB8, 0x93, 0xE6, 0xB3, 0xA8],
       sc_description = bytes_of [0xE5, 0x9D, 0x87, 0xE8, 0xA1, 0xA1, 0xE5, 0x8F, 0x8D, 0xE5, 0x87, 0xBB,
         0xE6, 0xB5, 0x81, 0xE6, 0xB4, 0xBE, 0xEF, 0xBC, 0x8C, 0xE5, 0xAE, 0x8C, 0xE7, 0xBE, 0x8E, 0xE5,
         0xBC, 0xB9, 0xE5, 0x8F, 0x8D, 0xE5, 0xA2, 0x9E, 0xE7, 0x9B, 0x8A, 0xEF, 0xBC, 0x8C, 0xE5, 0x89,
         0x91, 0xE6, 0xB0, 0x94, 0xE8, 0xBF, 0x9C, 0xE7, 0xA8, 0x8B, 0xE6, 0x96, 0xA9, 0xE5, 0x87,
         0xBB]\<rparr>]"

text \<open>The first entry with the id, as the loop returns it.\<close>

definition getStyleConfig :: "go_int \<Rightarrow> style_config_item option" where
  "getStyleConfig style_id = find (\<lambda>s. to_i64 (sc_style_id s) = style_id) GetStyleConfigs"

lemma getStyleConfig_iff: "(getStyleConfig i \<noteq> None) \<longleftrightarrow> i \<in> {1, 2, 3, 4, 5}"
  by (auto simp: getStyleConfig_def GetStyleConfigs_def)

end
