(* ===== verification/Go_Float_Bounds.thy ===== *)
theory Go_Float_Bounds
  imports Go_Float Complex_Main
begin

text \<open>
  Interval arithmetic on the model's floating-point operations: an operation on non-negative finite values
  stays between bounds that the format represents, because rounding to nearest is monotone and fixes the
  representable values. The lemmas serve the kill limits of \<open>Combat_Validator\<close>.
\<close>

section \<open>Exponents\<close>

text \<open>\<open>2 powi k\<close> is the real power with an integer exponent.\<close>

abbreviation pow2 :: "int \<Rightarrow> real" where "pow2 k \<equiv> 2 powi k"

lemma pow2_pos [simp]: "0 < pow2 k" by simp

lemma pow2_add: "pow2 (a + b) = pow2 a * pow2 b"
  by (simp add: power_int_add)

lemma pow2_mono: "a \<le> b \<Longrightarrow> pow2 a \<le> pow2 b"
  by (simp add: power_int_increasing)

lemma pow2_nat: "0 \<le> k \<Longrightarrow> pow2 k = 2 ^ nat k"
  by (simp add: power_int_def)

lemma real_scaled: "real_of_int (scaled n k) = of_int n * pow2 (max 0 k)"
  by (cases "0 \<le> k") (simp_all add: scaled_def pow2_nat max_def)

lemma scaled_ratio:
  assumes "0 < d"
  shows "real_of_int (scaled n k) / of_int (scaled d (- k)) = of_int n / of_int d * pow2 k"
proof -
  have "pow2 (max 0 k) = pow2 (max 0 (- k)) * pow2 k"
    by (simp flip: pow2_add add: max_def)
  then show ?thesis using assms by (simp add: real_scaled)
qed

lemma scaled_pos: "0 < d \<Longrightarrow> 0 < scaled d k"
  by (simp add: scaled_def)

lemma nbits_bounds: "0 < n \<Longrightarrow> 2 ^ nat (nbits n - 1) \<le> n \<and> n < 2 ^ nat (nbits n) \<and> 1 \<le> nbits n"
proof (induction n rule: nbits.induct)
  case (1 n)
  show ?case
  proof (cases "n = 1")
    case True
    then show ?thesis by (simp add: nbits.simps)
  next
    case False
    with "1.prems" have h: "0 < n div 2" by simp
    with "1.IH" "1.prems" have ih: "2 ^ nat (nbits (n div 2) - 1) \<le> n div 2"
      "n div 2 < 2 ^ nat (nbits (n div 2))" "1 \<le> nbits (n div 2)" by auto
    have b: "nbits n = 1 + nbits (n div 2)" using "1.prems" by (simp add: nbits.simps [of n])
    have "nat (nbits n - 1) = Suc (nat (nbits (n div 2) - 1))" "nat (nbits n) = Suc (nat (nbits (n div 2)))"
      using ih(3) b by simp_all
    then show ?thesis using ih b by simp linarith
  qed
qed

lemma nbits_real:
  assumes "0 < n"
  shows "pow2 (nbits n - 1) \<le> of_int n" "of_int n < pow2 (nbits n)"
proof -
  note b = nbits_bounds [OF assms]
  have "real_of_int (2 ^ nat (nbits n - 1)) \<le> of_int n" using b by linarith
  then show "pow2 (nbits n - 1) \<le> of_int n" using b by (simp add: pow2_nat)
  have "real_of_int n < of_int (2 ^ nat (nbits n))" using b by linarith
  then show "of_int n < pow2 (nbits n)" using b by (simp add: pow2_nat)
qed

section \<open>Rounding a positive ratio\<close>

text \<open>A value that the format represents.\<close>

definition representable :: "fformat \<Rightarrow> real \<Rightarrow> bool" where
  "representable F r \<longleftrightarrow>
     (\<exists>y k. r = of_int y * pow2 k \<and> 0 \<le> y \<and> of_int y < pow2 (int (precision F)) \<and> emin F \<le> k)"

text \<open>A significand and exponent that the encoding of the format holds.\<close>

definition canonical :: "fformat \<Rightarrow> int \<Rightarrow> int \<Rightarrow> bool" where
  "canonical F m g \<longleftrightarrow> 0 \<le> m \<and> m < 2 ^ precision F \<and> emin F \<le> g \<and> g + int (precision F) \<le> emax F
     \<and> (m < 2 ^ (precision F - 1) \<longrightarrow> g = emin F)"

lemma within_half: "\<bar>a - x\<bar> * 2 \<le> 1 \<Longrightarrow> x \<le> a + 1 / 2 \<and> a \<le> x + 1 / 2" for a x :: real
  by (simp add: abs_if split: if_splits)

lemma div_even_bounds:
  assumes "0 < d"
  shows "of_int n / of_int d * pow2 k \<le> of_int (div_even n d k) + 1 / 2"
    "of_int (div_even n d k) \<le> of_int n / of_int d * pow2 k + 1 / 2"
proof -
  have p: "0 < scaled d (- k)" using assms by (rule scaled_pos)
  have "of_int (\<bar>div_even n d k * scaled d (- k) - scaled n k\<bar> * 2) \<le> real_of_int (scaled d (- k))"
    using div_even_nearest [OF assms, of n k] by linarith
  then have "\<bar>of_int (div_even n d k) * of_int (scaled d (- k)) - real_of_int (scaled n k)\<bar> * 2
      \<le> of_int (scaled d (- k))" by simp
  with p have "\<bar>of_int (div_even n d k) - real_of_int (scaled n k) / of_int (scaled d (- k))\<bar> * 2 \<le> 1"
    by (simp add: field_simps abs_if split: if_splits)
  then have b: "\<bar>of_int (div_even n d k) - of_int n / of_int d * pow2 k\<bar> * 2 \<le> 1"
    by (simp only: scaled_ratio [OF assms])
  define x where "x = of_int n / of_int d * pow2 k"
  from b have "\<bar>of_int (div_even n d k) - x\<bar> * 2 \<le> 1" by (simp only: x_def)
  from within_half [OF this]
  show "of_int n / of_int d * pow2 k \<le> of_int (div_even n d k) + 1 / 2"
    "of_int (div_even n d k) \<le> of_int n / of_int d * pow2 k + 1 / 2"
    by (simp_all only: x_def)
qed

text \<open>Rounding to an integer does not cross an integer.\<close>

lemma div_even_mono:
  assumes "0 < d"
  shows "of_int y \<le> of_int n / of_int d * pow2 k \<Longrightarrow> y \<le> div_even n d k"
    "of_int n / of_int d * pow2 k \<le> of_int y \<Longrightarrow> div_even n d k \<le> y"
  using div_even_bounds [OF assms, of n k] by linarith+

lemma round_exponent_normal:
  assumes n: "0 < n" and d: "0 < d" and f: "emin F < round_exponent F n d e"
  shows "pow2 (int (precision F) - 1 + round_exponent F n d e) \<le> of_int n / of_int d * pow2 e"
proof -
  define p f0 where "p = int (precision F)" and "f0 = e + nbits n - nbits d - p"
  have ratio: "pow2 (nbits n - 1 - nbits d) \<le> of_int n / of_int d"
  proof -
    have "pow2 (nbits n - 1 - nbits d) * of_int d \<le> pow2 (nbits n - 1 - nbits d) * pow2 (nbits d)"
      using nbits_real(2) [OF d] by simp
    also have "\<dots> = pow2 (nbits n - 1)" by (simp flip: pow2_add)
    also have "\<dots> \<le> of_int n" by (rule nbits_real(1) [OF n])
    finally show ?thesis using d by (simp add: field_simps)
  qed
  have low: "pow2 (p - 1 + f0) \<le> of_int n / of_int d * pow2 e"
  proof -
    have "pow2 (p - 1 + f0) = pow2 (nbits n - 1 - nbits d) * pow2 e"
      by (simp add: f0_def algebra_simps flip: pow2_add)
    also have "\<dots> \<le> of_int n / of_int d * pow2 e" using ratio by (intro mult_right_mono) simp_all
    finally show ?thesis .
  qed
  show ?thesis
  proof (cases "scaled d (f0 - e) * 2 ^ precision F \<le> scaled n (e - f0)")
    case True
    have pos: "0 < scaled d (- (e - f0))" using d by (rule scaled_pos)
    from True have "real_of_int (scaled d (- (e - f0)) * 2 ^ precision F) \<le> of_int (scaled n (e - f0))"
      by (simp only: minus_diff_eq of_int_le_iff)
    then have "2 ^ precision F \<le> real_of_int (scaled n (e - f0)) / of_int (scaled d (- (e - f0)))"
      using pos by (simp add: field_simps)
    then have "pow2 p \<le> of_int n / of_int d * pow2 (e - f0)"
      by (simp only: scaled_ratio [OF d] p_def power_int_of_nat)
    then have "pow2 p * pow2 f0 \<le> of_int n / of_int d * pow2 (e - f0) * pow2 f0"
      by (intro mult_right_mono) simp_all
    then have "pow2 (p + f0) \<le> of_int n / of_int d * pow2 e"
      by (simp only: mult.assoc flip: pow2_add) simp
    moreover have "round_exponent F n d e = f0 + 1"
      using True f by (simp add: round_exponent_def Let_def f0_def p_def max_def split: if_splits)
    ultimately show ?thesis by (simp add: p_def algebra_simps)
  next
    case False
    then have "round_exponent F n d e = f0"
      using f by (simp add: round_exponent_def Let_def f0_def p_def max_def split: if_splits)
    with low show ?thesis by (simp add: p_def)
  qed
qed

lemma round_exponent_upper:
  assumes n: "0 < n" and d: "0 < d"
  shows "of_int n / of_int d * pow2 (e - round_exponent F n d e) \<le> pow2 (int (precision F))"
proof -
  define p f0 where "p = int (precision F)" and "f0 = e + nbits n - nbits d - p"
  define c where "c \<longleftrightarrow> scaled d (f0 - e) * 2 ^ precision F \<le> scaled n (e - f0)"
  have f: "(if c then f0 + 1 else f0) \<le> round_exponent F n d e"
    by (simp add: round_exponent_def Let_def f0_def p_def c_def)
  have ratio: "of_int n / of_int d \<le> pow2 (nbits n - nbits d + 1)"
  proof -
    have "real_of_int n \<le> pow2 (nbits n - nbits d + 1) * pow2 (nbits d - 1)"
      using nbits_real(2) [OF n] by (simp flip: pow2_add)
    also have "\<dots> \<le> pow2 (nbits n - nbits d + 1) * of_int d"
      using nbits_real(1) [OF d] by (intro mult_left_mono) simp_all
    finally show ?thesis using d by (simp add: field_simps)
  qed
  have "of_int n / of_int d * pow2 (e - (if c then f0 + 1 else f0)) \<le> pow2 p"
  proof (cases c)
    case True
    have "of_int n / of_int d * pow2 (e - (f0 + 1)) \<le> pow2 (nbits n - nbits d + 1) * pow2 (e - (f0 + 1))"
      using ratio by (intro mult_right_mono) simp_all
    also have "\<dots> = pow2 p" by (simp add: f0_def flip: pow2_add)
    finally show ?thesis using True by simp
  next
    case False
    have pos: "0 < scaled d (- (e - f0))" using d by (rule scaled_pos)
    from False have "scaled n (e - f0) \<le> scaled d (- (e - f0)) * 2 ^ precision F" by (simp add: c_def)
    then have "real_of_int (scaled n (e - f0)) \<le> of_int (scaled d (- (e - f0)) * 2 ^ precision F)"
      by (simp only: of_int_le_iff)
    then have "real_of_int (scaled n (e - f0)) / of_int (scaled d (- (e - f0))) \<le> 2 ^ precision F"
      using pos by (simp add: field_simps)
    then have "of_int n / of_int d * pow2 (e - f0) \<le> pow2 p"
      by (simp only: scaled_ratio [OF d] p_def power_int_of_nat)
    with False show ?thesis by simp
  qed
  moreover have "of_int n / of_int d * pow2 (e - round_exponent F n d e)
      \<le> of_int n / of_int d * pow2 (e - (if c then f0 + 1 else f0))"
    using n d f by (intro mult_left_mono pow2_mono) simp_all
  ultimately show ?thesis by (simp add: p_def)
qed

text \<open>The quotient at the rounding exponent: between the bounds, within the precision.\<close>

lemma representable_cases:
  assumes "representable F r"
  obtains y where "r = of_int y * pow2 f" | "r < pow2 (int (precision F) - 1 + f)" "emin F < f"
proof -
  from assms obtain y k where y: "r = of_int y * pow2 k" "of_int y < pow2 (int (precision F))" "emin F \<le> k"
    by (auto simp: representable_def)
  show ?thesis
  proof (cases "f \<le> k")
    case True
    then have "r = of_int (y * 2 ^ nat (k - f)) * pow2 f"
      using y(1) by (simp add: pow2_nat [symmetric] mult.assoc flip: pow2_add)
    then show ?thesis by (rule that(1))
  next
    case False
    have "r < pow2 (int (precision F)) * pow2 k" unfolding y(1) using y(2) by (intro mult_strict_right_mono) simp_all
    also have "\<dots> = pow2 (int (precision F) + k)" by (simp only: pow2_add)
    also have "\<dots> \<le> pow2 (int (precision F) - 1 + f)" using False by (intro pow2_mono) simp
    finally show ?thesis using False y(3) by (intro that(2)) simp_all
  qed
qed

lemma round_quotient:
  fixes e :: int
  assumes n: "0 < n" and d: "0 < d" and F: "1 < precision F"
  defines "f \<equiv> round_exponent F n d e"
  shows "emin F < f \<Longrightarrow> 2 ^ (precision F - 1) \<le> div_even n d (e - f)" (is "_ \<Longrightarrow> ?normal")
    and "div_even n d (e - f) \<le> 2 ^ precision F"
    and "representable F lo \<Longrightarrow> lo \<le> of_int n / of_int d * pow2 e \<Longrightarrow> lo \<le> of_int (div_even n d (e - f)) * pow2 f"
    and "representable F hi \<Longrightarrow> of_int n / of_int d * pow2 e \<le> hi \<Longrightarrow> of_int (div_even n d (e - f)) * pow2 f \<le> hi"
proof -
  define p where "p = int (precision F)"
  define x where "x = of_int n / of_int d * pow2 (e - f)"
  have xf: "of_int n / of_int d * pow2 e = x * pow2 f"
    by (simp add: x_def mult.assoc flip: pow2_add)
  have p1: "pow2 (p - 1) = of_int (2 ^ (precision F - 1))"
    using F by (simp add: p_def pow2_nat nat_diff_distrib)
  have normal: "pow2 (p - 1 + f) \<le> x * pow2 f" if "emin F < f"
    using round_exponent_normal [OF n d, of F e] that unfolding xf [symmetric] by (simp only: f_def p_def)
  have q_normal: "2 ^ (precision F - 1) \<le> div_even n d (e - f)" if "emin F < f"
  proof (rule div_even_mono(1) [OF d])
    from normal [OF that] have "pow2 (p - 1) * pow2 f \<le> x * pow2 f" by (simp only: pow2_add)
    then have "pow2 (p - 1) \<le> x" by simp
    then show "of_int (2 ^ (precision F - 1)) \<le> real_of_int n / of_int d * pow2 (e - f)"
      by (simp only: x_def p1)
  qed
  show "emin F < f \<Longrightarrow> ?normal" by (rule q_normal)
  show "div_even n d (e - f) \<le> 2 ^ precision F"
    by (rule div_even_mono(2) [OF d]) (use round_exponent_upper [OF n d, of e F] in \<open>simp add: f_def\<close>)
  show "lo \<le> of_int (div_even n d (e - f)) * pow2 f"
    if "representable F lo" and lo: "lo \<le> of_int n / of_int d * pow2 e"
    using that(1)
  proof (cases rule: representable_cases [where f = f])
    case (1 y)
    have "of_int y * pow2 f \<le> x * pow2 f" using lo unfolding xf 1 .
    then have "of_int y \<le> x" by simp
    then have "y \<le> div_even n d (e - f)" unfolding x_def by (rule div_even_mono(1) [OF d])
    then show ?thesis unfolding 1 by (intro mult_right_mono) simp_all
  next
    case 2
    have "pow2 (p - 1 + f) \<le> of_int (div_even n d (e - f)) * pow2 f"
      using q_normal [OF 2(2)] unfolding pow2_add p1 by (intro mult_right_mono) (simp_all only: of_int_le_iff pow2_pos less_imp_le)
    with 2(1) show ?thesis by (simp add: p_def)
  qed
  show "of_int (div_even n d (e - f)) * pow2 f \<le> hi"
    if "representable F hi" and hi: "of_int n / of_int d * pow2 e \<le> hi"
    using that(1)
  proof (cases rule: representable_cases [where f = f])
    case (1 y)
    have "x * pow2 f \<le> of_int y * pow2 f" using hi unfolding xf 1 .
    then have "x \<le> of_int y" by simp
    then have "div_even n d (e - f) \<le> y" unfolding x_def by (rule div_even_mono(2) [OF d])
    then show ?thesis unfolding 1 by (intro mult_right_mono) simp_all
  next
    case 2
    have "x * pow2 f \<le> hi" using hi unfolding xf .
    with 2(1) normal [OF 2(2)] show ?thesis by (simp add: p_def)
  qed
qed

text \<open>The rounded value of a ratio between two representable bounds is finite and between them.\<close>

lemma round_ratio_between:
  assumes n: "0 < n" and d: "0 < d" and F: "1 < precision F" "emin F + int (precision F) < emax F"
    and lo: "representable F lo" "lo \<le> of_int n / of_int d * pow2 e"
    and hi: "representable F hi" "of_int n / of_int d * pow2 e \<le> hi" and fin: "hi < pow2 (emax F - 1)"
  shows "\<exists>m g. round_ratio F False n d e = FFin False m g \<and> canonical F m g
    \<and> lo \<le> of_int m * pow2 g \<and> of_int m * pow2 g \<le> hi"
proof -
  define f where "f = round_exponent F n d e"
  define q where "q = div_even n d (e - f)"
  note Q = round_quotient [OF n d F(1), where e = e, folded f_def, folded q_def]
  have fe: "emin F \<le> f" by (simp add: f_def round_exponent_def Let_def)
  have f_max: "f + int (precision F) < emax F"
  proof (rule ccontr)
    assume no: "\<not> f + int (precision F) < emax F"
    with F(2) have "emin F < f" by simp
    from round_exponent_normal [OF n d, of F e] this
    have "pow2 (int (precision F) - 1 + f) \<le> hi" using hi(2) by (simp add: f_def)
    moreover have "pow2 (emax F - 1) \<le> pow2 (int (precision F) - 1 + f)" using no by (intro pow2_mono) simp
    ultimately show False using fin by simp
  qed
  have q0: "0 \<le> q" unfolding q_def by (rule div_even_mono(1) [OF d]) (use n d in simp)
  define m g where "m = (if q = 2 ^ precision F then 2 ^ (precision F - 1) else q)"
    and "g = (if q = 2 ^ precision F then f + 1 else f)"
  have two: "(2::int) ^ precision F = 2 * 2 ^ (precision F - 1)"
    using F(1) by (cases "precision F") simp_all
  have r: "round_ratio F False n d e = FFin False m g"
    using n f_max by (simp add: round_ratio_def Let_def m_def g_def flip: f_def q_def)
  have same: "of_int m * pow2 g = of_int q * pow2 f"
    by (simp add: m_def g_def two pow2_add)
  have "f = emin F" if "q < 2 ^ (precision F - 1)"
    using Q(1) fe that by (cases "emin F < f") simp_all
  then have "canonical F m g"
    using q0 fe f_max Q(2) by (auto simp: canonical_def m_def g_def two)
  with r same Q(3) [OF lo] Q(4) [OF hi] show ?thesis by auto
qed

section \<open>The encodings\<close>

text \<open>A canonical value survives encoding and decoding.\<close>

lemma split_bits:
  fixes a m b :: int
  assumes "0 \<le> m" "m < b"
  shows "(a * b + m) mod b = m" "(a * b + m) div b = a"
  using assms by simp_all

lemma f64_val_of:
  assumes "canonical binary64 m g"
  shows "f64_val (f64_of (FFin False m g)) = FFin False m g"
proof -
  note c = assms [unfolded canonical_def binary64_def, simplified]
  define E where "E = encode_fval binary64 2047 (2 ^ 63) (FFin False m g)"
  define a b where "a = (if m < 4503599627370496 then 0 else g + 1075)"
    and "b = (if m < 4503599627370496 then m else m - 4503599627370496)"
  have E: "E = a * 4503599627370496 + b"
    by (simp add: E_def a_def b_def binary64_def)
  have a: "0 \<le> a" "a \<le> 2046" and b: "0 \<le> b" "b < 4503599627370496"
    using c by (auto simp: a_def b_def)
  have "a * 4503599627370496 \<le> 2046 * 4503599627370496" using a by (intro mult_right_mono) simp_all
  with a b have r: "0 \<le> E" "E < 9223372036854775808" by (simp_all add: E)
  then have u: "uint (word_of_int E :: 64 word) = E"
    by (simp add: uint_word_of_int)
  have d: "E mod 2 ^ 52 = b" "E div 2 ^ 52 mod 2 ^ 11 = a"
    using split_bits [OF b, of a] a by (simp_all add: E)
  show ?thesis
    using d a r c unfolding f64_of_def f64_val.simps Let_def E_def [symmetric] u
    by (auto simp: decode_fval_def binary64_def a_def b_def)
qed

lemma f32_val_of:
  assumes "canonical binary32 m g"
  shows "f32_val (f32_of (FFin False m g)) = FFin False m g"
proof -
  note c = assms [unfolded canonical_def binary32_def, simplified]
  define E where "E = encode_fval binary32 255 (2 ^ 31) (FFin False m g)"
  define a b where "a = (if m < 8388608 then 0 else g + 150)"
    and "b = (if m < 8388608 then m else m - 8388608)"
  have E: "E = a * 8388608 + b"
    by (simp add: E_def a_def b_def binary32_def)
  have a: "0 \<le> a" "a \<le> 254" and b: "0 \<le> b" "b < 8388608"
    using c by (auto simp: a_def b_def)
  have "a * 8388608 \<le> 254 * 8388608" using a by (intro mult_right_mono) simp_all
  with a b have r: "0 \<le> E" "E < 2147483648" by (simp_all add: E)
  then have u: "uint (word_of_int E :: 32 word) = E"
    by (simp add: uint_word_of_int)
  have d: "E mod 2 ^ 23 = b" "E div 2 ^ 23 mod 2 ^ 8 = a"
    using split_bits [OF b, of a] a by (simp_all add: E)
  show ?thesis
    using d a r c unfolding f32_of_def f32_val.simps Let_def E_def [symmetric] u
    by (auto simp: decode_fval_def binary32_def a_def b_def)
qed

section \<open>Operations on intervals\<close>

definition fin_between :: "fval \<Rightarrow> real \<Rightarrow> real \<Rightarrow> bool" where
  "fin_between v lo hi \<longleftrightarrow>
     (\<exists>m e. v = FFin False m e \<and> 0 \<le> m \<and> lo \<le> of_int m * pow2 e \<and> of_int m * pow2 e \<le> hi)"

lemma representable_int:
  assumes "0 \<le> n" "n < 2 ^ precision F" "emin F \<le> 0"
  shows "representable F (of_int n)"
proof -
  have "real_of_int n < of_int (2 ^ precision F)" using assms(2) by (simp only: of_int_less_iff)
  then show ?thesis using assms unfolding representable_def
    by (intro exI [of _ n] exI [of _ 0]) simp
qed

text \<open>Rounding of a non-negative value, zero included.\<close>

lemma round_between:
  assumes F: "1 < precision F" "emin F + int (precision F) < emax F" and n: "0 \<le> n"
    and lo: "representable F lo" "lo \<le> of_int n * pow2 e"
    and hi: "representable F hi" "of_int n * pow2 e \<le> hi" "hi < pow2 (emax F - 1)"
  shows "\<exists>m g. round_ratio F False n 1 e = FFin False m g \<and> canonical F m g
    \<and> lo \<le> of_int m * pow2 g \<and> of_int m * pow2 g \<le> hi"
proof (cases "n = 0")
  case True
  then show ?thesis
    using F lo hi by (simp add: round_ratio_def canonical_def)
next
  case False
  with n have "0 < n" by simp
  from round_ratio_between [OF this, of 1 F lo e hi] F lo hi show ?thesis by simp
qed

lemma formats [simp]:
  "1 < precision binary64" "emin binary64 + int (precision binary64) < emax binary64"
  "1 < precision binary32" "emin binary32 + int (precision binary32) < emax binary32"
  by (simp_all add: binary64_def binary32_def)

lemma small_finite: "hi \<le> 1000000 \<Longrightarrow> hi < pow2 (emax binary64 - 1)" "hi \<le> 1000000 \<Longrightarrow> hi < pow2 (emax binary32 - 1)"
proof -
  have "(1000000::real) < 2 ^ 20" by simp
  also have "\<dots> = pow2 20" by (simp add: pow2_nat)
  finally have m: "(1000000::real) < pow2 20" .
  have "pow2 20 \<le> pow2 (emax binary64 - 1)" "pow2 20 \<le> pow2 (emax binary32 - 1)"
    by (rule pow2_mono, simp add: binary64_def binary32_def)+
  with m show "hi \<le> 1000000 \<Longrightarrow> hi < pow2 (emax binary64 - 1)" "hi \<le> 1000000 \<Longrightarrow> hi < pow2 (emax binary32 - 1)"
    by simp_all
qed

lemma f64_rounded_between:
  assumes "0 \<le> n" "representable binary64 lo" "lo \<le> of_int n * pow2 e"
    "representable binary64 hi" "of_int n * pow2 e \<le> hi" "hi \<le> 1000000"
  shows "fin_between (f64_val (f64_of (round_ratio binary64 False n 1 e))) lo hi"
proof -
  have "hi < pow2 (emax binary64 - 1)" using assms(6) by (rule small_finite)
  from round_between [OF formats(1,2) assms(1-5) this]
  obtain m g where "round_ratio binary64 False n 1 e = FFin False m g" "canonical binary64 m g"
    "lo \<le> of_int m * pow2 g" "of_int m * pow2 g \<le> hi" by blast
  moreover from this have "0 \<le> m" by (simp add: canonical_def)
  ultimately show ?thesis by (simp add: fin_between_def f64_val_of)
qed

lemma f32_rounded_between:
  assumes "0 \<le> n" "representable binary32 lo" "lo \<le> of_int n * pow2 e"
    "representable binary32 hi" "of_int n * pow2 e \<le> hi" "hi \<le> 1000000"
  shows "fin_between (f32_val (f32_of (round_ratio binary32 False n 1 e))) lo hi"
proof -
  have "hi < pow2 (emax binary32 - 1)" using assms(6) by (rule small_finite)
  from round_between [OF formats(3,4) assms(1-5) this]
  obtain m g where "round_ratio binary32 False n 1 e = FFin False m g" "canonical binary32 m g"
    "lo \<le> of_int m * pow2 g" "of_int m * pow2 g \<le> hi" by blast
  moreover from this have "0 \<le> m" by (simp add: canonical_def)
  ultimately show ?thesis by (simp add: fin_between_def f32_val_of)
qed

lemma f64_mul_between:
  assumes x: "fin_between (f64_val x) a b" and y: "fin_between (f64_val y) c d" and "0 \<le> a" "0 \<le> c"
    and lo: "representable binary64 lo" "lo \<le> a * c"
    and hi: "representable binary64 hi" "b * d \<le> hi" "hi \<le> 1000000"
  shows "fin_between (f64_val (f64_mul x y)) lo hi"
proof -
  from x obtain m e where m: "f64_val x = FFin False m e" "0 \<le> m" "a \<le> of_int m * pow2 e" "of_int m * pow2 e \<le> b"
    by (auto simp: fin_between_def)
  from y obtain n f where n: "f64_val y = FFin False n f" "0 \<le> n" "c \<le> of_int n * pow2 f" "of_int n * pow2 f \<le> d"
    by (auto simp: fin_between_def)
  have prod: "real_of_int (m * n) * pow2 (e + f) = of_int m * pow2 e * (of_int n * pow2 f)"
    by (simp add: pow2_add)
  have "a * c \<le> of_int m * pow2 e * (of_int n * pow2 f)"
    using m n assms(3,4) by (intro mult_mono) simp_all
  moreover have "of_int m * pow2 e * (of_int n * pow2 f) \<le> b * d"
    using m n assms(3,4) by (intro mult_mono) simp_all
  ultimately have "fin_between (f64_val (f64_of (round_ratio binary64 False (m * n) 1 (e + f)))) lo hi"
    using m n lo hi by (intro f64_rounded_between) (simp_all only: prod, simp_all)
  then show ?thesis by (simp add: f64_mul_def m n)
qed

lemma round_int_nonneg: "0 \<le> n \<Longrightarrow> round_int F False n e = round_ratio F False n 1 e"
  by (simp add: round_int_def round_ratio_def)

lemma f64_add_between:
  assumes x: "fin_between (f64_val x) a b" and y: "fin_between (f64_val y) c d"
    and lo: "representable binary64 lo" "lo \<le> a + c"
    and hi: "representable binary64 hi" "b + d \<le> hi" "hi \<le> 1000000"
  shows "fin_between (f64_val (f64_add x y)) lo hi"
proof -
  from x obtain m e where m: "f64_val x = FFin False m e" "0 \<le> m" "a \<le> of_int m * pow2 e" "of_int m * pow2 e \<le> b"
    by (auto simp: fin_between_def)
  from y obtain n f where n: "f64_val y = FFin False n f" "0 \<le> n" "c \<le> of_int n * pow2 f" "of_int n * pow2 f \<le> d"
    by (auto simp: fin_between_def)
  define g where "g = min e f"
  define k where "k = m * 2 ^ nat (e - g) + n * 2 ^ nat (f - g)"
  have at: "real_of_int (i * 2 ^ nat (h - g)) * pow2 g = of_int i * pow2 h" if "g \<le> h" for i h
    using that by (simp add: pow2_nat [symmetric] mult.assoc flip: pow2_add)
  have sum: "real_of_int k * pow2 g = of_int m * pow2 e + of_int n * pow2 f"
    using at [of e m] at [of f n] by (simp only: k_def g_def distrib_right of_int_add min.cobounded1 min.cobounded2)
  have "fin_between (f64_val (f64_of (round_ratio binary64 False k 1 g))) lo hi"
    using m n lo hi by (intro f64_rounded_between) (simp_all only: sum, simp_all add: k_def)
  moreover have "0 \<le> k" using m n by (simp add: k_def)
  ultimately show ?thesis
    by (simp add: f64_add_def m n Let_def at_exponent_def round_int_nonneg flip: g_def k_def)
qed

lemma f64_of_int_between:
  assumes "0 \<le> n" "n \<le> 1000000"
  shows "fin_between (f64_val (f64_of_int n)) (of_int n) (of_int n)"
  unfolding f64_of_int_def round_int_nonneg [OF assms(1)]
  using assms by (intro f64_rounded_between representable_int) (simp_all add: binary64_def)

lemma f64_to_f32_between:
  assumes x: "fin_between (f64_val x) a b"
    and "representable binary32 lo" "lo \<le> a" "representable binary32 hi" "b \<le> hi" "hi \<le> 1000000"
  shows "fin_between (f32_val (f64_to_f32 x)) lo hi"
proof -
  from x obtain m e where m: "f64_val x = FFin False m e" "0 \<le> m" "a \<le> of_int m * pow2 e" "of_int m * pow2 e \<le> b"
    by (auto simp: fin_between_def)
  with assms have "fin_between (f32_val (f32_of (round_ratio binary32 False m 1 e))) lo hi"
    by (intro f32_rounded_between) simp_all
  then show ?thesis by (simp add: f64_to_f32_def m)
qed

lemma f32_to_f64_between:
  assumes x: "fin_between (f32_val x) a b"
    and "representable binary64 lo" "lo \<le> a" "representable binary64 hi" "b \<le> hi" "hi \<le> 1000000"
  shows "fin_between (f64_val (f32_to_f64 x)) lo hi"
proof -
  from x obtain m e where m: "f32_val x = FFin False m e" "0 \<le> m" "a \<le> of_int m * pow2 e" "of_int m * pow2 e \<le> b"
    by (auto simp: fin_between_def)
  with assms have "fin_between (f64_val (f64_of (round_ratio binary64 False m 1 e))) lo hi"
    by (intro f64_rounded_between) simp_all
  then show ?thesis by (simp add: f32_to_f64_def m)
qed

text \<open>Comparison and truncation read the value.\<close>

lemma f64_less_real:
  assumes "f64_val x = FFin False m e" "f64_val y = FFin False n f"
  shows "f64_less x y \<longleftrightarrow> of_int m * pow2 e < of_int n * pow2 f"
proof -
  define g where "g = min e f"
  have at: "real_of_int (i * 2 ^ nat (h - g)) * pow2 g = of_int i * pow2 h" if "g \<le> h" for i h
    using that by (simp add: pow2_nat [symmetric] mult.assoc flip: pow2_add)
  have "f64_less x y \<longleftrightarrow> m * 2 ^ nat (e - g) < n * 2 ^ nat (f - g)"
    by (simp add: f64_less_def assms Let_def at_exponent_def g_def)
  also have "\<dots> \<longleftrightarrow> real_of_int (m * 2 ^ nat (e - g)) * pow2 g < real_of_int (n * 2 ^ nat (f - g)) * pow2 g"
    by (simp only: mult_less_cancel_right_pos [OF pow2_pos] of_int_less_iff)
  also have "\<dots> \<longleftrightarrow> of_int m * pow2 e < of_int n * pow2 f"
    using at [of e m] at [of f n] by (simp only: g_def min.cobounded1 min.cobounded2)
  finally show ?thesis .
qed

lemma f64_to_i32_between:
  assumes "fin_between (f64_val x) (of_int lo) (of_int hi)" "0 \<le> lo" "hi \<le> 1000000"
  shows "lo \<le> sint (f64_to_i32 x) \<and> sint (f64_to_i32 x) \<le> hi"
proof -
  from assms(1) obtain m e where m: "f64_val x = FFin False m e" "0 \<le> m"
      "of_int lo \<le> of_int m * pow2 e" "of_int m * pow2 e \<le> of_int hi"
    by (auto simp: fin_between_def)
  define t where "t = (if 0 \<le> e then m * 2 ^ nat e else m div 2 ^ nat (- e))"
  have "lo \<le> t \<and> t \<le> hi"
  proof (cases "0 \<le> e")
    case True
    then have "real_of_int t = of_int m * pow2 e" by (simp add: t_def pow2_nat)
    with m have "real_of_int lo \<le> of_int t" "real_of_int t \<le> of_int hi" by simp_all
    then show ?thesis by simp
  next
    case False
    then have "pow2 e = 1 / 2 ^ nat (- e)"
      by (simp add: power_int_def field_simps)
    then have v: "of_int m * pow2 e = of_int m / of_int (2 ^ nat (- e))" by simp
    have "t = \<lfloor>of_int m * pow2 e\<rfloor>"
      unfolding v floor_divide_of_int_eq using False by (simp add: t_def)
    with m(3,4) show ?thesis by (simp add: le_floor_iff floor_le_iff)
  qed
  moreover from this assms have "- (2 ^ 31) \<le> t \<and> t < 2 ^ 31" by simp
  ultimately have "f64_to_i32 x = word_of_int t" "lo \<le> t" "t \<le> hi"
    by (simp_all add: f64_to_i32_def m t_def)
  then show ?thesis using assms by (simp add: sint_sbintrunc' signed_take_bit_int_eq_self)
qed

end
