(* ===== verification/Session.thy ===== *)
theory Session
  imports Protocol
begin

text \<open>
  The player session of \<open>internal/session/session.go\<close>: the identity bound to a connection (0 before
  login), the business data, and the callbacks to run when the connection closes. Sessions are shared by
  pointer, so a session has an address (\<open>sid\<close>) and lives in the \<open>w_sessions\<close> field of the world; a context
  carries the address. A callback is the name of a closure; closing yields the closures to run, in order.
\<close>

section \<open>The session object\<close>

datatype session_value = StringValue string | OtherValue int

type_synonym callback = nat
type_synonym sid = nat

record session =
  sess_uid :: i64
  sess_data :: "string \<rightharpoonup> session_value"
  sess_on_close :: "callback list"

definition Session_New :: session where
  "Session_New = \<lparr>sess_uid = 0, sess_data = Map.empty, sess_on_close = []\<rparr>"

definition Session_Bind :: "i64 \<Rightarrow> session \<Rightarrow> session" where
  "Session_Bind uid s = s\<lparr>sess_uid := uid\<rparr>"

definition Session_UID :: "session \<Rightarrow> i64" where
  "Session_UID s = sess_uid s"

definition Session_IsBound :: "session \<Rightarrow> bool" where
  "Session_IsBound s = (0 <s Session_UID s)"

definition Session_Set :: "string \<Rightarrow> session_value \<Rightarrow> session \<Rightarrow> session" where
  "Session_Set key value s = s\<lparr>sess_data := (sess_data s)(key \<mapsto> value)\<rparr>"

definition Session_Get :: "string \<Rightarrow> session \<Rightarrow> session_value option" where
  "Session_Get key s = sess_data s key"

definition Session_GetString :: "string \<Rightarrow> session \<Rightarrow> string" where
  "Session_GetString key s =
     (case Session_Get key s of None \<Rightarrow> []
      | Some (StringValue v) \<Rightarrow> v
      | Some _ \<Rightarrow> [])"

definition Session_OnClose :: "callback \<Rightarrow> session \<Rightarrow> session" where
  "Session_OnClose fn s = s\<lparr>sess_on_close := sess_on_close s @ [fn]\<rparr>"

text \<open>\<open>Close\<close> copies the callbacks under the lock and runs the copy in order.\<close>

definition Session_Close :: "session \<Rightarrow> callback list" where
  "Session_Close s = sess_on_close s"

lemmas session_defs [go_defs] = Session_New_def Session_Bind_def Session_UID_def Session_IsBound_def
  Session_Set_def Session_Get_def Session_GetString_def Session_OnClose_def Session_Close_def

lemma Session_UID_simps [simp]:
  "Session_UID Session_New = 0"
  "Session_UID (Session_Bind uid s) = uid"
  "Session_UID (Session_Set key v s) = Session_UID s"
  "Session_UID (Session_OnClose fn s) = Session_UID s"
  by (simp_all add: session_defs)

lemma Session_GetString_simps [simp]:
  "Session_GetString key (Session_Set key (StringValue v) s) = v"
  "key \<noteq> key' \<Longrightarrow> Session_GetString key (Session_Set key' x s) = Session_GetString key s"
  "Session_GetString key (Session_Bind uid s) = Session_GetString key s"
  by (simp_all add: session_defs)

lemma Session_Close_order:
  "Session_Close (fold Session_OnClose fns s) = Session_Close s @ fns"
  by (induction fns arbitrary: s) (simp_all add: session_defs)

section \<open>The world and the context\<close>

text \<open>The mutable state the handlers share: the session objects and the data store.\<close>

record 'db world =
  w_sessions :: "sid \<Rightarrow> session"
  w_db :: 'db

text \<open>A context: the session stored in it, if any, and the message id the kernel adds.\<close>

record go_context =
  ctx_session :: "sid option"
  ctx_msg_id :: "u16 option"

definition Background :: go_context where
  "Background = \<lparr>ctx_session = None, ctx_msg_id = None\<rparr>"

definition WithSession :: "go_context \<Rightarrow> sid \<Rightarrow> go_context" where
  "WithSession ctx s = ctx\<lparr>ctx_session := Some s\<rparr>"

definition FromContext :: "go_context \<Rightarrow> sid option" where
  "FromContext ctx = ctx_session ctx"

text \<open>\<open>uidFromCtx\<close>, which the handler packages each define: the session's player, 0 without a session.\<close>

definition uidFromCtx :: "go_context \<Rightarrow> 'db world \<Rightarrow> i64" where
  "uidFromCtx ctx w =
     (case FromContext ctx of Some s \<Rightarrow> Session_UID (w_sessions w s) | None \<Rightarrow> 0)"

lemma FromContext_simps [simp]:
  "FromContext (WithSession ctx s) = Some s" "FromContext Background = None"
  by (simp_all add: FromContext_def WithSession_def Background_def)

end
