(* ===== verification/Store.thy ===== *)
theory Store
  imports Session
begin

text \<open>
  The data layer's types and interfaces: the entities of \<open>internal/model\<close>, the session data of
  \<open>internal/store/redis.go\<close>, and the repository interfaces of \<open>internal/store/repository.go\<close> as records
  of functions over a state. A lookup's result \<open>Inr None\<close> is a nil pointer without an error.
  The locales state what a repository promises its clients; \<open>Memory_Store\<close> interprets them on the
  in-memory store.
\<close>

section \<open>Entities\<close>

record player =
  p_id :: i64
  p_open_id :: string
  p_nickname :: string
  p_avatar_url :: string
  p_token :: string
  p_best_score :: i64
  p_created_at :: go_time
  p_updated_at :: go_time

record archive =
  a_id :: i64
  a_player_id :: i64
  a_data :: "byte list"
  a_created_at :: go_time
  a_updated_at :: go_time

record score_record =
  s_id :: i64
  s_player_id :: i64
  s_score :: i64
  s_metadata :: string
  s_created_at :: go_time

record payment_order =
  o_id :: i64
  o_order_no :: string
  o_player_id :: i64
  o_product_id :: go_int
  o_amount :: i64
  o_status :: go_int
  o_created_at :: go_time
  o_updated_at :: go_time

record player_stats =
  st_id :: i64
  st_player_id :: i64
  st_level :: go_int
  st_exp :: go_int
  st_gold :: go_int
  st_max_hp :: go_int
  st_max_stamina :: go_int
  st_attack_power :: go_int
  st_best_score :: i64
  st_total_kills :: i64
  st_total_games :: i64
  st_created_at :: go_time
  st_updated_at :: go_time

record player_style =
  ps_id :: i64
  ps_player_id :: i64
  ps_style_id :: go_int
  ps_created_at :: go_time

record combat_settlement =
  c_id :: i64
  c_player_id :: i64
  c_run_id :: string
  c_response :: "byte list"
  c_created_at :: go_time

record session_data =
  sd_uid :: i64
  sd_nickname :: string
  sd_token :: string

text \<open>Struct literals that set some fields, the others zero.\<close>

definition new_player :: "string \<Rightarrow> player" where
  "new_player open_id = \<lparr>p_id = 0, p_open_id = open_id, p_nickname = [], p_avatar_url = [], p_token = [],
     p_best_score = 0, p_created_at = 0, p_updated_at = 0\<rparr>"

definition new_archive :: "i64 \<Rightarrow> byte list \<Rightarrow> archive" where
  "new_archive pid data =
     \<lparr>a_id = 0, a_player_id = pid, a_data = data, a_created_at = 0, a_updated_at = 0\<rparr>"

lemma new_player_simps [simp]:
  "p_id (new_player x) = 0" "p_open_id (new_player x) = x" "p_nickname (new_player x) = []"
  by (simp_all add: new_player_def)

lemma new_archive_simps [simp]:
  "a_player_id (new_archive p d) = p" "a_data (new_archive p d) = d"
  by (simp_all add: new_archive_def)

section \<open>Repository interfaces\<close>

definition IsNotFound :: "go_error \<Rightarrow> bool" where
  "IsNotFound e = (errors_is e ErrNotFound \<or> errors_is e GormErrRecordNotFound)"

record 'st player_repository =
  GetPlayerByID :: "i64 \<Rightarrow> 'st \<Rightarrow> go_error + player option"
  GetPlayerByOpenID :: "string \<Rightarrow> 'st \<Rightarrow> go_error + player option"
  CreatePlayer :: "player \<Rightarrow> 'st \<Rightarrow> (go_error + player) \<times> 'st"
  UpdatePlayer :: "player \<Rightarrow> 'st \<Rightarrow> go_error option \<times> 'st"

record 'st session_repository =
  SetSession :: "i64 \<Rightarrow> session_data \<Rightarrow> 'st \<Rightarrow> go_error option \<times> 'st"
  GetSession :: "i64 \<Rightarrow> 'st \<Rightarrow> go_error + session_data option"
  DelSession :: "i64 \<Rightarrow> 'st \<Rightarrow> go_error option \<times> 'st"

record 'st archive_repository =
  GetArchive :: "i64 \<Rightarrow> 'st \<Rightarrow> go_error + archive option"
  SaveArchive :: "archive \<Rightarrow> 'st \<Rightarrow> go_error option \<times> 'st"

record reward_policy =
  GoldPerKill :: go_int
  ExpPerKill :: go_int

type_synonym 'st settlement_repository =
  "i64 \<Rightarrow> combat_result_req \<Rightarrow> 'st \<Rightarrow> (go_error + combat_result_resp) \<times> 'st"

type_synonym 'st development_stats_repository = "i64 \<Rightarrow> 'st \<Rightarrow> go_error + i32"

section \<open>What repositories promise\<close>

text \<open>Archives: a save succeeds and is what a later lookup returns; other players' archives are
  untouched; a lookup of a player without an archive is a not-found error.\<close>

locale lawful_archives =
  fixes repo :: "'st archive_repository"
    and has_archive :: "'st \<Rightarrow> i64 \<Rightarrow> bool"
  assumes save_ok: "fst (SaveArchive repo a s) = None"
    and get_saved: "GetArchive repo (a_player_id a) (snd (SaveArchive repo a s)) = Inr (Some a)"
    and get_unsaved: "pid \<noteq> a_player_id a \<Longrightarrow>
      GetArchive repo pid (snd (SaveArchive repo a s)) = GetArchive repo pid s"
    and get_missing: "\<not> has_archive s pid \<Longrightarrow> \<exists>e. GetArchive repo pid s = Inl e \<and> IsNotFound e"
    and has_saved: "has_archive (snd (SaveArchive repo a s)) pid \<longleftrightarrow> pid = a_player_id a \<or> has_archive s pid"

text \<open>Sessions: setting succeeds and is read back until deleted; a lookup never fails, and a player
  without a session reads as nil.\<close>

locale lawful_sessions =
  fixes repo :: "'st session_repository"
    and sessions :: "'st \<Rightarrow> i64 \<Rightarrow> session_data option"
  assumes get_session: "GetSession repo uid s = Inr (sessions s uid)"
    and set_ok: "fst (SetSession repo uid d s) = None"
    and sessions_set: "sessions (snd (SetSession repo uid d s)) = (sessions s)(uid := Some d)"
    and del_ok: "fst (DelSession repo uid s) = None"
    and sessions_del: "sessions (snd (DelSession repo uid s)) = (sessions s)(uid := None)"

text \<open>
  Players: the table \<open>players\<close> maps ids to players with that id; \<open>inv\<close> says that open ids are unique.
  Creation takes a fresh id; creation and update refuse an open id in use by another player.
\<close>

locale lawful_players =
  fixes repo :: "'st player_repository"
    and players :: "'st \<Rightarrow> i64 \<Rightarrow> player option"
    and inv :: "'st \<Rightarrow> bool"
    and room :: "'st \<Rightarrow> bool"
  assumes players_id: "inv s \<Longrightarrow> players s i = Some p \<Longrightarrow> p_id p = i"
    and open_id_unique: "inv s \<Longrightarrow> players s i = Some p \<Longrightarrow> players s j = Some q \<Longrightarrow>
      p_open_id p = p_open_id q \<Longrightarrow> i = j"
    and get_open_id_found: "inv s \<Longrightarrow> players s i = Some p \<Longrightarrow>
      GetPlayerByOpenID repo (p_open_id p) s = Inr (Some p)"
    and get_open_id_missing: "inv s \<Longrightarrow> (\<forall>i p. players s i = Some p \<longrightarrow> p_open_id p \<noteq> x) \<Longrightarrow>
      \<exists>e. GetPlayerByOpenID repo x s = Inl e \<and> IsNotFound e"
    and create: "inv s \<Longrightarrow> room s \<Longrightarrow> (\<forall>i q. players s i = Some q \<longrightarrow> p_open_id q \<noteq> p_open_id p) \<Longrightarrow>
      \<exists>i s'. CreatePlayer repo p s = (Inr (p\<lparr>p_id := i\<rparr>), s') \<and> players s i = None \<and> 0 <s i
        \<and> players s' = (players s)(i \<mapsto> p\<lparr>p_id := i\<rparr>) \<and> inv s'"
    and update: "inv s \<Longrightarrow> players s (p_id p) = Some q \<Longrightarrow> p_open_id p = p_open_id q \<Longrightarrow>
      \<exists>s'. UpdatePlayer repo p s = (None, s') \<and> players s' = (players s)(p_id p \<mapsto> p) \<and> inv s'"

text \<open>
  What a login needs: players and sessions in one state, where writing one leaves the other alone.
\<close>

locale login_stores =
  lawful_players players_repo players inv room + lawful_sessions sessions_repo sessions
  for players_repo :: "'st player_repository" and players inv room
    and sessions_repo :: "'st session_repository" and sessions +
  assumes create_sessions: "sessions (snd (CreatePlayer players_repo p s)) = sessions s"
    and update_sessions: "sessions (snd (UpdatePlayer players_repo p s)) = sessions s"
    and set_players: "players (snd (SetSession sessions_repo uid d s)) = players s"
    and set_inv: "inv s \<Longrightarrow> inv (snd (SetSession sessions_repo uid d s))"

end
