(* ===== verification/Settlement.thy ===== *)
theory Settlement
  imports Store
begin

text \<open>
  The settlement rules of \<open>internal/store/settlement.go\<close>: validation of a reward policy, and
  \<open>settleArchive\<close>, which credits one combat run to an archive with its overflow checks, on Go's 32- and
  64-bit integers. The lemmas read the checks and the updates as integers: when a settlement succeeds,
  nothing wrapped; it succeeds exactly when the new totals fit.
\<close>

section \<open>Definitions\<close>

definition validateCombatRewardPolicy :: "reward_policy \<Rightarrow> go_error option" where
  "validateCombatRewardPolicy policy =
     (if GoldPerKill policy <s 0 \<or> ExpPerKill policy <s 0
      then Some (Text ''store: invalid combat reward policy'') else None)"

definition settleArchive ::
  "player_archive option \<Rightarrow> combat_result_req \<Rightarrow> reward_policy \<Rightarrow> go_error + combat_result_resp" where
  "settleArchive archive req policy =
     (let arch = (case archive of None \<Rightarrow> zero_archive\<lparr>pa_schema_version := 1\<rparr> | Some a \<Rightarrow> a);
          gold = to_i64 (cq_kills req) * GoldPerKill policy;
          exp = to_i64 (cq_kills req) * ExpPerKill policy
      in if max_int32 <s gold \<or> max_int32 <s exp
         then Inl (Text ''store: settlement reward overflow'')
         else if max_int32 <s to_i64 (pa_gold arch) + gold \<or> max_int32 <s to_i64 (pa_exp arch) + exp
         then Inl (Text ''store: archive reward overflow'')
         else if max_int64 - pa_total_kills arch <s to_i64 (cq_kills req) \<or> pa_total_games arch = max_int64
         then Inl (Text ''store: archive totals overflow'')
         else
           let a1 = arch\<lparr>pa_gold := pa_gold arch + to_i32 gold\<rparr>;
               a2 = a1\<lparr>pa_exp := pa_exp a1 + to_i32 exp\<rparr>;
               a3 = a2\<lparr>pa_total_kills := pa_total_kills a2 + to_i64 (cq_kills req)\<rparr>;
               a4 = a3\<lparr>pa_total_games := pa_total_games a3 + 1\<rparr>;
               a5 = (if pa_best_score a4 <s cq_score req then a4\<lparr>pa_best_score := cq_score req\<rparr> else a4);
               a6 = (if cq_outcome req = BattleOutcome_VICTORY
                        \<and> pa_highest_cleared_dungeon a5 <s cq_dungeon_level req
                     then a5\<lparr>pa_highest_cleared_dungeon := cq_dungeon_level req\<rparr> else a5);
               a7 = a6\<lparr>pa_last_style_id := cq_style_id req\<rparr>
           in Inr \<lparr>cr_success = True, cr_duplicate = False, cr_reward_gold = to_i32 gold,
                   cr_reward_exp = to_i32 exp, cr_best_score = pa_best_score a7,
                   cr_archive = Some a7, cr_run_id = cq_run_id req\<rparr>)"

section \<open>The rewards as integers\<close>

text \<open>A reward per kill that a policy may set: non-negative and within 32 bits, so that a product with a
  kill count stays within 64.\<close>

definition policy_ok :: "reward_policy \<Rightarrow> bool" where
  "policy_ok policy \<longleftrightarrow> 0 \<le> sint (GoldPerKill policy) \<and> sint (GoldPerKill policy) < 2147483648
     \<and> 0 \<le> sint (ExpPerKill policy) \<and> sint (ExpPerKill policy) < 2147483648"

lemma policy_ok_valid: "policy_ok policy \<Longrightarrow> validateCombatRewardPolicy policy = None"
  by (auto simp: policy_ok_def validateCombatRewardPolicy_def signed_defs)

lemma reward_product:
  assumes "0 \<le> sint k" "0 \<le> sint (p :: i64)" "sint p < 2147483648"
  shows "sint (to_i64 k * p) = sint k * sint p" "0 \<le> sint k * sint p"
    "sint k * sint p < 4611686018427387904"
proof -
  have "sint k * sint p \<le> 2147483647 * 2147483647"
    using assms sint_32_range [of k] by (intro mult_mono) auto
  then show lt: "sint k * sint p < 4611686018427387904" by simp
  from assms show nn: "0 \<le> sint k * sint p" by simp
  show "sint (to_i64 k * p) = sint k * sint p"
    using lt nn by (subst sint_mul_64) simp_all
qed

lemma archive_reward_sum:
  fixes g :: i32 and r :: i64
  assumes "0 \<le> sint r" "sint r < 4611686018427387904"
  shows "sint (to_i64 g + r) = sint g + sint r"
  using assms sint_32_range [of g] by (subst sint_add_64) simp_all

lemma archive_reward_add:
  fixes g :: i32 and r :: i64
  assumes "0 \<le> sint r" "sint r \<le> 2147483647" "sint g + sint r \<le> 2147483647"
  shows "sint (g + to_i32 r) = sint g + sint r"
  using assms sint_32_range [of g] by (subst sint_add_32) (simp_all add: sint_to_i32)

text \<open>
  The total-kills check: on a non-negative total it says that the sum fits; on a negative one the
  subtraction wraps around to a negative bound, and every count is refused.
\<close>

lemma totals_check:
  fixes t :: i64 and k :: i32
  assumes "0 \<le> sint k"
  shows "max_int64 - t <s to_i64 k \<longleftrightarrow> sint t < 0 \<or> 9223372036854775807 < sint t + sint k"
proof (cases "sint t < 0")
  case True
  have "sint (max_int64 - t) = 9223372036854775807 - sint t - 18446744073709551616"
  proof -
    have "sint (max_int64 - t) = signed_take_bit 63 (9223372036854775807 - sint t)"
      by (simp add: sint_word_ariths)
    also have "\<dots> = signed_take_bit 63 (9223372036854775807 - sint t - 18446744073709551616)"
      by (rule signed_take_bit_eq_iff_take_bit_eq [THEN iffD2])
         (simp add: take_bit_eq_mod mod_eq_dvd_iff)
    also have "\<dots> = 9223372036854775807 - sint t - 18446744073709551616"
      using True sint_64_range [of t] by (intro signed_take_bit_int_eq_self) simp_all
    finally show ?thesis .
  qed
  then show ?thesis using True assms sint_64_range [of t] by (simp add: signed_defs)
next
  case False
  then have "sint (max_int64 - t) = 9223372036854775807 - sint t"
    using sint_64_range [of t] by (subst sint_sub_64) simp_all
  then show ?thesis using False by (auto simp: signed_defs)
qed

section \<open>When a settlement succeeds, and what it credits\<close>

text \<open>The condition on integers: both rewards and all new totals fit their fields.\<close>

definition settlement_fits :: "player_archive \<Rightarrow> combat_result_req \<Rightarrow> reward_policy \<Rightarrow> bool" where
  "settlement_fits a req policy \<longleftrightarrow>
     (let gold = sint (cq_kills req) * sint (GoldPerKill policy);
          exp = sint (cq_kills req) * sint (ExpPerKill policy)
      in gold \<le> 2147483647 \<and> exp \<le> 2147483647
         \<and> sint (pa_gold a) + gold \<le> 2147483647 \<and> sint (pa_exp a) + exp \<le> 2147483647
         \<and> 0 \<le> sint (pa_total_kills a)
         \<and> sint (pa_total_kills a) + sint (cq_kills req) \<le> 9223372036854775807
         \<and> sint (pa_total_games a) < 9223372036854775807)"

text \<open>The archive after one run, as the integers its fields hold.\<close>

definition credited :: "player_archive \<Rightarrow> combat_result_req \<Rightarrow> reward_policy \<Rightarrow> player_archive \<Rightarrow> bool" where
  "credited a req policy b \<longleftrightarrow>
     sint (pa_gold b) = sint (pa_gold a) + sint (cq_kills req) * sint (GoldPerKill policy)
     \<and> sint (pa_exp b) = sint (pa_exp a) + sint (cq_kills req) * sint (ExpPerKill policy)
     \<and> sint (pa_total_kills b) = sint (pa_total_kills a) + sint (cq_kills req)
     \<and> sint (pa_total_games b) = sint (pa_total_games a) + 1
     \<and> sint (pa_best_score b) = max (sint (pa_best_score a)) (sint (cq_score req))
     \<and> sint (pa_highest_cleared_dungeon b) =
         (if cq_outcome req = BattleOutcome_VICTORY
          then max (sint (pa_highest_cleared_dungeon a)) (sint (cq_dungeon_level req))
          else sint (pa_highest_cleared_dungeon a))
     \<and> pa_last_style_id b = cq_style_id req
     \<and> pa_schema_version b = pa_schema_version a \<and> pa_talent_points b = pa_talent_points a
     \<and> pa_unlocked_styles b = pa_unlocked_styles a"

text \<open>The response to a fresh run, over its archive.\<close>

definition fresh_response ::
  "combat_result_req \<Rightarrow> reward_policy \<Rightarrow> player_archive \<Rightarrow> combat_result_resp \<Rightarrow> bool" where
  "fresh_response req policy b r \<longleftrightarrow>
     cr_success r \<and> \<not> cr_duplicate r \<and> cr_run_id r = cq_run_id req \<and> cr_archive r = Some b
     \<and> cr_best_score r = pa_best_score b
     \<and> sint (cr_reward_gold r) = sint (cq_kills req) * sint (GoldPerKill policy)
     \<and> sint (cr_reward_exp r) = sint (cq_kills req) * sint (ExpPerKill policy)"

lemma settleArchive_nil:
  "settleArchive None req policy = settleArchive (Some (zero_archive\<lparr>pa_schema_version := 1\<rparr>)) req policy"
  by (simp add: settleArchive_def)

lemma max_games_check: "(t = max_int64) \<longleftrightarrow> \<not> sint t < 9223372036854775807"
proof -
  have "(t = max_int64) \<longleftrightarrow> sint t = sint max_int64"
    by (metis signed_word_eqI)
  then show ?thesis using sint_64_range [of t] by auto
qed

lemma settleArchive_refused:
  assumes k: "0 \<le> sint (cq_kills req)" and pol: "policy_ok policy" and no: "\<not> settlement_fits a req policy"
  shows "\<exists>t. settleArchive (Some a) req policy = Inl (Text t)"
proof -
  note P = pol [unfolded policy_ok_def]
  note g = reward_product [OF k, of "GoldPerKill policy"] and e = reward_product [OF k, of "ExpPerKill policy"]
  from no show ?thesis
    using P g e totals_check [OF k, of "pa_total_kills a"] max_games_check [of "pa_total_games a"]
    by (auto simp: settleArchive_def settlement_fits_def Let_def signed_defs archive_reward_sum)
qed

lemma settleArchive_accepted:
  assumes k: "0 \<le> sint (cq_kills req)" and pol: "policy_ok policy" and fits: "settlement_fits a req policy"
  shows "\<exists>r b. settleArchive (Some a) req policy = Inr r \<and> fresh_response req policy b r \<and> credited a req policy b"
proof -
  note P = pol [unfolded policy_ok_def]
  define gold exp where "gold = to_i64 (cq_kills req) * GoldPerKill policy"
    and "exp = to_i64 (cq_kills req) * ExpPerKill policy"
  have g: "sint gold = sint (cq_kills req) * sint (GoldPerKill policy)" "0 \<le> sint gold"
    and e: "sint exp = sint (cq_kills req) * sint (ExpPerKill policy)" "0 \<le> sint exp"
    using reward_product [OF k, of "GoldPerKill policy"] reward_product [OF k, of "ExpPerKill policy"] P
    by (simp_all add: gold_def exp_def)
  from fits have f: "sint gold \<le> 2147483647" "sint exp \<le> 2147483647"
      "sint (pa_gold a) + sint gold \<le> 2147483647" "sint (pa_exp a) + sint exp \<le> 2147483647"
      "0 \<le> sint (pa_total_kills a)" "sint (pa_total_kills a) + sint (cq_kills req) \<le> 9223372036854775807"
      "sint (pa_total_games a) < 9223372036854775807"
    by (simp_all add: settlement_fits_def Let_def g e)
  have sums: "sint (to_i64 (pa_gold a) + gold) = sint (pa_gold a) + sint gold"
      "sint (to_i64 (pa_exp a) + exp) = sint (pa_exp a) + sint exp"
      "sint (pa_gold a + to_i32 gold) = sint (pa_gold a) + sint gold"
      "sint (pa_exp a + to_i32 exp) = sint (pa_exp a) + sint exp"
      "sint (pa_total_kills a + to_i64 (cq_kills req)) = sint (pa_total_kills a) + sint (cq_kills req)"
      "sint (pa_total_games a + 1) = sint (pa_total_games a) + 1"
      "sint (to_i32 gold) = sint gold" "sint (to_i32 exp) = sint exp"
    using f g(2) e(2) k sint_64_range [of "pa_total_games a"]
    by (simp_all add: archive_reward_sum archive_reward_add sint_add_64 sint_to_i32)
  have checks: "\<not> max_int32 <s gold" "\<not> max_int32 <s exp" "\<not> max_int32 <s to_i64 (pa_gold a) + gold"
      "\<not> max_int32 <s to_i64 (pa_exp a) + exp" "\<not> max_int64 - pa_total_kills a <s to_i64 (cq_kills req)"
      "pa_total_games a \<noteq> max_int64"
    using f totals_check [OF k, of "pa_total_kills a"] max_games_check [of "pa_total_games a"]
    by (simp_all add: signed_defs sums)
  show ?thesis
    using checks f
    by (simp add: settleArchive_def fresh_response_def credited_def Let_def flip: gold_def exp_def)
       (simp add: sums g e max_def signed_defs)
qed

section \<open>Properties\<close>



text \<open>
  An archive whose stored kill total is negative, which a client can save, can never be settled again: the
  overflow check subtracts the total from the largest 64-bit integer, which wraps around, so every run whose
  rewards fit is refused as an overflow of the totals although nothing overflows.
\<close>

theorem settleArchive_negative_total_refused:
  assumes "0 \<le> sint (cq_kills req)" and "policy_ok policy" and "sint (pa_total_kills a) < 0"
    and "settlement_fits (a\<lparr>pa_total_kills := 0\<rparr>) req policy"
  shows "settleArchive (Some a) req policy = Inl (Text ''store: archive totals overflow'')"
proof -
  note g = reward_product [OF assms(1), of "GoldPerKill policy"]
    and e = reward_product [OF assms(1), of "ExpPerKill policy"]
  from assms show ?thesis
    using g e totals_check [OF assms(1), of "pa_total_kills a"]
    by (auto simp: settleArchive_def settlement_fits_def policy_ok_def Let_def signed_defs archive_reward_sum)
qed

theorem settleArchive_negative_total_refused_witness:
  "settleArchive (Some (zero_archive\<lparr>pa_total_kills := - 1\<rparr>))
      \<lparr>cq_run_id = ''r'', cq_dungeon_level = 1, cq_score = 0, cq_kills = 0, cq_survival_time = F64 0,
       cq_style_id = 1, cq_outcome = BattleOutcome_DEFEAT, cq_player_level = 1\<rparr>
      \<lparr>GoldPerKill = 5, ExpPerKill = 10\<rparr> = Inl (Text ''store: archive totals overflow'')"
  by (rule settleArchive_negative_total_refused)
     (simp_all add: policy_ok_def settlement_fits_def zero_archive_def)

end
