(* ===== verification/Memory_Store.thy ===== *)
theory Memory_Store
  imports Settlement
begin

text \<open>
  The in-memory store of \<open>internal/store/memory_development.go\<close>: players with an open-id index, sessions,
  archives, settlements by player and run, and player levels. Every Go method takes the store's mutex for
  its whole body, so each is one function on the state. A pointer argument that may be nil is an option.
  Error texts keep the verb \<open>%q\<close> where Go prints the quoted open id.

  Shown here: creation and update keep the open-id index consistent, and the store keeps the promises of
  the repository locales, which are interpreted on it. What whole histories of operations keep is in
  \<open>Memory_History\<close>.
\<close>

section \<open>The store\<close>

record memory_store =
  nextPlayerID :: i64
  playersByID :: "i64 \<rightharpoonup> player"
  playerIDByOpenID :: "string \<rightharpoonup> i64"
  sessionsByUID :: "i64 \<rightharpoonup> session_data"
  archivesByUID :: "i64 \<rightharpoonup> archive"
  settlementPolicy :: reward_policy
  settlements :: "i64 \<times> string \<rightharpoonup> byte list"
  playerLevels :: "i64 \<rightharpoonup> i32"

text \<open>The constructor panics on an invalid policy: the left side is the panic's value.\<close>

definition NewMemoryDevelopmentStoreWithSettlementPolicy :: "reward_policy \<Rightarrow> go_error + memory_store" where
  "NewMemoryDevelopmentStoreWithSettlementPolicy policy =
     (case validateCombatRewardPolicy policy of
        Some err \<Rightarrow> Inl err
      | None \<Rightarrow> Inr \<lparr>nextPlayerID = 1, playersByID = Map.empty, playerIDByOpenID = Map.empty,
          sessionsByUID = Map.empty, archivesByUID = Map.empty, settlementPolicy = policy,
          settlements = Map.empty, playerLevels = Map.empty\<rparr>)"

definition NewMemoryDevelopmentStore :: "go_error + memory_store" where
  "NewMemoryDevelopmentStore =
     NewMemoryDevelopmentStoreWithSettlementPolicy \<lparr>GoldPerKill = 0, ExpPerKill = 0\<rparr>"

definition Mem_GetPlayerByID :: "i64 \<Rightarrow> memory_store \<Rightarrow> go_error + player" where
  "Mem_GetPlayerByID i s =
     (case playersByID s i of
        None \<Rightarrow> Inl (Wrap (''player '' @ show_i64 i @ '': '') (Sentinel ErrNotFound) [])
      | Some p \<Rightarrow> Inr p)"

definition Mem_GetPlayerByOpenID :: "string \<Rightarrow> memory_store \<Rightarrow> go_error + player" where
  "Mem_GetPlayerByOpenID open_id s =
     (case playerIDByOpenID s open_id of
        None \<Rightarrow> Inl (Wrap ''player open ID %q: '' (Sentinel ErrNotFound) [])
      | Some i \<Rightarrow>
          (case playersByID s i of
             None \<Rightarrow> Inl (Wrap ''player open ID %q: '' (Sentinel ErrNotFound) [])
           | Some p \<Rightarrow> Inr p))"

text \<open>\<open>CreatePlayer\<close> writes the new id through the pointer: the result is the caller's player after it.\<close>

definition Mem_CreatePlayer :: "player option \<Rightarrow> memory_store \<Rightarrow> (go_error + player) \<times> memory_store" where
  "Mem_CreatePlayer player s =
     (case player of
        None \<Rightarrow> (Inl (Text ''create player: nil player''), s)
      | Some p \<Rightarrow>
          if playerIDByOpenID s (p_open_id p) \<noteq> None
          then (Inl (Text ''player open ID %q already exists''), s)
          else
            let p' = p\<lparr>p_id := nextPlayerID s\<rparr>;
                s1 = s\<lparr>nextPlayerID := nextPlayerID s + 1\<rparr>;
                s2 = s1\<lparr>playersByID := (playersByID s1)(p_id p' \<mapsto> p')\<rparr>;
                s3 = s2\<lparr>playerIDByOpenID := (playerIDByOpenID s2)(p_open_id p' \<mapsto> p_id p')\<rparr>
            in (Inr p', s3))"

definition Mem_UpdatePlayer :: "player option \<Rightarrow> memory_store \<Rightarrow> go_error option \<times> memory_store" where
  "Mem_UpdatePlayer player s =
     (case player of
        None \<Rightarrow> (Some (Text ''update player: nil player''), s)
      | Some p \<Rightarrow>
          (case playersByID s (p_id p) of
             None \<Rightarrow> (Some (Wrap (''player '' @ show_i64 (p_id p) @ '': '') (Sentinel ErrNotFound) []), s)
           | Some stored \<Rightarrow>
               if (case playerIDByOpenID s (p_open_id p) of None \<Rightarrow> False | Some i \<Rightarrow> i \<noteq> p_id p)
               then (Some (Text ''player open ID %q already exists''), s)
               else
                 let s1 = (if p_open_id stored \<noteq> p_open_id p
                           then s\<lparr>playerIDByOpenID := (playerIDByOpenID s)(p_open_id stored := None)\<rparr> else s);
                     s2 = s1\<lparr>playersByID := (playersByID s1)(p_id p \<mapsto> p)\<rparr>;
                     s3 = s2\<lparr>playerIDByOpenID := (playerIDByOpenID s2)(p_open_id p \<mapsto> p_id p)\<rparr>
                 in (None, s3)))"

definition Mem_SetSession :: "i64 \<Rightarrow> session_data option \<Rightarrow> memory_store \<Rightarrow> go_error option \<times> memory_store" where
  "Mem_SetSession uid sess s =
     (case sess of
        None \<Rightarrow> (Some (Text ''set session: nil session''), s)
      | Some d \<Rightarrow> (None, s\<lparr>sessionsByUID := (sessionsByUID s)(uid \<mapsto> d)\<rparr>))"

definition Mem_GetSession :: "i64 \<Rightarrow> memory_store \<Rightarrow> go_error + session_data option" where
  "Mem_GetSession uid s = Inr (sessionsByUID s uid)"

definition Mem_DelSession :: "i64 \<Rightarrow> memory_store \<Rightarrow> go_error option \<times> memory_store" where
  "Mem_DelSession uid s = (None, s\<lparr>sessionsByUID := (sessionsByUID s)(uid := None)\<rparr>)"

definition Mem_GetArchive :: "i64 \<Rightarrow> memory_store \<Rightarrow> go_error + archive" where
  "Mem_GetArchive pid s =
     (case archivesByUID s pid of
        None \<Rightarrow> Inl (Wrap (''archive for player '' @ show_i64 pid @ '': '') (Sentinel ErrNotFound) [])
      | Some a \<Rightarrow> Inr a)"

definition Mem_SaveArchive :: "archive option \<Rightarrow> memory_store \<Rightarrow> go_error option \<times> memory_store" where
  "Mem_SaveArchive arch s =
     (case arch of
        None \<Rightarrow> (Some (Text ''save archive: nil archive''), s)
      | Some a \<Rightarrow> (None, s\<lparr>archivesByUID := (archivesByUID s)(a_player_id a \<mapsto> a)\<rparr>))"

text \<open>The zero value of a missing map key.\<close>

definition level_of :: "memory_store \<Rightarrow> i64 \<Rightarrow> i32" where
  "level_of s pid = (case playerLevels s pid of Some l \<Rightarrow> l | None \<Rightarrow> 0)"

text \<open>\<open>proto.Marshal\<close> of a typed pointer: a nil message has an empty encoding.\<close>

definition marshal_pointer :: "codec \<Rightarrow> message option \<Rightarrow> go_error + byte list" where
  "marshal_pointer C m = (case m of None \<Rightarrow> Inr [] | Some x \<Rightarrow> marshal C x)"

definition Mem_Settle ::
  "codec \<Rightarrow> i64 \<Rightarrow> combat_result_req option \<Rightarrow> memory_store \<Rightarrow> (go_error + combat_result_resp) \<times> memory_store" where
  "Mem_Settle C pid request s =
     (case request of
        None \<Rightarrow> (Inl (Text ''settle combat: nil request''), s)
      | Some req \<Rightarrow>
        let key = (pid, cq_run_id req) in
        case settlements s key of
          Some stored \<Rightarrow>
            (case unmarshal_combat_result C stored of
               Inl err \<Rightarrow> (Inl (Wrap ''decode stored settlement: '' err []), s)
             | Inr response \<Rightarrow>
                 (Inr (response\<lparr>cr_duplicate := True, cr_run_id := cq_run_id req\<rparr>), s))
        | None \<Rightarrow>
            (case (case archivesByUID s pid of
                     None \<Rightarrow> Inr (zero_archive\<lparr>pa_schema_version := 1\<rparr>)
                   | Some stored \<Rightarrow> unmarshal_archive C (a_data stored)) of
               Inl err \<Rightarrow> (Inl (Wrap [] (Sentinel ErrMalformedSettlementArchive) ('': '' @ error_text err)), s)
             | Inr arch \<Rightarrow>
                 (case settleArchive (Some arch) req (settlementPolicy s) of
                    Inl err \<Rightarrow> (Inl err, s)
                  | Inr response \<Rightarrow>
                      (case marshal_pointer C (map_option M_PlayerArchive (cr_archive response)) of
                         Inl err \<Rightarrow> (Inl (Wrap ''encode settlement archive: '' err []), s)
                       | Inr archive_data \<Rightarrow>
                           (case marshal C (M_CombatResultResp response) of
                              Inl err \<Rightarrow> (Inl (Wrap ''encode settlement response: '' err []), s)
                            | Inr response_data \<Rightarrow>
                                let s1 = s\<lparr>archivesByUID := (archivesByUID s)(pid \<mapsto> new_archive pid archive_data)\<rparr>;
                                    s2 = (if level_of s1 pid <s cq_player_level req
                                          then s1\<lparr>playerLevels := (playerLevels s1)(pid \<mapsto> cq_player_level req)\<rparr>
                                          else s1);
                                    s3 = s2\<lparr>settlements := (settlements s2)(key \<mapsto> response_data)\<rparr>
                                in (Inr response, s3))))))"

definition Mem_GetDevelopmentPlayerLevel :: "i64 \<Rightarrow> memory_store \<Rightarrow> go_error + i32" where
  "Mem_GetDevelopmentPlayerLevel pid s =
     Inr (if 0 <s level_of s pid then level_of s pid else 1)"

lemmas mem_defs [go_defs] = Mem_GetPlayerByID_def Mem_GetPlayerByOpenID_def Mem_CreatePlayer_def
  Mem_UpdatePlayer_def Mem_SetSession_def Mem_GetSession_def Mem_DelSession_def Mem_GetArchive_def
  Mem_SaveArchive_def Mem_GetDevelopmentPlayerLevel_def

section \<open>The store behind the interfaces\<close>

definition mem_players :: "memory_store player_repository" where
  "mem_players =
     \<lparr>GetPlayerByID = (\<lambda>i s. map_sum id Some (Mem_GetPlayerByID i s)),
      GetPlayerByOpenID = (\<lambda>x s. map_sum id Some (Mem_GetPlayerByOpenID x s)),
      CreatePlayer = (\<lambda>p s. Mem_CreatePlayer (Some p) s),
      UpdatePlayer = (\<lambda>p s. Mem_UpdatePlayer (Some p) s)\<rparr>"

definition mem_sessions :: "memory_store session_repository" where
  "mem_sessions =
     \<lparr>SetSession = (\<lambda>uid d s. Mem_SetSession uid (Some d) s),
      GetSession = Mem_GetSession,
      DelSession = Mem_DelSession\<rparr>"

definition mem_archives :: "memory_store archive_repository" where
  "mem_archives =
     \<lparr>GetArchive = (\<lambda>i s. map_sum id Some (Mem_GetArchive i s)),
      SaveArchive = (\<lambda>a s. Mem_SaveArchive (Some a) s)\<rparr>"

definition mem_settle :: "codec \<Rightarrow> memory_store settlement_repository" where
  "mem_settle C pid req s = Mem_Settle C pid (Some req) s"

lemmas mem_repo_defs = mem_players_def mem_sessions_def mem_archives_def mem_settle_def

interpretation mem_arch: lawful_archives mem_archives "\<lambda>s pid. archivesByUID s pid \<noteq> None"
  by unfold_locales
    (auto simp: mem_archives_def Mem_SaveArchive_def Mem_GetArchive_def IsNotFound_def)

section \<open>Consistency of the player index\<close>

text \<open>The index and the table agree; ids are positive and below the next one.\<close>

definition mem_inv :: "memory_store \<Rightarrow> bool" where
  "mem_inv s \<longleftrightarrow>
     0 < sint (nextPlayerID s)
     \<and> (\<forall>i p. playersByID s i = Some p \<longrightarrow>
          p_id p = i \<and> 0 < sint i \<and> sint i < sint (nextPlayerID s)
          \<and> playerIDByOpenID s (p_open_id p) = Some i)
     \<and> (\<forall>x i. playerIDByOpenID s x = Some i \<longrightarrow> (\<exists>p. playersByID s i = Some p \<and> p_open_id p = x))"

text \<open>The id counter has not reached the largest \<open>int64\<close>.\<close>

definition mem_room :: "memory_store \<Rightarrow> bool" where
  "mem_room s \<longleftrightarrow> sint (nextPlayerID s) < 9223372036854775807"

lemma mem_invD:
  assumes "mem_inv s" "playersByID s i = Some p"
  shows "p_id p = i" "0 < sint i" "sint i < sint (nextPlayerID s)" "playerIDByOpenID s (p_open_id p) = Some i"
  using assms by (auto simp: mem_inv_def)

lemma mem_inv_indexD:
  "mem_inv s \<Longrightarrow> playerIDByOpenID s x = Some i \<Longrightarrow> \<exists>p. playersByID s i = Some p \<and> p_open_id p = x"
  by (simp add: mem_inv_def)

lemma mem_inv_fresh: "mem_inv s \<Longrightarrow> playersByID s (nextPlayerID s) = None"
  by (cases "playersByID s (nextPlayerID s)") (auto dest: mem_invD)

lemma next_id_Suc: "mem_room s \<Longrightarrow> sint (nextPlayerID s + 1) = sint (nextPlayerID s) + 1"
  using sint_64_range [of "nextPlayerID s"] by (subst sint_add_64) (simp_all add: mem_room_def)

lemma mem_inv_create:
  assumes inv: "mem_inv s" and room: "mem_room s" and new: "playerIDByOpenID s (p_open_id p) = None"
  shows "\<exists>s'. Mem_CreatePlayer (Some p) s = (Inr (p\<lparr>p_id := nextPlayerID s\<rparr>), s') \<and> mem_inv s'
    \<and> playersByID s' = (playersByID s)(nextPlayerID s \<mapsto> p\<lparr>p_id := nextPlayerID s\<rparr>)
    \<and> sessionsByUID s' = sessionsByUID s"
proof -
  define q where "q = p\<lparr>p_id := nextPlayerID s\<rparr>"
  define s' where "s' = s\<lparr>nextPlayerID := nextPlayerID s + 1,
    playersByID := (playersByID s)(nextPlayerID s \<mapsto> q),
    playerIDByOpenID := (playerIDByOpenID s)(p_open_id p \<mapsto> nextPlayerID s)\<rparr>"
  have c: "Mem_CreatePlayer (Some p) s = (Inr q, s')"
    using new by (simp add: Mem_CreatePlayer_def s'_def q_def Let_def)
  have players: "p_id r = i \<and> 0 < sint i \<and> sint i < sint (nextPlayerID s')
      \<and> playerIDByOpenID s' (p_open_id r) = Some i" if r: "playersByID s' i = Some r" for i r
  proof (cases "i = nextPlayerID s")
    case True
    with r have "r = q" by (simp add: s'_def)
    moreover have "0 < sint (nextPlayerID s)" using inv by (simp add: mem_inv_def)
    ultimately show ?thesis using True next_id_Suc [OF room] by (simp add: s'_def q_def)
  next
    case False
    with r have old: "playersByID s i = Some r" by (simp add: s'_def)
    with new mem_invD(4) [OF inv old] have "p_open_id r \<noteq> p_open_id p" by auto
    with mem_invD [OF inv old] next_id_Suc [OF room] show ?thesis by (simp add: s'_def)
  qed
  have index: "\<exists>r. playersByID s' i = Some r \<and> p_open_id r = x"
    if x: "playerIDByOpenID s' x = Some i" for x i
  proof (cases "x = p_open_id p")
    case True
    with x show ?thesis by (simp add: s'_def q_def)
  next
    case False
    with x have "playerIDByOpenID s x = Some i" by (simp add: s'_def)
    then obtain r where "playersByID s i = Some r" "p_open_id r = x"
      using mem_inv_indexD [OF inv] by blast
    with mem_inv_fresh [OF inv] show ?thesis by (auto simp: s'_def)
  qed
  have "0 < sint (nextPlayerID s')"
    using inv next_id_Suc [OF room] by (simp add: s'_def mem_inv_def)
  then have i: "mem_inv s'" unfolding mem_inv_def using players index by blast
  from c i show ?thesis by (auto simp: s'_def q_def)
qed

lemma mem_create_taken:
  "playerIDByOpenID s (p_open_id p) \<noteq> None \<Longrightarrow> \<exists>e. Mem_CreatePlayer (Some p) s = (Inl e, s)"
  by (auto simp: Mem_CreatePlayer_def)

text \<open>An update of an existing player, to an open id that no other player has.\<close>

lemma mem_update_ok:
  assumes "playersByID s (p_id p) = Some q"
    and "playerIDByOpenID s (p_open_id p) = None \<or> playerIDByOpenID s (p_open_id p) = Some (p_id p)"
  shows "Mem_UpdatePlayer (Some p) s =
    (None, s\<lparr>playersByID := (playersByID s)(p_id p \<mapsto> p),
       playerIDByOpenID := (if p_open_id q \<noteq> p_open_id p
          then (playerIDByOpenID s)(p_open_id q := None) else playerIDByOpenID s)(p_open_id p \<mapsto> p_id p)\<rparr>)"
  using assms by (auto simp: Mem_UpdatePlayer_def Let_def)

lemma mem_update_refused:
  assumes "playersByID s (p_id p) = None
    \<or> (playerIDByOpenID s (p_open_id p) \<noteq> None \<and> playerIDByOpenID s (p_open_id p) \<noteq> Some (p_id p))"
  shows "\<exists>e. Mem_UpdatePlayer (Some p) s = (Some e, s)"
  using assms by (auto simp: Mem_UpdatePlayer_def split: option.splits)

lemma mem_inv_update:
  assumes inv: "mem_inv s" and upd: "Mem_UpdatePlayer (Some p) s = (e, s')"
  shows "mem_inv s'"
proof (cases "playersByID s (p_id p) = None
    \<or> (playerIDByOpenID s (p_open_id p) \<noteq> None \<and> playerIDByOpenID s (p_open_id p) \<noteq> Some (p_id p))")
  case True
  with mem_update_refused [of s p] upd inv show ?thesis by auto
next
  case False
  then obtain q where q: "playersByID s (p_id p) = Some q"
    and free: "playerIDByOpenID s (p_open_id p) = None \<or> playerIDByOpenID s (p_open_id p) = Some (p_id p)"
    by auto
  have s': "s' = s\<lparr>playersByID := (playersByID s)(p_id p \<mapsto> p),
       playerIDByOpenID := (if p_open_id q \<noteq> p_open_id p
          then (playerIDByOpenID s)(p_open_id q := None) else playerIDByOpenID s)(p_open_id p \<mapsto> p_id p)\<rparr>"
    using mem_update_ok [OF q free] upd by simp
  have players: "p_id r = i \<and> 0 < sint i \<and> sint i < sint (nextPlayerID s')
      \<and> playerIDByOpenID s' (p_open_id r) = Some i" if r: "playersByID s' i = Some r" for i r
  proof (cases "i = p_id p")
    case True
    with r mem_invD(2,3) [OF inv q] show ?thesis by (simp add: s')
  next
    case False
    with r have old: "playersByID s i = Some r" by (simp add: s')
    have "p_open_id r \<noteq> p_open_id p" "p_open_id r \<noteq> p_open_id q"
      using mem_invD(4) [OF inv old] mem_invD(4) [OF inv q] free False by auto
    with mem_invD [OF inv old] show ?thesis by (simp add: s')
  qed
  have index: "\<exists>r. playersByID s' i = Some r \<and> p_open_id r = x"
    if x: "playerIDByOpenID s' x = Some i" for x i
  proof (cases "x = p_open_id p")
    case True
    with x show ?thesis by (simp add: s')
  next
    case False
    with x have old: "playerIDByOpenID s x = Some i" and "x \<noteq> p_open_id q"
      by (auto simp: s' split: if_splits)
    then obtain r where "playersByID s i = Some r" "p_open_id r = x"
      using mem_inv_indexD [OF inv] by blast
    moreover from this \<open>x \<noteq> p_open_id q\<close> q have "i \<noteq> p_id p" by auto
    ultimately show ?thesis by (simp add: s')
  qed
  have "0 < sint (nextPlayerID s')" using inv by (simp add: s' mem_inv_def)
  then show ?thesis unfolding mem_inv_def using players index by blast
qed

section \<open>The interpretations for players and sessions\<close>

lemma mem_find_open_id:
  "mem_inv s \<Longrightarrow> playersByID s i = Some p \<Longrightarrow> Mem_GetPlayerByOpenID (p_open_id p) s = Inr p"
  by (simp add: Mem_GetPlayerByOpenID_def mem_invD(4))

lemma mem_find_no_open_id:
  assumes "mem_inv s" "\<forall>i p. playersByID s i = Some p \<longrightarrow> p_open_id p \<noteq> x"
  shows "playerIDByOpenID s x = None"
  using assms mem_inv_indexD [of s x] by (cases "playerIDByOpenID s x") auto

lemma mem_create_sessions: "sessionsByUID (snd (Mem_CreatePlayer p s)) = sessionsByUID s"
  by (auto simp: Mem_CreatePlayer_def Let_def split: option.splits)

lemma mem_update_sessions: "sessionsByUID (snd (Mem_UpdatePlayer p s)) = sessionsByUID s"
  by (auto simp: Mem_UpdatePlayer_def Let_def split: option.splits)

lemma mem_inv_frame:
  "mem_inv s \<Longrightarrow> playersByID s' = playersByID s \<Longrightarrow> playerIDByOpenID s' = playerIDByOpenID s \<Longrightarrow>
   nextPlayerID s' = nextPlayerID s \<Longrightarrow> mem_inv s'"
  by (simp add: mem_inv_def)

interpretation mem_login: login_stores mem_players playersByID mem_inv mem_room mem_sessions sessionsByUID
proof unfold_locales
  fix s i p assume "mem_inv s" "playersByID s i = Some p"
  then show "p_id p = i" by (rule mem_invD)
next
  fix s i p j q
  assume "mem_inv s" "playersByID s i = Some p" "playersByID s j = Some q" "p_open_id p = p_open_id q"
  then show "i = j" using mem_invD(4) by (metis option.inject)
next
  fix s i p assume "mem_inv s" "playersByID s i = Some p"
  then show "GetPlayerByOpenID mem_players (p_open_id p) s = Inr (Some p)"
    by (simp add: mem_players_def mem_find_open_id)
next
  fix s x assume "mem_inv s" "\<forall>i p. playersByID s i = Some p \<longrightarrow> p_open_id p \<noteq> x"
  then have "playerIDByOpenID s x = None" by (rule mem_find_no_open_id)
  then show "\<exists>e. GetPlayerByOpenID mem_players x s = Inl e \<and> IsNotFound e"
    by (simp add: mem_players_def Mem_GetPlayerByOpenID_def IsNotFound_def)
next
  fix s :: memory_store and p :: player
  assume inv: "mem_inv s" and room: "mem_room s"
    and new: "\<forall>i q. playersByID s i = Some q \<longrightarrow> p_open_id q \<noteq> p_open_id p"
  from mem_find_no_open_id [OF inv new] mem_inv_create [OF inv room]
  obtain s' where "Mem_CreatePlayer (Some p) s = (Inr (p\<lparr>p_id := nextPlayerID s\<rparr>), s')" "mem_inv s'"
    "playersByID s' = (playersByID s)(nextPlayerID s \<mapsto> p\<lparr>p_id := nextPlayerID s\<rparr>)" by blast
  moreover have "0 <s nextPlayerID s" using inv by (simp add: mem_inv_def signed_defs)
  ultimately show "\<exists>i s'. CreatePlayer mem_players p s = (Inr (p\<lparr>p_id := i\<rparr>), s') \<and> playersByID s i = None
      \<and> 0 <s i \<and> playersByID s' = (playersByID s)(i \<mapsto> p\<lparr>p_id := i\<rparr>) \<and> mem_inv s'"
    using mem_inv_fresh [OF inv] by (intro exI [of _ "nextPlayerID s"] exI [of _ s']) (simp add: mem_players_def)
next
  fix s :: memory_store and p q :: player
  assume inv: "mem_inv s" and q: "playersByID s (p_id p) = Some q" and same: "p_open_id p = p_open_id q"
  from same mem_invD(4) [OF inv q] have "playerIDByOpenID s (p_open_id p) = Some (p_id p)" by simp
  from mem_update_ok [OF q disjI2 [OF this]]
  obtain s' where s': "Mem_UpdatePlayer (Some p) s = (None, s')" "playersByID s' = (playersByID s)(p_id p \<mapsto> p)"
    by simp
  with mem_inv_update [OF inv s'(1)]
  show "\<exists>s'. UpdatePlayer mem_players p s = (None, s') \<and> playersByID s' = (playersByID s)(p_id p \<mapsto> p) \<and> mem_inv s'"
    by (intro exI [of _ s']) (simp add: mem_players_def)
qed (auto simp: mem_sessions_def mem_players_def Mem_GetSession_def Mem_SetSession_def Mem_DelSession_def
       mem_create_sessions mem_update_sessions mem_inv_def)

end
