(* ===== verification/Sample_Codec.thy ===== *)
theory Sample_Codec
  imports Messages
begin

text \<open>
  A concrete codec for the witnesses: a message of a fixed table of at most 256 messages is encoded as its
  position, one byte; any other message is refused. It satisfies the laws of \<open>Messages\<close>.
\<close>

fun position :: "message list \<Rightarrow> message \<Rightarrow> nat option" where
  "position [] m = None"
| "position (x # xs) m = (if x = m then Some 0 else map_option Suc (position xs m))"

lemma position_nth: "position xs m = Some i \<Longrightarrow> i < length xs \<and> xs ! i = m"
  by (induction xs arbitrary: i) (auto split: if_splits)

definition table_codec :: "message list \<Rightarrow> codec" where
  "table_codec ms =
     \<lparr>marshal = (\<lambda>m. case position ms m of
         Some i \<Rightarrow> Inr [word_of_nat i]
       | None \<Rightarrow> Inl (External ''proto: unsupported message'')),
      unmarshal = (\<lambda>t bs. case bs of
         [b] \<Rightarrow> if unat b < length ms \<and> type_of_message (ms ! unat b) = t then Inr (ms ! unat b)
                else Inl (External ''proto: cannot parse'')
       | _ \<Rightarrow> Inl (External ''proto: cannot parse''))\<rparr>"

lemma marshal_table:
  "marshal (table_codec ms) m = (case position ms m of
     Some i \<Rightarrow> Inr [word_of_nat i] | None \<Rightarrow> Inl (External ''proto: unsupported message''))"
  by (simp add: table_codec_def)

lemma unmarshal_table:
  "unmarshal (table_codec ms) t [b] =
     (if unat b < length ms \<and> type_of_message (ms ! unat b) = t then Inr (ms ! unat b)
      else Inl (External ''proto: cannot parse''))"
  by (simp add: table_codec_def)

lemma table_codec_typed: "codec_typed (table_codec ms)"
  by (auto simp: codec_typed_def table_codec_def split: list.splits if_splits)

lemma table_codec_roundtrip:
  assumes "length ms \<le> 256"
  shows "codec_roundtrip (table_codec ms)"
  unfolding codec_roundtrip_def
proof (intro allI impI)
  fix m bs assume "marshal (table_codec ms) m = Inr bs"
  then obtain i where i: "position ms m = Some i" "bs = [word_of_nat i]"
    by (auto simp: marshal_table split: option.splits)
  then have "i < length ms" "ms ! i = m" using position_nth by blast+
  moreover from this assms have "unat (word_of_nat i :: byte) = i"
    by (simp add: unat_of_nat)
  ultimately show "unmarshal (table_codec ms) (type_of_message m) bs = Inr m"
    using i by (simp add: unmarshal_table)
qed

end
