(* ===== verification/Memory_History.thy ===== *)
theory Memory_History
  imports Memory_Store Sample_Codec
begin

text \<open>
  Histories of the in-memory store: sequences of its state-changing operations, in the order in which the
  store's mutex serialises them. Shown here: the open-id index stays consistent; a run is settled once, and
  every later attempt at it, whatever happened in between, returns the first response marked as a duplicate
  and changes nothing; a sequence of settlements credits exactly its distinct runs.
\<close>

section \<open>Histories of operations\<close>

datatype mem_op =
    Op_CreatePlayer "player option"
  | Op_UpdatePlayer "player option"
  | Op_SetSession i64 "session_data option"
  | Op_DelSession i64
  | Op_SaveArchive "archive option"
  | Op_Settle i64 "combat_result_req option"

fun mem_exec :: "codec \<Rightarrow> mem_op \<Rightarrow> memory_store \<Rightarrow> memory_store" where
  "mem_exec C (Op_CreatePlayer p) s = snd (Mem_CreatePlayer p s)"
| "mem_exec C (Op_UpdatePlayer p) s = snd (Mem_UpdatePlayer p s)"
| "mem_exec C (Op_SetSession uid d) s = snd (Mem_SetSession uid d s)"
| "mem_exec C (Op_DelSession uid) s = snd (Mem_DelSession uid s)"
| "mem_exec C (Op_SaveArchive a) s = snd (Mem_SaveArchive a s)"
| "mem_exec C (Op_Settle pid req) s = snd (Mem_Settle C pid req s)"

fun mem_run :: "codec \<Rightarrow> mem_op list \<Rightarrow> memory_store \<Rightarrow> memory_store" where
  "mem_run C [] s = s"
| "mem_run C (op # ops) s = mem_run C ops (mem_exec C op s)"

text \<open>What a settlement leaves alone, whatever its outcome.\<close>

lemma Mem_Settle_frame:
  "nextPlayerID (snd (Mem_Settle C pid req s)) = nextPlayerID s"
  "playersByID (snd (Mem_Settle C pid req s)) = playersByID s"
  "playerIDByOpenID (snd (Mem_Settle C pid req s)) = playerIDByOpenID s"
  "sessionsByUID (snd (Mem_Settle C pid req s)) = sessionsByUID s"
  "settlementPolicy (snd (Mem_Settle C pid req s)) = settlementPolicy s"
  by (simp_all add: Mem_Settle_def Let_def split: option.splits sum.splits)

lemma mem_exec_next_id:
  assumes "mem_room s"
  shows "sint (nextPlayerID (mem_exec C op s)) \<le> sint (nextPlayerID s) + 1"
  using next_id_Suc [OF assms]
  by (cases op) (auto simp: go_defs Mem_Settle_frame Let_def split: option.splits)

lemma mem_exec_inv:
  assumes inv: "mem_inv s" and room: "mem_room s"
  shows "mem_inv (mem_exec C op s)"
proof (cases op)
  case (Op_CreatePlayer p)
  show ?thesis
  proof (cases p)
    case None
    with inv Op_CreatePlayer show ?thesis by (simp add: Mem_CreatePlayer_def)
  next
    case (Some q)
    show ?thesis
    proof (cases "playerIDByOpenID s (p_open_id q)")
      case None
      with mem_inv_create [OF inv room None] Op_CreatePlayer Some show ?thesis by auto
    next
      case (Some i)
      with mem_create_taken [of s q] inv Op_CreatePlayer \<open>p = Some q\<close> show ?thesis by auto
    qed
  qed
next
  case (Op_UpdatePlayer p)
  show ?thesis
  proof (cases p)
    case None
    with inv Op_UpdatePlayer show ?thesis by (simp add: Mem_UpdatePlayer_def)
  next
    case (Some q)
    with mem_inv_update [OF inv, of q] Op_UpdatePlayer show ?thesis
      by (cases "Mem_UpdatePlayer (Some q) s") simp
  qed
next
  case (Op_Settle pid req)
  then show ?thesis by (intro mem_inv_frame [OF inv]) (simp_all add: Mem_Settle_frame)
next
  case (Op_SetSession uid d)
  then show ?thesis
    by (intro mem_inv_frame [OF inv]) (simp_all add: Mem_SetSession_def split: option.split)
next
  case (Op_DelSession uid)
  then show ?thesis by (intro mem_inv_frame [OF inv]) (simp_all add: Mem_DelSession_def)
next
  case (Op_SaveArchive a)
  then show ?thesis
    by (intro mem_inv_frame [OF inv]) (simp_all add: Mem_SaveArchive_def split: option.split)
qed

lemma mem_run_append: "mem_run C (ops @ ops') s = mem_run C ops' (mem_run C ops s)"
  by (induction ops arbitrary: s) simp_all

lemma mem_run_next_id:
  assumes "sint (nextPlayerID s) + int (length ops) \<le> 9223372036854775807"
  shows "sint (nextPlayerID (mem_run C ops s)) \<le> sint (nextPlayerID s) + int (length ops)"
  using assms
proof (induction ops arbitrary: s)
  case (Cons op ops)
  then have "sint (nextPlayerID (mem_exec C op s)) \<le> sint (nextPlayerID s) + 1"
    by (intro mem_exec_next_id) (simp add: mem_room_def)
  with Cons.IH [of "mem_exec C op s"] Cons.prems show ?case by simp
qed simp

lemma mem_run_policy: "settlementPolicy (mem_run C ops s) = settlementPolicy s"
proof (induction ops arbitrary: s)
  case (Cons op ops)
  then show ?case
    by (cases op) (simp_all add: go_defs Mem_Settle_frame Let_def split: option.split)
qed simp

lemma mem_run_inv:
  assumes "mem_inv s" "sint (nextPlayerID s) + int (length ops) \<le> 9223372036854775807"
  shows "mem_inv (mem_run C ops s)"
  using assms
proof (induction ops arbitrary: s)
  case (Cons op ops)
  from Cons.prems(2) have room: "mem_room s" by (simp add: mem_room_def)
  have "sint (nextPlayerID (mem_exec C op s)) + int (length ops) \<le> 9223372036854775807"
    using Cons.prems(2) mem_exec_next_id [OF room, of C op] by simp
  with Cons.IH [OF mem_exec_inv [OF Cons.prems(1) room]] show ?case by simp
qed simp

lemma new_store_inv:
  "NewMemoryDevelopmentStoreWithSettlementPolicy policy = Inr s \<Longrightarrow> mem_inv s \<and> nextPlayerID s = 1"
  by (auto simp: NewMemoryDevelopmentStoreWithSettlementPolicy_def mem_inv_def split: option.splits)

section \<open>One settlement\<close>

text \<open>The archive a settlement starts from.\<close>

definition mem_archive :: "codec \<Rightarrow> i64 \<Rightarrow> memory_store \<Rightarrow> go_error + player_archive" where
  "mem_archive C pid s =
     (case archivesByUID s pid of
        None \<Rightarrow> Inr (zero_archive\<lparr>pa_schema_version := 1\<rparr>)
      | Some stored \<Rightarrow> unmarshal_archive C (a_data stored))"

text \<open>A successful settlement is a replay of a stored response or a fresh one.\<close>

lemma Mem_Settle_Inr_cases:
  assumes "Mem_Settle C pid (Some req) s = (Inr r, s')"
  obtains (replay) stored r0 where "settlements s (pid, cq_run_id req) = Some stored"
      "unmarshal_combat_result C stored = Inr r0"
      "r = r0\<lparr>cr_duplicate := True, cr_run_id := cq_run_id req\<rparr>" "s' = s"
  | (fresh) a da dr where "settlements s (pid, cq_run_id req) = None" "mem_archive C pid s = Inr a"
      "settleArchive (Some a) req (settlementPolicy s) = Inr r"
      "marshal_pointer C (map_option M_PlayerArchive (cr_archive r)) = Inr da"
      "marshal C (M_CombatResultResp r) = Inr dr"
      "settlements s' = (settlements s)((pid, cq_run_id req) \<mapsto> dr)"
      "archivesByUID s' = (archivesByUID s)(pid \<mapsto> new_archive pid da)"
  using assms by (auto simp: Mem_Settle_def mem_archive_def Let_def split: option.splits sum.splits)

lemma Mem_Settle_error_unchanged:
  "Mem_Settle C pid req s = (Inl e, s') \<Longrightarrow> s' = s"
  by (auto simp: Mem_Settle_def Let_def split: option.splits sum.splits)

lemma settleArchive_response:
  assumes "settleArchive a req policy = Inr r"
  shows "cr_run_id r = cq_run_id req" "\<not> cr_duplicate r" "cr_success r" "\<exists>b. cr_archive r = Some b"
  using assms by (auto simp: settleArchive_def Let_def split: if_splits)

lemma Mem_Settle_levels:
  "(playerLevels (snd (Mem_Settle C pid req s)))(pid := None) = (playerLevels s)(pid := None)"
  by (simp add: Mem_Settle_def Let_def split: option.splits sum.splits)

text \<open>An entry of the settlement table is never removed or changed.\<close>

lemma Mem_Settle_keeps:
  "settlements s key = Some d \<Longrightarrow> settlements (snd (Mem_Settle C pid req s)) key = Some d"
  by (auto simp: Mem_Settle_def Let_def split: option.splits sum.splits)

lemma mem_exec_keeps:
  "settlements s key = Some d \<Longrightarrow> settlements (mem_exec C op s) key = Some d"
  by (cases op) (auto simp: go_defs Mem_Settle_keeps Let_def split: option.splits)

lemma mem_run_keeps:
  "settlements s key = Some d \<Longrightarrow> settlements (mem_run C ops s) key = Some d"
  by (induction ops arbitrary: s) (auto simp: mem_exec_keeps)

lemma Mem_Settle_replay:
  assumes "settlements s (pid, cq_run_id req) = Some d" "unmarshal_combat_result C d = Inr r"
  shows "Mem_Settle C pid (Some req) s = (Inr (r\<lparr>cr_duplicate := True, cr_run_id := cq_run_id req\<rparr>), s)"
  using assms by (simp add: Mem_Settle_def)

lemma Mem_Settle_again:
  assumes rt: "codec_roundtrip C"
    and first: "Mem_Settle C pid (Some req) s = (Inr r, s1)"
    and same: "cq_run_id again = cq_run_id req"
  shows "Mem_Settle C pid (Some again) (mem_run C ops s1) =
    (Inr (r\<lparr>cr_duplicate := True\<rparr>), mem_run C ops s1)"
  using first
proof (cases rule: Mem_Settle_Inr_cases)
  case (replay stored r0)
  with mem_run_keeps [of s _ stored C ops] same show ?thesis by (simp add: Mem_Settle_replay)
next
  case (fresh a da dr)
  then have "settlements (mem_run C ops s1) (pid, cq_run_id again) = Some dr"
    by (simp add: mem_run_keeps same)
  with Mem_Settle_replay [OF _ unmarshal_combat_result_marshal [OF rt fresh(5)]]
  have "Mem_Settle C pid (Some again) (mem_run C ops s1) =
      (Inr (r\<lparr>cr_duplicate := True, cr_run_id := cq_run_id again\<rparr>), mem_run C ops s1)" by blast
  moreover have "r\<lparr>cr_duplicate := True, cr_run_id := cq_run_id again\<rparr> = r\<lparr>cr_duplicate := True\<rparr>"
    using settleArchive_response(1) [OF fresh(3)] same by (cases r) simp
  ultimately show ?thesis by simp
qed

section \<open>A sequence of settlements of one player\<close>

text \<open>The requests that are credited, and the final state.\<close>

fun settle_all :: "codec \<Rightarrow> i64 \<Rightarrow> combat_result_req list \<Rightarrow> memory_store \<Rightarrow>
    combat_result_req list \<times> memory_store" where
  "settle_all C pid [] s = ([], s)"
| "settle_all C pid (req # reqs) s =
     (case Mem_Settle C pid (Some req) s of
        (r, s1) \<Rightarrow>
          (case settle_all C pid reqs s1 of
             (done, s2) \<Rightarrow>
               ((case r of Inr x \<Rightarrow> if cr_duplicate x then done else req # done | Inl _ \<Rightarrow> done), s2)))"

text \<open>A sequence of credited runs, as a chain of archives.\<close>

fun credited_all :: "player_archive \<Rightarrow> combat_result_req list \<Rightarrow> reward_policy \<Rightarrow> player_archive \<Rightarrow> bool" where
  "credited_all a [] policy b = (b = a)"
| "credited_all a (req # reqs) policy b = (\<exists>c. credited a req policy c \<and> credited_all c reqs policy b)"

lemma credited_all_sums:
  "credited_all a reqs policy b \<Longrightarrow>
     sint (pa_gold b) = sint (pa_gold a) + sint (GoldPerKill policy) * (\<Sum>r\<leftarrow>reqs. sint (cq_kills r))
   \<and> sint (pa_exp b) = sint (pa_exp a) + sint (ExpPerKill policy) * (\<Sum>r\<leftarrow>reqs. sint (cq_kills r))
   \<and> sint (pa_total_kills b) = sint (pa_total_kills a) + (\<Sum>r\<leftarrow>reqs. sint (cq_kills r))
   \<and> sint (pa_total_games b) = sint (pa_total_games a) + int (length reqs)"
  by (induction reqs arbitrary: a) (fastforce simp: credited_def algebra_simps)+

lemma settle_fresh_archive:
  assumes rt: "codec_roundtrip C" and pol: "policy_ok (settlementPolicy s)"
    and k: "0 \<le> sint (cq_kills req)" and a: "mem_archive C pid s = Inr a"
    and st: "Mem_Settle C pid (Some req) s = (Inr r, s')" and nd: "\<not> cr_duplicate r"
  shows "\<exists>b. mem_archive C pid s' = Inr b \<and> credited a req (settlementPolicy s) b"
    "settlements s (pid, cq_run_id req) = None" "settlements s' (pid, cq_run_id req) \<noteq> None"
proof -
  from st nd obtain a' da dr where f: "settlements s (pid, cq_run_id req) = None"
      "mem_archive C pid s = Inr a'" "settleArchive (Some a') req (settlementPolicy s) = Inr r"
      "marshal_pointer C (map_option M_PlayerArchive (cr_archive r)) = Inr da"
      "settlements s' = (settlements s)((pid, cq_run_id req) \<mapsto> dr)"
      "archivesByUID s' = (archivesByUID s)(pid \<mapsto> new_archive pid da)"
    by (cases rule: Mem_Settle_Inr_cases) auto
  from f(2) a have "a' = a" by simp
  with f(3) settleArchive_accepted [OF k pol, of a] settleArchive_refused [OF k pol, of a]
  obtain b where b: "fresh_response req (settlementPolicy s) b r" "credited a req (settlementPolicy s) b"
    by fastforce
  then have "marshal C (M_PlayerArchive b) = Inr da"
    using f(4) by (simp add: fresh_response_def marshal_pointer_def)
  then have "mem_archive C pid s' = Inr b"
    using unmarshal_archive_marshal [OF rt] f(6) by (simp add: mem_archive_def)
  with b(2) show "\<exists>b. mem_archive C pid s' = Inr b \<and> credited a req (settlementPolicy s) b" by blast
  from f show "settlements s (pid, cq_run_id req) = None" "settlements s' (pid, cq_run_id req) \<noteq> None"
    by simp_all
qed

lemma settle_not_fresh:
  "Mem_Settle C pid (Some req) s = (r, s') \<Longrightarrow> (case r of Inr x \<Rightarrow> cr_duplicate x | Inl _ \<Rightarrow> True) \<Longrightarrow> s' = s"
  using Mem_Settle_error_unchanged Mem_Settle_Inr_cases settleArchive_response(2)
  by (cases r) (auto, metis)

lemma settle_all_chain:
  assumes rt: "codec_roundtrip C" and pol: "policy_ok (settlementPolicy s)"
    and k: "\<forall>req\<in>set reqs. 0 \<le> sint (cq_kills req)" and a: "mem_archive C pid s = Inr a"
    and all: "settle_all C pid reqs s = (done, s')"
  shows "(\<exists>b. mem_archive C pid s' = Inr b \<and> credited_all a done (settlementPolicy s) b)
    \<and> distinct (map cq_run_id done)
    \<and> (\<forall>req\<in>set done. settlements s (pid, cq_run_id req) = None)"
  using assms
proof (induction reqs arbitrary: s a "done")
  case (Cons req reqs)
  obtain r s1 where st: "Mem_Settle C pid (Some req) s = (r, s1)" by fastforce
  obtain rest s2 where rest: "settle_all C pid reqs s1 = (rest, s2)" by fastforce
  from Cons.prems(5) st rest have s': "s' = s2" and
    dn: "done = (case r of Inr x \<Rightarrow> if cr_duplicate x then rest else req # rest | Inl _ \<Rightarrow> rest)" by auto
  have pol1: "settlementPolicy s1 = settlementPolicy s"
    using Mem_Settle_frame(5) [of C pid "Some req" s] st by simp
  show ?case
  proof (cases "case r of Inr x \<Rightarrow> cr_duplicate x | Inl _ \<Rightarrow> True")
    case True
    with settle_not_fresh [OF st] have "s1 = s" by blast
    moreover from True dn have "done = rest" by (auto split: sum.splits)
    ultimately show ?thesis using Cons.IH [of s a rest] Cons.prems rest s' by simp
  next
    case False
    then obtain x where x: "r = Inr x" "\<not> cr_duplicate x" by (auto split: sum.splits)
    note fr = settle_fresh_archive [OF Cons.prems(1,2) _ Cons.prems(4) st [unfolded x(1)] x(2)]
    from Cons.prems(3) have k: "0 \<le> sint (cq_kills req)" by simp
    obtain c where c: "mem_archive C pid s1 = Inr c" "credited a req (settlementPolicy s) c"
      using fr(1) [OF k] by blast
    have ih: "(\<exists>b. mem_archive C pid s2 = Inr b \<and> credited_all c rest (settlementPolicy s) b)
        \<and> distinct (map cq_run_id rest) \<and> (\<forall>q\<in>set rest. settlements s1 (pid, cq_run_id q) = None)"
      using Cons.IH [of s1 c rest] Cons.prems(1-3) c(1) rest pol1 s' by simp
    have old: "settlements s (pid, cq_run_id q) = None" if "q \<in> set rest" for q
      using ih that Mem_Settle_keeps [of s _ _ C pid "Some req"] st
      by (cases "settlements s (pid, cq_run_id q)") fastforce+
    have "cq_run_id req \<notin> cq_run_id ` set rest"
      using ih fr(3) [OF k] by (auto simp: image_iff)
    with ih c(2) old fr(2) [OF k] s' dn x show ?thesis by auto
  qed
qed auto

section \<open>Properties\<close>

text \<open>
  A run is settled once. After a successful settlement of a run, and any further operations of the store
  (other settlements, archive saves by the client, player and session writes), settling the same run for the
  same player again changes nothing and returns the first response with the duplicate mark.
\<close>

theorem settle_is_idempotent:
  assumes rt: "codec_roundtrip C"
    and first: "Mem_Settle C pid (Some req) s = (Inr r, s1)"
    and same: "cq_run_id again = cq_run_id req"
  shows "Mem_Settle C pid (Some again) (mem_run C ops s1) =
    (Inr (r\<lparr>cr_duplicate := True\<rparr>), mem_run C ops s1)"
  using Mem_Settle_again [OF rt first same] .

text \<open>
  C2: A sequence of settlements of one player, with any repetitions and any that fail, credits exactly the runs
  whose response is a success without the duplicate mark: these have distinct run ids, and the stored archive
  afterwards has gold, experience, kills and games equal to the old values plus the sums over these runs,
  as integers, without wrap-around.
\<close>

theorem settlements_credit_exactly_once:
  assumes "codec_roundtrip C" and "policy_ok (settlementPolicy s)"
    and "\<forall>req\<in>set reqs. 0 \<le> sint (cq_kills req)" and "mem_archive C pid s = Inr a"
    and "settle_all C pid reqs s = (done, s')"
  shows "distinct (map cq_run_id done) \<and>
    (\<exists>b. mem_archive C pid s' = Inr b
      \<and> sint (pa_gold b) = sint (pa_gold a)
          + sint (GoldPerKill (settlementPolicy s)) * (\<Sum>r\<leftarrow>done. sint (cq_kills r))
      \<and> sint (pa_exp b) = sint (pa_exp a)
          + sint (ExpPerKill (settlementPolicy s)) * (\<Sum>r\<leftarrow>done. sint (cq_kills r))
      \<and> sint (pa_total_kills b) = sint (pa_total_kills a) + (\<Sum>r\<leftarrow>done. sint (cq_kills r))
      \<and> sint (pa_total_games b) = sint (pa_total_games a) + int (length done))"
  using settle_all_chain [OF assms] credited_all_sums by blast

text \<open>
  C20: Whatever fewer than 2^63 - 1 operations do to a new store, the open-id index and the player table agree:
  every player is found under its own id and its open id, open ids are unique, and the index has no dangling
  entry.
\<close>

theorem mem_index_consistent:
  assumes "NewMemoryDevelopmentStoreWithSettlementPolicy policy = Inr s0"
    and "length ops < 9223372036854775807"
    and "s = mem_run C ops s0"
  shows "Mem_GetPlayerByOpenID x s = Inr p \<longleftrightarrow> Mem_GetPlayerByID (p_id p) s = Inr p \<and> p_open_id p = x"
proof -
  have inv: "mem_inv s"
    using new_store_inv [OF assms(1)] assms(2,3) by (auto intro!: mem_run_inv)
  show ?thesis
  proof
    assume "Mem_GetPlayerByOpenID x s = Inr p"
    then obtain i where i: "playerIDByOpenID s x = Some i" "playersByID s i = Some p"
      by (auto simp: Mem_GetPlayerByOpenID_def split: option.splits)
    with mem_inv_indexD [OF inv i(1)] mem_invD(1) [OF inv i(2)]
    show "Mem_GetPlayerByID (p_id p) s = Inr p \<and> p_open_id p = x"
      by (simp add: Mem_GetPlayerByID_def)
  next
    assume "Mem_GetPlayerByID (p_id p) s = Inr p \<and> p_open_id p = x"
    then show "Mem_GetPlayerByOpenID x s = Inr p"
      using mem_find_open_id [OF inv, of "p_id p" p]
      by (auto simp: Mem_GetPlayerByID_def split: option.splits)
  qed
qed

text \<open>
  A settlement for one player touches nothing else. On an error the store is unchanged; the response is
  marked as a duplicate exactly when the store is unchanged; and otherwise only this player's archive, this
  player's level and the entry of this run differ.
\<close>

theorem settle_frame:
  "case Mem_Settle C pid req s of
     (Inl e, s') \<Rightarrow> s' = s
   | (Inr r, s') \<Rightarrow> cr_duplicate r = (s' = s)
       \<and> (archivesByUID s')(pid := None) = (archivesByUID s)(pid := None)
       \<and> (playerLevels s')(pid := None) = (playerLevels s)(pid := None)
       \<and> (settlements s')((pid, cr_run_id r) := None) = (settlements s)((pid, cr_run_id r) := None)
       \<and> nextPlayerID s' = nextPlayerID s \<and> playersByID s' = playersByID s
       \<and> playerIDByOpenID s' = playerIDByOpenID s \<and> sessionsByUID s' = sessionsByUID s
       \<and> settlementPolicy s' = settlementPolicy s"
proof (cases "Mem_Settle C pid req s")
  case (Pair x s')
  show ?thesis
  proof (cases x)
    case (Inl e)
    with Pair Mem_Settle_error_unchanged [of C pid req s e s'] show ?thesis by simp
  next
    case (Inr r)
    with Pair obtain q where q: "req = Some q" by (cases req) (simp_all add: Mem_Settle_def)
    note st = Pair [unfolded Inr q]
    have fr: "nextPlayerID s' = nextPlayerID s" "playersByID s' = playersByID s"
        "playerIDByOpenID s' = playerIDByOpenID s" "sessionsByUID s' = sessionsByUID s"
        "settlementPolicy s' = settlementPolicy s"
        "(playerLevels s')(pid := None) = (playerLevels s)(pid := None)"
      using Mem_Settle_frame [of C pid "Some q" s] Mem_Settle_levels [of C pid "Some q" s] st by simp_all
    from st show ?thesis
    proof (cases rule: Mem_Settle_Inr_cases)
      case (replay stored r0)
      with Pair Inr q show ?thesis by simp
    next
      case (fresh a da dr)
      have "settlements s' \<noteq> settlements s" unfolding fresh(6) using fresh(1) by (metis fun_upd_same option.distinct(1))
      then have "s' \<noteq> s" by blast
      with fresh fr Pair Inr q settleArchive_response(1,2) [OF fresh(3)] show ?thesis by simp
    qed
  qed
qed

section \<open>Witnesses\<close>

text \<open>Two runs of one player against a policy of 5 gold and 10 experience per kill.\<close>

definition sample_run :: combat_result_req where
  "sample_run = \<lparr>cq_run_id = ''r1'', cq_dungeon_level = 1, cq_score = 10, cq_kills = 2,
     cq_survival_time = F64 0, cq_style_id = 1, cq_outcome = BattleOutcome_VICTORY, cq_player_level = 3\<rparr>"

definition sample_archive :: player_archive where
  "sample_archive = \<lparr>pa_schema_version = 1, pa_gold = 10, pa_exp = 20, pa_best_score = 10,
     pa_total_kills = 2, pa_total_games = 1, pa_highest_cleared_dungeon = 1, pa_talent_points = 0,
     pa_unlocked_styles = [], pa_last_style_id = 1\<rparr>"

definition sample_response :: combat_result_resp where
  "sample_response = \<lparr>cr_success = True, cr_duplicate = False, cr_reward_gold = 10, cr_reward_exp = 20,
     cr_best_score = 10, cr_archive = Some sample_archive, cr_run_id = ''r1''\<rparr>"

definition sample_codec :: codec where
  "sample_codec = table_codec [M_PlayerArchive sample_archive, M_CombatResultResp sample_response]"

definition sample_store :: memory_store where
  "sample_store = \<lparr>nextPlayerID = 1, playersByID = Map.empty, playerIDByOpenID = Map.empty,
     sessionsByUID = Map.empty, archivesByUID = Map.empty,
     settlementPolicy = \<lparr>GoldPerKill = 5, ExpPerKill = 10\<rparr>,
     settlements = Map.empty, playerLevels = Map.empty\<rparr>"

definition sample_settled :: memory_store where
  "sample_settled = sample_store\<lparr>archivesByUID := [1 \<mapsto> new_archive 1 [0]],
     playerLevels := [1 \<mapsto> 3], settlements := [(1, ''r1'') \<mapsto> [1]]\<rparr>"

lemma sample_codec_roundtrip: "codec_roundtrip sample_codec"
  by (simp add: sample_codec_def table_codec_roundtrip)

lemma sample_settleArchive:
  "settleArchive (Some (zero_archive\<lparr>pa_schema_version := 1\<rparr>)) sample_run \<lparr>GoldPerKill = 5, ExpPerKill = 10\<rparr>
     = Inr sample_response"
  by (simp add: settleArchive_def sample_run_def sample_response_def sample_archive_def zero_archive_def
      Let_def signed_defs max_int32_def max_int64_def BattleOutcome_VICTORY_def)

lemma sample_settle: "Mem_Settle sample_codec 1 (Some sample_run) sample_store = (Inr sample_response, sample_settled)"
proof -
  have run: "cq_run_id sample_run = ''r1''" "cq_player_level sample_run = 3" by (simp_all add: sample_run_def)
  have m: "marshal sample_codec (M_PlayerArchive sample_archive) = Inr [0]"
    "marshal sample_codec (M_CombatResultResp sample_response) = Inr [1]"
    by (simp_all add: sample_codec_def marshal_table)
  have resp: "cr_archive sample_response = Some sample_archive" by (simp add: sample_response_def)
  show ?thesis
    by (simp add: Mem_Settle_def Let_def sample_store_def sample_settled_def sample_settleArchive run m resp
        marshal_pointer_def level_of_def signed_defs)
qed

theorem settle_is_idempotent_witness:
  "Mem_Settle sample_codec 1 (Some sample_run) (mem_run sample_codec [Op_SaveArchive None, Op_DelSession 1] sample_settled)
     = (Inr (sample_response\<lparr>cr_duplicate := True\<rparr>),
        mem_run sample_codec [Op_SaveArchive None, Op_DelSession 1] sample_settled)"
  by (rule settle_is_idempotent [OF sample_codec_roundtrip sample_settle refl])

theorem settlements_credit_exactly_once_witness:
  "\<exists>b. mem_archive sample_codec 1 sample_settled = Inr b \<and> sint (pa_gold b) = 10 \<and> sint (pa_total_games b) = 1"
proof -
  have again: "Mem_Settle sample_codec 1 (Some sample_run) sample_settled
      = (Inr (sample_response\<lparr>cr_duplicate := True\<rparr>), sample_settled)"
  proof -
    have "unmarshal_combat_result sample_codec [1] = Inr sample_response"
      by (simp add: unmarshal_combat_result_def sample_codec_def unmarshal_table)
    then have "Mem_Settle sample_codec 1 (Some sample_run) sample_settled
      = (Inr (sample_response\<lparr>cr_duplicate := True, cr_run_id := cq_run_id sample_run\<rparr>), sample_settled)"
      by (intro Mem_Settle_replay) (simp_all add: sample_settled_def sample_run_def)
    then show ?thesis by (simp add: sample_response_def sample_run_def)
  qed
  have "settle_all sample_codec 1 [sample_run, sample_run] sample_store = ([sample_run], sample_settled)"
    by (simp add: sample_settle again) (simp add: sample_response_def)
  from settlements_credit_exactly_once [OF sample_codec_roundtrip _ _ _ this,
      of "zero_archive\<lparr>pa_schema_version := 1\<rparr>"]
  show ?thesis
    by (simp add: sample_store_def policy_ok_def sample_run_def mem_archive_def zero_archive_def) blast
qed

theorem mem_index_consistent_witness:
  "Mem_GetPlayerByOpenID ''a'' (mem_run sample_codec [Op_CreatePlayer (Some (new_player ''a''))] sample_store)
     = Inr ((new_player ''a'')\<lparr>p_id := 1\<rparr>)"
proof -
  have new: "NewMemoryDevelopmentStoreWithSettlementPolicy \<lparr>GoldPerKill = 5, ExpPerKill = 10\<rparr> = Inr sample_store"
    by (simp add: NewMemoryDevelopmentStoreWithSettlementPolicy_def validateCombatRewardPolicy_def
        sample_store_def signed_defs)
  show ?thesis
    by (subst mem_index_consistent [OF new _ refl])
       (simp_all add: Mem_CreatePlayer_def Mem_GetPlayerByID_def sample_store_def Let_def)
qed

end
