(* ===== verification/Data_Stores.thy ===== *)
theory Data_Stores
  imports Store
begin

text \<open>
  The methods of \<open>MySQLStore\<close> and \<open>RedisStore\<close> that the handlers call, as records of functions on the state of
  the database: a read is a function of the state, a write returns its error and the new state. A handler
  holds such a record where Go holds the store's pointer; a nil pointer is \<open>None\<close>.
\<close>

record 'db mysql_store =
  my_GetPlayerByID :: "i64 \<Rightarrow> 'db \<Rightarrow> go_error + player"
  my_GetPlayerByOpenID :: "string \<Rightarrow> 'db \<Rightarrow> go_error + player"
  my_CreatePlayer :: "player \<Rightarrow> 'db \<Rightarrow> (go_error + player) \<times> 'db"
  my_UpdatePlayer :: "player \<Rightarrow> 'db \<Rightarrow> go_error option \<times> 'db"
  my_GetArchive :: "i64 \<Rightarrow> 'db \<Rightarrow> go_error + archive"
  my_SaveArchive :: "archive \<Rightarrow> 'db \<Rightarrow> go_error option \<times> 'db"
  my_CreateScoreRecord :: "score_record \<Rightarrow> 'db \<Rightarrow> go_error option \<times> 'db"
  my_UpdateBestScore :: "i64 \<Rightarrow> i64 \<Rightarrow> 'db \<Rightarrow> go_error option \<times> 'db"
  my_GetPlayerStats :: "i64 \<Rightarrow> 'db \<Rightarrow> go_error + player_stats"
  my_CreatePlayerStats :: "player_stats \<Rightarrow> 'db \<Rightarrow> go_error option \<times> 'db"
  my_UpdatePlayerStats :: "player_stats \<Rightarrow> 'db \<Rightarrow> go_error option \<times> 'db"
  my_AddPlayerGold :: "i64 \<Rightarrow> go_int \<Rightarrow> 'db \<Rightarrow> go_error option \<times> 'db"
  my_AddPlayerExp :: "i64 \<Rightarrow> go_int \<Rightarrow> 'db \<Rightarrow> go_error option \<times> 'db"
  my_UpdatePlayerBestScore :: "i64 \<Rightarrow> i64 \<Rightarrow> 'db \<Rightarrow> go_error option \<times> 'db"
  my_IncrementPlayerTotalKills :: "i64 \<Rightarrow> go_int \<Rightarrow> 'db \<Rightarrow> go_error option \<times> 'db"
  my_IncrementPlayerTotalGames :: "i64 \<Rightarrow> 'db \<Rightarrow> go_error option \<times> 'db"
  my_GetPlayerStyles :: "i64 \<Rightarrow> 'db \<Rightarrow> player_style list \<times> go_error option"
  my_UnlockPlayerStyle :: "i64 \<Rightarrow> go_int \<Rightarrow> 'db \<Rightarrow> go_error option \<times> 'db"
  my_DeductPlayerGold :: "i64 \<Rightarrow> go_int \<Rightarrow> 'db \<Rightarrow> go_error option \<times> 'db"

text \<open>An entry of a sorted set; a member that is not a string is \<open>None\<close>.\<close>

record redis_z =
  z_score :: float64
  z_member :: "string option"

record 'db redis_store =
  rd_SetSession :: "i64 \<Rightarrow> session_data \<Rightarrow> 'db \<Rightarrow> go_error option \<times> 'db"
  rd_GetSession :: "i64 \<Rightarrow> 'db \<Rightarrow> go_error + session_data option"
  rd_DelSession :: "i64 \<Rightarrow> 'db \<Rightarrow> go_error option \<times> 'db"
  rd_UpdateRank :: "go_int \<Rightarrow> i64 \<Rightarrow> string \<Rightarrow> i64 \<Rightarrow> 'db \<Rightarrow> go_error option \<times> 'db"
  rd_GetRank :: "go_int \<Rightarrow> go_int \<Rightarrow> go_int \<Rightarrow> 'db \<Rightarrow> go_error + redis_z list"
  rd_CheckRateLimit :: "string \<Rightarrow> go_int \<Rightarrow> go_int \<Rightarrow> 'db \<Rightarrow> (go_error + bool) \<times> 'db"

text \<open>
  The panic of a method call through a nil pointer, as a value: it ends the handler. A model in which it
  occurs has gone wrong; the compositions of the program are shown not to produce it.
\<close>

definition nil_dereference :: go_error where
  "nil_dereference = External ''runtime error: invalid memory address or nil pointer dereference''"

section \<open>Steps on the database part of the world\<close>

definition on_db :: "('db \<Rightarrow> 'r \<times> 'db) \<Rightarrow> 'db world \<Rightarrow> 'r \<times> 'db world" where
  "on_db f w = (case f (w_db w) of (r, d) \<Rightarrow> (r, w\<lparr>w_db := d\<rparr>))"

text \<open>A write whose error is only logged.\<close>

definition ignoring :: "('db \<Rightarrow> go_error option \<times> 'db) \<Rightarrow> 'db \<Rightarrow> 'db" where
  "ignoring f d = snd (f d)"

lemma on_db_sessions [simp]: "w_sessions (snd (on_db f w)) = w_sessions w"
  by (simp add: on_db_def split: prod.splits)

lemma uidFromCtx_db [simp]: "uidFromCtx ctx (w\<lparr>w_db := d\<rparr>) = uidFromCtx ctx w"
  by (simp add: uidFromCtx_def split: option.split)

lemma uidFromCtx_on_db [simp]: "uidFromCtx ctx (snd (on_db f w)) = uidFromCtx ctx w"
  by (simp add: uidFromCtx_def split: option.split)

lemma uidFromCtx_WithSession [simp]: "uidFromCtx (WithSession ctx s) w = Session_UID (w_sessions w s)"
  by (simp add: uidFromCtx_def)

lemma on_db_result: "f (w_db w) = (r, d) \<Longrightarrow> on_db f w = (r, w\<lparr>w_db := d\<rparr>)"
  by (simp add: on_db_def)

end
