(* ===== verification/Pipeline.thy ===== *)
theory Pipeline
  imports Session
begin

text \<open>
  The hook chain of \<open>internal/pipeline/pipeline.go\<close>. A hook is a function on the state \<open>'w\<close>; the chain of
  before-hooks threads context, input and state through the hooks in order and stops at the first error,
  the chain of after-hooks threads response and error through all of them. A response is Go's
  \<open>interface{}\<close>: a protobuf message or some other value.
\<close>

datatype response = Proto message | NonProto

type_synonym 'w before_handler =
  "go_context \<Rightarrow> message \<Rightarrow> 'w \<Rightarrow> (go_context \<times> message \<times> go_error option) \<times> 'w"
type_synonym 'w after_handler =
  "go_context \<Rightarrow> response option \<Rightarrow> go_error option \<Rightarrow> 'w \<Rightarrow> (response option \<times> go_error option) \<times> 'w"

record 'w hooks =
  Before :: "'w before_handler list"
  After :: "'w after_handler list"

definition Hooks_New :: "'w hooks" where
  "Hooks_New = \<lparr>Before = [], After = []\<rparr>"

definition AddBefore :: "'w before_handler \<Rightarrow> 'w hooks \<Rightarrow> 'w hooks" where
  "AddBefore fn h = h\<lparr>Before := Before h @ [fn]\<rparr>"

definition AddAfter :: "'w after_handler \<Rightarrow> 'w hooks \<Rightarrow> 'w hooks" where
  "AddAfter fn h = h\<lparr>After := After h @ [fn]\<rparr>"

fun run_before ::
  "'w before_handler list \<Rightarrow> go_context \<Rightarrow> message \<Rightarrow> 'w \<Rightarrow> (go_context \<times> message \<times> go_error option) \<times> 'w" where
  "run_before [] ctx res w = ((ctx, res, None), w)"
| "run_before (fn # fns) ctx res w =
     (case fn ctx res w of
        ((ctx', res', Some err), w') \<Rightarrow> ((ctx', res', Some err), w')
      | ((ctx', res', None), w') \<Rightarrow> run_before fns ctx' res' w')"

definition ExecuteBefore ::
  "'w hooks \<Rightarrow> go_context \<Rightarrow> message \<Rightarrow> 'w \<Rightarrow> (go_context \<times> message \<times> go_error option) \<times> 'w" where
  "ExecuteBefore h ctx input w = run_before (Before h) ctx input w"

fun run_after ::
  "'w after_handler list \<Rightarrow> go_context \<Rightarrow> response option \<Rightarrow> go_error option \<Rightarrow> 'w
     \<Rightarrow> (response option \<times> go_error option) \<times> 'w" where
  "run_after [] ctx res err w = ((res, err), w)"
| "run_after (fn # fns) ctx res err w =
     (case fn ctx res err w of ((res', err'), w') \<Rightarrow> run_after fns ctx res' err' w')"

definition ExecuteAfter ::
  "'w hooks \<Rightarrow> go_context \<Rightarrow> response option \<Rightarrow> go_error option \<Rightarrow> 'w
     \<Rightarrow> (response option \<times> go_error option) \<times> 'w" where
  "ExecuteAfter h ctx out err w = run_after (After h) ctx out err w"

lemma Before_AddBefore [simp]: "Before (AddBefore fn h) = Before h @ [fn]"
  and After_AddBefore [simp]: "After (AddBefore fn h) = After h"
  and After_AddAfter [simp]: "After (AddAfter fn' h) = After h @ [fn']"
  and Before_AddAfter [simp]: "Before (AddAfter fn' h) = Before h"
  and Before_New [simp]: "Before Hooks_New = []"
  and After_New [simp]: "After Hooks_New = []"
  by (simp_all add: AddBefore_def AddAfter_def Hooks_New_def)

text \<open>Chains compose: a longer chain runs its rest only when its first part returned no error.\<close>

lemma run_before_append:
  "run_before (fs @ gs) ctx res w =
     (case run_before fs ctx res w of
        ((ctx', res', Some err), w') \<Rightarrow> ((ctx', res', Some err), w')
      | ((ctx', res', None), w') \<Rightarrow> run_before gs ctx' res' w')"
  by (induction fs arbitrary: ctx res w) (auto split: prod.splits option.splits)

lemma run_after_append:
  "run_after (fs @ gs) ctx res err w =
     (case run_after fs ctx res err w of ((res', err'), w') \<Rightarrow> run_after gs ctx res' err' w')"
  by (induction fs arbitrary: res err w) (auto split: prod.splits)

text \<open>A hook chain whose first hook fails is that failure, whatever follows.\<close>

lemma ExecuteBefore_first_error:
  "Before h = fn # fns \<Longrightarrow> fn ctx input w = ((ctx', in', Some err), w') \<Longrightarrow>
   ExecuteBefore h ctx input w = ((ctx', in', Some err), w')"
  by (simp add: ExecuteBefore_def)

end
