(* ===== verification/Kernel.thy ===== *)
theory Kernel
  imports Pipeline
begin

text \<open>
  The message kernel of \<open>internal/kernel/kernel.go\<close>: registration of typed handlers against the route
  table, and the dispatch of one frame (decode, look up, unmarshal, before-hooks, handler, after-hooks,
  reply). \<open>Dispatch\<close> returns the error of the Go function, the calls of \<open>Session.Reply\<close> it made, in
  order, and the new state. Reflection is a type description of the registered function.
\<close>

section \<open>Handlers and registration\<close>

type_synonym 'w handler = "go_context \<Rightarrow> message \<Rightarrow> 'w \<Rightarrow> (message option \<times> go_error option) \<times> 'w"

record 'w handler_entry =
  respID :: u16
  reqType :: message_type
  fn :: "'w handler"
  authFree :: bool

record 'w kernel =
  handlers :: "u16 \<rightharpoonup> 'w handler_entry"
  k_hooks :: "'w hooks"

definition Kernel_New :: "'w hooks option \<Rightarrow> 'w kernel" where
  "Kernel_New hooks =
     \<lparr>handlers = Map.empty, k_hooks = (case hooks of None \<Rightarrow> Hooks_New | Some h \<Rightarrow> h)\<rparr>"

type_synonym 'w register_option = "'w handler_entry \<Rightarrow> 'w handler_entry"

definition AuthFree :: "'w register_option" where
  "AuthFree e = e\<lparr>authFree := True\<rparr>"

text \<open>
  What \<open>reflect\<close> tells of a type: the context and error interfaces, a pointer to a generated message, or
  another type, of which only the answers to the questions asked are known (its kind is a pointer; it
  implements \<open>context.Context\<close>, \<open>proto.Message\<close>, \<open>error\<close>).
\<close>

datatype go_type =
    ContextType
  | ErrorType
  | PtrTo message_type
  | OtherType bool bool bool bool

fun kind_is_ptr :: "go_type \<Rightarrow> bool" where
  "kind_is_ptr (PtrTo _) = True"
| "kind_is_ptr (OtherType p _ _ _) = p"
| "kind_is_ptr _ = False"

fun implements_ctx :: "go_type \<Rightarrow> bool" where
  "implements_ctx ContextType = True"
| "implements_ctx (OtherType _ c _ _) = c"
| "implements_ctx _ = False"

fun implements_message :: "go_type \<Rightarrow> bool" where
  "implements_message (PtrTo _) = True"
| "implements_message (OtherType _ _ m _) = m"
| "implements_message _ = False"

fun implements_error :: "go_type \<Rightarrow> bool" where
  "implements_error ErrorType = True"
| "implements_error (OtherType _ _ _ e) = e"
| "implements_error _ = False"

record 'w go_func =
  kind_is_func :: bool
  fn_in :: "go_type list"
  fn_out :: "go_type list"
  fn_value :: "'w handler"

definition handler_shape :: "'w go_func \<Rightarrow> bool" where
  "handler_shape f \<longleftrightarrow>
     (case (fn_in f, fn_out f) of
        ([in0, in1], [out0, out1]) \<Rightarrow>
          kind_is_func f \<and> implements_ctx in0 \<and> kind_is_ptr in1 \<and> implements_message in1
          \<and> kind_is_ptr out0 \<and> implements_message out0 \<and> implements_error out1
      | _ \<Rightarrow> False)"

datatype register_panic =
    DuplicateMessageHandler
  | UnknownOrMismatchedRoute
  | BadHandlerShape
  | HandlerTypesMismatch
  | UnknownRoute

definition Register ::
  "u16 \<Rightarrow> u16 \<Rightarrow> 'w go_func option \<Rightarrow> 'w register_option list \<Rightarrow> 'w kernel \<Rightarrow> register_panic + 'w kernel" where
  "Register req_id resp_id f opts k =
     (if handlers k req_id \<noteq> None then Inl DuplicateMessageHandler
      else
        case RouteFor req_id of
          None \<Rightarrow> Inl UnknownOrMismatchedRoute
        | Some route \<Rightarrow>
            if response_id route \<noteq> resp_id then Inl UnknownOrMismatchedRoute
            else
              case f of
                None \<Rightarrow> Inl BadHandlerShape
              | Some ft \<Rightarrow>
                  if \<not> handler_shape ft then Inl BadHandlerShape
                  else if fn_in ft ! 1 \<noteq> PtrTo (request_prototype route)
                       \<or> fn_out ft ! 0 \<noteq> PtrTo (response_prototype route)
                  then Inl HandlerTypesMismatch
                  else
                    let entry = \<lparr>respID = resp_id, reqType = request_prototype route,
                                 fn = fn_value ft, authFree = False\<rparr>
                    in Inr (k\<lparr>handlers := (handlers k)(req_id \<mapsto> fold (\<lambda>opt e. opt e) opts entry)\<rparr>))"

definition RegisterRoute ::
  "u16 \<Rightarrow> 'w go_func option \<Rightarrow> 'w register_option list \<Rightarrow> 'w kernel \<Rightarrow> register_panic + 'w kernel" where
  "RegisterRoute req_id f opts k =
     (case RouteFor req_id of
        None \<Rightarrow> Inl UnknownRoute
      | Some route \<Rightarrow> Register req_id (response_id route) f opts k)"

definition IsAuthFree :: "'w kernel \<Rightarrow> u16 \<Rightarrow> bool" where
  "IsAuthFree k msg_id = (case handlers k msg_id of Some e \<Rightarrow> authFree e | None \<Rightarrow> False)"

definition HasHandler :: "'w kernel \<Rightarrow> u16 \<Rightarrow> bool" where
  "HasHandler k msg_id = (handlers k msg_id \<noteq> None)"

section \<open>Dispatch\<close>

definition WithMsgID :: "go_context \<Rightarrow> u16 \<Rightarrow> go_context" where
  "WithMsgID ctx i = ctx\<lparr>ctx_msg_id := Some i\<rparr>"

definition MsgIDFromContext :: "go_context \<Rightarrow> u16" where
  "MsgIDFromContext ctx = (case ctx_msg_id ctx of Some i \<Rightarrow> i | None \<Rightarrow> 0)"

text \<open>A call \<open>Session.Reply(seq, msgID, payload)\<close>.\<close>

record reply =
  rp_seq :: u32
  rp_id :: u16
  rp_payload :: message

definition sendError :: "sid option \<Rightarrow> u32 \<Rightarrow> go_error \<Rightarrow> reply list" where
  "sendError sess seq err =
     (case sess of
        None \<Rightarrow> []
      | Some _ \<Rightarrow>
          let (code, msg) = (case err of BizError c m \<Rightarrow> (c, m)
                             | _ \<Rightarrow> (ErrInternal, ''internal server error''))
          in [\<lparr>rp_seq = seq, rp_id = MsgID_Error,
               rp_payload = M_ErrorResp \<lparr>er_code = to_i32 code, er_msg = msg\<rparr>\<rparr>])"

definition finish ::
  "sid option \<Rightarrow> u32 \<Rightarrow> 'w handler_entry \<Rightarrow> response option \<Rightarrow> go_error option \<Rightarrow> reply list" where
  "finish sess seq entry resp err =
     (case err of
        Some e \<Rightarrow> sendError sess seq e
      | None \<Rightarrow>
         (case (resp, sess) of
            (Some NonProto, Some _) \<Rightarrow> sendError sess seq (NewBizError ErrInternal ''invalid handler response'')
          | (Some (Proto m), Some _) \<Rightarrow> [\<lparr>rp_seq = seq, rp_id = respID entry, rp_payload = m\<rparr>]
          | _ \<Rightarrow> []))"

definition Dispatch ::
  "codec \<Rightarrow> 'w kernel \<Rightarrow> go_context \<Rightarrow> byte list \<Rightarrow> 'w \<Rightarrow> go_error option \<times> reply list \<times> 'w" where
  "Dispatch C k ctx data w =
     (let sess = FromContext ctx in
      case Decode data of
        Inl e \<Rightarrow> (Some (Wrap [] (Sentinel ErrFatalProtocol) ('': '' @ error_text e)), [], w)
      | Inr frame \<Rightarrow>
          if Seq frame = 0 then (Some (Sentinel ErrFatalProtocol), [], w)
          else
            case handlers k (MsgID frame) of
              None \<Rightarrow>
                (None, sendError sess (Seq frame) (NewBizError ErrInvalidParam ''unsupported message type''), w)
            | Some entry \<Rightarrow>
                (case unmarshal C (reqType entry) (Body frame) of
                   Inl _ \<Rightarrow>
                     (None, sendError sess (Seq frame) (NewBizError ErrInvalidParam ''invalid request payload''), w)
                 | Inr req \<Rightarrow>
                     (case ExecuteBefore (k_hooks k) (WithMsgID ctx (MsgID frame)) req w of
                        ((ctx', _, Some err), w1) \<Rightarrow>
                          (None, finish sess (Seq frame) entry None (Some err), w1)
                      | ((ctx', _, None), w1) \<Rightarrow>
                          (case fn entry ctx' req w1 of
                             ((result0, result1), w2) \<Rightarrow>
                               (case ExecuteAfter (k_hooks k) ctx' (map_option Proto result0) result1 w2 of
                                  ((resp, handler_err), w3) \<Rightarrow>
                                    (None, finish sess (Seq frame) entry resp handler_err, w3))))))"

text \<open>The adapter between a typed handler and the kernel: \<open>reflect.Value.Call\<close> on an argument of the
  registered type. The result of a Go handler is a response or an error.\<close>

definition typed_result :: "('r \<Rightarrow> message) \<Rightarrow> (go_error + 'r) \<times> 'w \<Rightarrow> (message option \<times> go_error option) \<times> 'w" where
  "typed_result wrap r =
     (case r of (Inl e, w) \<Rightarrow> ((None, Some e), w) | (Inr x, w) \<Rightarrow> ((Some (wrap x), None), w))"

section \<open>Registration follows the route table\<close>

text \<open>What Go's type checker ensures of a function value: its result has its declared type.\<close>

definition func_typed :: "'w go_func \<Rightarrow> bool" where
  "func_typed f \<longleftrightarrow>
     (\<forall>ctx m w r e w'. fn_value f ctx m w = ((Some r, e), w') \<longrightarrow> fn_out f ! 0 = PtrTo (type_of_message r))"

text \<open>The kernels a program can build: from a new one by successful registrations.\<close>

inductive built :: "'w kernel \<Rightarrow> bool" where
  built_new: "built (Kernel_New h)"
| built_register:
    "built k \<Longrightarrow> Register i j f opts k = Inr k' \<Longrightarrow> set opts \<subseteq> {AuthFree} \<Longrightarrow>
     (\<forall>g. f = Some g \<longrightarrow> func_typed g) \<Longrightarrow> built k'"
| built_hooks: "built k \<Longrightarrow> built (k\<lparr>k_hooks := h\<rparr>)"

text \<open>Every entry is the route's: response id, request type, and the type of what its handler returns.\<close>

definition entry_ok :: "u16 \<Rightarrow> 'w handler_entry \<Rightarrow> bool" where
  "entry_ok i e \<longleftrightarrow>
     (\<exists>r. RouteFor i = Some r \<and> respID e = response_id r \<and> reqType e = request_prototype r
        \<and> (\<forall>ctx m w x err w'. fn e ctx m w = ((Some x, err), w') \<longrightarrow> type_of_message x = response_prototype r))"

definition kernel_ok :: "'w kernel \<Rightarrow> bool" where
  "kernel_ok k \<longleftrightarrow> (\<forall>i e. handlers k i = Some e \<longrightarrow> entry_ok i e)"

lemma fold_AuthFree:
  assumes "set opts \<subseteq> {AuthFree}"
  shows "respID (fold (\<lambda>opt e. opt e) opts e) = respID e"
    "reqType (fold (\<lambda>opt e. opt e) opts e) = reqType e"
    "fn (fold (\<lambda>opt e. opt e) opts e) = fn e"
  using assms by (induction opts arbitrary: e) (auto simp: AuthFree_def)

lemma Register_Inr:
  assumes "Register i j f opts k = Inr k'"
  obtains r g where "handlers k i = None" "RouteFor i = Some r" "response_id r = j" "f = Some g"
    "handler_shape g" "fn_in g ! 1 = PtrTo (request_prototype r)" "fn_out g ! 0 = PtrTo (response_prototype r)"
    "k' = k\<lparr>handlers := (handlers k)(i \<mapsto> fold (\<lambda>opt e. opt e) opts
        \<lparr>respID = j, reqType = request_prototype r, fn = fn_value g, authFree = False\<rparr>)\<rparr>"
  using assms by (auto simp: Register_def Let_def split: if_splits option.splits)

lemma Register_kernel_ok:
  assumes ok: "kernel_ok k" and reg: "Register i j f opts k = Inr k'"
    and opts: "set opts \<subseteq> {AuthFree}" and typed: "\<forall>g. f = Some g \<longrightarrow> func_typed g"
  shows "kernel_ok k'"
proof -
  from reg obtain r g where r: "RouteFor i = Some r" "response_id r = j" "f = Some g"
      "fn_out g ! 0 = PtrTo (response_prototype r)"
    and k': "k' = k\<lparr>handlers := (handlers k)(i \<mapsto> fold (\<lambda>opt e. opt e) opts
        \<lparr>respID = j, reqType = request_prototype r, fn = fn_value g, authFree = False\<rparr>)\<rparr>"
    by (rule Register_Inr)
  from typed r(3) have "func_typed g" by simp
  with r(4) have "\<forall>ctx m w x err w'. fn_value g ctx m w = ((Some x, err), w')
      \<longrightarrow> type_of_message x = response_prototype r"
    unfolding func_typed_def by (metis go_type.inject(1))
  then show ?thesis
    using ok r(1,2) fold_AuthFree [OF opts] by (simp add: k' kernel_ok_def entry_ok_def)
qed

lemma built_kernel_ok: "built k \<Longrightarrow> kernel_ok k"
proof (induction rule: built.induct)
  case (built_new h)
  show ?case by (simp add: kernel_ok_def Kernel_New_def)
next
  case (built_register k i j f opts k')
  then show ?case by (blast intro: Register_kernel_ok)
next
  case (built_hooks k h)
  then show ?case by (simp add: kernel_ok_def)
qed

section \<open>Dispatch, case by case\<close>

lemma sendError_simps [simp]:
  "sendError None seq e = []"
  "sendError (Some s) seq (BizError c m) =
     [\<lparr>rp_seq = seq, rp_id = MsgID_Error, rp_payload = M_ErrorResp \<lparr>er_code = to_i32 c, er_msg = m\<rparr>\<rparr>]"
  by (simp_all add: sendError_def)

lemma sendError_reply:
  "sendError (Some s) seq e =
     [\<lparr>rp_seq = seq, rp_id = MsgID_Error,
       rp_payload = M_ErrorResp (case e of BizError c m \<Rightarrow> \<lparr>er_code = to_i32 c, er_msg = m\<rparr>
         | _ \<Rightarrow> \<lparr>er_code = to_i32 ErrInternal, er_msg = ''internal server error''\<rparr>)\<rparr>]"
  by (cases e) (simp_all add: sendError_def)

lemma sendError_mem: "r \<in> set (sendError sess seq e) \<Longrightarrow>
    sendError sess seq e = [r] \<and> rp_seq r = seq \<and> rp_id r = MsgID_Error \<and> (\<exists>x. rp_payload r = M_ErrorResp x)"
  by (cases sess) (auto simp: sendError_reply)

lemma finish_mem:
  assumes "r \<in> set (finish sess seq entry resp err)"
  shows "finish sess seq entry resp err = [r] \<and> rp_seq r = seq
    \<and> (rp_id r = MsgID_Error \<and> (\<exists>x. rp_payload r = M_ErrorResp x)
       \<or> rp_id r = respID entry \<and> err = None \<and> resp = Some (Proto (rp_payload r)))"
proof (cases err)
  case (Some e)
  then show ?thesis using assms sendError_mem [of r sess seq e] by (simp add: finish_def)
next
  case None
  note n = None
  with assms obtain x s where x: "resp = Some x" "sess = Some s"
    by (cases resp; cases sess) (simp_all add: finish_def split: response.splits)
  show ?thesis
  proof (cases x)
    case (Proto m)
    then show ?thesis using assms x n by (simp add: finish_def)
  next
    case NonProto
    then show ?thesis
      using assms x n sendError_mem [of r sess seq "NewBizError ErrInternal ''invalid handler response''"]
      by (simp add: finish_def)
  qed
qed

text \<open>A frame that does not decode or has sequence number 0.\<close>

lemma Dispatch_fatal:
  "Decode data = Inl e \<Longrightarrow>
     Dispatch C k ctx data w = (Some (Wrap [] (Sentinel ErrFatalProtocol) ('': '' @ error_text e)), [], w)"
  "Decode data = Inr f \<Longrightarrow> Seq f = 0 \<Longrightarrow> Dispatch C k ctx data w = (Some (Sentinel ErrFatalProtocol), [], w)"
  by (simp_all add: Dispatch_def)

text \<open>A frame for which no handler is registered, or whose body does not unmarshal.\<close>

lemma Dispatch_unknown:
  assumes "Decode data = Inr f" "Seq f \<noteq> 0" "handlers k (MsgID f) = None"
  shows "Dispatch C k ctx data w =
    (None, sendError (FromContext ctx) (Seq f) (NewBizError ErrInvalidParam ''unsupported message type''), w)"
  using assms by (simp add: Dispatch_def)

lemma Dispatch_malformed:
  assumes "Decode data = Inr f" "Seq f \<noteq> 0" "handlers k (MsgID f) = Some entry"
    "unmarshal C (reqType entry) (Body f) = Inl e"
  shows "Dispatch C k ctx data w =
    (None, sendError (FromContext ctx) (Seq f) (NewBizError ErrInvalidParam ''invalid request payload''), w)"
  using assms by (simp add: Dispatch_def)

text \<open>A before-hook that fails.\<close>

lemma Dispatch_hook_error:
  assumes "Decode data = Inr f" "Seq f \<noteq> 0" "handlers k (MsgID f) = Some entry"
    "unmarshal C (reqType entry) (Body f) = Inr req"
    "ExecuteBefore (k_hooks k) (WithMsgID ctx (MsgID f)) req w = ((ctx', req', Some err), w')"
  shows "Dispatch C k ctx data w = (None, finish (FromContext ctx) (Seq f) entry None (Some err), w')"
  using assms by (simp add: Dispatch_def)

text \<open>A frame that reaches its handler, in a kernel without after-hooks.\<close>

lemma Dispatch_handler:
  assumes "Decode data = Inr f" "Seq f \<noteq> 0" "handlers k (MsgID f) = Some entry"
    "unmarshal C (reqType entry) (Body f) = Inr req"
    "ExecuteBefore (k_hooks k) (WithMsgID ctx (MsgID f)) req w = ((ctx', req', None), w1)"
    "fn entry ctx' req w1 = ((result0, result1), w2)" "After (k_hooks k) = []"
  shows "Dispatch C k ctx data w =
    (None, finish (FromContext ctx) (Seq f) entry (map_option Proto result0) result1, w2)"
  using assms by (simp add: Dispatch_def ExecuteAfter_def)

lemmas Dispatch_cases = Dispatch_fatal Dispatch_unknown Dispatch_malformed Dispatch_hook_error Dispatch_handler

section \<open>The request/response discipline\<close>

text \<open>A frame is answered at most once, under its own sequence number.\<close>

definition at_most_one :: "u32 \<Rightarrow> reply list \<Rightarrow> bool" where
  "at_most_one seq rs \<longleftrightarrow> rs = [] \<or> (\<exists>r. rs = [r] \<and> rp_seq r = seq)"

lemma sendError_at_most_one: "at_most_one seq (sendError sess seq e)"
  by (cases sess) (simp_all add: at_most_one_def sendError_reply)

lemma finish_at_most_one: "at_most_one seq (finish sess seq entry resp err)"
proof (cases err)
  case None
  then show ?thesis
    using sendError_at_most_one by (auto simp: finish_def at_most_one_def split: option.split response.split)
qed (simp add: finish_def sendError_at_most_one)

lemma Dispatch_replies:
  assumes "Dispatch C k ctx data w = (err, rs, w')"
  shows "rs = [] \<or> (\<exists>r f. rs = [r] \<and> Decode data = Inr f \<and> Seq f \<noteq> 0 \<and> rp_seq r = Seq f)"
proof (cases "Decode data")
  case (Inl e)
  with assms show ?thesis by (simp add: Dispatch_fatal)
next
  case (Inr f)
  show ?thesis
  proof (cases "Seq f = 0")
    case True
    with Inr assms show ?thesis by (simp add: Dispatch_fatal)
  next
    case False
    with assms Inr have "at_most_one (Seq f) rs"
      by (auto simp: Dispatch_def Let_def sendError_at_most_one finish_at_most_one
          split: option.splits sum.splits prod.splits)
    with Inr False show ?thesis by (auto simp: at_most_one_def)
  qed
qed

text \<open>Every registered handler answers: a response or an error, never neither.\<close>

definition answers :: "'w kernel \<Rightarrow> bool" where
  "answers k \<longleftrightarrow>
     (\<forall>i e ctx m w. handlers k i = Some e \<longrightarrow> fst (fn e ctx m w) \<noteq> (None, None))"

text \<open>What a reply to the frame \<open>f\<close> may be: an error frame, or the route's response.\<close>

definition reply_for :: "frame \<Rightarrow> reply \<Rightarrow> bool" where
  "reply_for f r \<longleftrightarrow> rp_seq r = Seq f
     \<and> (rp_id r = MsgID_Error \<and> (\<exists>x. rp_payload r = M_ErrorResp x)
        \<or> (\<exists>rt. RouteFor (MsgID f) = Some rt \<and> rp_id r = response_id rt
             \<and> type_of_message (rp_payload r) = response_prototype rt))"

lemma finish_Some:
  assumes "\<not> (resp = None \<and> err = None)"
  shows "\<exists>r. finish (Some s) seq entry resp err = [r]"
  using assms by (cases err; cases resp) (auto simp: finish_def sendError_reply split: response.splits)

lemma sendError_reply_for:
  "\<exists>r. sendError (Some s) (Seq f) e = [r] \<and> reply_for f r"
  by (simp add: sendError_reply reply_for_def)

lemma Dispatch_one_reply:
  assumes ok: "kernel_ok k" and ans: "answers k" and after: "After (k_hooks k) = []"
    and sess: "FromContext ctx = Some s" and f: "Decode data = Inr f" "Seq f \<noteq> 0"
  shows "\<exists>r w'. Dispatch C k ctx data w = (None, [r], w') \<and> reply_for f r"
proof (cases "handlers k (MsgID f)")
  case None
  then show ?thesis
    using sendError_reply_for [of s f] by (metis Dispatch_unknown [OF f] sess)
next
  case (Some entry)
  note h = f Some
  show ?thesis
  proof (cases "unmarshal C (reqType entry) (Body f)")
    case (Inl e)
    then show ?thesis
      using sendError_reply_for [of s f] by (metis Dispatch_malformed [OF h] sess)
  next
    case (Inr req)
    obtain ctx' req' err w1 where
      b: "ExecuteBefore (k_hooks k) (WithMsgID ctx (MsgID f)) req w = ((ctx', req', err), w1)"
      by (metis surj_pair)
    show ?thesis
    proof (cases err)
      case (Some e)
      with Dispatch_hook_error [OF h Inr] b sess sendError_reply_for [of s f e]
      show ?thesis by (simp add: finish_def)
    next
      case None
      obtain r0 r1 w2 where c: "fn entry ctx' req w1 = ((r0, r1), w2)" by (metis surj_pair)
      have d: "Dispatch C k ctx data w = (None, finish (Some s) (Seq f) entry (map_option Proto r0) r1, w2)"
        using Dispatch_handler [OF h Inr _ c after] b None sess by simp
      from ans h(3) c have "\<not> (r0 = None \<and> r1 = None)"
        unfolding answers_def by (metis fst_conv)
      with finish_Some [of "map_option Proto r0" r1 s "Seq f" entry] obtain r
        where r: "finish (Some s) (Seq f) entry (map_option Proto r0) r1 = [r]" by auto
      from ok h(3) have "entry_ok (MsgID f) entry" by (simp add: kernel_ok_def)
      then obtain rt where rt: "RouteFor (MsgID f) = Some rt" "respID entry = response_id rt"
        and t: "\<forall>ctx m w x err w'. fn entry ctx m w = ((Some x, err), w')
          \<longrightarrow> type_of_message x = response_prototype rt"
        unfolding entry_ok_def by blast
      have typed: "type_of_message x = response_prototype rt" if "r0 = Some x" for x
        using t c that by blast
      from r finish_mem [of r "Some s" "Seq f" entry "map_option Proto r0" r1] rt
      have "reply_for f r" unfolding reply_for_def by (auto dest: typed)
      with d r show ?thesis by simp
    qed
  qed
qed

section \<open>Properties\<close>

text \<open>
  C18: A frame is a fatal protocol violation exactly when it does not decode or carries sequence number 0
  (reserved for pushes); then nothing is sent, nothing changes, and the error is \<open>ErrFatalProtocol\<close>, which
  makes the read loop drop the connection. On every other frame \<open>Dispatch\<close> returns no error.
\<close>

theorem Dispatch_fatal_iff:
  "(case Dispatch C k ctx data w of (err, replies, w') \<Rightarrow>
     (case Decode data of
        Inr f \<Rightarrow> if Seq f = 0 then \<exists>e. err = Some e \<and> errors_is e ErrFatalProtocol \<and> replies = [] \<and> w' = w
                 else err = None
      | Inl _ \<Rightarrow> \<exists>e. err = Some e \<and> errors_is e ErrFatalProtocol \<and> replies = [] \<and> w' = w))"
proof (cases "Decode data")
  case (Inl e)
  then show ?thesis by (simp add: Dispatch_fatal(1))
next
  case (Inr f)
  show ?thesis
  proof (cases "Seq f = 0")
    case True
    with Inr show ?thesis by (simp add: Dispatch_fatal(2))
  next
    case False
    with Inr show ?thesis
      by (simp add: Dispatch_def Let_def split: option.split sum.split prod.split)
  qed
qed

text \<open>
  In a kernel built by registrations every handler entry is the route table's: the response id and the
  request type are the route's, and whatever its handler returns has the route's response type. A duplicate,
  unknown, mismatched or wrongly typed registration never yields a kernel.
\<close>

theorem built_entries_follow_routes:
  assumes "built k" and "handlers k i = Some e"
  shows "\<exists>r. RouteFor i = Some r \<and> respID e = response_id r \<and> reqType e = request_prototype r
     \<and> (\<forall>ctx m w x err w'. fn e ctx m w = ((Some x, err), w') \<longrightarrow> type_of_message x = response_prototype r)"
  using built_kernel_ok [OF assms(1)] assms(2) by (simp add: kernel_ok_def entry_ok_def)

text \<open>A heartbeat handler that echoes its request's time.\<close>

definition sample_func :: "'w go_func" where
  "sample_func = \<lparr>kind_is_func = True, fn_in = [ContextType, PtrTo T_HeartbeatReq],
     fn_out = [PtrTo T_HeartbeatResp, ErrorType],
     fn_value = (\<lambda>ctx m w. ((Some (M_HeartbeatResp \<lparr>hbr_timestamp = 7\<rparr>), None), w))\<rparr>"

definition sample_kernel :: "unit kernel" where
  "sample_kernel = (Kernel_New None)\<lparr>handlers := [MsgID_HeartbeatReq \<mapsto>
     \<lparr>respID = MsgID_HeartbeatResp, reqType = T_HeartbeatReq, fn = fn_value sample_func, authFree = False\<rparr>]\<rparr>"

theorem built_entries_follow_routes_witness:
  "\<exists>r. RouteFor MsgID_HeartbeatReq = Some r \<and> response_id r = MsgID_HeartbeatResp"
proof -
  have reg: "Register MsgID_HeartbeatReq MsgID_HeartbeatResp (Some sample_func) [] (Kernel_New None) = Inr sample_kernel"
    by (simp add: Register_def Kernel_New_def sample_kernel_def sample_func_def handler_shape_def RouteFor_def
        canonical_routes_def msg_id_defs Let_def)
  have typed: "func_typed (sample_func :: unit go_func)" by (simp add: func_typed_def sample_func_def)
  have "built sample_kernel"
    by (rule built_register [OF built_new reg]) (use typed in simp_all)
  from built_entries_follow_routes [OF this, of MsgID_HeartbeatReq] show ?thesis
    by (auto simp: sample_kernel_def)
qed

end
