(* ===== verification/Game.thy ===== *)
theory Game
  imports Data_Stores Kernel Memory_Store Sample_Codec
begin

text \<open>
  The archive module: \<open>internal/game/service.go\<close> and \<open>handler.go\<close>. The service turns archives into bytes and
  back over any archive repository; the handlers answer with the module's error codes. The lemmas are proved
  once for every lawful repository and used on the in-memory store.
\<close>

section \<open>The service\<close>

type_synonym 'db archive_service = "'db archive_repository"

definition ArchiveService_Save ::
  "codec \<Rightarrow> 'db archive_service \<Rightarrow> i64 \<Rightarrow> player_archive option \<Rightarrow> 'db \<Rightarrow> go_error option \<times> 'db" where
  "ArchiveService_Save C archives uid arch d =
     (case arch of
        None \<Rightarrow> (Some (Text ''game: nil archive''), d)
      | Some a \<Rightarrow>
          (case marshal C (M_PlayerArchive a) of
             Inl err \<Rightarrow> (Some (Wrap ''marshal archive: '' err []), d)
           | Inr data \<Rightarrow> SaveArchive archives (new_archive uid data) d))"

text \<open>The result is the archive with the flag \<open>found\<close>, or the error.\<close>

definition ArchiveService_Load ::
  "codec \<Rightarrow> 'db archive_service \<Rightarrow> i64 \<Rightarrow> 'db \<Rightarrow> go_error + (player_archive option \<times> bool)" where
  "ArchiveService_Load C archives uid d =
     (case GetArchive archives uid d of
        Inl err \<Rightarrow> if IsNotFound err then Inr (None, False) else Inl err
      | Inr None \<Rightarrow> Inl (Sentinel ErrInvalidArchiveRepositoryResult)
      | Inr (Some stored) \<Rightarrow>
          (case unmarshal_archive C (a_data stored) of
             Inl err \<Rightarrow> Inl (Wrap [] (Sentinel ErrMalformedStoredArchive) ('': '' @ error_text err))
           | Inr result \<Rightarrow> Inr (Some result, True)))"

section \<open>The handlers\<close>

definition Game_SaveArchive ::
  "codec \<Rightarrow> 'db archive_service \<Rightarrow> go_context \<Rightarrow> save_archive_req \<Rightarrow> 'db world
     \<Rightarrow> (go_error + save_archive_resp) \<times> 'db world" where
  "Game_SaveArchive C service ctx req w =
     (case on_db (ArchiveService_Save C service (uidFromCtx ctx w) (get_archive_field (Some req))) w of
        (Some err, w1) \<Rightarrow> (Inl (NewBizError ErrArchiveSaveFailed ''save archive failed''), w1)
      | (None, w1) \<Rightarrow> (Inr \<lparr>sar_success = True\<rparr>, w1))"

definition Game_LoadArchive ::
  "codec \<Rightarrow> 'db archive_service \<Rightarrow> go_context \<Rightarrow> load_archive_req \<Rightarrow> 'db world
     \<Rightarrow> (go_error + load_archive_resp) \<times> 'db world" where
  "Game_LoadArchive C service ctx req w =
     (case ArchiveService_Load C service (uidFromCtx ctx w) (w_db w) of
        Inl err \<Rightarrow> (Inl (NewBizError ErrInternal ''load archive failed''), w)
      | Inr (arch, found) \<Rightarrow> (Inr \<lparr>lar_found = found, lar_archive = arch\<rparr>, w))"

section \<open>Saving and loading over a lawful repository\<close>

context lawful_archives
begin

lemma save_then_load:
  assumes "codec_roundtrip C" "marshal C (M_PlayerArchive a) = Inr bs"
  shows "fst (ArchiveService_Save C repo uid (Some a) d) = None"
    "ArchiveService_Load C repo uid (snd (ArchiveService_Save C repo uid (Some a) d)) = Inr (Some a, True)"
  using assms save_ok get_saved [of "new_archive uid bs" d]
  by (simp_all add: ArchiveService_Save_def ArchiveService_Load_def unmarshal_archive_marshal)

lemma save_other_player:
  "uid' \<noteq> uid \<Longrightarrow>
   ArchiveService_Load C repo uid' (snd (ArchiveService_Save C repo uid arch d)) = ArchiveService_Load C repo uid' d"
  by (simp add: ArchiveService_Save_def ArchiveService_Load_def get_unsaved split: option.splits sum.splits)

lemma load_new_player:
  assumes "\<not> has_archive d uid"
  shows "ArchiveService_Load C repo uid d = Inr (None, False)"
  using get_missing [OF assms] by (auto simp: ArchiveService_Load_def)

lemma save_refused:
  "marshal C (M_PlayerArchive a) = Inl e \<Longrightarrow> snd (ArchiveService_Save C repo uid (Some a) d) = d"
  by (simp add: ArchiveService_Save_def)

end

section \<open>Properties\<close>

text \<open>
  C23: Save and load round trip through the handlers on the in-memory store: whatever archive a session's player
  saves is what the next load of that player returns, whether or not an archive was stored before, and the
  loads of all other players answer as before.
\<close>

theorem archive_save_load:
  assumes "codec_roundtrip C" and "marshal C (M_PlayerArchive a) = Inr bs"
    and "Game_SaveArchive C mem_archives ctx \<lparr>saq_archive = Some a\<rparr> w = (r, w1)"
    and "Session_UID (w_sessions w s) \<noteq> uidFromCtx ctx w"
  shows "r = Inr \<lparr>sar_success = True\<rparr>
    \<and> Game_LoadArchive C mem_archives ctx q w1 = (Inr \<lparr>lar_found = True, lar_archive = Some a\<rparr>, w1)
    \<and> fst (Game_LoadArchive C mem_archives (WithSession ctx' s) q w1)
      = fst (Game_LoadArchive C mem_archives (WithSession ctx' s) q w)"
proof (intro conjI)
  define d where "d = snd (ArchiveService_Save C mem_archives (uidFromCtx ctx w) (Some a) (w_db w))"
  have "ArchiveService_Save C mem_archives (uidFromCtx ctx w) (Some a) (w_db w) = (None, d)"
    using mem_arch.save_then_load(1) [OF assms(1,2)] by (simp add: d_def prod_eq_iff)
  then have w1: "r = Inr \<lparr>sar_success = True\<rparr>" "w1 = w\<lparr>w_db := d\<rparr>"
    using assms(3) by (auto simp: Game_SaveArchive_def get_archive_field_def on_db_def)
  from w1 show "r = Inr \<lparr>sar_success = True\<rparr>" by simp
  show "Game_LoadArchive C mem_archives ctx q w1 = (Inr \<lparr>lar_found = True, lar_archive = Some a\<rparr>, w1)"
    using mem_arch.save_then_load(2) [OF assms(1,2)] by (simp add: Game_LoadArchive_def w1 d_def)
  show "fst (Game_LoadArchive C mem_archives (WithSession ctx' s) q w1)
      = fst (Game_LoadArchive C mem_archives (WithSession ctx' s) q w)"
    using mem_arch.save_other_player [OF assms(4), of C "Some a" "w_db w"]
    by (simp add: Game_LoadArchive_def w1 d_def split: sum.splits prod.splits)
qed

text \<open>A player with id 1 behind session 1, nobody behind session 0.\<close>

definition sample_world :: "memory_store world" where
  "sample_world = \<lparr>w_sessions = (\<lambda>s. if s = 1 then Session_Bind 1 Session_New else Session_New),
     w_db = \<lparr>nextPlayerID = 1, playersByID = Map.empty, playerIDByOpenID = Map.empty,
       sessionsByUID = Map.empty, archivesByUID = Map.empty,
       settlementPolicy = \<lparr>GoldPerKill = 5, ExpPerKill = 10\<rparr>,
       settlements = Map.empty, playerLevels = Map.empty\<rparr>\<rparr>"

theorem archive_save_load_witness:
  "\<exists>w1. Game_LoadArchive (table_codec [M_PlayerArchive zero_archive]) mem_archives (WithSession Background 1)
     LoadArchiveReq w1 = (Inr \<lparr>lar_found = True, lar_archive = Some zero_archive\<rparr>, w1)"
proof -
  have rt: "codec_roundtrip (table_codec [M_PlayerArchive zero_archive])"
    by (simp add: table_codec_roundtrip)
  have m: "marshal (table_codec [M_PlayerArchive zero_archive]) (M_PlayerArchive zero_archive) = Inr [0]"
    by (simp add: marshal_table)
  obtain r w1 where "Game_SaveArchive (table_codec [M_PlayerArchive zero_archive]) mem_archives
      (WithSession Background 1) \<lparr>saq_archive = Some zero_archive\<rparr> sample_world = (r, w1)" by fastforce
  from archive_save_load [OF rt m this, of 0] show ?thesis by (auto simp: sample_world_def)
qed

end
