(* ===== verification/Login.thy ===== *)
theory Login
  imports Data_Stores Kernel
begin

text \<open>
  The login module: the code exchangers of \<open>internal/login/code_exchange.go\<close>, the service of \<open>service.go\<close> with
  its staged errors, and the handlers of \<open>handler.go\<close>. The repositories, the exchanger and the token generator
  are the service's fields, functions on the state \<open>'db\<close>; the WeChat client behind the production exchanger and
  the operating system's random source are parameters.

  Shown here, once for all lawful stores: a login finds or creates the player of the identity, gives it the
  new token, stores its session and leaves all other players and sessions alone.
\<close>

section \<open>Exchanging a code for an identity\<close>

record login_identity =
  li_open_id :: string

definition ErrDevelopmentCodeRejected :: go_error where
  "ErrDevelopmentCodeRejected = Wrap [] (Sentinel ErrInvalidLoginCode) '': development login code rejected''"

definition ErrWechatIdentityMissing :: go_error where
  "ErrWechatIdentityMissing = Wrap [] (Sentinel ErrWechatUpstreamResponse) '': openid missing''"

type_synonym 'db code_exchanger = "string \<Rightarrow> 'db \<Rightarrow> (go_error + login_identity) \<times> 'db"

definition DevelopmentCodeExchanger_Exchange :: "bool \<Rightarrow> 'db code_exchanger" where
  "DevelopmentCodeExchanger_Exchange enabled code d =
     (case cut_prefix code ''dev:'' of
        (identity, is_development_code) \<Rightarrow>
          if \<not> enabled \<or> \<not> is_development_code \<or> trim_space identity = []
          then (Inl ErrDevelopmentCodeRejected, d)
          else (Inr \<lparr>li_open_id = code\<rparr>, d))"

text \<open>What \<open>Code2Session\<close> returns; a nil result is \<open>None\<close>. The client itself may be nil.\<close>

record code2session_result =
  w_OpenID :: string
  w_SessionKey :: string
  w_UnionID :: string
  w_ErrCode :: go_int
  w_ErrMsg :: string

type_synonym 'db wechat_client = "string \<Rightarrow> 'db \<Rightarrow> (go_error + code2session_result option) \<times> 'db"

definition WechatCodeExchanger_Exchange :: "'db wechat_client option \<Rightarrow> 'db code_exchanger" where
  "WechatCodeExchanger_Exchange client code d =
     (if has_prefix code ''dev:'' then (Inl ErrDevelopmentCodeRejected, d)
      else if trim_space code = [] then (Inl (Sentinel ErrInvalidLoginCode), d)
      else
        case client of
          None \<Rightarrow> (Inl (Text ''wechat client unavailable''), d)
        | Some code2session \<Rightarrow>
            (case code2session code d of
               (Inl err, d1) \<Rightarrow> (Inl err, d1)
             | (Inr result, d1) \<Rightarrow>
                 (case result of
                    None \<Rightarrow> (Inl ErrWechatIdentityMissing, d1)
                  | Some r \<Rightarrow>
                      if trim_space (w_OpenID r) = [] then (Inl ErrWechatIdentityMissing, d1)
                      else (Inr \<lparr>li_open_id = w_OpenID r\<rparr>, d1))))"

section \<open>Tokens\<close>

definition hex_digits :: string where "hex_digits = ''0123456789abcdef''"

definition hex_encode :: "byte list \<Rightarrow> string" where
  "hex_encode bs = concat (map (\<lambda>b. [hex_digits ! (unat b div 16), hex_digits ! (unat b mod 16)]) bs)"

text \<open>\<open>rand.Read\<close> on a slice of 32 bytes is the parameter \<open>rand\<close>.\<close>

definition GenerateToken :: "('r \<Rightarrow> (go_error + byte list) \<times> 'r) \<Rightarrow> 'r \<Rightarrow> (go_error + string) \<times> 'r" where
  "GenerateToken rand r =
     (case rand r of
        (Inl err, r1) \<Rightarrow> (Inl err, r1)
      | (Inr b, r1) \<Rightarrow> (Inr (hex_encode b), r1))"

section \<open>The service\<close>

definition LoginStageUnknown :: string where "LoginStageUnknown = ''unknown''"
definition LoginStageExchangeCode :: string where "LoginStageExchangeCode = ''exchange_code''"
definition LoginStageLookupPlayer :: string where "LoginStageLookupPlayer = ''lookup_player''"
definition LoginStageCreatePlayer :: string where "LoginStageCreatePlayer = ''create_player''"
definition LoginStageUpdateNickname :: string where "LoginStageUpdateNickname = ''update_nickname''"
definition LoginStageGenerateToken :: string where "LoginStageGenerateToken = ''generate_token''"
definition LoginStageUpdateToken :: string where "LoginStageUpdateToken = ''update_token''"
definition LoginStageLoadSession :: string where "LoginStageLoadSession = ''load_session''"
definition LoginStageStoreSession :: string where "LoginStageStoreSession = ''store_session''"

record login_result =
  res_UID :: i64
  res_Nickname :: string
  res_Token :: string

record 'db login_service =
  ls_players :: "'db player_repository"
  ls_sessions :: "'db session_repository"
  ls_exchanger :: "'db code_exchanger"
  ls_generate :: "'db \<Rightarrow> (go_error + string) \<times> 'db"

definition wrapLoginOperation :: "string \<Rightarrow> go_error option \<Rightarrow> go_error option" where
  "wrapLoginOperation stage err = map_option (LoginOperationError stage) err"

definition loginOperationStage :: "go_error \<Rightarrow> string" where
  "loginOperationStage err =
     (case List.find (\<lambda>e. case e of LoginOperationError _ _ \<Rightarrow> True | _ \<Rightarrow> False) (error_chain err) of
        Some (LoginOperationError stage _) \<Rightarrow> stage
      | _ \<Rightarrow> LoginStageUnknown)"

definition isExchangeError :: "go_error \<Rightarrow> bool" where
  "isExchangeError err = list_ex (\<lambda>e. case e of ExchangeError _ \<Rightarrow> True | _ \<Rightarrow> False) (error_chain err)"

definition default_nickname :: "i64 \<Rightarrow> string" where
  "default_nickname i = bytes_of [0xE7, 0x8E, 0xA9, 0xE5, 0xAE, 0xB6] @ show_i64 i"

text \<open>The lookup of the player, with its creation on first login.\<close>

definition login_player :: "'db login_service \<Rightarrow> string \<Rightarrow> 'db \<Rightarrow> (go_error + player) \<times> 'db" where
  "login_player s open_id d =
     (case GetPlayerByOpenID (ls_players s) open_id d of
        Inl err \<Rightarrow>
          if IsNotFound err then
            (case CreatePlayer (ls_players s) (new_player open_id) d of
               (Inl e, d1) \<Rightarrow> (Inl (LoginOperationError LoginStageCreatePlayer e), d1)
             | (Inr created, d1) \<Rightarrow>
                 let p = created\<lparr>p_nickname := default_nickname (p_id created)\<rparr>
                 in case UpdatePlayer (ls_players s) p d1 of
                      (Some e, d2) \<Rightarrow> (Inl (LoginOperationError LoginStageUpdateNickname e), d2)
                    | (None, d2) \<Rightarrow> (Inr p, d2))
          else (Inl (LoginOperationError LoginStageLookupPlayer err), d)
      | Inr None \<Rightarrow>
          (Inl (LoginOperationError LoginStageLookupPlayer (Sentinel ErrInvalidPlayerRepositoryResult)), d)
      | Inr (Some p) \<Rightarrow> (Inr p, d))"

definition LoginService_Login :: "'db login_service \<Rightarrow> string \<Rightarrow> 'db \<Rightarrow> (go_error + login_result) \<times> 'db" where
  "LoginService_Login s code d =
     (case ls_exchanger s code d of
        (Inl err, d1) \<Rightarrow> (Inl (LoginOperationError LoginStageExchangeCode (ExchangeError err)), d1)
      | (Inr identity, d1) \<Rightarrow>
          (case login_player s (li_open_id identity) d1 of
             (Inl err, d2) \<Rightarrow> (Inl err, d2)
           | (Inr player, d2) \<Rightarrow>
               (case ls_generate s d2 of
                  (Inl err, d3) \<Rightarrow> (Inl (LoginOperationError LoginStageGenerateToken err), d3)
                | (Inr token, d3) \<Rightarrow>
                    let p = player\<lparr>p_token := token\<rparr>
                    in case UpdatePlayer (ls_players s) p d3 of
                         (Some err, d4) \<Rightarrow> (Inl (LoginOperationError LoginStageUpdateToken err), d4)
                       | (None, d4) \<Rightarrow>
                           (case SetSession (ls_sessions s) (p_id p)
                                \<lparr>sd_uid = p_id p, sd_nickname = p_nickname p, sd_token = token\<rparr> d4 of
                              (Some err, d5) \<Rightarrow> (Inl (LoginOperationError LoginStageStoreSession err), d5)
                            | (None, d5) \<Rightarrow>
                                (Inr \<lparr>res_UID = p_id p, res_Nickname = p_nickname p, res_Token = token\<rparr>, d5)))))"

definition RefreshSession :: "'db login_service \<Rightarrow> i64 \<Rightarrow> 'db \<Rightarrow> go_error option \<times> 'db" where
  "RefreshSession s uid d =
     (case GetSession (ls_sessions s) uid d of
        Inl err \<Rightarrow> (wrapLoginOperation LoginStageLoadSession (Some err), d)
      | Inr data \<Rightarrow>
          let data' = (case data of None \<Rightarrow> \<lparr>sd_uid = uid, sd_nickname = [], sd_token = []\<rparr> | Some x \<Rightarrow> x)
          in case SetSession (ls_sessions s) uid data' d of
               (err, d1) \<Rightarrow> (wrapLoginOperation LoginStageStoreSession err, d1))"

section \<open>The handlers\<close>

definition SessionKeyNickname :: string where "SessionKeyNickname = ''nickname''"
definition SessionKeyToken :: string where "SessionKeyToken = ''token''"

definition classifyLoginError :: "go_error \<Rightarrow> go_int \<times> string" where
  "classifyLoginError err =
     (if errors_is err ErrInvalidLoginCode then (ErrLoginInvalidCode, bytes_of [0xE7, 0x99, 0xBB, 0xE5,
         0xBD, 0x95, 0xE5, 0x87, 0xAD, 0xE8, 0xAF, 0x81, 0xE6, 0x97, 0xA0, 0xE6, 0x95, 0x88])
      else if isExchangeError err then (ErrLoginWechatFailed, bytes_of [0xE5, 0xBE, 0xAE, 0xE4, 0xBF, 0xA1,
         0xE7, 0x99, 0xBB, 0xE5, 0xBD, 0x95, 0xE6, 0x9C, 0x8D, 0xE5, 0x8A, 0xA1, 0xE5, 0xA4, 0xB1, 0xE8,
         0xB4, 0xA5])
      else (ErrInternal, bytes_of [0xE7, 0x99, 0xBB, 0xE5, 0xBD, 0x95, 0xE5, 0xA4, 0xB1, 0xE8, 0xB4,
         0xA5]))"

definition Login_Login ::
  "'db login_service \<Rightarrow> go_context \<Rightarrow> login_req \<Rightarrow> 'db world \<Rightarrow> (go_error + login_resp) \<times> 'db world" where
  "Login_Login service ctx req w =
     (case on_db (LoginService_Login service (lq_code req)) w of
        (Inl err, w1) \<Rightarrow>
          (case classifyLoginError err of (code, message) \<Rightarrow> (Inl (NewBizError code message), w1))
      | (Inr result, w1) \<Rightarrow>
          let w2 = (case FromContext ctx of
                None \<Rightarrow> w1
              | Some current \<Rightarrow>
                  w1\<lparr>w_sessions := (w_sessions w1)(current :=
                    Session_Set SessionKeyToken (StringValue (res_Token result))
                      (Session_Set SessionKeyNickname (StringValue (res_Nickname result))
                        (Session_Bind (res_UID result) (w_sessions w1 current))))\<rparr>)
          in (Inr \<lparr>lr_uid = res_UID result, lr_nickname = res_Nickname result, lr_token = res_Token result\<rparr>, w2))"

definition Login_Heartbeat ::
  "'db login_service \<Rightarrow> go_context \<Rightarrow> heartbeat_req \<Rightarrow> 'db world
     \<Rightarrow> (go_error + heartbeat_resp) \<times> 'db world" where
  "Login_Heartbeat service ctx req w =
     (let reply = Inr \<lparr>hbr_timestamp = hbq_timestamp req\<rparr> in
      case FromContext ctx of
        None \<Rightarrow> (reply, w)
      | Some current \<Rightarrow>
          let uid = Session_UID (w_sessions w current) in
          if 0 <s uid then
            (case on_db (RefreshSession service uid) w of
               (Some err, w1) \<Rightarrow> (Inl (Wrap (''refresh session for uid '' @ show_i64 uid @ '': '') err []), w1)
             | (None, w1) \<Rightarrow> (reply, w1))
          else (reply, w))"

section \<open>Logins over lawful stores\<close>

lemma error_class_simps [simp]:
  "isExchangeError (LoginOperationError stage e) = isExchangeError e"
  "isExchangeError (ExchangeError e) = True"
  "loginOperationStage (LoginOperationError stage e) = stage"
  by (simp_all add: isExchangeError_def loginOperationStage_def)

context login_stores
begin

text \<open>A generator that does not touch the stores.\<close>

definition quiet :: "('st \<Rightarrow> (go_error + string) \<times> 'st) \<Rightarrow> bool" where
  "quiet gen \<longleftrightarrow> (\<forall>s r s'. gen s = (r, s') \<longrightarrow>
     players s' = players s \<and> sessions s' = sessions s \<and> inv s' = inv s \<and> room s' = room s)"

lemma login_player_existing:
  assumes "ls_players svc = players_repo" "inv s" "players s i = Some p"
  shows "login_player svc (p_open_id p) s = (Inr p, s)"
  using get_open_id_found [OF assms(2,3)] assms(1) by (simp add: login_player_def)

lemma login_player_new:
  assumes svc: "ls_players svc = players_repo" and inv: "inv s" and room: "room s"
    and new: "\<forall>i p. players s i = Some p \<longrightarrow> p_open_id p \<noteq> x"
  shows "\<exists>i p s'. login_player svc x s = (Inr p, s') \<and> p_id p = i \<and> 0 <s i \<and> players s i = None \<and> p_open_id p = x
    \<and> p_nickname p = default_nickname i \<and> players s' = (players s)(i \<mapsto> p) \<and> sessions s' = sessions s \<and> inv s'"
proof -
  from get_open_id_missing [OF inv new] obtain e
    where e: "GetPlayerByOpenID players_repo x s = Inl e" "IsNotFound e" by blast
  from create [OF inv room, of "new_player x"] new obtain i s1
    where c: "CreatePlayer players_repo (new_player x) s = (Inr ((new_player x)\<lparr>p_id := i\<rparr>), s1)"
      "players s i = None" "0 <s i" "players s1 = (players s)(i \<mapsto> (new_player x)\<lparr>p_id := i\<rparr>)" "inv s1" by auto
  define p where "p = (new_player x)\<lparr>p_id := i, p_nickname := default_nickname i\<rparr>"
  have "players s1 (p_id p) = Some ((new_player x)\<lparr>p_id := i\<rparr>)" "p_open_id p = p_open_id ((new_player x)\<lparr>p_id := i\<rparr>)"
    by (simp_all add: p_def c(4))
  from update [OF c(5) this] obtain s2
    where u: "UpdatePlayer players_repo p s1 = (None, s2)" "players s2 = (players s1)(p_id p \<mapsto> p)" "inv s2" by blast
  have "sessions s2 = sessions s"
    using create_sessions [of "new_player x" s] update_sessions [of p s1] c(1) u(1) by simp
  moreover have "login_player svc x s = (Inr p, s2)"
    using e c(1) u(1) by (simp add: login_player_def svc Let_def p_def)
  ultimately show ?thesis
    using c(2,3,4) u(2,3) by (intro exI [of _ i] exI [of _ p] exI [of _ s2]) (simp add: p_def)
qed

text \<open>The player and the session that a login leaves behind, nothing else changed.\<close>

definition logged_in :: "'st \<Rightarrow> string \<Rightarrow> login_result \<Rightarrow> 'st \<Rightarrow> bool" where
  "logged_in s x r s' \<longleftrightarrow> inv s'
     \<and> (\<exists>p. players s' = (players s)(res_UID r \<mapsto> p) \<and> p_open_id p = x \<and> p_token p = res_Token r
          \<and> p_nickname p = res_Nickname r)
     \<and> sessions s' = (sessions s)(res_UID r \<mapsto>
          \<lparr>sd_uid = res_UID r, sd_nickname = res_Nickname r, sd_token = res_Token r\<rparr>)"

lemma login_finish:
  assumes svc: "ls_players svc = players_repo" "ls_sessions svc = sessions_repo"
    and ex: "ls_exchanger svc code s = (Inr \<lparr>li_open_id = x\<rparr>, s)"
    and lp: "login_player svc x s = (Inr p, s1)" "inv s1" "players s1 = (players s)(p_id p \<mapsto> p)"
      "sessions s1 = sessions s" "p_open_id p = x"
    and gen: "quiet (ls_generate svc)" "ls_generate svc s1 = (Inr t, s2)"
  shows "\<exists>s'. LoginService_Login svc code s =
      (Inr \<lparr>res_UID = p_id p, res_Nickname = p_nickname p, res_Token = t\<rparr>, s')
    \<and> logged_in s x \<lparr>res_UID = p_id p, res_Nickname = p_nickname p, res_Token = t\<rparr> s'"
proof -
  define q where "q = p\<lparr>p_token := t\<rparr>"
  have s2: "players s2 = players s1" "sessions s2 = sessions s1" "inv s2"
    using gen lp(2) by (auto simp: quiet_def)
  have "players s2 (p_id q) = Some p" "p_open_id q = p_open_id p"
    by (simp_all add: q_def s2 lp(3))
  from update [OF s2(3) this] obtain s3
    where u: "UpdatePlayer players_repo q s2 = (None, s3)" "players s3 = (players s2)(p_id q \<mapsto> q)" "inv s3" by blast
  define d where "d = \<lparr>sd_uid = p_id p, sd_nickname = p_nickname p, sd_token = t\<rparr>"
  obtain s4 where s4: "SetSession sessions_repo (p_id p) d s3 = (None, s4)"
    using set_ok [of "p_id p" d s3] by (cases "SetSession sessions_repo (p_id p) d s3") simp
  have f: "players s4 = players s3" "inv s4" "sessions s4 = (sessions s3)(p_id p \<mapsto> d)" "sessions s3 = sessions s2"
    using set_players [of "p_id p" d s3] set_inv [OF u(3), of "p_id p" d] sessions_set [of "p_id p" d s3]
      update_sessions [of q s2] s4 u(1) by simp_all
  have "LoginService_Login svc code s = (Inr \<lparr>res_UID = p_id p, res_Nickname = p_nickname p, res_Token = t\<rparr>, s4)"
    using ex lp(1) gen(2) u(1) s4 by (simp add: LoginService_Login_def svc Let_def q_def d_def)
  moreover have "logged_in s x \<lparr>res_UID = p_id p, res_Nickname = p_nickname p, res_Token = t\<rparr> s4"
    unfolding logged_in_def
    by (intro conjI exI [of _ q]) (simp_all add: f u(2) s2 lp q_def d_def)
  ultimately show ?thesis by blast
qed

lemma login_succeeds:
  assumes svc: "ls_players svc = players_repo" "ls_sessions svc = sessions_repo"
    and ex: "ls_exchanger svc code s = (Inr \<lparr>li_open_id = x\<rparr>, s)"
    and gen: "quiet (ls_generate svc)" "\<forall>s. \<exists>t s'. ls_generate svc s = (Inr t, s')"
    and inv: "inv s" and room: "room s"
  shows "\<exists>r s'. LoginService_Login svc code s = (Inr r, s') \<and> logged_in s x r s'
    \<and> (case players s (res_UID r) of Some p \<Rightarrow> p_open_id p = x
         | None \<Rightarrow> 0 <s res_UID r \<and> (\<forall>i p. players s i = Some p \<longrightarrow> p_open_id p \<noteq> x))"
proof (cases "\<exists>i p. players s i = Some p \<and> p_open_id p = x")
  case True
  then obtain i p where p: "players s i = Some p" "p_open_id p = x" by blast
  then have "login_player svc x s = (Inr p, s)" "p_id p = i"
    using login_player_existing [OF svc(1) inv p(1)] players_id [OF inv p(1)] by simp_all
  moreover obtain t s2 where "ls_generate svc s = (Inr t, s2)" using gen(2) by blast
  moreover have "players s = (players s)(p_id p \<mapsto> p)" using p \<open>p_id p = i\<close> by (auto simp: fun_upd_idem_iff)
  ultimately obtain s' where "LoginService_Login svc code s =
      (Inr \<lparr>res_UID = p_id p, res_Nickname = p_nickname p, res_Token = t\<rparr>, s')"
    "logged_in s x \<lparr>res_UID = p_id p, res_Nickname = p_nickname p, res_Token = t\<rparr> s'"
    using login_finish [OF svc ex _ inv _ refl p(2) gen(1)] by blast
  with p \<open>p_id p = i\<close> show ?thesis by fastforce
next
  case False
  then have new: "\<forall>i p. players s i = Some p \<longrightarrow> p_open_id p \<noteq> x" by blast
  from login_player_new [OF svc(1) inv room new] obtain p s1
    where p: "login_player svc x s = (Inr p, s1)" "0 <s p_id p" "players s (p_id p) = None" "p_open_id p = x"
      "players s1 = (players s)(p_id p \<mapsto> p)" "sessions s1 = sessions s" "inv s1" by blast
  obtain t s2 where "ls_generate svc s1 = (Inr t, s2)" using gen(2) by blast
  from login_finish [OF svc ex p(1,7,5,6,4) gen(1) this] p(2,3) new show ?thesis by fastforce
qed

text \<open>A rejected code changes nothing.\<close>

lemma login_rejected:
  "ls_exchanger svc code s = (Inl e, s) \<Longrightarrow>
   LoginService_Login svc code s = (Inl (LoginOperationError LoginStageExchangeCode (ExchangeError e)), s)"
  by (simp add: LoginService_Login_def)

text \<open>Whatever the outcome: the players that were there stay, with their open ids, and at most one is added.\<close>

lemma login_effect:
  assumes svc: "ls_players svc = players_repo" "ls_sessions svc = sessions_repo"
    and ex: "\<And>code s. snd (ls_exchanger svc code s) = s" and gen: "quiet (ls_generate svc)"
    and inv: "inv s" and room: "room s" and run: "LoginService_Login svc code s = (res, s')"
  shows "case res of
      Inr r \<Rightarrow> \<exists>x. fst (ls_exchanger svc code s) = Inr \<lparr>li_open_id = x\<rparr> \<and> logged_in s x r s'
        \<and> (\<forall>p. players s (res_UID r) = Some p \<longrightarrow> p_open_id p = x) \<and> (players s (res_UID r) = None \<longrightarrow> 0 <s res_UID r)
    | Inl e \<Rightarrow> inv s' \<and> sessions s' = sessions s
        \<and> (players s' = players s \<or> (\<exists>p. players s' = (players s)(p_id p \<mapsto> p) \<and> players s (p_id p) = None))"
proof -
  obtain a where a: "ls_exchanger svc code s = (a, s)" using ex [of code s] by (metis prod.collapse)
  show ?thesis
  proof (cases a)
    case (Inl e)
    with login_rejected [of svc code s e] a run inv show ?thesis by auto
  next
    case (Inr identity)
    obtain x where x: "identity = \<lparr>li_open_id = x\<rparr>" by (cases identity) blast
    with a Inr have exx: "ls_exchanger svc code s = (Inr \<lparr>li_open_id = x\<rparr>, s)" by simp
    have "\<exists>p s1. login_player svc x s = (Inr p, s1) \<and> inv s1 \<and> players s1 = (players s)(p_id p \<mapsto> p)
        \<and> sessions s1 = sessions s \<and> p_open_id p = x
        \<and> (players s (p_id p) = Some p \<or> players s (p_id p) = None \<and> 0 <s p_id p)"
    proof (cases "\<exists>i p. players s i = Some p \<and> p_open_id p = x")
      case True
      then obtain i p where p: "players s i = Some p" "p_open_id p = x" by blast
      moreover from this have "p_id p = i" using players_id [OF inv] by blast
      ultimately show ?thesis
        using login_player_existing [OF svc(1) inv p(1)] inv
        by (intro exI [of _ p] exI [of _ s]) (auto simp: fun_upd_idem_iff)
    next
      case False
      with login_player_new [OF svc(1) inv room, of x] show ?thesis by blast
    qed
    then obtain p s1 where p: "login_player svc x s = (Inr p, s1)" "inv s1" "players s1 = (players s)(p_id p \<mapsto> p)"
        "sessions s1 = sessions s" "p_open_id p = x"
        "players s (p_id p) = Some p \<or> players s (p_id p) = None \<and> 0 <s p_id p" by blast
    obtain t s2 where t: "ls_generate svc s1 = (t, s2)" by fastforce
    show ?thesis
    proof (cases t)
      case (Inl e)
      with p(1) t exx have "LoginService_Login svc code s = (Inl (LoginOperationError LoginStageGenerateToken e), s2)"
        by (simp add: LoginService_Login_def)
      moreover have "inv s2" "sessions s2 = sessions s" "players s2 = (players s)(p_id p \<mapsto> p)"
        using gen t p by (auto simp: quiet_def)
      ultimately show ?thesis using run p(6) by (auto simp: fun_upd_idem_iff)
    next
      case (Inr tok)
      with login_finish [OF svc exx p(1-5) gen] t run p(5,6) exx show ?thesis by auto
    qed
  qed
qed

lemma refresh_ok:
  assumes "ls_sessions svc = sessions_repo"
  shows "\<exists>s'. RefreshSession svc uid s = (None, s') \<and> players s' = players s \<and> (inv s \<longrightarrow> inv s')
    \<and> sessions s' = (sessions s)(uid \<mapsto> (case sessions s uid of Some d \<Rightarrow> d
        | None \<Rightarrow> \<lparr>sd_uid = uid, sd_nickname = [], sd_token = []\<rparr>))"
proof -
  define d where "d = (case sessions s uid of Some d \<Rightarrow> d | None \<Rightarrow> \<lparr>sd_uid = uid, sd_nickname = [], sd_token = []\<rparr>)"
  obtain s' where s': "SetSession sessions_repo uid d s = (None, s')"
    using set_ok [of uid d s] by (cases "SetSession sessions_repo uid d s") simp
  have "RefreshSession svc uid s = (None, s')"
    using s' by (simp add: RefreshSession_def assms get_session wrapLoginOperation_def Let_def d_def split: option.splits)
  then show ?thesis
    using set_players [of uid d s] set_inv [of s uid d] sessions_set [of uid d s] s' by (simp add: d_def)
qed

end

end
