(* ===== verification/Hooks.thy ===== *)
theory Hooks
  imports Data_Stores Kernel
begin

text \<open>
  The before-hooks of \<open>internal/hooks/hooks.go\<close>: authentication against the session store and rate limiting by
  player. Both let the messages through that the kernel marks as free of authentication, and both let a
  request through when their store fails. The kernel they ask is the one they are installed in; only its
  handler table matters to them, which no longer changes when the hooks run.
\<close>

definition Auth :: "'db session_repository \<Rightarrow> 'v kernel \<Rightarrow> 'db world before_handler" where
  "Auth sessions k ctx input w =
     (if IsAuthFree k (MsgIDFromContext ctx) then ((ctx, input, None), w)
      else
        let uid = (case FromContext ctx of None \<Rightarrow> 0 | Some s \<Rightarrow> Session_UID (w_sessions w s)) in
        if uid \<le>s 0 then ((ctx, input, Some (NewBizError ErrUnauthorized (bytes_of [0xE8, 0xAF, 0xB7,
         0xE5, 0x85, 0x88, 0xE7, 0x99, 0xBB, 0xE5, 0xBD, 0x95]))), w)
        else
          case GetSession sessions uid (w_db w) of
            Inl err \<Rightarrow> ((ctx, input, None), w)
          | Inr None \<Rightarrow> ((ctx, input, Some (NewBizError ErrLoginTokenExpired (bytes_of [0xE4,
         0xBC, 0x9A, 0xE8, 0xAF, 0x9D, 0xE5, 0xB7, 0xB2, 0xE8, 0xBF, 0x87, 0xE6, 0x9C, 0x9F, 0xEF, 0xBC,
         0x8C, 0xE8, 0xAF, 0xB7, 0xE9, 0x87, 0x8D, 0xE6, 0x96, 0xB0, 0xE7, 0x99, 0xBB, 0xE5, 0xBD,
         0x95]))), w)
          | Inr (Some sess) \<Rightarrow> ((ctx, input, None), w))"

definition RateLimit :: "'db redis_store \<Rightarrow> 'v kernel \<Rightarrow> go_int \<Rightarrow> go_int \<Rightarrow> 'db world before_handler" where
  "RateLimit redis k limit window ctx input w =
     (if IsAuthFree k (MsgIDFromContext ctx) then ((ctx, input, None), w)
      else
        case FromContext ctx of
          None \<Rightarrow> ((ctx, input, None), w)
        | Some s \<Rightarrow>
            let uid = Session_UID (w_sessions w s) in
            if uid \<le>s 0 then ((ctx, input, None), w)
            else
              case on_db (rd_CheckRateLimit redis (show_i64 uid) limit window) w of
                (Inl err, w1) \<Rightarrow> ((ctx, input, None), w1)
              | (Inr allowed, w1) \<Rightarrow>
                  if \<not> allowed then ((ctx, input, Some (NewBizError ErrTooFrequent (bytes_of [0xE8,
         0xAF, 0xB7, 0xE6, 0xB1, 0x82, 0xE8, 0xBF, 0x87, 0xE4, 0xBA, 0x8E, 0xE9, 0xA2, 0x91, 0xE7, 0xB9,
         0x81, 0xEF, 0xBC, 0x8C, 0xE8, 0xAF, 0xB7, 0xE7, 0xA8, 0x8D, 0xE5, 0x90, 0x8E, 0xE5, 0x86, 0x8D,
         0xE8, 0xAF, 0x95]))), w1)
                  else ((ctx, input, None), w1))"

section \<open>What the authentication hook decides\<close>

lemma Auth_free: "IsAuthFree k (MsgIDFromContext ctx) \<Longrightarrow> Auth sessions k ctx input w = ((ctx, input, None), w)"
  by (simp add: Auth_def)

lemma Auth_unbound:
  assumes "\<not> IsAuthFree k (MsgIDFromContext ctx)" "uidFromCtx ctx w \<le>s 0"
  shows "\<exists>m. Auth sessions k ctx input w = ((ctx, input, Some (NewBizError ErrUnauthorized m)), w)"
  using assms by (auto simp: Auth_def uidFromCtx_def Let_def)

lemma Auth_expired:
  assumes "\<not> IsAuthFree k (MsgIDFromContext ctx)" "0 <s uidFromCtx ctx w"
    "GetSession sessions (uidFromCtx ctx w) (w_db w) = Inr None"
  shows "\<exists>m. Auth sessions k ctx input w = ((ctx, input, Some (NewBizError ErrLoginTokenExpired m)), w)"
  using assms by (auto simp: Auth_def uidFromCtx_def Let_def signed_defs)

lemma Auth_passes:
  assumes "\<not> IsAuthFree k (MsgIDFromContext ctx)" "0 <s uidFromCtx ctx w"
    "GetSession sessions (uidFromCtx ctx w) (w_db w) \<noteq> Inr None"
  shows "Auth sessions k ctx input w = ((ctx, input, None), w)"
  using assms by (auto simp: Auth_def uidFromCtx_def Let_def signed_defs split: sum.splits option.splits)

text \<open>The hook never changes the context or the state, and its verdict is a business error.\<close>

lemma Auth_frame:
  "\<exists>e. Auth sessions k ctx input w = ((ctx, input, e), w) \<and> (\<forall>x. e = Some x \<longrightarrow> (\<exists>c m. x = NewBizError c m))"
  by (auto simp: Auth_def Let_def split: sum.splits option.splits)

end
