(* ===== verification/Dev_Database.thy ===== *)
theory Dev_Database
  imports Login Game Memory_History
begin

text \<open>
  The state behind the development runtime: the in-memory store together with the random source that tokens
  are drawn from. The store's operations act on the first part, token generation on the second; the
  repository locales are interpreted on this state, which is what the runtime's handlers work on.
\<close>

section \<open>The state and the lifted operations\<close>

record 'r dev_db =
  dd_store :: memory_store
  dd_rand :: 'r

definition on_store :: "(memory_store \<Rightarrow> 'a \<times> memory_store) \<Rightarrow> 'r dev_db \<Rightarrow> 'a \<times> 'r dev_db" where
  "on_store f d = (case f (dd_store d) of (r, s) \<Rightarrow> (r, d\<lparr>dd_store := s\<rparr>))"

definition dev_players :: "'r dev_db player_repository" where
  "dev_players =
     \<lparr>GetPlayerByID = (\<lambda>i d. GetPlayerByID mem_players i (dd_store d)),
      GetPlayerByOpenID = (\<lambda>x d. GetPlayerByOpenID mem_players x (dd_store d)),
      CreatePlayer = (\<lambda>p. on_store (CreatePlayer mem_players p)),
      UpdatePlayer = (\<lambda>p. on_store (UpdatePlayer mem_players p))\<rparr>"

definition dev_sessions :: "'r dev_db session_repository" where
  "dev_sessions =
     \<lparr>SetSession = (\<lambda>uid x. on_store (SetSession mem_sessions uid x)),
      GetSession = (\<lambda>uid d. GetSession mem_sessions uid (dd_store d)),
      DelSession = (\<lambda>uid. on_store (DelSession mem_sessions uid))\<rparr>"

definition dev_archives :: "'r dev_db archive_repository" where
  "dev_archives =
     \<lparr>GetArchive = (\<lambda>i d. GetArchive mem_archives i (dd_store d)),
      SaveArchive = (\<lambda>a. on_store (SaveArchive mem_archives a))\<rparr>"

definition dev_settle :: "codec \<Rightarrow> 'r dev_db settlement_repository" where
  "dev_settle C pid req = on_store (mem_settle C pid req)"

definition dev_stats :: "'r dev_db development_stats_repository" where
  "dev_stats pid d = Mem_GetDevelopmentPlayerLevel pid (dd_store d)"

definition dev_generate :: "('r \<Rightarrow> (go_error + byte list) \<times> 'r) \<Rightarrow> 'r dev_db \<Rightarrow> (go_error + string) \<times> 'r dev_db" where
  "dev_generate rand d = (case GenerateToken rand (dd_rand d) of (r, x) \<Rightarrow> (r, d\<lparr>dd_rand := x\<rparr>))"

lemma on_store_simps [simp]:
  "fst (on_store f d) = fst (f (dd_store d))"
  "dd_store (snd (on_store f d)) = snd (f (dd_store d))"
  "dd_rand (snd (on_store f d)) = dd_rand d"
  by (simp_all add: on_store_def split: prod.splits)

lemma on_store_eq: "on_store f d = (fst (f (dd_store d)), d\<lparr>dd_store := snd (f (dd_store d))\<rparr>)"
  by (simp add: on_store_def split: prod.splits)

section \<open>Interpretations\<close>

interpretation dev_arch: lawful_archives dev_archives "\<lambda>d pid. archivesByUID (dd_store d) pid \<noteq> None"
  by unfold_locales
    (simp_all add: dev_archives_def mem_arch.save_ok mem_arch.get_saved mem_arch.get_unsaved mem_arch.get_missing
       mem_arch.has_saved del: not_None_eq)

interpretation dev_login: login_stores dev_players "\<lambda>d. playersByID (dd_store d)" "\<lambda>d. mem_inv (dd_store d)"
  "\<lambda>d. mem_room (dd_store d)" dev_sessions "\<lambda>d. sessionsByUID (dd_store d)"
proof unfold_locales
  fix d :: "'r dev_db" and p :: player
  assume "mem_inv (dd_store d)" "mem_room (dd_store d)"
    "\<forall>i q. playersByID (dd_store d) i = Some q \<longrightarrow> p_open_id q \<noteq> p_open_id p"
  from mem_login.create [OF this] obtain i s'
    where "CreatePlayer mem_players p (dd_store d) = (Inr (p\<lparr>p_id := i\<rparr>), s')" "playersByID (dd_store d) i = None"
      "0 <s i" "playersByID s' = (playersByID (dd_store d))(i \<mapsto> p\<lparr>p_id := i\<rparr>)" "mem_inv s'" by blast
  then show "\<exists>i d'. CreatePlayer dev_players p d = (Inr (p\<lparr>p_id := i\<rparr>), d') \<and> playersByID (dd_store d) i = None
      \<and> 0 <s i \<and> playersByID (dd_store d') = (playersByID (dd_store d))(i \<mapsto> p\<lparr>p_id := i\<rparr>) \<and> mem_inv (dd_store d')"
    by (intro exI [of _ i] exI [of _ "d\<lparr>dd_store := s'\<rparr>"]) (simp add: dev_players_def on_store_eq)
next
  fix d :: "'r dev_db" and p q :: player
  assume "mem_inv (dd_store d)" "playersByID (dd_store d) (p_id p) = Some q" "p_open_id p = p_open_id q"
  from mem_login.update [OF this] obtain s'
    where "UpdatePlayer mem_players p (dd_store d) = (None, s')"
      "playersByID s' = (playersByID (dd_store d))(p_id p \<mapsto> p)" "mem_inv s'" by blast
  then show "\<exists>d'. UpdatePlayer dev_players p d = (None, d')
      \<and> playersByID (dd_store d') = (playersByID (dd_store d))(p_id p \<mapsto> p) \<and> mem_inv (dd_store d')"
    by (intro exI [of _ "d\<lparr>dd_store := s'\<rparr>"]) (simp add: dev_players_def on_store_eq)
qed (simp_all add: dev_players_def dev_sessions_def mem_login.players_id mem_login.get_open_id_found
       mem_login.get_open_id_missing mem_login.get_session mem_login.set_ok mem_login.sessions_set
       mem_login.del_ok mem_login.sessions_del mem_login.create_sessions mem_login.update_sessions
       mem_login.set_players mem_login.set_inv,
     use mem_login.open_id_unique in blast)

section \<open>Effects as histories\<close>

text \<open>At most \<open>n\<close> operations of the store lead from one state to the other.\<close>

definition steps :: "codec \<Rightarrow> nat \<Rightarrow> 'r dev_db \<Rightarrow> 'r dev_db \<Rightarrow> bool" where
  "steps C n d d' \<longleftrightarrow> (\<exists>ops. length ops \<le> n \<and> dd_store d' = mem_run C ops (dd_store d))"

lemma steps_same: "dd_store d' = dd_store d \<Longrightarrow> steps C n d d'"
  unfolding steps_def by (rule exI [of _ "[]"]) simp

lemma steps_refl [simp]: "steps C n d d"
  by (simp add: steps_same)

lemma steps_op: "dd_store d' = mem_exec C op (dd_store d) \<Longrightarrow> 0 < n \<Longrightarrow> steps C n d d'"
  unfolding steps_def by (rule exI [of _ "[op]"]) simp

lemma steps_trans:
  assumes "steps C m d1 d2" "steps C n d2 d3" "m + n \<le> k"
  shows "steps C k d1 d3"
proof -
  from assms(1,2) obtain ops ops' where "length ops \<le> m" "dd_store d2 = mem_run C ops (dd_store d1)"
    "length ops' \<le> n" "dd_store d3 = mem_run C ops' (dd_store d2)" by (auto simp: steps_def)
  with assms(3) show ?thesis
    unfolding steps_def by (intro exI [of _ "ops @ ops'"]) (simp add: mem_run_append)
qed

lemma steps_mono: "steps C m d d' \<Longrightarrow> m \<le> n \<Longrightarrow> steps C n d d'"
  by (rule steps_trans [of C m d d' 0]) simp_all

text \<open>Each repository operation is at most one, and token generation none.\<close>

lemma dev_op_steps:
  "steps C (Suc n) d (snd (CreatePlayer dev_players p d))"
  "steps C (Suc n) d (snd (UpdatePlayer dev_players p d))"
  "steps C (Suc n) d (snd (SetSession dev_sessions uid x d))"
  "steps C (Suc n) d (snd (SaveArchive dev_archives a d))"
  "steps C (Suc n) d (snd (dev_settle C pid req d))"
  "steps C n d (snd (dev_generate rand d))"
proof -
  show "steps C (Suc n) d (snd (CreatePlayer dev_players p d))"
    by (rule steps_op [of _ _ "Op_CreatePlayer (Some p)"]) (simp_all add: dev_players_def mem_players_def)
  show "steps C (Suc n) d (snd (UpdatePlayer dev_players p d))"
    by (rule steps_op [of _ _ "Op_UpdatePlayer (Some p)"]) (simp_all add: dev_players_def mem_players_def)
  show "steps C (Suc n) d (snd (SetSession dev_sessions uid x d))"
    by (rule steps_op [of _ _ "Op_SetSession uid (Some x)"]) (simp_all add: dev_sessions_def mem_sessions_def)
  show "steps C (Suc n) d (snd (SaveArchive dev_archives a d))"
    by (rule steps_op [of _ _ "Op_SaveArchive (Some a)"]) (simp_all add: dev_archives_def mem_archives_def)
  show "steps C (Suc n) d (snd (dev_settle C pid req d))"
    by (rule steps_op [of _ _ "Op_Settle pid (Some req)"]) (simp_all add: dev_settle_def mem_settle_def)
  show "steps C n d (snd (dev_generate rand d))"
    by (rule steps_same) (simp add: dev_generate_def split: prod.split)
qed

text \<open>The same facts for a call whose result is known.\<close>

lemma dev_op_stepsD:
  "CreatePlayer dev_players p d = (r1, d') \<Longrightarrow> steps C (Suc 0) d d'"
  "UpdatePlayer dev_players p d = (r2, d') \<Longrightarrow> steps C (Suc 0) d d'"
  "SetSession dev_sessions uid x d = (r2, d') \<Longrightarrow> steps C (Suc 0) d d'"
  "dev_generate rand d = (r3, d') \<Longrightarrow> steps C 0 d d'"
  using dev_op_steps [where C = C and d = d] by (metis snd_conv)+

lemma dev_generate_quiet: "dev_login.quiet (dev_generate rand)"
  unfolding dev_login.quiet_def by (auto simp: dev_generate_def split: prod.splits)

end
