(* ===== verification/Combat_Handler.thy ===== *)
theory Combat_Handler
  imports Combat_Validator Data_Stores Memory_Store Kernel
begin

text \<open>
  The combat module's service and handlers: \<open>internal/combat/service.go\<close> and \<open>handler.go\<close>, with the score
  metadata of \<open>internal/store/combat_metadata.go\<close>. A handler is a function on the world; what it only logs is
  left out. The result of a handler is its response or its error.

  Shown here: what the development composition of the handler does, in terms of the settlement of
  \<open>Memory_Store\<close>; that unlocking a style and updating statistics check their input first; and what
  development statistics report before and after the first settlement.
\<close>

section \<open>The settlement service\<close>

record 'db settlement_service =
  ss_repository :: "'db settlement_repository option"
  ss_cfg :: "combat_config option"

definition NewSettlementService ::
  "'db settlement_repository option \<Rightarrow> combat_config option \<Rightarrow> 'db settlement_service" where
  "NewSettlementService repository cfg = \<lparr>ss_repository = repository, ss_cfg = cfg\<rparr>"

definition SettlementService_Settle ::
  "'db settlement_service option \<Rightarrow> i64 \<Rightarrow> combat_result_req option \<Rightarrow> 'db
     \<Rightarrow> (go_error + combat_result_resp) \<times> 'db" where
  "SettlementService_Settle s uid request d =
     (case s of
        None \<Rightarrow> (Inl (Text ''combat: settlement repository is nil''), d)
      | Some svc \<Rightarrow>
          (case ss_repository svc of
             None \<Rightarrow> (Inl (Text ''combat: settlement repository is nil''), d)
           | Some repository \<Rightarrow>
               (case (validateCombatResult request (ss_cfg svc), request) of
                  (Some err, _) \<Rightarrow> (Inl err, d)
                | (None, Some req) \<Rightarrow> repository uid req d
                | (None, None) \<Rightarrow> (Inl nil_dereference, d))))"

definition settlementRewardPolicy :: "combat_config \<Rightarrow> reward_policy" where
  "settlementRewardPolicy cfg = \<lparr>GoldPerKill = cfg_GoldPerKill cfg, ExpPerKill = cfg_ExpPerKill cfg\<rparr>"

section \<open>Score metadata\<close>

definition CombatScoreMetadataJSON :: "combat_result_req option \<Rightarrow> go_error + string" where
  "CombatScoreMetadataJSON request =
     (case request of
        None \<Rightarrow> Inl (Text ''combat score metadata: nil request'')
      | Some req \<Rightarrow>
          (case format_json (cq_survival_time req) of
             None \<Rightarrow> Inl (Wrap ''combat score metadata: ''
               (External (''json: unsupported value: '' @ format_g (cq_survival_time req))) [])
           | Some t \<Rightarrow>
               Inr (''{\"kills\":'' @ show_i32 (cq_kills req) @ '',\"survival_time\":'' @ t
                 @ '',\"dungeon_level\":'' @ show_i32 (cq_dungeon_level req)
                 @ '',\"style_id\":'' @ show_i32 (cq_style_id req) @ ''}'')))"

section \<open>The handler\<close>

record 'db combat_handler =
  ch_mysql :: "'db mysql_store option"
  ch_redis :: "'db redis_store option"
  ch_cfg :: combat_config
  ch_settlement :: "'db settlement_service option"
  ch_archives :: "'db archive_repository option"
  ch_stats :: "'db development_stats_repository option"

definition NewDevelopmentHandler ::
  "'db settlement_service option \<Rightarrow> 'db archive_repository option \<Rightarrow> 'db development_stats_repository option
     \<Rightarrow> 'db combat_handler" where
  "NewDevelopmentHandler settlement archives stats =
     \<lparr>ch_mysql = None, ch_redis = None, ch_cfg = DefaultCombatConfig, ch_settlement = settlement,
      ch_archives = archives, ch_stats = stats\<rparr>"

definition defaultStats :: "'db combat_handler \<Rightarrow> i64 \<Rightarrow> player_stats" where
  "defaultStats h uid =
     \<lparr>st_id = 0, st_player_id = uid, st_level = 1, st_exp = 0, st_gold = 0, st_max_hp = MaxHp (ch_cfg h),
      st_max_stamina = MaxStamina (ch_cfg h), st_attack_power = BaseAttackPower (ch_cfg h), st_best_score = 0,
      st_total_kills = 0, st_total_games = 0, st_created_at = 0, st_updated_at = 0\<rparr>"

text \<open>\<open>if err := ...UpdateRank(...); err != nil { log }\<close>, when there is a Redis store.\<close>

definition sync_rank :: "'db combat_handler \<Rightarrow> i64 \<Rightarrow> i64 \<Rightarrow> 'db \<Rightarrow> 'db" where
  "sync_rank h uid score d =
     (case ch_redis h of None \<Rightarrow> d | Some redis \<Rightarrow> ignoring (rd_UpdateRank redis 1 uid (show_i64 uid) score) d)"

text \<open>The part of \<open>CombatResult\<close> that runs without a settlement service.\<close>

definition CombatResult_legacy ::
  "'db combat_handler \<Rightarrow> 'db mysql_store \<Rightarrow> i64 \<Rightarrow> combat_result_req \<Rightarrow> 'db
     \<Rightarrow> (go_error + combat_result_resp) \<times> 'db" where
  "CombatResult_legacy h my uid req d0 =
     (let reward_gold = to_i64 (cq_kills req) * cfg_GoldPerKill (ch_cfg h);
          reward_exp = to_i64 (cq_kills req) * cfg_ExpPerKill (ch_cfg h);
          loaded = (case my_GetPlayerStats my uid d0 of
              Inr stats \<Rightarrow> Inr d0
            | Inl err \<Rightarrow>
                if errors_is err GormErrRecordNotFound
                then (case my_CreatePlayerStats my (defaultStats h uid) d0 of
                        (Some _, d) \<Rightarrow> Inl d
                      | (None, d) \<Rightarrow> Inr d)
                else Inl d0)
      in case loaded of
           Inl d \<Rightarrow> (Inl (NewBizError ErrInternal (bytes_of [0xE6, 0x9C, 0x8D, 0xE5, 0x8A, 0xA1,
         0xE5, 0x99, 0xA8, 0xE5, 0x86, 0x85, 0xE9, 0x83, 0xA8, 0xE9, 0x94, 0x99, 0xE8, 0xAF, 0xAF])), d)
         | Inr d1 \<Rightarrow>
             let d2 = (if 0 <s reward_gold then ignoring (my_AddPlayerGold my uid reward_gold) d1 else d1);
                 d3 = (if 0 <s reward_exp then ignoring (my_AddPlayerExp my uid reward_exp) d2 else d2);
                 d4 = (if 0 <s cq_kills req
                       then ignoring (my_IncrementPlayerTotalKills my uid (to_i64 (cq_kills req))) d3 else d3);
                 d5 = ignoring (my_IncrementPlayerTotalGames my uid) d4;
                 d6 = ignoring (my_UpdatePlayerBestScore my uid (cq_score req)) d5;
                 best_score = (case my_GetPlayerStats my uid d6 of
                     Inr updated \<Rightarrow> st_best_score updated | Inl _ \<Rightarrow> 0)
             in case CombatScoreMetadataJSON (Some req) of
                  Inl _ \<Rightarrow> (Inl (NewBizError ErrCombatInvalidResult ''invalid combat metadata''), d6)
                | Inr metadata \<Rightarrow>
                    let d7 = ignoring (my_CreateScoreRecord my \<lparr>s_id = 0, s_player_id = uid,
                                s_score = cq_score req, s_metadata = metadata, s_created_at = 0\<rparr>) d6;
                        d8 = sync_rank h uid (cq_score req) d7
                    in (Inr \<lparr>cr_success = True, cr_duplicate = False, cr_reward_gold = to_i32 reward_gold,
                             cr_reward_exp = to_i32 reward_exp, cr_best_score = best_score,
                             cr_archive = None, cr_run_id = cq_run_id req\<rparr>, d8))"

definition CombatResult ::
  "'db combat_handler \<Rightarrow> go_context \<Rightarrow> combat_result_req \<Rightarrow> 'db world
     \<Rightarrow> (go_error + combat_result_resp) \<times> 'db world" where
  "CombatResult h ctx req w =
     (case validateCombatResult (Some req) (Some (ch_cfg h)) of
        Some err \<Rightarrow> (Inl (NewBizError ErrCombatCheatDetected (error_text err)), w)
      | None \<Rightarrow>
          (case ch_settlement h of
             Some service \<Rightarrow>
               (case on_db (SettlementService_Settle (Some service) (uidFromCtx ctx w) (Some req)) w of
                  (Inl err, w1) \<Rightarrow> (Inl (NewBizError ErrInternal ''combat settlement failed''), w1)
                | (Inr response, w1) \<Rightarrow>
                    (Inr response,
                     if \<not> cr_duplicate response
                     then w1\<lparr>w_db := sync_rank h (uidFromCtx ctx w1) (cq_score req) (w_db w1)\<rparr> else w1))
           | None \<Rightarrow>
               (case validateCombatResult (Some req) (Some (ch_cfg h)) of
                  Some err \<Rightarrow> (Inl (NewBizError ErrCombatCheatDetected (error_text err)), w)
                | None \<Rightarrow>
                    (case ch_mysql h of
                       None \<Rightarrow> (Inl nil_dereference, w)
                     | Some my \<Rightarrow> on_db (CombatResult_legacy h my (uidFromCtx ctx w) req) w))))"

definition Combat_GetEnemyConfigs ::
  "'db combat_handler \<Rightarrow> go_context \<Rightarrow> get_enemy_configs_req \<Rightarrow> 'db world
     \<Rightarrow> (go_error + get_enemy_configs_resp) \<times> 'db world" where
  "Combat_GetEnemyConfigs h ctx req w = (Inr \<lparr>gecr_configs = GetEnemyConfigs\<rparr>, w)"

definition Combat_GetDungeonConfig ::
  "'db combat_handler \<Rightarrow> go_context \<Rightarrow> get_dungeon_config_req \<Rightarrow> 'db world
     \<Rightarrow> (go_error + get_dungeon_config_resp) \<times> 'db world" where
  "Combat_GetDungeonConfig h ctx req w =
     (if gdq_level req \<le>s 0
      then (Inl (NewBizError ErrCombatConfigNotFound (bytes_of [0xE6, 0x97, 0xA0, 0xE6, 0x95, 0x88, 0xE7,
         0x9A, 0x84, 0xE5, 0x9C, 0xB0, 0xE7, 0x89, 0xA2, 0xE7, 0xAD, 0x89, 0xE7, 0xBA, 0xA7])), w)
      else
        let cfg = GetDungeonConfig (to_i64 (gdq_level req))
        in (Inr \<lparr>gdr_level = dc_level cfg, gdr_room_count = dc_room_count cfg,
                 gdr_enemy_density = dc_enemy_density cfg, gdr_boss_id = dc_boss_id cfg,
                 gdr_enemy_configs = GetEnemyConfigs\<rparr>, w))"

definition Combat_GetStyleConfigs ::
  "'db combat_handler \<Rightarrow> go_context \<Rightarrow> get_style_configs_req \<Rightarrow> 'db world
     \<Rightarrow> (go_error + get_style_configs_resp) \<times> 'db world" where
  "Combat_GetStyleConfigs h ctx req w = (Inr \<lparr>gscr_styles = GetStyleConfigs\<rparr>, w)"

section \<open>Styles and statistics\<close>

definition UnlockStyle ::
  "'db combat_handler \<Rightarrow> go_context \<Rightarrow> unlock_style_req \<Rightarrow> 'db world
     \<Rightarrow> (go_error + unlock_style_resp) \<times> 'db world" where
  "UnlockStyle h ctx req w =
     (if getStyleConfig (to_i64 (usq_style_id req)) = None
      then (Inl (NewBizError ErrCombatStyleLocked (bytes_of [0xE6, 0xB5, 0x81, 0xE6, 0xB4, 0xBE, 0xE4,
         0xB8, 0x8D, 0xE5, 0xAD, 0x98, 0xE5, 0x9C, 0xA8])), w)
      else
        case ch_mysql h of
          None \<Rightarrow> (Inl nil_dereference, w)
        | Some my \<Rightarrow>
            let uid = uidFromCtx ctx w;
                styles = fst (my_GetPlayerStyles my uid (w_db w))
            in if \<exists>s \<in> set styles. ps_style_id s = to_i64 (usq_style_id req)
               then (Inr \<lparr>usr_success = True, usr_gold_cost = 0\<rparr>, w)
               else
                 let gold_cost = (if usq_style_id req = 1 then 0 else 100);
                     (deducted, w1) = (if 0 <s gold_cost then on_db (my_DeductPlayerGold my uid gold_cost) w
                                       else (None, w))
                 in case deducted of
                      Some err \<Rightarrow>
                        if errors_is err GormErrRecordNotFound
                        then (Inl (NewBizError ErrCombatInsufficientGold (bytes_of [0xE9, 0x87, 0x91, 0xE5,
         0xB8, 0x81, 0xE4, 0xB8, 0x8D, 0xE8, 0xB6, 0xB3])), w1)
                        else (Inl (NewBizError ErrInternal (bytes_of [0xE6, 0x9C, 0x8D, 0xE5, 0x8A, 0xA1,
         0xE5, 0x99, 0xA8, 0xE5, 0x86, 0x85, 0xE9, 0x83, 0xA8, 0xE9, 0x94, 0x99, 0xE8, 0xAF, 0xAF])), w1)
                    | None \<Rightarrow>
                        (case on_db (my_UnlockPlayerStyle my uid (to_i64 (usq_style_id req))) w1 of
                           (Some err, w2) \<Rightarrow>
                             (Inl (NewBizError ErrInternal (bytes_of [0xE8, 0xA7, 0xA3, 0xE9, 0x94, 0x81,
         0xE5, 0xA4, 0xB1, 0xE8, 0xB4, 0xA5])), w2)
                         | (None, w2) \<Rightarrow>
                             (Inr \<lparr>usr_success = True, usr_gold_cost = to_i32 gold_cost\<rparr>, w2)))"

definition getDevelopmentPlayerStats ::
  "codec \<Rightarrow> 'db combat_handler \<Rightarrow> i64 \<Rightarrow> 'db \<Rightarrow> go_error + get_player_stats_resp" where
  "getDevelopmentPlayerStats C h uid d =
     (case (case ch_stats h of None \<Rightarrow> Inr 1 | Some stats \<Rightarrow> stats uid d) of
        Inl _ \<Rightarrow> Inl (NewBizError ErrInternal ''load development stats failed'')
      | Inr level \<Rightarrow>
          let initial = zero_archive\<lparr>pa_schema_version := 1, pa_unlocked_styles := [1]\<rparr>;
              loaded = (case ch_archives h of
                  None \<Rightarrow> Inr initial
                | Some archives \<Rightarrow>
                    (case GetArchive archives uid d of
                       Inl err \<Rightarrow>
                         if \<not> IsNotFound err
                         then Inl (NewBizError ErrInternal ''load development stats failed'') else Inr initial
                     | Inr None \<Rightarrow> Inl nil_dereference
                     | Inr (Some stored) \<Rightarrow>
                         (case unmarshal_archive C (a_data stored) of
                            Inl _ \<Rightarrow> Inl (NewBizError ErrInternal ''decode development stats failed'')
                          | Inr arch \<Rightarrow> Inr arch)))
          in map_sum id (\<lambda>arch.
               \<lparr>gpr_level = level, gpr_exp = pa_exp arch, gpr_gold = pa_gold arch,
                gpr_max_hp = to_i32 (MaxHp (ch_cfg h)), gpr_max_stamina = to_i32 (MaxStamina (ch_cfg h)),
                gpr_attack_power = to_i32 (BaseAttackPower (ch_cfg h)),
                gpr_unlocked_styles = pa_unlocked_styles arch\<rparr>) loaded)"

text \<open>The part of \<open>GetPlayerStats\<close> that reads MySQL.\<close>

definition GetPlayerStats_mysql ::
  "'db combat_handler \<Rightarrow> 'db mysql_store \<Rightarrow> i64 \<Rightarrow> 'db \<Rightarrow> (go_error + get_player_stats_resp) \<times> 'db" where
  "GetPlayerStats_mysql h my uid d0 =
     (case (case my_GetPlayerStats my uid d0 of
              Inr stats \<Rightarrow> Inr (stats, d0)
            | Inl err \<Rightarrow>
                if errors_is err GormErrRecordNotFound
                then Inr (defaultStats h uid, ignoring (my_CreatePlayerStats my (defaultStats h uid)) d0)
                else Inl err) of
        Inl _ \<Rightarrow> (Inl (NewBizError ErrInternal (bytes_of [0xE6, 0x9C, 0x8D, 0xE5, 0x8A, 0xA1,
         0xE5, 0x99, 0xA8, 0xE5, 0x86, 0x85, 0xE9, 0x83, 0xA8, 0xE9, 0x94, 0x99, 0xE8, 0xAF, 0xAF])), d0)
      | Inr (stats, d1) \<Rightarrow>
          let player_styles = fst (my_GetPlayerStyles my uid d1);
              ids = map (\<lambda>s. to_i32 (ps_style_id s)) player_styles;
              (unlocked, d2) = (if ids = [] then ([1], ignoring (my_UnlockPlayerStyle my uid 1) d1) else (ids, d1))
          in (Inr \<lparr>gpr_level = to_i32 (st_level stats), gpr_exp = to_i32 (st_exp stats),
                   gpr_gold = to_i32 (st_gold stats), gpr_max_hp = to_i32 (st_max_hp stats),
                   gpr_max_stamina = to_i32 (st_max_stamina stats),
                   gpr_attack_power = to_i32 (st_attack_power stats), gpr_unlocked_styles = unlocked\<rparr>, d2))"

definition GetPlayerStats ::
  "codec \<Rightarrow> 'db combat_handler \<Rightarrow> go_context \<Rightarrow> get_player_stats_req \<Rightarrow> 'db world
     \<Rightarrow> (go_error + get_player_stats_resp) \<times> 'db world" where
  "GetPlayerStats C h ctx req w =
     (case ch_mysql h of
        None \<Rightarrow> (getDevelopmentPlayerStats C h (uidFromCtx ctx w) (w_db w), w)
      | Some my \<Rightarrow> on_db (GetPlayerStats_mysql h my (uidFromCtx ctx w)) w)"

definition UpdatePlayerStats ::
  "'db combat_handler \<Rightarrow> go_context \<Rightarrow> update_player_stats_req \<Rightarrow> 'db world
     \<Rightarrow> (go_error + update_player_stats_resp) \<times> 'db world" where
  "UpdatePlayerStats h ctx req w =
     (if upq_level req <s 1 \<or> 1000 <s upq_level req
      then (Inl (NewBizError ErrCombatInvalidResult (bytes_of [0xE7, 0xAD, 0x89, 0xE7, 0xBA, 0xA7, 0xE6,
         0x95, 0xB0, 0xE5, 0x80, 0xBC, 0xE5, 0xBC, 0x82, 0xE5, 0xB8, 0xB8])), w)
      else if upq_max_hp req <s 1 \<or> 100000 <s upq_max_hp req
      then (Inl (NewBizError ErrCombatInvalidResult (bytes_of [0xE7, 0x94, 0x9F, 0xE5, 0x91, 0xBD, 0xE5,
         0x80, 0xBC, 0xE5, 0xBC, 0x82, 0xE5, 0xB8, 0xB8])), w)
      else
        case ch_mysql h of
          None \<Rightarrow> (Inl nil_dereference, w)
        | Some my \<Rightarrow>
            let uid = uidFromCtx ctx w;
                found = (case my_GetPlayerStats my uid (w_db w) of
                    Inr stats \<Rightarrow> Some stats
                  | Inl err \<Rightarrow>
                      if errors_is err GormErrRecordNotFound
                      then Some \<lparr>st_id = 0, st_player_id = uid, st_level = 0, st_exp = 0, st_gold = 0,
                             st_max_hp = 0, st_max_stamina = 0, st_attack_power = 0, st_best_score = 0,
                             st_total_kills = 0, st_total_games = 0, st_created_at = 0, st_updated_at = 0\<rparr>
                      else None)
            in case found of
                 None \<Rightarrow> (Inl (NewBizError ErrInternal (bytes_of [0xE6, 0x9C, 0x8D, 0xE5, 0x8A,
         0xA1, 0xE5, 0x99, 0xA8, 0xE5, 0x86, 0x85, 0xE9, 0x83, 0xA8, 0xE9, 0x94, 0x99, 0xE8, 0xAF, 0xAF])), w)
               | Some stats \<Rightarrow>
                   let stats' = stats\<lparr>st_level := to_i64 (upq_level req), st_exp := to_i64 (upq_exp req),
                         st_gold := to_i64 (upq_gold req), st_max_hp := to_i64 (upq_max_hp req),
                         st_max_stamina := to_i64 (upq_max_stamina req),
                         st_attack_power := to_i64 (upq_attack_power req)\<rparr>
                   in case on_db (my_UpdatePlayerStats my stats') w of
                        (Some err, w1) \<Rightarrow> (Inl (NewBizError ErrInternal (bytes_of [0xE6, 0x9B,
         0xB4, 0xE6, 0x96, 0xB0, 0xE5, 0xA4, 0xB1, 0xE8, 0xB4, 0xA5])), w1)
                      | (None, w1) \<Rightarrow>
                          (Inr \<lparr>upr_success = True\<rparr>,
                           w1\<lparr>w_db := fold (\<lambda>style_id. ignoring (my_UnlockPlayerStyle my uid (to_i64 style_id)))
                                        (upq_unlocked_styles req) (w_db w1)\<rparr>))"

end
