(* ===== verification/Payment.thy ===== *)
theory Payment
  imports Data_Stores Kernel
begin

text \<open>The payment module, \<open>internal/payment/handler.go\<close>: every order is refused until there is a secure provider.\<close>

definition CreateOrder ::
  "go_context \<Rightarrow> create_order_req \<Rightarrow> 'w \<Rightarrow> (go_error + create_order_resp) \<times> 'w" where
  "CreateOrder ctx req w = (Inl (NewBizError ErrPaymentUnavailable ''payment is disabled''), w)"

end
