(* ===== verification/Config.thy ===== *)
theory Config
  imports Go_Errors
begin

text \<open>
  The configuration of \<open>internal/config/config.go\<close>: its structs as records, the addresses and the MySQL data source
  name they format, and \<open>Load\<close> over the configuration library, whose reader and decoder are parameters.
\<close>

record server_config =
  srv_Host :: string
  srv_Port :: go_int
  srv_Name :: string

record gm_config =
  gm_AdminUIDs :: "i64 list"

record redis_config =
  rc_Host :: string
  rc_Port :: go_int
  rc_Password :: string
  rc_DB :: go_int

record mysql_config =
  mc_Host :: string
  mc_Port :: go_int
  mc_User :: string
  mc_Password :: string
  mc_DBName :: string
  mc_MaxIdleConns :: go_int
  mc_MaxOpenConns :: go_int

record wechat_config =
  wc_AppID :: string
  wc_AppSecret :: string
  wc_PaymentEnabled :: bool
  wc_MchID :: string
  wc_MchPrivateKeyPath :: string
  wc_MchCertSerialNo :: string
  wc_WechatPayCertPath :: string
  wc_PayNotifyURL :: string

record log_config =
  lc_Level :: string
  lc_Filename :: string
  lc_MaxSize :: go_int
  lc_MaxBackups :: go_int
  lc_MaxAge :: go_int

record development_config =
  dv_Enabled :: bool
  dv_LoginEnabled :: bool

record config =
  cf_Server :: server_config
  cf_Redis :: redis_config
  cf_MySQL :: mysql_config
  cf_Wechat :: wechat_config
  cf_Log :: log_config
  cf_GM :: gm_config
  cf_Development :: development_config

definition ServerConfig_Addr :: "server_config \<Rightarrow> string" where
  "ServerConfig_Addr s = srv_Host s @ '':'' @ show_i64 (srv_Port s)"

definition RedisConfig_Addr :: "redis_config \<Rightarrow> string" where
  "RedisConfig_Addr r = rc_Host r @ '':'' @ show_i64 (rc_Port r)"

definition DSN :: "mysql_config \<Rightarrow> string" where
  "DSN m = mc_User m @ '':'' @ mc_Password m @ ''@tcp('' @ mc_Host m @ '':'' @ show_i64 (mc_Port m)
     @ '')/'' @ mc_DBName m @ ''?charset=utf8mb4&parseTime=True&loc=Local''"

text \<open>\<open>viper\<close>: reading a file with the environment overrides, and decoding what was read.\<close>

definition Load :: "(string \<Rightarrow> go_error + 'v) \<Rightarrow> ('v \<Rightarrow> go_error + config) \<Rightarrow> string \<Rightarrow> go_error + config" where
  "Load read_in decode path =
     (case read_in path of
        Inl err \<Rightarrow> Inl (Wrap (bytes_of [0xE8, 0xAF, 0xBB, 0xE5, 0x8F, 0x96, 0xE9, 0x85, 0x8D,
         0xE7, 0xBD, 0xAE, 0xE6, 0x96, 0x87, 0xE4, 0xBB, 0xB6, 0xE5, 0xA4, 0xB1, 0xE8, 0xB4,
         0xA5] @ '': '') err [])
      | Inr v \<Rightarrow>
          (case decode v of
             Inl err \<Rightarrow> Inl (Wrap (bytes_of [0xE8, 0xA7, 0xA3, 0xE6, 0x9E, 0x90, 0xE9, 0x85,
         0x8D, 0xE7, 0xBD, 0xAE, 0xE5, 0xA4, 0xB1, 0xE8, 0xB4, 0xA5] @ '': '') err [])
           | Inr cfg \<Rightarrow> Inr cfg))"

end
