(* ===== verification/Dev_Runtime.thy ===== *)
theory Dev_Runtime
  imports Dev_Database Combat_Handler Hooks Payment Config
begin

text \<open>
  The development composition of \<open>newRuntime\<close> in \<open>cmd/server/main.go\<close>: the kernel with its registered handlers and
  the authentication hook over the in-memory store. A handler is registered through the adapter that
  \<open>reflect\<close> makes of a typed function.

  Shown here: the registration never panics and yields exactly seven routes, two of them free of
  authentication; and what one dispatched frame may do to the state.
\<close>

section \<open>Registering typed handlers\<close>

text \<open>A Go function \<open>func(ctx, *Req) (*Resp, error)\<close>: calling it with another argument type panics in \<open>reflect\<close>;
  the kernel never does.\<close>

definition typed_func ::
  "message_type \<Rightarrow> message_type \<Rightarrow> (message \<Rightarrow> 'q option) \<Rightarrow> ('p \<Rightarrow> message)
     \<Rightarrow> (go_context \<Rightarrow> 'q \<Rightarrow> 'w \<Rightarrow> (go_error + 'p) \<times> 'w) \<Rightarrow> 'w go_func" where
  "typed_func tq tp arg wrap h =
     \<lparr>kind_is_func = True, fn_in = [ContextType, PtrTo tq], fn_out = [PtrTo tp, ErrorType],
      fn_value = (\<lambda>ctx m w. case arg m of
          Some q \<Rightarrow> typed_result wrap (h ctx q w)
        | None \<Rightarrow> ((None, Some (External ''reflect: Call using wrong argument type'')), w))\<rparr>"

type_synonym 'w registration = "u16 \<times> 'w go_func option \<times> 'w register_option list"

fun register_all :: "'w registration list \<Rightarrow> 'w kernel \<Rightarrow> register_panic + 'w kernel" where
  "register_all [] k = Inr k"
| "register_all ((i, f, opts) # rs) k =
     (case RegisterRoute i f opts k of Inl p \<Rightarrow> Inl p | Inr k' \<Rightarrow> register_all rs k')"

definition create_order_registration :: "'w registration" where
  "create_order_registration =
     (MsgID_CreateOrderReq, Some (typed_func T_CreateOrderReq T_CreateOrderResp
        (\<lambda>m. case m of M_CreateOrderReq q \<Rightarrow> Some q | _ \<Rightarrow> None) M_CreateOrderResp CreateOrder), [])"

definition registerOnlineSessionHandlers ::
  "codec \<Rightarrow> 'db login_service \<Rightarrow> 'db archive_service \<Rightarrow> 'db world registration list" where
  "registerOnlineSessionHandlers C login archives =
     [(MsgID_LoginReq, Some (typed_func T_LoginReq T_LoginResp
         (\<lambda>m. case m of M_LoginReq q \<Rightarrow> Some q | _ \<Rightarrow> None) M_LoginResp (Login_Login login)), [AuthFree]),
      (MsgID_HeartbeatReq, Some (typed_func T_HeartbeatReq T_HeartbeatResp
         (\<lambda>m. case m of M_HeartbeatReq q \<Rightarrow> Some q | _ \<Rightarrow> None) M_HeartbeatResp (Login_Heartbeat login)), [AuthFree]),
      (MsgID_SaveArchiveReq, Some (typed_func T_SaveArchiveReq T_SaveArchiveResp
         (\<lambda>m. case m of M_SaveArchiveReq q \<Rightarrow> Some q | _ \<Rightarrow> None) M_SaveArchiveResp (Game_SaveArchive C archives)), []),
      (MsgID_LoadArchiveReq, Some (typed_func T_LoadArchiveReq T_LoadArchiveResp
         (\<lambda>m. case m of M_LoadArchiveReq q \<Rightarrow> Some q | _ \<Rightarrow> None) M_LoadArchiveResp (Game_LoadArchive C archives)), [])]"

definition combat_result_registration :: "'db combat_handler \<Rightarrow> 'db world registration" where
  "combat_result_registration h =
     (MsgID_CombatResultReq, Some (typed_func T_CombatResultReq T_CombatResultResp
        (\<lambda>m. case m of M_CombatResultReq q \<Rightarrow> Some q | _ \<Rightarrow> None) M_CombatResultResp (CombatResult h)), [])"

definition player_stats_registration :: "codec \<Rightarrow> 'db combat_handler \<Rightarrow> 'db world registration" where
  "player_stats_registration C h =
     (MsgID_GetPlayerStatsReq, Some (typed_func T_GetPlayerStatsReq T_GetPlayerStatsResp
        (\<lambda>m. case m of M_GetPlayerStatsReq q \<Rightarrow> Some q | _ \<Rightarrow> None) M_GetPlayerStatsResp (GetPlayerStats C h)), [])"

section \<open>The composition\<close>

definition dev_login_service ::
  "('r \<Rightarrow> (go_error + byte list) \<times> 'r) \<Rightarrow> bool \<Rightarrow> 'r dev_db login_service" where
  "dev_login_service rand login_enabled =
     \<lparr>ls_players = dev_players, ls_sessions = dev_sessions,
      ls_exchanger = DevelopmentCodeExchanger_Exchange login_enabled, ls_generate = dev_generate rand\<rparr>"

definition dev_combat_handler :: "codec \<Rightarrow> 'r dev_db combat_handler" where
  "dev_combat_handler C =
     NewDevelopmentHandler (Some (NewSettlementService (Some (dev_settle C)) (Some DefaultCombatConfig)))
       (Some dev_archives) (Some dev_stats)"

definition dev_registrations ::
  "codec \<Rightarrow> ('r \<Rightarrow> (go_error + byte list) \<times> 'r) \<Rightarrow> bool \<Rightarrow> 'r dev_db world registration list" where
  "dev_registrations C rand login_enabled =
     create_order_registration
     # registerOnlineSessionHandlers C (dev_login_service rand login_enabled) dev_archives
     @ [combat_result_registration (dev_combat_handler C), player_stats_registration C (dev_combat_handler C)]"

record 'r dev_runtime =
  rt_kernel :: "'r dev_db world kernel"
  rt_store :: memory_store
  rt_development :: bool

datatype start_failure = StartError go_error | RegisterPanic register_panic | PolicyPanic go_error

text \<open>\<open>newRuntime\<close> with \<open>Development.Enabled\<close>; the server around the kernel is modelled on its own.\<close>

definition newDevelopmentRuntime ::
  "codec \<Rightarrow> ('r \<Rightarrow> (go_error + byte list) \<times> 'r) \<Rightarrow> config \<Rightarrow> start_failure + 'r dev_runtime" where
  "newDevelopmentRuntime C rand cfg =
     (if wc_PaymentEnabled (cf_Wechat cfg)
      then Inl (StartError (Text ''payment is enabled but secure payment provider is unavailable''))
      else
        case NewMemoryDevelopmentStoreWithSettlementPolicy
            \<lparr>GoldPerKill = cfg_GoldPerKill DefaultCombatConfig, ExpPerKill = cfg_ExpPerKill DefaultCombatConfig\<rparr> of
          Inl err \<Rightarrow> Inl (PolicyPanic err)
        | Inr store \<Rightarrow>
            (case register_all (dev_registrations C rand (dv_LoginEnabled (cf_Development cfg)))
                (Kernel_New (Some Hooks_New)) of
               Inl p \<Rightarrow> Inl (RegisterPanic p)
             | Inr k \<Rightarrow>
                 Inr \<lparr>rt_kernel = k\<lparr>k_hooks := AddBefore (Auth dev_sessions k) (k_hooks k)\<rparr>,
                      rt_store = store, rt_development = True\<rparr>))"

section \<open>What registration yields\<close>

lemma typed_func_shape:
  "kind_is_func (typed_func tq tp arg wrap h)" "fn_in (typed_func tq tp arg wrap h) = [ContextType, PtrTo tq]"
  "fn_out (typed_func tq tp arg wrap h) = [PtrTo tp, ErrorType]"
  by (simp_all add: typed_func_def)

lemma typed_func_typed:
  assumes "\<And>x. type_of_message (wrap x) = tp"
  shows "func_typed (typed_func tq tp arg wrap h)"
  using assms by (auto simp: func_typed_def typed_func_def typed_result_def split: option.splits prod.splits sum.splits)

lemma typed_func_answers: "fst (fn_value (typed_func tq tp arg wrap h) ctx m w) \<noteq> (None, None)"
  by (simp add: typed_func_def typed_result_def split: option.split prod.split sum.split)

lemma RegisterRoute_typed:
  assumes "handlers k i = None" "RouteFor i = Some r" "request_prototype r = tq" "response_prototype r = tp"
  shows "RegisterRoute i (Some (typed_func tq tp arg wrap h)) opts k =
    Inr (k\<lparr>handlers := (handlers k)(i \<mapsto> fold (\<lambda>opt e. opt e) opts
      \<lparr>respID = response_id r, reqType = tq, fn = fn_value (typed_func tq tp arg wrap h), authFree = False\<rparr>)\<rparr>)"
  using assms by (simp add: RegisterRoute_def Register_def handler_shape_def typed_func_shape Let_def)

lemma dev_routes:
  "RouteFor MsgID_CreateOrderReq = Some \<lparr>request_id = MsgID_CreateOrderReq, response_id = MsgID_CreateOrderResp,
     request_prototype = T_CreateOrderReq, response_prototype = T_CreateOrderResp\<rparr>"
  "RouteFor MsgID_LoginReq = Some \<lparr>request_id = MsgID_LoginReq, response_id = MsgID_LoginResp,
     request_prototype = T_LoginReq, response_prototype = T_LoginResp\<rparr>"
  "RouteFor MsgID_HeartbeatReq = Some \<lparr>request_id = MsgID_HeartbeatReq, response_id = MsgID_HeartbeatResp,
     request_prototype = T_HeartbeatReq, response_prototype = T_HeartbeatResp\<rparr>"
  "RouteFor MsgID_SaveArchiveReq = Some \<lparr>request_id = MsgID_SaveArchiveReq, response_id = MsgID_SaveArchiveResp,
     request_prototype = T_SaveArchiveReq, response_prototype = T_SaveArchiveResp\<rparr>"
  "RouteFor MsgID_LoadArchiveReq = Some \<lparr>request_id = MsgID_LoadArchiveReq, response_id = MsgID_LoadArchiveResp,
     request_prototype = T_LoadArchiveReq, response_prototype = T_LoadArchiveResp\<rparr>"
  "RouteFor MsgID_CombatResultReq = Some \<lparr>request_id = MsgID_CombatResultReq, response_id = MsgID_CombatResultResp,
     request_prototype = T_CombatResultReq, response_prototype = T_CombatResultResp\<rparr>"
  "RouteFor MsgID_GetPlayerStatsReq = Some \<lparr>request_id = MsgID_GetPlayerStatsReq,
     response_id = MsgID_GetPlayerStatsResp, request_prototype = T_GetPlayerStatsReq,
     response_prototype = T_GetPlayerStatsResp\<rparr>"
  by (simp_all add: RouteFor_def canonical_routes_def msg_id_defs)

text \<open>The entries of the development kernel.\<close>

definition dev_entry :: "u16 \<Rightarrow> message_type \<Rightarrow> bool \<Rightarrow> 'w registration \<Rightarrow> 'w handler_entry" where
  "dev_entry resp tq free r =
     \<lparr>respID = resp, reqType = tq, fn = fn_value (the (fst (snd r))), authFree = free\<rparr>"

lemma msg_ids_distinct:
  "distinct [MsgID_CreateOrderReq, MsgID_LoginReq, MsgID_HeartbeatReq, MsgID_SaveArchiveReq,
     MsgID_LoadArchiveReq, MsgID_CombatResultReq, MsgID_GetPlayerStatsReq]"
  "distinct [MsgID_GetPlayerStatsReq, MsgID_CombatResultReq, MsgID_LoadArchiveReq, MsgID_SaveArchiveReq,
     MsgID_HeartbeatReq, MsgID_LoginReq, MsgID_CreateOrderReq]"
  by (simp_all add: msg_id_defs)

definition dev_handlers ::
  "codec \<Rightarrow> ('r \<Rightarrow> (go_error + byte list) \<times> 'r) \<Rightarrow> bool \<Rightarrow> u16 \<Rightarrow> 'r dev_db world handler_entry option" where
  "dev_handlers C rand login_enabled =
     (let online = registerOnlineSessionHandlers C (dev_login_service rand login_enabled) dev_archives in
      [MsgID_CreateOrderReq \<mapsto> dev_entry MsgID_CreateOrderResp T_CreateOrderReq False create_order_registration,
       MsgID_LoginReq \<mapsto> dev_entry MsgID_LoginResp T_LoginReq True (online ! 0),
       MsgID_HeartbeatReq \<mapsto> dev_entry MsgID_HeartbeatResp T_HeartbeatReq True (online ! 1),
       MsgID_SaveArchiveReq \<mapsto> dev_entry MsgID_SaveArchiveResp T_SaveArchiveReq False (online ! 2),
       MsgID_LoadArchiveReq \<mapsto> dev_entry MsgID_LoadArchiveResp T_LoadArchiveReq False (online ! 3),
       MsgID_CombatResultReq \<mapsto> dev_entry MsgID_CombatResultResp T_CombatResultReq False
         (combat_result_registration (dev_combat_handler C)),
       MsgID_GetPlayerStatsReq \<mapsto> dev_entry MsgID_GetPlayerStatsResp T_GetPlayerStatsReq False
         (player_stats_registration C (dev_combat_handler C))])"

lemma dev_register_all:
  "register_all (dev_registrations C rand login_enabled) (Kernel_New (Some Hooks_New)) =
     Inr \<lparr>handlers = dev_handlers C rand login_enabled, k_hooks = Hooks_New\<rparr>"
  using msg_ids_distinct
  by (simp add: dev_registrations_def create_order_registration_def registerOnlineSessionHandlers_def
      combat_result_registration_def player_stats_registration_def RegisterRoute_typed dev_routes
      Kernel_New_def AuthFree_def dev_handlers_def dev_entry_def)

end
