(* ===== verification/Dev_Dispatch.thy ===== *)
theory Dev_Dispatch
  imports Dev_Runtime
begin

text \<open>
  What the development server does with frames: the handlers' effects on the store as sequences of its
  operations, and the invariants of worlds reached by serving frames. The frames of all connections are
  served one after another; a handler is one step.

  Shown here: every valid frame gets exactly one reply of the right kind; a request without a login is
  refused and changes nothing; a session is only ever bound to an existing player by a login with that
  player's code; and a run that is reported again, after whatever else happened, is not credited again.
\<close>

section \<open>The kernel of the runtime\<close>

definition dev_plain_kernel ::
  "codec \<Rightarrow> ('r \<Rightarrow> (go_error + byte list) \<times> 'r) \<Rightarrow> bool \<Rightarrow> 'r dev_db world kernel" where
  "dev_plain_kernel C rand login_enabled = \<lparr>handlers = dev_handlers C rand login_enabled, k_hooks = Hooks_New\<rparr>"

definition dev_kernel ::
  "codec \<Rightarrow> ('r \<Rightarrow> (go_error + byte list) \<times> 'r) \<Rightarrow> bool \<Rightarrow> 'r dev_db world kernel" where
  "dev_kernel C rand login_enabled =
     (dev_plain_kernel C rand login_enabled)\<lparr>k_hooks :=
        AddBefore (Auth dev_sessions (dev_plain_kernel C rand login_enabled)) Hooks_New\<rparr>"

definition new_dev_store :: memory_store where
  "new_dev_store = \<lparr>nextPlayerID = 1, playersByID = Map.empty, playerIDByOpenID = Map.empty,
     sessionsByUID = Map.empty, archivesByUID = Map.empty,
     settlementPolicy = \<lparr>GoldPerKill = 5, ExpPerKill = 10\<rparr>, settlements = Map.empty, playerLevels = Map.empty\<rparr>"

lemma newDevelopmentRuntime_eq:
  "newDevelopmentRuntime C rand cfg =
     (if wc_PaymentEnabled (cf_Wechat cfg)
      then Inl (StartError (Text ''payment is enabled but secure payment provider is unavailable''))
      else Inr \<lparr>rt_kernel = dev_kernel C rand (dv_LoginEnabled (cf_Development cfg)),
        rt_store = new_dev_store, rt_development = True\<rparr>)"
  by (simp add: newDevelopmentRuntime_def dev_register_all dev_kernel_def dev_plain_kernel_def new_dev_store_def
      NewMemoryDevelopmentStoreWithSettlementPolicy_def validateCombatRewardPolicy_def DefaultCombatConfig_def
      signed_defs)

lemma dev_handlers_cases:
  assumes "dev_handlers C rand login_enabled i = Some e"
  obtains "i = MsgID_CreateOrderReq" "e = dev_entry MsgID_CreateOrderResp T_CreateOrderReq False create_order_registration"
  | "i = MsgID_LoginReq" "e = dev_entry MsgID_LoginResp T_LoginReq True
      (registerOnlineSessionHandlers C (dev_login_service rand login_enabled) dev_archives ! 0)"
  | "i = MsgID_HeartbeatReq" "e = dev_entry MsgID_HeartbeatResp T_HeartbeatReq True
      (registerOnlineSessionHandlers C (dev_login_service rand login_enabled) dev_archives ! 1)"
  | "i = MsgID_SaveArchiveReq" "e = dev_entry MsgID_SaveArchiveResp T_SaveArchiveReq False
      (registerOnlineSessionHandlers C (dev_login_service rand login_enabled) dev_archives ! 2)"
  | "i = MsgID_LoadArchiveReq" "e = dev_entry MsgID_LoadArchiveResp T_LoadArchiveReq False
      (registerOnlineSessionHandlers C (dev_login_service rand login_enabled) dev_archives ! 3)"
  | "i = MsgID_CombatResultReq" "e = dev_entry MsgID_CombatResultResp T_CombatResultReq False
      (combat_result_registration (dev_combat_handler C))"
  | "i = MsgID_GetPlayerStatsReq" "e = dev_entry MsgID_GetPlayerStatsResp T_GetPlayerStatsReq False
      (player_stats_registration C (dev_combat_handler C))"
  using assms by (auto simp: dev_handlers_def Let_def split: if_splits)

lemma dev_handlers_dom:
  "dom (dev_handlers C rand login_enabled) = {MsgID_CreateOrderReq, MsgID_LoginReq, MsgID_HeartbeatReq,
     MsgID_SaveArchiveReq, MsgID_LoadArchiveReq, MsgID_CombatResultReq, MsgID_GetPlayerStatsReq}"
  by (auto simp: dev_handlers_def Let_def)

lemmas dev_registration_defs = create_order_registration_def registerOnlineSessionHandlers_def
  combat_result_registration_def player_stats_registration_def

lemma dev_entry_simps [simp]:
  "respID (dev_entry resp tq free r) = resp" "reqType (dev_entry resp tq free r) = tq"
  "fn (dev_entry resp tq free r) = fn_value (the (fst (snd r)))" "authFree (dev_entry resp tq free r) = free"
  by (simp_all add: dev_entry_def)

lemma dev_auth_free:
  "IsAuthFree (dev_plain_kernel C rand login_enabled) i \<longleftrightarrow> i = MsgID_LoginReq \<or> i = MsgID_HeartbeatReq"
proof (cases "dev_handlers C rand login_enabled i")
  case None
  with dev_handlers_dom [of C rand login_enabled] have "i \<noteq> MsgID_LoginReq \<and> i \<noteq> MsgID_HeartbeatReq" by auto
  with None show ?thesis by (simp add: IsAuthFree_def dev_plain_kernel_def)
next
  case (Some e)
  then show ?thesis
    by (cases rule: dev_handlers_cases)
       (use Some msg_ids_distinct in \<open>simp_all add: IsAuthFree_def dev_plain_kernel_def\<close>)
qed

lemma dev_kernel_simps [simp]:
  "handlers (dev_kernel C rand login_enabled) = dev_handlers C rand login_enabled"
  "After (k_hooks (dev_kernel C rand login_enabled)) = []"
  "IsAuthFree (dev_kernel C rand login_enabled) = IsAuthFree (dev_plain_kernel C rand login_enabled)"
  by (simp_all add: dev_kernel_def dev_plain_kernel_def IsAuthFree_def fun_eq_iff)

lemma dev_before:
  "ExecuteBefore (k_hooks (dev_kernel C rand login_enabled)) ctx m w =
     Auth dev_sessions (dev_plain_kernel C rand login_enabled) ctx m w"
  by (simp add: ExecuteBefore_def dev_kernel_def split: prod.splits option.splits)

lemma dev_kernel_ok: "kernel_ok (dev_kernel C rand login_enabled)"
proof -
  have "entry_ok i e" if "dev_handlers C rand login_enabled i = Some e" for i e
    using that
    by (cases rule: dev_handlers_cases)
       (auto simp: entry_ok_def dev_routes dev_registration_defs typed_func_def typed_result_def
         split: option.splits prod.splits sum.splits)
  then show ?thesis by (simp add: kernel_ok_def)
qed

lemma dev_answers: "answers (dev_kernel C rand login_enabled)"
proof -
  have "fst (fn e ctx m w) \<noteq> (None, None)" if "dev_handlers C rand login_enabled i = Some e" for i e ctx m w
    using that
    by (cases rule: dev_handlers_cases) (simp_all add: dev_registration_defs typed_func_answers)
  then show ?thesis by (simp add: answers_def)
qed

section \<open>What each handler does\<close>

lemma dev_login_service_simps [simp]:
  "ls_players (dev_login_service rand en) = dev_players" "ls_sessions (dev_login_service rand en) = dev_sessions"
  "ls_exchanger (dev_login_service rand en) = DevelopmentCodeExchanger_Exchange en"
  "ls_generate (dev_login_service rand en) = dev_generate rand"
  by (simp_all add: dev_login_service_def)

lemma login_player_steps:
  assumes "login_player svc x d = (r, d')" "ls_players svc = dev_players"
  shows "steps C 2 d d'"
proof -
  have two: "steps C 2 d d2" if "steps C (Suc 0) d d1" "steps C (Suc 0) d1 d2" for d1 d2
    by (rule steps_trans [OF that]) simp
  have one: "steps C 2 d d1" if "steps C (Suc 0) d d1" for d1
    by (rule steps_mono [OF that]) simp
  from assms show ?thesis
    by (auto simp: login_player_def Let_def split: sum.splits option.splits prod.splits if_splits
        intro: two one dest!: dev_op_stepsD [where C = C])
qed

lemma dev_exchange_same: "snd (DevelopmentCodeExchanger_Exchange en code d) = d"
  by (simp add: DevelopmentCodeExchanger_Exchange_def split: prod.split)

lemma login_service_steps:
  assumes "LoginService_Login (dev_login_service rand en) code d = (r, d')"
  shows "steps C 4 d d'"
proof -
  let ?svc = "dev_login_service rand en"
  have early: "steps C 4 d d2" if "steps C 2 d d2" for d2 by (rule steps_mono [OF that]) simp
  have gen: "steps C 2 d d3" if "steps C 2 d d2" "steps C 0 d2 d3" for d2 d3
    by (rule steps_trans [OF that]) simp
  have upd: "steps C 3 d d4" if "steps C 2 d d3" "steps C (Suc 0) d3 d4" for d3 d4
    by (rule steps_trans [OF that]) simp
  have late: "steps C 4 d d4" if "steps C 3 d d4" for d4 by (rule steps_mono [OF that]) simp
  have last: "steps C 4 d d5" if "steps C 3 d d4" "steps C (Suc 0) d4 d5" for d4 d5
    by (rule steps_trans [OF that]) simp
  obtain a d1 where "DevelopmentCodeExchanger_Exchange en code d = (a, d1)" by fastforce
  with dev_exchange_same [of en code d] have ex: "ls_exchanger ?svc code d = (a, d)"
    by simp
  show ?thesis
  proof (cases a)
    case (Inl e)
    with ex assms show ?thesis by (simp add: LoginService_Login_def)
  next
    case (Inr i)
    obtain b d2 where lp: "login_player ?svc (li_open_id i) d = (b, d2)" by fastforce
    have s2: "steps C 2 d d2" by (rule login_player_steps [OF lp]) simp
    obtain t d3 where g: "dev_generate rand d2 = (t, d3)" by fastforce
    have s3: "steps C 2 d d3" by (rule gen [OF s2 dev_op_stepsD(4) [OF g]])
    have upds: "steps C 3 d d4" if "UpdatePlayer dev_players p d3 = (e, d4)" for p e d4
      by (rule upd [OF s3 dev_op_stepsD(2) [OF that]])
    from assms early [OF s2] early [OF s3] show ?thesis
      unfolding LoginService_Login_def ex Inr
      by (auto simp: lp g Let_def split: sum.splits option.splits prod.splits
          intro: late [OF upds] last [OF upds dev_op_stepsD(3)])
  qed
qed

lemma refresh_steps:
  assumes "RefreshSession (dev_login_service rand en) uid d = (r, d')"
  shows "steps C 1 d d'"
  using assms
  by (auto simp: RefreshSession_def Let_def split: sum.splits prod.splits
      dest!: dev_op_stepsD(3) [where C = C])

lemma snd_typed_result [simp]: "snd (typed_result wrap x) = snd x"
  by (simp add: typed_result_def split: prod.split sum.split)

lemma w_db_on_db [simp]: "w_db (snd (on_db f w)) = snd (f (w_db w))"
  by (simp add: on_db_def split: prod.split)

text \<open>The handlers' effect on the database and on the sessions, as equations.\<close>

lemma Login_Login_db:
  "w_db (snd (Login_Login svc ctx q w)) = snd (LoginService_Login svc (lq_code q) (w_db w))"
  by (auto simp: Login_Login_def on_db_def Let_def split: prod.split sum.split option.split)

lemma Login_Heartbeat_frame:
  "w_sessions (snd (Login_Heartbeat svc ctx q w)) = w_sessions w"
  "w_db (snd (Login_Heartbeat svc ctx q w)) =
     (if 0 <s uidFromCtx ctx w then snd (RefreshSession svc (uidFromCtx ctx w) (w_db w)) else w_db w)"
  by (auto simp: Login_Heartbeat_def on_db_def uidFromCtx_def Let_def split: prod.split option.split)

lemma Game_SaveArchive_frame:
  "w_sessions (snd (Game_SaveArchive C svc ctx q w)) = w_sessions w"
  "w_db (snd (Game_SaveArchive C svc ctx q w)) =
     snd (ArchiveService_Save C svc (uidFromCtx ctx w) (saq_archive q) (w_db w))"
  by (auto simp: Game_SaveArchive_def on_db_def get_archive_field_def split: prod.split option.split)

lemma Game_LoadArchive_frame [simp]: "snd (Game_LoadArchive C svc ctx q w) = w"
  by (simp add: Game_LoadArchive_def split: sum.split prod.split)

lemma dev_combat_frame:
  "snd (CombatResult (dev_combat_handler C) ctx q w) =
     (if validateCombatResult (Some q) (Some DefaultCombatConfig) = None
      then w\<lparr>w_db := snd (dev_settle C (uidFromCtx ctx w) q (w_db w))\<rparr> else w)"
  by (auto simp: CombatResult_def dev_combat_handler_def NewDevelopmentHandler_def NewSettlementService_def
      SettlementService_Settle_def on_db_def sync_rank_def split: option.split prod.split sum.split)

lemma dev_stats_frame [simp]: "snd (GetPlayerStats C (dev_combat_handler C) ctx q w) = w"
  by (simp add: GetPlayerStats_def dev_combat_handler_def NewDevelopmentHandler_def)

lemma CreateOrder_frame [simp]: "snd (CreateOrder ctx q w) = w"
  by (simp add: CreateOrder_def)

section \<open>One frame\<close>

lemma typed_func_run:
  assumes "fn_value (typed_func tq tp arg wrap h) ctx m w = (r, w')"
  obtains "w' = w" | q where "arg m = Some q" "typed_result wrap (h ctx q w) = (r, w')"
  using assms by (auto simp: typed_func_def split: option.splits)

lemma typed_arguments:
  "(case m of M_LoginReq q \<Rightarrow> Some q | _ \<Rightarrow> None) = Some lq \<longleftrightarrow> m = M_LoginReq lq"
  "(case m of M_HeartbeatReq q \<Rightarrow> Some q | _ \<Rightarrow> None) = Some hq \<longleftrightarrow> m = M_HeartbeatReq hq"
  "(case m of M_SaveArchiveReq q \<Rightarrow> Some q | _ \<Rightarrow> None) = Some sq \<longleftrightarrow> m = M_SaveArchiveReq sq"
  "(case m of M_CombatResultReq q \<Rightarrow> Some q | _ \<Rightarrow> None) = Some cq \<longleftrightarrow> m = M_CombatResultReq cq"
  by (cases m; simp)+

lemma handler_effect:
  assumes h: "dev_handlers C rand en i = Some e" and run: "fn e ctx m w = (r, w')"
  obtains (quiet) "w' = w"
  | (login) q where "i = MsgID_LoginReq" "m = M_LoginReq q"
      "typed_result M_LoginResp (Login_Login (dev_login_service rand en) ctx q w) = (r, w')"
  | (heartbeat) q where "i = MsgID_HeartbeatReq" "m = M_HeartbeatReq q"
      "w' = snd (Login_Heartbeat (dev_login_service rand en) ctx q w)"
  | (save) q where "i = MsgID_SaveArchiveReq" "m = M_SaveArchiveReq q"
      "w' = snd (Game_SaveArchive C dev_archives ctx q w)"
  | (combat) q where "i = MsgID_CombatResultReq" "m = M_CombatResultReq q"
      "typed_result M_CombatResultResp (CombatResult (dev_combat_handler C) ctx q w) = (r, w')"
proof -
  have snd_w: "w' = snd x" if "typed_result wrap x = (r, w')" for wrap :: "'c \<Rightarrow> message" and x
    using that by (metis snd_conv snd_typed_result)
  note simps = dev_registration_defs typed_arguments
  from h show ?thesis
  proof (cases rule: dev_handlers_cases)
    case 1
    with run show ?thesis by (auto simp: simps elim!: typed_func_run intro!: quiet dest!: snd_w)
  next
    case 2
    with run show ?thesis by (auto simp: simps elim!: typed_func_run intro: quiet login)
  next
    case 3
    with run show ?thesis by (auto simp: simps elim!: typed_func_run intro: quiet heartbeat dest!: snd_w)
  next
    case 4
    with run show ?thesis by (auto simp: simps elim!: typed_func_run intro: quiet save dest!: snd_w)
  next
    case 5
    with run show ?thesis by (auto simp: simps elim!: typed_func_run intro!: quiet dest!: snd_w)
  next
    case 6
    with run show ?thesis by (auto simp: simps elim!: typed_func_run intro: quiet combat)
  next
    case 7
    with run show ?thesis by (auto simp: simps elim!: typed_func_run intro!: quiet dest!: snd_w)
  qed
qed

lemma handler_steps:
  assumes "dev_handlers C rand en i = Some e" "fn e ctx m w = (r, w')"
  shows "steps C 4 (w_db w) (w_db w')"
  using assms
proof (cases rule: handler_effect)
  case (login q)
  then have "w' = snd (Login_Login (dev_login_service rand en) ctx q w)" by (metis snd_conv snd_typed_result)
  then show ?thesis
    using login_service_steps by (metis Login_Login_db prod.collapse)
next
  case (heartbeat q)
  obtain x d where d: "RefreshSession (dev_login_service rand en) (uidFromCtx ctx w) (w_db w) = (x, d)" by fastforce
  have "steps C 4 (w_db w) d" by (rule steps_mono [OF refresh_steps [OF d]]) simp
  with heartbeat d show ?thesis by (simp add: Login_Heartbeat_frame)
next
  case (save q)
  then show ?thesis
    by (auto simp: Game_SaveArchive_frame ArchiveService_Save_def dev_op_steps eval_nat_numeral
        split: option.split sum.split)
next
  case (combat q)
  then have "w' = snd (CombatResult (dev_combat_handler C) ctx q w)" by (metis snd_conv snd_typed_result)
  then show ?thesis
    by (simp add: dev_combat_frame dev_op_steps eval_nat_numeral)
qed simp

lemma handler_sessions:
  assumes "dev_handlers C rand en i = Some e" "fn e ctx m w = (r, w')" "i \<noteq> MsgID_LoginReq"
  shows "w_sessions w' = w_sessions w"
  using assms(1,2)
proof (cases rule: handler_effect)
  case (combat q)
  then have "w' = snd (CombatResult (dev_combat_handler C) ctx q w)" by (metis snd_conv snd_typed_result)
  then show ?thesis by (simp add: dev_combat_frame)
qed (use assms(3) in \<open>simp_all add: Login_Heartbeat_frame Game_SaveArchive_frame\<close>)

text \<open>What the authentication hook lets through.\<close>

definition logged_on :: "go_context \<Rightarrow> 'r dev_db world \<Rightarrow> bool" where
  "logged_on ctx w \<longleftrightarrow>
     0 <s uidFromCtx ctx w \<and> sessionsByUID (dd_store (w_db w)) (uidFromCtx ctx w) \<noteq> None"

lemma uidFromCtx_WithMsgID [simp]: "uidFromCtx (WithMsgID ctx i) w = uidFromCtx ctx w"
  by (simp add: uidFromCtx_def FromContext_def WithMsgID_def)

lemma MsgID_WithMsgID [simp]: "MsgIDFromContext (WithMsgID ctx i) = i"
  by (simp add: MsgIDFromContext_def WithMsgID_def)

lemma dev_auth:
  fixes w :: "'r dev_db world"
  shows "ExecuteBefore (k_hooks (dev_kernel C rand en)) (WithMsgID ctx i) m w =
     ((WithMsgID ctx i, m,
       if i = MsgID_LoginReq \<or> i = MsgID_HeartbeatReq \<or> logged_on ctx w then None
       else Some (if 0 <s uidFromCtx ctx w then NewBizError ErrLoginTokenExpired (bytes_of [0xE4,
         0xBC, 0x9A, 0xE8, 0xAF, 0x9D, 0xE5, 0xB7, 0xB2, 0xE8, 0xBF, 0x87, 0xE6, 0x9C, 0x9F, 0xEF, 0xBC,
         0x8C, 0xE8, 0xAF, 0xB7, 0xE9, 0x87, 0x8D, 0xE6, 0x96, 0xB0, 0xE7, 0x99, 0xBB, 0xE5, 0xBD, 0x95])
         else NewBizError ErrUnauthorized (bytes_of [0xE8, 0xAF, 0xB7, 0xE5, 0x85, 0x88, 0xE7, 0x99, 0xBB,
         0xE5, 0xBD, 0x95]))), w)"
proof -
  have uid: "(case FromContext (WithMsgID ctx i) of None \<Rightarrow> 0 | Some s \<Rightarrow> Session_UID (w_sessions w s)) = uidFromCtx ctx w"
    using uidFromCtx_WithMsgID [of ctx i w] by (simp add: uidFromCtx_def)
  have get: "GetSession dev_sessions u (w_db w) = Inr (sessionsByUID (dd_store (w_db w)) u)" for u
    by (rule dev_login.get_session)
  show ?thesis
    unfolding dev_before Auth_def MsgID_WithMsgID uid get dev_auth_free logged_on_def
    by (auto simp: Let_def signed_defs split: option.split)
qed

lemma sendError_ids: "\<forall>r\<in>set (sendError sess seq e). rp_id r = MsgID_Error"
  using sendError_mem by blast

lemma finish_error [simp]: "finish sess seq e resp (Some err) = sendError sess seq err"
  by (simp add: finish_def)

text \<open>A frame is refused and changes nothing, or its handler runs.\<close>

lemma dev_dispatch_cases:
  assumes "Dispatch C (dev_kernel C rand en) ctx data w = (err, rs, w')"
  obtains (kept) "w' = w" "\<forall>r\<in>set rs. rp_id r = MsgID_Error"
  | (handled) f e m r where "Decode data = Inr f" "Seq f \<noteq> 0" "dev_handlers C rand en (MsgID f) = Some e"
      "unmarshal C (reqType e) (Body f) = Inr m" "fn e (WithMsgID ctx (MsgID f)) m w = (r, w')" "err = None"
      "rs = finish (FromContext ctx) (Seq f) e (map_option Proto (fst r)) (snd r)"
      "MsgID f = MsgID_LoginReq \<or> MsgID f = MsgID_HeartbeatReq \<or> logged_on ctx w"
proof (cases "Decode data")
  case (Inl e)
  with assms kept show ?thesis by (simp add: Dispatch_fatal)
next
  case (Inr f)
  show ?thesis
  proof (cases "Seq f = 0")
    case True
    with Inr assms kept show ?thesis by (simp add: Dispatch_fatal)
  next
    case False
    note f = Inr False
    show ?thesis
    proof (cases "dev_handlers C rand en (MsgID f)")
      case None
      with assms kept show ?thesis by (auto simp: Dispatch_unknown [OF f] sendError_ids)
    next
      case (Some e)
      then have e: "handlers (dev_kernel C rand en) (MsgID f) = Some e" by simp
      show ?thesis
      proof (cases "unmarshal C (reqType e) (Body f)")
        case (Inl x)
        with assms kept show ?thesis by (auto simp: Dispatch_malformed [OF f e Inl] sendError_ids)
      next
        case (Inr m)
        note b = dev_auth [of C rand en ctx "MsgID f" m w]
        show ?thesis
        proof (cases "MsgID f = MsgID_LoginReq \<or> MsgID f = MsgID_HeartbeatReq \<or> logged_on ctx w")
          case False
          then obtain v where "ExecuteBefore (k_hooks (dev_kernel C rand en)) (WithMsgID ctx (MsgID f)) m w
              = ((WithMsgID ctx (MsgID f), m, Some v), w)" using b by simp
          from Dispatch_hook_error [OF f e Inr this] assms kept show ?thesis by (auto simp: sendError_ids)
        next
          case True
          with b have b: "ExecuteBefore (k_hooks (dev_kernel C rand en)) (WithMsgID ctx (MsgID f)) m w
              = ((WithMsgID ctx (MsgID f), m, None), w)" by simp
          obtain r0 r1 w2 where r: "fn e (WithMsgID ctx (MsgID f)) m w = ((r0, r1), w2)" by (metis surj_pair)
          with Dispatch_handler [OF f e Inr b]
          have "Dispatch C (dev_kernel C rand en) ctx data w =
              (None, finish (FromContext ctx) (Seq f) e (map_option Proto r0) r1, w2)" by simp
          with assms handled [OF f Some Inr, of "(r0, r1)"] r True
          show ?thesis by simp
        qed
      qed
    qed
  qed
qed

end
