(* ===== verification/Dev_Traffic.thy ===== *)
theory Dev_Traffic
  imports Dev_Dispatch
begin

text \<open>
  Traffic of the development server: sequences of frames, each with the session of the connection it came in on.
  The frames of all connections are served one after another; a handler is one step.

  Shown here: every frame gets exactly one reply of the right kind or ends its connection; a request without
  a login changes nothing; all traffic is a history of the store's operations, so what \<open>Memory_History\<close> shows
  holds of the running server; a session is bound only to an existing player, by a login with that player's
  code; and a run that is reported again is not credited again.
\<close>

section \<open>Serving frames\<close>

definition serve_frame :: "codec \<Rightarrow> 'w world kernel \<Rightarrow> sid \<times> byte list \<Rightarrow> 'w world \<Rightarrow> 'w world" where
  "serve_frame C k frame w =
     (case Dispatch C k (WithSession Background (fst frame)) (snd frame) w of (err, replies, w') \<Rightarrow> w')"

definition serve :: "codec \<Rightarrow> 'w world kernel \<Rightarrow> (sid \<times> byte list) list \<Rightarrow> 'w world \<Rightarrow> 'w world" where
  "serve C k frames w = fold (serve_frame C k) frames w"

lemma serve_simps [simp]:
  "serve C k [] w = w" "serve C k (x # xs) w = serve C k xs (serve_frame C k x w)"
  "serve C k (xs @ ys) w = serve C k ys (serve C k xs w)"
  by (simp_all add: serve_def)

text \<open>The world when the runtime starts: no connection has logged in.\<close>

definition dev_start :: "memory_store \<Rightarrow> 'r \<Rightarrow> 'r dev_db world" where
  "dev_start store r = \<lparr>w_sessions = (\<lambda>s. Session_New), w_db = \<lparr>dd_store = store, dd_rand = r\<rparr>\<rparr>"

abbreviation store_of :: "'r dev_db world \<Rightarrow> memory_store" where
  "store_of w \<equiv> dd_store (w_db w)"

lemma serve_frame_result:
  "Dispatch C k (WithSession Background (fst x)) (snd x) w = (err, rs, w') \<Longrightarrow> serve_frame C k x w = w'"
  by (simp add: serve_frame_def)

lemma serve_frame_steps: "steps C 4 (w_db w) (w_db (serve_frame C (dev_kernel C rand en) x w))"
proof -
  obtain err rs w' where d: "Dispatch C (dev_kernel C rand en) (WithSession Background (fst x)) (snd x) w = (err, rs, w')"
    by (metis surj_pair)
  then show ?thesis
    by (cases rule: dev_dispatch_cases) (simp_all add: serve_frame_result [OF d] handler_steps)
qed

lemma serve_steps: "steps C (4 * length xs) (w_db w) (w_db (serve C (dev_kernel C rand en) xs w))"
proof (induction xs arbitrary: w)
  case (Cons x xs)
  show ?case
    using steps_trans [OF serve_frame_steps Cons.IH, where k = "4 * length (x # xs)"] by simp
qed simp

section \<open>Players stay, with their open ids, and stored sessions stay\<close>

definition players_kept :: "memory_store \<Rightarrow> memory_store \<Rightarrow> bool" where
  "players_kept s s' \<longleftrightarrow> mem_inv s' \<and> dom (sessionsByUID s) \<subseteq> dom (sessionsByUID s')
     \<and> (\<forall>i p. playersByID s i = Some p \<longrightarrow> (\<exists>q. playersByID s' i = Some q \<and> p_open_id q = p_open_id p))"

lemma players_keptD:
  assumes "players_kept s s'" "playersByID s i = Some p"
  obtains q where "playersByID s' i = Some q" "p_open_id q = p_open_id p"
  using assms unfolding players_kept_def by blast

lemma players_kept_trans: "players_kept s1 s2 \<Longrightarrow> players_kept s2 s3 \<Longrightarrow> players_kept s1 s3"
  unfolding players_kept_def by (elim conjE, intro conjI) (assumption | blast | metis)+

lemma players_kept_same:
  "mem_inv s' \<Longrightarrow> playersByID s' = playersByID s \<Longrightarrow> dom (sessionsByUID s) \<subseteq> dom (sessionsByUID s')
     \<Longrightarrow> players_kept s s'"
  by (simp add: players_kept_def)

text \<open>What the login handler leaves behind.\<close>

lemma dev_exchange_result:
  "fst (DevelopmentCodeExchanger_Exchange en code d) = Inr \<lparr>li_open_id = x\<rparr> \<Longrightarrow>
     en \<and> has_prefix code ''dev:'' \<and> x = code"
  by (auto simp: DevelopmentCodeExchanger_Exchange_def cut_prefix_def split: if_splits prod.splits)

lemma login_handler:
  assumes inv: "mem_inv (store_of w)" and room: "mem_room (store_of w)"
    and run: "Login_Login (dev_login_service rand en) ctx q w = (res, w')"
  shows "players_kept (store_of w) (store_of w') \<and>
    (case res of
       Inr r \<Rightarrow> en \<and> has_prefix (lq_code q) ''dev:''
         \<and> (\<exists>p. playersByID (store_of w') (lr_uid r) = Some p \<and> p_open_id p = lq_code q)
         \<and> (\<forall>s. Session_UID (w_sessions w' s) = (if FromContext ctx = Some s then lr_uid r else Session_UID (w_sessions w s)))
     | Inl e \<Rightarrow> w_sessions w' = w_sessions w)"
proof -
  let ?svc = "dev_login_service rand en"
  obtain a d' where l: "LoginService_Login ?svc (lq_code q) (w_db w) = (a, d')" by fastforce
  have db: "w_db w' = d'" using Login_Login_db [of ?svc ctx q w] run l by simp
  have e: "case a of
      Inr r \<Rightarrow> \<exists>x. fst (ls_exchanger ?svc (lq_code q) (w_db w)) = Inr \<lparr>li_open_id = x\<rparr>
        \<and> dev_login.logged_in (w_db w) x r d'
        \<and> (\<forall>p. playersByID (store_of w) (res_UID r) = Some p \<longrightarrow> p_open_id p = x)
        \<and> (playersByID (store_of w) (res_UID r) = None \<longrightarrow> 0 <s res_UID r)
    | Inl e \<Rightarrow> mem_inv (dd_store d') \<and> sessionsByUID (dd_store d') = sessionsByUID (store_of w)
        \<and> (playersByID (dd_store d') = playersByID (store_of w)
          \<or> (\<exists>p. playersByID (dd_store d') = (playersByID (store_of w))(p_id p \<mapsto> p)
                \<and> playersByID (store_of w) (p_id p) = None))"
    by (rule dev_login.login_effect [OF _ _ _ _ inv room l])
       (simp_all add: dev_exchange_same dev_generate_quiet)
  show ?thesis
  proof (cases a)
    case (Inl err)
    with run l have "res \<noteq> Inr r" "w_sessions w' = w_sessions w" for r
      by (auto simp: Login_Login_def on_db_def split: prod.splits)
    moreover have "players_kept (store_of w) (dd_store d')"
      using e Inl by (auto simp: players_kept_def)
    ultimately show ?thesis by (simp add: db split: sum.split)
  next
    case (Inr r)
    with e obtain x where x: "fst (DevelopmentCodeExchanger_Exchange en (lq_code q) (w_db w)) = Inr \<lparr>li_open_id = x\<rparr>"
      and li: "dev_login.logged_in (w_db w) x r d'"
      and old: "\<forall>p. playersByID (store_of w) (res_UID r) = Some p \<longrightarrow> p_open_id p = x" by auto
    from dev_exchange_result [OF x] have c: "en" "has_prefix (lq_code q) ''dev:''" "x = lq_code q" by simp_all
    from li obtain p where p: "mem_inv (dd_store d')" "playersByID (dd_store d') = (playersByID (store_of w))(res_UID r \<mapsto> p)"
      "p_open_id p = x" "dom (sessionsByUID (store_of w)) \<subseteq> dom (sessionsByUID (dd_store d'))"
      by (auto simp: dev_login.logged_in_def)
    with old have "players_kept (store_of w) (dd_store d')" by (auto simp: players_kept_def)
    moreover have "res = Inr \<lparr>lr_uid = res_UID r, lr_nickname = res_Nickname r, lr_token = res_Token r\<rparr>"
      "\<forall>s. Session_UID (w_sessions w' s) = (if FromContext ctx = Some s then res_UID r else Session_UID (w_sessions w s))"
      using run l Inr by (auto simp: Login_Login_def on_db_def Let_def split: option.splits)
    ultimately show ?thesis using p c by (simp add: db)
  qed
qed

text \<open>Every other handler leaves the players alone.\<close>

lemma handler_players:
  assumes "dev_handlers C rand en i = Some e" "fn e ctx m w = (r, w')" "i \<noteq> MsgID_LoginReq" "mem_inv (store_of w)"
  shows "players_kept (store_of w) (store_of w')"
  using assms(1,2)
proof (cases rule: handler_effect)
  case (heartbeat q)
  let ?u = "uidFromCtx ctx w"
  obtain d where d: "RefreshSession (dev_login_service rand en) ?u (w_db w) = (None, d)"
    "playersByID (dd_store d) = playersByID (store_of w)" "mem_inv (store_of w) \<longrightarrow> mem_inv (dd_store d)"
    "\<exists>v. sessionsByUID (dd_store d) = (sessionsByUID (store_of w))(?u \<mapsto> v)"
    using dev_login.refresh_ok [of "dev_login_service rand en" ?u "w_db w"] by auto
  from d(4) have "dom (sessionsByUID (store_of w)) \<subseteq> dom (sessionsByUID (dd_store d))" by auto
  with d heartbeat assms(4) show ?thesis
    by (intro players_kept_same) (simp_all add: Login_Heartbeat_frame)
next
  case (save q)
  then show ?thesis
    using assms(4)
    by (intro players_kept_same)
       (auto simp: Game_SaveArchive_frame ArchiveService_Save_def dev_archives_def mem_archives_def Mem_SaveArchive_def
          intro: mem_inv_frame split: option.split sum.split)
next
  case (combat q)
  then have w': "w' = snd (CombatResult (dev_combat_handler C) ctx q w)" by (metis snd_conv snd_typed_result)
  show ?thesis
    using assms(4)
    by (intro players_kept_same)
       (auto simp: w' dev_combat_frame dev_settle_def mem_settle_def Mem_Settle_frame intro: mem_inv_frame)
qed (use assms(3,4) in \<open>simp_all add: players_kept_same\<close>)

text \<open>What the traffic keeps: players, and sessions bound only to players that logged in.\<close>

definition bound_ok :: "bool \<Rightarrow> 'r dev_db world \<Rightarrow> bool" where
  "bound_ok en w \<longleftrightarrow> (\<forall>s. let u = Session_UID (w_sessions w s) in
     u = 0 \<or> en \<and> (\<exists>p. playersByID (store_of w) u = Some p \<and> has_prefix (p_open_id p) ''dev:''))"

lemma bound_ok_kept:
  assumes "bound_ok en w" "players_kept (store_of w) (store_of w')" "w_sessions w' = w_sessions w"
  shows "bound_ok en w'"
  using assms unfolding bound_ok_def Let_def players_kept_def by metis

lemma serve_frame_players:
  assumes inv: "mem_inv (store_of w)" and room: "mem_room (store_of w)"
  shows "players_kept (store_of w) (store_of (serve_frame C (dev_kernel C rand en) x w))
    \<and> (bound_ok en w \<longrightarrow> bound_ok en (serve_frame C (dev_kernel C rand en) x w))"
proof -
  obtain err rs w' where d: "Dispatch C (dev_kernel C rand en) (WithSession Background (fst x)) (snd x) w = (err, rs, w')"
    by (metis surj_pair)
  note [simp] = serve_frame_result [OF d]
  from d show ?thesis
  proof (cases rule: dev_dispatch_cases)
    case kept
    with inv show ?thesis by (simp add: players_kept_same)
  next
    case (handled f e m r)
    show ?thesis
    proof (cases "MsgID f = MsgID_LoginReq")
      case False
      then have "players_kept (store_of w) (store_of w')" "w_sessions w' = w_sessions w"
        using handler_players [OF handled(3,5) _ inv] handler_sessions [OF handled(3,5)] by simp_all
      then show ?thesis by (simp add: bound_ok_kept)
    next
      case True
      from handled(3,5) show ?thesis
      proof (cases rule: handler_effect)
        case (login q)
        then obtain res where res: "Login_Login (dev_login_service rand en)
            (WithMsgID (WithSession Background (fst x)) (MsgID f)) q w = (res, w')"
          by (metis snd_conv snd_typed_result surj_pair)
        note l = login_handler [OF inv room res]
        show ?thesis
        proof (cases res)
          case (Inl a)
          with l show ?thesis by (simp add: bound_ok_kept)
        next
          case (Inr a)
          with l have "bound_ok en w'" if "bound_ok en w"
            using that unfolding bound_ok_def Let_def players_kept_def by (auto split: if_splits) metis+
          with l show ?thesis by simp
        qed
      qed (use True inv msg_ids_distinct in \<open>simp_all add: players_kept_same\<close>)
    qed
  qed
qed

section \<open>From the start\<close>

lemma runtime_Inr:
  assumes "newDevelopmentRuntime C rand cfg = Inr rt"
  shows "rt_kernel rt = dev_kernel C rand (dv_LoginEnabled (cf_Development cfg))" "rt_store rt = new_dev_store"
  using assms by (auto simp: newDevelopmentRuntime_eq split: if_splits)

lemma steps_room:
  assumes "steps C n d d'" "sint (nextPlayerID (dd_store d)) + int n \<le> 9223372036854775807"
  shows "sint (nextPlayerID (dd_store d')) \<le> sint (nextPlayerID (dd_store d)) + int n"
proof -
  from assms(1) obtain ops where "length ops \<le> n" "dd_store d' = mem_run C ops (dd_store d)"
    by (auto simp: steps_def)
  then show ?thesis using mem_run_next_id [of "dd_store d" ops C] assms(2) by simp
qed

lemma serve_players:
  assumes "mem_inv (store_of w)" "sint (nextPlayerID (store_of w)) + 4 * int (length xs) < 9223372036854775807"
  shows "players_kept (store_of w) (store_of (serve C (dev_kernel C rand en) xs w))
    \<and> (bound_ok en w \<longrightarrow> bound_ok en (serve C (dev_kernel C rand en) xs w))
    \<and> sint (nextPlayerID (store_of (serve C (dev_kernel C rand en) xs w)))
        \<le> sint (nextPlayerID (store_of w)) + 4 * int (length xs)"
  using assms
proof (induction xs arbitrary: w)
  case Nil
  then show ?case by (simp add: players_kept_same)
next
  case (Cons x xs)
  let ?w = "serve_frame C (dev_kernel C rand en) x w"
  have room: "mem_room (store_of w)" using Cons.prems(2) by (simp add: mem_room_def)
  note f = serve_frame_players [OF Cons.prems(1) room, of C rand en x]
  have n: "sint (nextPlayerID (store_of ?w)) \<le> sint (nextPlayerID (store_of w)) + 4"
    using steps_room [OF serve_frame_steps [of C w rand en x]] Cons.prems(2) by simp
  have "mem_inv (store_of ?w)" using f by (simp add: players_kept_def)
  with Cons.IH [of ?w] n Cons.prems(2) f show ?case
    by (auto intro: players_kept_trans)
qed

lemma dev_start_ok:
  "mem_inv (store_of (dev_start new_dev_store r))" "nextPlayerID (store_of (dev_start new_dev_store r)) = 1"
  "bound_ok en (dev_start new_dev_store r)"
  by (simp_all add: dev_start_def new_dev_store_def mem_inv_def bound_ok_def)

lemma traffic_ok:
  assumes "4 * int (length xs) < 9223372036854775806"
  shows "mem_inv (store_of (serve C (dev_kernel C rand en) xs (dev_start new_dev_store r)))"
    "bound_ok en (serve C (dev_kernel C rand en) xs (dev_start new_dev_store r))"
    "sint (nextPlayerID (store_of (serve C (dev_kernel C rand en) xs (dev_start new_dev_store r))))
       \<le> 1 + 4 * int (length xs)"
  using serve_players [OF dev_start_ok(1), of r xs C rand en] assms dev_start_ok(2) [of r] dev_start_ok(3) [of en r]
  by (simp_all add: players_kept_def)

section \<open>Logins and reports\<close>

section \<open>Combat reports and logins, frame by frame\<close>

lemma dev_settle_eq:
  "dev_settle C pid req d =
     (fst (Mem_Settle C pid (Some req) (dd_store d)), d\<lparr>dd_store := snd (Mem_Settle C pid (Some req) (dd_store d))\<rparr>)"
  by (simp add: dev_settle_def mem_settle_def on_store_eq)

text \<open>The handler of combat reports in terms of the store's settlement.\<close>

lemma dev_combat_result:
  "CombatResult (dev_combat_handler C) ctx req w =
     (case validateCombatResult (Some req) (Some DefaultCombatConfig) of
        Some err \<Rightarrow> (Inl (NewBizError ErrCombatCheatDetected (error_text err)), w)
      | None \<Rightarrow>
          (case Mem_Settle C (uidFromCtx ctx w) (Some req) (store_of w) of
             (r, s') \<Rightarrow> (case r of Inl _ \<Rightarrow> Inl (NewBizError ErrInternal ''combat settlement failed'') | Inr x \<Rightarrow> Inr x,
                         w\<lparr>w_db := (w_db w)\<lparr>dd_store := s'\<rparr>\<rparr>)))"
  by (auto simp: CombatResult_def dev_combat_handler_def NewDevelopmentHandler_def NewSettlementService_def
      SettlementService_Settle_def on_db_def sync_rank_def dev_settle_eq split: option.split prod.split sum.split)

text \<open>A frame with a request of the type its handler takes.\<close>

definition request_frame :: "codec \<Rightarrow> u16 \<Rightarrow> message_type \<Rightarrow> byte list \<Rightarrow> u32 \<Rightarrow> message \<Rightarrow> bool" where
  "request_frame C i t data seq m \<longleftrightarrow>
     (\<exists>body. Decode data = Inr \<lparr>MsgID = i, Seq = seq, Body = body\<rparr> \<and> unmarshal C t body = Inr m) \<and> seq \<noteq> 0"

definition typed_reply :: "u32 \<Rightarrow> u16 \<Rightarrow> ('p \<Rightarrow> message) \<Rightarrow> go_error + 'p \<Rightarrow> reply list" where
  "typed_reply seq i wrap res =
     (case res of
        Inr x \<Rightarrow> [\<lparr>rp_seq = seq, rp_id = i, rp_payload = wrap x\<rparr>]
      | Inl err \<Rightarrow> sendError (Some 0) seq err)"

lemma finish_typed:
  "finish (Some s) seq e (map_option Proto (fst (fst (typed_result wrap x)))) (snd (fst (typed_result wrap x))) =
     typed_reply seq (respID e) wrap (fst x)"
  by (auto simp: typed_result_def typed_reply_def finish_def sendError_reply split: prod.split sum.split)

lemma typed_dispatch:
  assumes f: "request_frame C i (reqType e) data seq m" and e: "dev_handlers C rand en i = Some e"
    and ok: "i = MsgID_LoginReq \<or> i = MsgID_HeartbeatReq \<or> logged_on (WithSession Background s) w"
    and fn: "\<And>ctx. fn e ctx m w = typed_result wrap (h ctx)"
  shows "Dispatch C (dev_kernel C rand en) (WithSession Background s) data w =
     (let x = h (WithMsgID (WithSession Background s) i) in (None, typed_reply seq (respID e) wrap (fst x), snd x))"
proof -
  from f obtain body where b: "Decode data = Inr \<lparr>MsgID = i, Seq = seq, Body = body\<rparr>" "seq \<noteq> 0"
    "unmarshal C (reqType e) body = Inr m" by (auto simp: request_frame_def)
  let ?f = "\<lparr>MsgID = i, Seq = seq, Body = body\<rparr>"
  let ?ctx = "WithMsgID (WithSession Background s) i"
  have before: "ExecuteBefore (k_hooks (dev_kernel C rand en)) (WithMsgID (WithSession Background s) (MsgID ?f)) m w
      = ((?ctx, m, None), w)"
    using dev_auth [of C rand en "WithSession Background s" i m w] ok by simp
  obtain r0 r1 w2 where r: "typed_result wrap (h ?ctx) = ((r0, r1), w2)" by (metis surj_pair)
  then have "fn e ?ctx m w = ((r0, r1), w2)" using fn by simp
  from Dispatch_handler [OF b(1) _ _ _ before this] b e
  have "Dispatch C (dev_kernel C rand en) (WithSession Background s) data w =
      (None, finish (Some s) seq e (map_option Proto r0) r1, w2)" by simp
  moreover have "snd (h ?ctx) = w2" using r by (metis snd_conv snd_typed_result)
  ultimately show ?thesis using finish_typed [of s seq e wrap "h ?ctx"] r by (simp add: Let_def)
qed

lemma refused_dispatch:
  assumes f: "request_frame C i (reqType e) data seq m" and e: "dev_handlers C rand en i = Some e"
    and no: "i \<noteq> MsgID_LoginReq" "i \<noteq> MsgID_HeartbeatReq" "\<not> logged_on (WithSession Background s) w"
  shows "\<exists>x. Dispatch C (dev_kernel C rand en) (WithSession Background s) data w = (None, sendError (Some s) seq x, w)"
proof -
  from f obtain body where b: "Decode data = Inr \<lparr>MsgID = i, Seq = seq, Body = body\<rparr>" "seq \<noteq> 0"
    "unmarshal C (reqType e) body = Inr m" by (auto simp: request_frame_def)
  let ?f = "\<lparr>MsgID = i, Seq = seq, Body = body\<rparr>"
  obtain x where before: "ExecuteBefore (k_hooks (dev_kernel C rand en)) (WithMsgID (WithSession Background s) (MsgID ?f)) m w
      = ((WithMsgID (WithSession Background s) (MsgID ?f), m, Some x), w)"
    using dev_auth [of C rand en "WithSession Background s" i m w] no by simp
  from Dispatch_hook_error [OF b(1) _ _ _ before, where entry = e and C = C] b e show ?thesis
    by (intro exI [of _ x]) simp
qed

lemma dev_handlers_table:
  "dev_handlers C rand en MsgID_CombatResultReq = Some (dev_entry MsgID_CombatResultResp T_CombatResultReq False
     (combat_result_registration (dev_combat_handler C)))"
  "dev_handlers C rand en MsgID_LoginReq = Some (dev_entry MsgID_LoginResp T_LoginReq True
     (registerOnlineSessionHandlers C (dev_login_service rand en) dev_archives ! 0))"
  using msg_ids_distinct by (simp_all add: dev_handlers_def Let_def)

lemma combat_dispatch:
  assumes "request_frame C MsgID_CombatResultReq T_CombatResultReq data seq (M_CombatResultReq req)"
    "logged_on (WithSession Background s) w"
  shows "Dispatch C (dev_kernel C rand en) (WithSession Background s) data w =
     (let x = CombatResult (dev_combat_handler C) (WithMsgID (WithSession Background s) MsgID_CombatResultReq) req w
      in (None, typed_reply seq MsgID_CombatResultResp M_CombatResultResp (fst x), snd x))"
  using typed_dispatch [OF _ dev_handlers_table(1), where m = "M_CombatResultReq req" and wrap = M_CombatResultResp
      and h = "\<lambda>ctx. CombatResult (dev_combat_handler C) ctx req w"] assms
  by (simp add: combat_result_registration_def typed_func_def)

lemma combat_dispatch_refused:
  assumes "request_frame C MsgID_CombatResultReq T_CombatResultReq data seq (M_CombatResultReq req)"
    "\<not> logged_on (WithSession Background s) w"
  shows "\<exists>x. Dispatch C (dev_kernel C rand en) (WithSession Background s) data w = (None, sendError (Some s) seq x, w)"
  using refused_dispatch [OF _ dev_handlers_table(1)] assms msg_ids_distinct by simp

lemma login_dispatch:
  assumes "request_frame C MsgID_LoginReq T_LoginReq data seq (M_LoginReq req)"
  shows "Dispatch C (dev_kernel C rand en) (WithSession Background s) data w =
     (let x = Login_Login (dev_login_service rand en) (WithMsgID (WithSession Background s) MsgID_LoginReq) req w
      in (None, typed_reply seq MsgID_LoginResp M_LoginResp (fst x), snd x))"
  using typed_dispatch [OF _ dev_handlers_table(2), where m = "M_LoginReq req" and wrap = M_LoginResp
      and h = "\<lambda>ctx. Login_Login (dev_login_service rand en) ctx req w"] assms
  by (simp add: registerOnlineSessionHandlers_def typed_func_def)

lemma typed_reply_response:
  assumes "typed_reply seq i wrap res = [\<lparr>rp_seq = q, rp_id = i, rp_payload = m\<rparr>]" "i \<noteq> MsgID_Error"
  obtains x where "res = Inr x" "m = wrap x"
  using assms by (auto simp: typed_reply_def sendError_reply split: sum.splits)

lemma response_ids: "MsgID_CombatResultResp \<noteq> MsgID_Error" "MsgID_LoginResp \<noteq> MsgID_Error"
  by (simp_all add: msg_id_defs)

text \<open>A report that was answered, as a settlement of the store.\<close>

lemma combat_reported:
  assumes f: "request_frame C MsgID_CombatResultReq T_CombatResultReq data seq (M_CombatResultReq req)"
    and d: "Dispatch C (dev_kernel C rand en) (WithSession Background s) data w
      = (None, [\<lparr>rp_seq = q, rp_id = MsgID_CombatResultResp, rp_payload = M_CombatResultResp r\<rparr>], w')"
  shows "logged_on (WithSession Background s) w"
    "validateCombatResult (Some req) (Some DefaultCombatConfig) = None"
    "Mem_Settle C (Session_UID (w_sessions w s)) (Some req) (store_of w) = (Inr r, store_of w')"
    "w_sessions w' = w_sessions w"
proof -
  show on: "logged_on (WithSession Background s) w"
    using combat_dispatch_refused [OF f, of s w rand en] d response_ids by (auto simp: sendError_reply)
  let ?ctx = "WithMsgID (WithSession Background s) MsgID_CombatResultReq"
  obtain res where res: "CombatResult (dev_combat_handler C) ?ctx req w = (res, w')"
    "typed_reply seq MsgID_CombatResultResp M_CombatResultResp res
       = [\<lparr>rp_seq = q, rp_id = MsgID_CombatResultResp, rp_payload = M_CombatResultResp r\<rparr>]"
    using combat_dispatch [OF f on, of rand en] d
    by (cases "CombatResult (dev_combat_handler C) ?ctx req w") (simp add: Let_def)
  from res(2) response_ids(1) have r: "res = Inr r" by (rule typed_reply_response) simp
  have uid: "uidFromCtx ?ctx w = Session_UID (w_sessions w s)" by simp
  from res(1) r show "validateCombatResult (Some req) (Some DefaultCombatConfig) = None"
    "Mem_Settle C (Session_UID (w_sessions w s)) (Some req) (store_of w) = (Inr r, store_of w')"
    "w_sessions w' = w_sessions w"
    unfolding dev_combat_result uid by (auto split: option.splits prod.splits sum.splits)
qed

text \<open>A login that was answered.\<close>

lemma login_reported:
  assumes f: "request_frame C MsgID_LoginReq T_LoginReq data seq (M_LoginReq req)"
    and d: "Dispatch C (dev_kernel C rand en) (WithSession Background s) data w
      = (None, [\<lparr>rp_seq = q, rp_id = MsgID_LoginResp, rp_payload = M_LoginResp r\<rparr>], w')"
    and inv: "mem_inv (store_of w)" "mem_room (store_of w)"
  shows "Session_UID (w_sessions w' s) = lr_uid r"
    "\<exists>p. playersByID (store_of w') (lr_uid r) = Some p \<and> p_open_id p = lq_code req"
proof -
  let ?ctx = "WithMsgID (WithSession Background s) MsgID_LoginReq"
  obtain res where res: "Login_Login (dev_login_service rand en) ?ctx req w = (res, w')"
    "typed_reply seq MsgID_LoginResp M_LoginResp res
       = [\<lparr>rp_seq = q, rp_id = MsgID_LoginResp, rp_payload = M_LoginResp r\<rparr>]"
    using login_dispatch [OF f, of rand en s w] d
    by (cases "Login_Login (dev_login_service rand en) ?ctx req w") (simp add: Let_def)
  from res(2) response_ids(2) have r: "res = Inr r" by (rule typed_reply_response) simp
  have "FromContext ?ctx = Some s" by (simp add: FromContext_def WithMsgID_def WithSession_def)
  with login_handler [OF inv res(1)] r
  show "Session_UID (w_sessions w' s) = lr_uid r"
    "\<exists>p. playersByID (store_of w') (lr_uid r) = Some p \<and> p_open_id p = lq_code req" by simp_all
qed

section \<open>Properties\<close>

text \<open>
  C24: The development runtime starts exactly when payment is disabled. It then handles exactly seven kinds of
  requests, of which login and heartbeat alone are free of authentication, over an empty store that pays 5 gold
  and 10 experience per kill; registering the handlers never panics.
\<close>

theorem dev_runtime_routes:
  "case newDevelopmentRuntime C rand cfg of
     Inl e \<Rightarrow> wc_PaymentEnabled (cf_Wechat cfg) \<and> (\<exists>x. e = StartError x)
   | Inr rt \<Rightarrow> \<not> wc_PaymentEnabled (cf_Wechat cfg)
       \<and> dom (handlers (rt_kernel rt)) = {MsgID_LoginReq, MsgID_HeartbeatReq, MsgID_SaveArchiveReq,
           MsgID_LoadArchiveReq, MsgID_CombatResultReq, MsgID_GetPlayerStatsReq, MsgID_CreateOrderReq}
       \<and> {i. IsAuthFree (rt_kernel rt) i} = {MsgID_LoginReq, MsgID_HeartbeatReq}
       \<and> playersByID (rt_store rt) = Map.empty \<and> settlements (rt_store rt) = Map.empty
       \<and> settlementPolicy (rt_store rt) = \<lparr>GoldPerKill = 5, ExpPerKill = 10\<rparr>"
  by (auto simp: newDevelopmentRuntime_eq dev_handlers_dom dev_auth_free new_dev_store_def)


text \<open>
  C26: A request other than login and heartbeat on a connection without a player, or whose player has no stored
  session, is answered with an error frame and changes nothing, whatever it is.
\<close>

theorem dev_unauthenticated_refused:
  assumes "newDevelopmentRuntime C rand cfg = Inr rt" and "Decode data = Inr f" and "Seq f \<noteq> 0"
    and "MsgID f \<noteq> MsgID_LoginReq" and "MsgID f \<noteq> MsgID_HeartbeatReq"
    and "Session_UID (w_sessions w s) \<le>s 0 \<or> Mem_GetSession (Session_UID (w_sessions w s)) (store_of w) = Inr None"
  shows "\<exists>r. Dispatch C (rt_kernel rt) (WithSession Background s) data w = (None, [r], w)
    \<and> rp_id r = MsgID_Error \<and> rp_seq r = Seq f"
proof -
  obtain r w' where d: "Dispatch C (rt_kernel rt) (WithSession Background s) data w = (None, [r], w')"
    and r: "rp_seq r = Seq f"
    using Dispatch_one_reply [OF dev_kernel_ok dev_answers dev_kernel_simps(2) FromContext_simps(1) assms(2,3)]
      runtime_Inr(1) [OF assms(1)] by (metis reply_for_def)
  have "\<not> logged_on (WithSession Background s) w"
    using assms(6) by (auto simp: logged_on_def Mem_GetSession_def signed_defs)
  with d assms(2,4,5) have "w' = w \<and> rp_id r = MsgID_Error"
    unfolding runtime_Inr(1) [OF assms(1)] by (cases rule: dev_dispatch_cases) auto
  with d r show ?thesis by blast
qed


text \<open>
  C27: Whatever frames arrive after the start, a connection's session is bound only to a player that exists and
  whose open id is a development code, and to none at all when development logins are disabled.
\<close>

theorem dev_sessions_bound_to_players:
  assumes "newDevelopmentRuntime C rand cfg = Inr rt" and "4 * int (length xs) < 9223372036854775806"
    and "w = serve C (rt_kernel rt) xs (dev_start (rt_store rt) r)"
  shows "Session_UID (w_sessions w s) = 0
    \<or> dv_LoginEnabled (cf_Development cfg)
      \<and> (\<exists>p. Mem_GetPlayerByID (Session_UID (w_sessions w s)) (store_of w) = Inr p
            \<and> p_id p = Session_UID (w_sessions w s) \<and> has_prefix (p_open_id p) ''dev:'')"
proof -
  note ok = traffic_ok [OF assms(2), where C = C and rand = rand and en = "dv_LoginEnabled (cf_Development cfg)" and r = r]
  have w: "w = serve C (dev_kernel C rand (dv_LoginEnabled (cf_Development cfg))) xs (dev_start new_dev_store r)"
    using assms(3) runtime_Inr [OF assms(1)] by simp
  show ?thesis
    using ok(2) mem_invD(1) [OF ok(1)] unfolding w [symmetric] bound_ok_def
    by (auto simp: Let_def Mem_GetPlayerByID_def)
qed

text \<open>
  C1: A run is credited once, end to end. After a combat report was answered with a response, and whatever
  frames arrived in between on any connections, a report of the same run by the same player is answered with
  that response marked as a duplicate, and the server's state does not change.
\<close>

theorem dev_run_credited_once:
  assumes rt: "newDevelopmentRuntime C rand cfg = Inr rt" and law: "codec_roundtrip C"
    and few: "4 * int (length before + length between + 1) < 9223372036854775806"
    and w1: "w1 = serve C (rt_kernel rt) before (dev_start (rt_store rt) x)"
    and f1: "request_frame C MsgID_CombatResultReq T_CombatResultReq data1 seq1 (M_CombatResultReq req1)"
    and d1: "Dispatch C (rt_kernel rt) (WithSession Background s1) data1 w1
      = (None, [\<lparr>rp_seq = seq1, rp_id = MsgID_CombatResultResp, rp_payload = M_CombatResultResp r\<rparr>], w2)"
    and w3: "w3 = serve C (rt_kernel rt) between w2"
    and f2: "request_frame C MsgID_CombatResultReq T_CombatResultReq data2 seq2 (M_CombatResultReq req2)"
    and same: "Session_UID (w_sessions w3 s2) = Session_UID (w_sessions w1 s1)" "cq_run_id req2 = cq_run_id req1"
    and valid: "validateCombatResult (Some req2) (Some DefaultCombatConfig) = None"
  shows "Dispatch C (rt_kernel rt) (WithSession Background s2) data2 w3
      = (None, [\<lparr>rp_seq = seq2, rp_id = MsgID_CombatResultResp,
                  rp_payload = M_CombatResultResp (r\<lparr>cr_duplicate := True\<rparr>)\<rparr>], w3)"
proof -
  let ?en = "dv_LoginEnabled (cf_Development cfg)"
  note k = runtime_Inr [OF rt]
  let ?u = "Session_UID (w_sessions w1 s1)"
  note c = combat_reported [OF f1 d1 [unfolded k]]
  from w1 k have w1': "w1 = serve C (dev_kernel C rand ?en) before (dev_start new_dev_store x)" by simp
  have "4 * int (length before) < 9223372036854775806" using few by simp
  note ok1 = traffic_ok [OF this, where C = C and rand = rand and en = ?en and r = x, folded w1']
  have w2: "w2 = serve_frame C (dev_kernel C rand ?en) (s1, data1) w1"
    using serve_frame_result [of C _ "(s1, data1)" w1] d1 k by simp
  have kept: "players_kept (store_of w1) (store_of w3)"
    using serve_players [OF ok1(1), where xs = "(s1, data1) # between" and C = C and rand = rand and en = ?en] ok1(3) few w3 w2 k by simp
  have on: "logged_on (WithSession Background s2) w3"
    using c(1) kept same(1) by (auto simp: logged_on_def players_kept_def simp del: not_None_eq)
  obtain ops where ops: "store_of w3 = mem_run C ops (store_of w2)"
    using serve_steps [where C = C and xs = between and w = w2 and rand = rand and en = ?en] w3 k by (auto simp: steps_def)
  have settle: "Mem_Settle C (Session_UID (w_sessions w3 s2)) (Some req2) (store_of w3)
      = (Inr (r\<lparr>cr_duplicate := True\<rparr>), store_of w3)"
    using Mem_Settle_again [OF law c(3) same(2)] same(1) ops by simp
  have uid: "uidFromCtx (WithMsgID (WithSession Background s2) MsgID_CombatResultReq) w3 = Session_UID (w_sessions w3 s2)"
    by simp
  show ?thesis
    unfolding k combat_dispatch [OF f2 on] dev_combat_result uid
    by (simp add: valid settle Let_def typed_reply_def)
qed

text \<open>
  C28: A login code is an identity. Two successful logins, with whatever frames in between, give the same
  player id exactly when their codes are equal, and each binds its connection's session to that player.
\<close>

theorem dev_login_identity:
  assumes rt: "newDevelopmentRuntime C rand cfg = Inr rt"
    and few: "4 * int (length before + length between + 2) < 9223372036854775806"
    and w1: "w1 = serve C (rt_kernel rt) before (dev_start (rt_store rt) x)"
    and f1: "request_frame C MsgID_LoginReq T_LoginReq data1 seq1 (M_LoginReq req1)"
    and d1: "Dispatch C (rt_kernel rt) (WithSession Background s1) data1 w1
      = (None, [\<lparr>rp_seq = seq1, rp_id = MsgID_LoginResp, rp_payload = M_LoginResp r1\<rparr>], w2)"
    and w3: "w3 = serve C (rt_kernel rt) between w2"
    and f2: "request_frame C MsgID_LoginReq T_LoginReq data2 seq2 (M_LoginReq req2)"
    and d2: "Dispatch C (rt_kernel rt) (WithSession Background s2) data2 w3
      = (None, [\<lparr>rp_seq = seq2, rp_id = MsgID_LoginResp, rp_payload = M_LoginResp r2\<rparr>], w4)"
  shows "(lr_uid r1 = lr_uid r2 \<longleftrightarrow> lq_code req1 = lq_code req2)
    \<and> Session_UID (w_sessions w2 s1) = lr_uid r1 \<and> Session_UID (w_sessions w4 s2) = lr_uid r2"
proof -
  let ?en = "dv_LoginEnabled (cf_Development cfg)"
  note k = runtime_Inr [OF rt]
  note d1' = d1 [unfolded k] and d2' = d2 [unfolded k]
  have ends: "w2 = serve_frame C (dev_kernel C rand ?en) (s1, data1) w1"
    "w4 = serve_frame C (dev_kernel C rand ?en) (s2, data2) w3"
    using serve_frame_result [of C _ "(s1, data1)" w1] serve_frame_result [of C _ "(s2, data2)" w3] d1' d2' by simp_all
  have w: "w1 = serve C (dev_kernel C rand ?en) before (dev_start new_dev_store x)"
    "w2 = serve C (dev_kernel C rand ?en) (before @ [(s1, data1)]) (dev_start new_dev_store x)"
    "w3 = serve C (dev_kernel C rand ?en) (before @ [(s1, data1)] @ between) (dev_start new_dev_store x)"
    "w4 = serve C (dev_kernel C rand ?en) (before @ [(s1, data1)] @ between @ [(s2, data2)]) (dev_start new_dev_store x)"
    "w4 = serve C (dev_kernel C rand ?en) (between @ [(s2, data2)]) w2"
    using w1 w3 ends k by simp_all
  note ok = traffic_ok [where C = C and rand = rand and en = ?en and r = x]
  have room: "mem_room (store_of w1)" "mem_room (store_of w3)"
    "sint (nextPlayerID (store_of w2)) + 4 * int (length (between @ [(s2, data2)])) < 9223372036854775807"
    using ok(3) [of before] ok(3) [of "before @ [(s1, data1)] @ between"] ok(3) [of "before @ [(s1, data1)]"] few
    unfolding mem_room_def w(1,2,3) [symmetric] by simp_all
  have inv: "mem_inv (store_of w1)" "mem_inv (store_of w2)" "mem_inv (store_of w3)" "mem_inv (store_of w4)"
    using few unfolding w(1-4) by (intro ok(1); simp)+
  note l1 = login_reported [OF f1 d1' inv(1) room(1)] and l2 = login_reported [OF f2 d2' inv(3) room(2)]
  from l1(2) obtain p1 where p1: "playersByID (store_of w2) (lr_uid r1) = Some p1" "p_open_id p1 = lq_code req1" by blast
  from l2(2) obtain p2 where p2: "playersByID (store_of w4) (lr_uid r2) = Some p2" "p_open_id p2 = lq_code req2" by blast
  have "players_kept (store_of w2) (store_of w4)"
    using serve_players [OF inv(2) room(3)] w(5) by simp
  with p1 obtain q where q: "playersByID (store_of w4) (lr_uid r1) = Some q" "p_open_id q = lq_code req1"
    by (auto elim: players_keptD)
  have "lr_uid r1 = lr_uid r2 \<longleftrightarrow> lq_code req1 = lq_code req2"
    using mem_invD(4) [OF inv(4) q(1)] mem_invD(4) [OF inv(4) p2(1)] q p2 by auto
  with l1(1) l2(1) show ?thesis by blast
qed

end
