(* ===== verification/Dev_Samples.thy ===== *)
theory Dev_Samples
  imports Dev_Traffic
begin

text \<open>
  Concrete traffic for the witnesses of \<open>Dev_Traffic\<close>: one player logs in with a development code and reports a
  run, on the codec of \<open>Sample_Codec\<close> and a random source that yields no bytes.
\<close>

section \<open>A codec, a configuration and three frames\<close>

definition traffic_codec :: codec where
  "traffic_codec = table_codec [M_LoginReq \<lparr>lq_code = ''dev:a''\<rparr>, M_CombatResultReq sample_run,
     M_PlayerArchive sample_archive, M_CombatResultResp sample_response, M_LoadArchiveReq LoadArchiveReq]"

definition no_random :: "unit \<Rightarrow> (go_error + byte list) \<times> unit" where
  "no_random r = (Inr [], r)"

definition sample_config :: config where
  "sample_config = \<lparr>
     cf_Server = \<lparr>srv_Host = ''127.0.0.1'', srv_Port = 8080, srv_Name = ''dev''\<rparr>,
     cf_Redis = \<lparr>rc_Host = [], rc_Port = 0, rc_Password = [], rc_DB = 0\<rparr>,
     cf_MySQL = \<lparr>mc_Host = [], mc_Port = 0, mc_User = [], mc_Password = [], mc_DBName = [],
       mc_MaxIdleConns = 0, mc_MaxOpenConns = 0\<rparr>,
     cf_Wechat = \<lparr>wc_AppID = [], wc_AppSecret = [], wc_PaymentEnabled = False, wc_MchID = [],
       wc_MchPrivateKeyPath = [], wc_MchCertSerialNo = [], wc_WechatPayCertPath = [], wc_PayNotifyURL = []\<rparr>,
     cf_Log = \<lparr>lc_Level = ''info'', lc_Filename = [], lc_MaxSize = 0, lc_MaxBackups = 0, lc_MaxAge = 0\<rparr>,
     cf_GM = \<lparr>gm_AdminUIDs = []\<rparr>,
     cf_Development = \<lparr>dv_Enabled = True, dv_LoginEnabled = True\<rparr>\<rparr>"

definition sample_runtime :: "unit dev_runtime" where
  "sample_runtime = \<lparr>rt_kernel = dev_kernel traffic_codec no_random True, rt_store = new_dev_store,
     rt_development = True\<rparr>"

lemma sample_runtime: "newDevelopmentRuntime traffic_codec no_random sample_config = Inr sample_runtime"
  by (simp add: newDevelopmentRuntime_eq sample_config_def sample_runtime_def)

lemma sample_runtime_simps [simp]:
  "rt_kernel sample_runtime = dev_kernel traffic_codec no_random True" "rt_store sample_runtime = new_dev_store"
  by (simp_all add: sample_runtime_def)

lemma traffic_codec_roundtrip: "codec_roundtrip traffic_codec"
  by (simp add: traffic_codec_def table_codec_roundtrip)

definition login_frame :: "byte list" where "login_frame = frame_bytes MsgID_LoginReq 1 [0]"
definition combat_frame :: "byte list" where "combat_frame = frame_bytes MsgID_CombatResultReq 2 [1]"
definition load_frame :: "byte list" where "load_frame = frame_bytes MsgID_LoadArchiveReq 3 [4]"

lemma decode_frames:
  "Decode login_frame = Inr \<lparr>MsgID = MsgID_LoginReq, Seq = 1, Body = [0]\<rparr>"
  "Decode combat_frame = Inr \<lparr>MsgID = MsgID_CombatResultReq, Seq = 2, Body = [1]\<rparr>"
  "Decode load_frame = Inr \<lparr>MsgID = MsgID_LoadArchiveReq, Seq = 3, Body = [4]\<rparr>"
  by (simp_all add: login_frame_def combat_frame_def load_frame_def Decode_frame_bytes HeaderSize_def MaxFrameSize_def)

lemma traffic_requests:
  "request_frame traffic_codec MsgID_LoginReq T_LoginReq login_frame 1 (M_LoginReq \<lparr>lq_code = ''dev:a''\<rparr>)"
  "request_frame traffic_codec MsgID_CombatResultReq T_CombatResultReq combat_frame 2 (M_CombatResultReq sample_run)"
  by (simp_all add: request_frame_def decode_frames traffic_codec_def unmarshal_table)

section \<open>The login\<close>

definition first_login :: login_resp where
  "first_login = \<lparr>lr_uid = 1, lr_nickname = default_nickname 1, lr_token = []\<rparr>"

definition logged_in_store :: memory_store where
  "logged_in_store = new_dev_store\<lparr>nextPlayerID := 2,
     playersByID := [1 \<mapsto> (new_player ''dev:a'')\<lparr>p_id := 1, p_nickname := default_nickname 1, p_token := []\<rparr>],
     playerIDByOpenID := [''dev:a'' \<mapsto> 1],
     sessionsByUID := [1 \<mapsto> \<lparr>sd_uid = 1, sd_nickname = default_nickname 1, sd_token = []\<rparr>]\<rparr>"

definition logged_in_session :: session where
  "logged_in_session = Session_Set SessionKeyToken (StringValue [])
     (Session_Set SessionKeyNickname (StringValue (default_nickname 1)) (Session_Bind 1 Session_New))"

definition logged_in_world :: "unit dev_db world" where
  "logged_in_world = \<lparr>w_sessions = (\<lambda>s. Session_New)(7 := logged_in_session),
     w_db = \<lparr>dd_store = logged_in_store, dd_rand = ()\<rparr>\<rparr>"

lemma trim_a: "trim_space ''a'' = ''a''"
  by (simp add: trim_space_id leading_def space_encodings_def bytes_of_def has_prefix_def char_of_def bit_simps)

lemma first_login:
  "Login_Login (dev_login_service no_random True) (WithMsgID (WithSession Background 7) i) \<lparr>lq_code = ''dev:a''\<rparr>
     (dev_start new_dev_store ()) = (Inr first_login, logged_in_world)"
proof -
  note repos = dev_players_def mem_players_def dev_sessions_def mem_sessions_def on_store_eq
  note ops = Mem_GetPlayerByOpenID_def Mem_CreatePlayer_def Mem_UpdatePlayer_def Mem_SetSession_def IsNotFound_def
  have ctx: "FromContext (WithMsgID (WithSession Background 7) i) = Some 7"
    by (simp add: FromContext_def WithMsgID_def WithSession_def)
  have ex: "DevelopmentCodeExchanger_Exchange True ''dev:a'' d = (Inr \<lparr>li_open_id = ''dev:a''\<rparr>, d)" for d :: "unit dev_db"
    by (simp add: DevelopmentCodeExchanger_Exchange_def cut_prefix_def has_prefix_def trim_a)
  show ?thesis
    by (simp add: Login_Login_def on_db_def LoginService_Login_def ex login_player_def repos ops ctx
        dev_start_def new_dev_store_def Let_def dev_generate_def GenerateToken_def no_random_def hex_encode_def
        first_login_def logged_in_world_def logged_in_store_def logged_in_session_def)
qed

lemma login_served:
  "Dispatch traffic_codec (dev_kernel traffic_codec no_random True) (WithSession Background 7) login_frame
     (dev_start new_dev_store ())
   = (None, [\<lparr>rp_seq = 1, rp_id = MsgID_LoginResp, rp_payload = M_LoginResp first_login\<rparr>], logged_in_world)"
  unfolding login_dispatch [OF traffic_requests(1)]
  by (simp add: first_login Let_def typed_reply_def)

lemma serve_login:
  "serve traffic_codec (dev_kernel traffic_codec no_random True) [(7, login_frame)] (dev_start new_dev_store ())
   = logged_in_world"
  by (simp add: serve_frame_def login_served)

section \<open>The report of a run\<close>

definition settled_world :: "unit dev_db world" where
  "settled_world = logged_in_world\<lparr>w_db := \<lparr>dd_store = logged_in_store\<lparr>archivesByUID := [1 \<mapsto> new_archive 1 [2]],
     playerLevels := [1 \<mapsto> 3], settlements := [(1, ''r1'') \<mapsto> [3]]\<rparr>, dd_rand = ()\<rparr>\<rparr>"

lemma logged_on_world: "logged_on (WithSession Background 7) logged_in_world"
  by (simp add: logged_on_def logged_in_world_def logged_in_session_def logged_in_store_def new_dev_store_def
      signed_defs)

lemma sample_run_accepted: "validateCombatResult (Some sample_run) (Some DefaultCombatConfig) = None"
  using sample_report_accepted by (simp add: sample_run_def sample_report_def)

lemma settle_logged_in:
  "Mem_Settle traffic_codec 1 (Some sample_run) logged_in_store = (Inr sample_response, store_of settled_world)"
proof -
  have run: "cq_run_id sample_run = ''r1''" "cq_player_level sample_run = 3" by (simp_all add: sample_run_def)
  have m: "marshal traffic_codec (M_PlayerArchive sample_archive) = Inr [2]"
    "marshal traffic_codec (M_CombatResultResp sample_response) = Inr [3]"
    by (simp_all add: traffic_codec_def marshal_table)
  have resp: "cr_archive sample_response = Some sample_archive" by (simp add: sample_response_def)
  show ?thesis
    by (simp add: Mem_Settle_def Let_def logged_in_store_def new_dev_store_def settled_world_def sample_settleArchive
        run m resp marshal_pointer_def level_of_def signed_defs)
qed

lemma report_served:
  "Dispatch traffic_codec (dev_kernel traffic_codec no_random True) (WithSession Background 7) combat_frame logged_in_world
   = (None, [\<lparr>rp_seq = 2, rp_id = MsgID_CombatResultResp, rp_payload = M_CombatResultResp sample_response\<rparr>],
      settled_world)"
proof -
  have uid: "uidFromCtx (WithMsgID (WithSession Background 7) MsgID_CombatResultReq) logged_in_world = 1"
    by (simp add: logged_in_world_def logged_in_session_def)
  have st: "store_of logged_in_world = logged_in_store" by (simp add: logged_in_world_def)
  show ?thesis
    unfolding combat_dispatch [OF traffic_requests(2) logged_on_world] dev_combat_result uid st
    by (simp add: sample_run_accepted settle_logged_in Let_def typed_reply_def)
       (simp add: logged_in_world_def settled_world_def)
qed

section \<open>Witnesses\<close>


theorem dev_unauthenticated_refused_witness:
  "\<exists>r. Dispatch traffic_codec (rt_kernel sample_runtime) (WithSession Background 7) load_frame
     (dev_start new_dev_store ()) = (None, [r], dev_start new_dev_store ()) \<and> rp_id r = MsgID_Error"
proof -
  have "MsgID_LoadArchiveReq \<noteq> MsgID_LoginReq" "MsgID_LoadArchiveReq \<noteq> MsgID_HeartbeatReq"
    by (simp_all add: msg_id_defs)
  with dev_unauthenticated_refused [OF sample_runtime decode_frames(3), of "dev_start new_dev_store ()" 7]
  show ?thesis by (auto simp: dev_start_def signed_defs)
qed


theorem dev_sessions_bound_to_players_witness:
  "\<exists>p. Mem_GetPlayerByID 1 logged_in_store = Inr p \<and> has_prefix (p_open_id p) ''dev:''"
proof -
  have "logged_in_world = serve traffic_codec (rt_kernel sample_runtime) [(7, login_frame)]
      (dev_start (rt_store sample_runtime) ())" using serve_login by simp
  from dev_sessions_bound_to_players [OF sample_runtime _ this, of 7] show ?thesis
    by (auto simp: logged_in_world_def logged_in_session_def)
qed

theorem dev_run_credited_once_witness:
  "Dispatch traffic_codec (rt_kernel sample_runtime) (WithSession Background 7) combat_frame settled_world
   = (None, [\<lparr>rp_seq = 2, rp_id = MsgID_CombatResultResp,
               rp_payload = M_CombatResultResp (sample_response\<lparr>cr_duplicate := True\<rparr>)\<rparr>], settled_world)"
proof -
  have w1: "logged_in_world = serve traffic_codec (rt_kernel sample_runtime) [(7, login_frame)]
      (dev_start (rt_store sample_runtime) ())" using serve_login by simp
  have w3: "settled_world = serve traffic_codec (rt_kernel sample_runtime) [] settled_world" by simp
  have d1: "Dispatch traffic_codec (rt_kernel sample_runtime) (WithSession Background 7) combat_frame logged_in_world
   = (None, [\<lparr>rp_seq = 2, rp_id = MsgID_CombatResultResp, rp_payload = M_CombatResultResp sample_response\<rparr>],
      settled_world)" using report_served by simp
  show ?thesis
    by (rule dev_run_credited_once [OF sample_runtime traffic_codec_roundtrip _ w1 traffic_requests(2) d1 w3
          traffic_requests(2) _ refl sample_run_accepted])
       (simp_all add: settled_world_def logged_in_world_def)
qed

text \<open>The same code again, on another connection.\<close>

lemma second_login:
  "\<exists>w'. Login_Login (dev_login_service no_random True) (WithMsgID (WithSession Background 8) i)
     \<lparr>lq_code = ''dev:a''\<rparr> logged_in_world = (Inr first_login, w')"
proof -
  note repos = dev_players_def mem_players_def dev_sessions_def mem_sessions_def on_store_eq
  note ops = Mem_GetPlayerByOpenID_def Mem_UpdatePlayer_def Mem_SetSession_def
  have ex: "DevelopmentCodeExchanger_Exchange True ''dev:a'' d = (Inr \<lparr>li_open_id = ''dev:a''\<rparr>, d)" for d :: "unit dev_db"
    by (simp add: DevelopmentCodeExchanger_Exchange_def cut_prefix_def has_prefix_def trim_a)
  show ?thesis
    by (simp add: Login_Login_def on_db_def LoginService_Login_def ex login_player_def repos ops
        logged_in_world_def logged_in_store_def new_dev_store_def Let_def dev_generate_def GenerateToken_def
        no_random_def hex_encode_def first_login_def)
qed

theorem dev_login_identity_witness:
  "\<exists>w4. Dispatch traffic_codec (rt_kernel sample_runtime) (WithSession Background 8) login_frame logged_in_world
     = (None, [\<lparr>rp_seq = 1, rp_id = MsgID_LoginResp, rp_payload = M_LoginResp first_login\<rparr>], w4)
     \<and> Session_UID (w_sessions w4 8) = 1"
proof -
  obtain w4 where w4: "Login_Login (dev_login_service no_random True)
      (WithMsgID (WithSession Background 8) MsgID_LoginReq) \<lparr>lq_code = ''dev:a''\<rparr> logged_in_world = (Inr first_login, w4)"
    using second_login by blast
  have w1: "dev_start new_dev_store () = serve traffic_codec (rt_kernel sample_runtime) []
      (dev_start (rt_store sample_runtime) ())" by simp
  have w3: "logged_in_world = serve traffic_codec (rt_kernel sample_runtime) [] logged_in_world" by simp
  have d1: "Dispatch traffic_codec (rt_kernel sample_runtime) (WithSession Background 7) login_frame
      (dev_start new_dev_store ())
    = (None, [\<lparr>rp_seq = 1, rp_id = MsgID_LoginResp, rp_payload = M_LoginResp first_login\<rparr>], logged_in_world)"
    using login_served by simp
  have d2: "Dispatch traffic_codec (rt_kernel sample_runtime) (WithSession Background 8) login_frame logged_in_world
    = (None, [\<lparr>rp_seq = 1, rp_id = MsgID_LoginResp, rp_payload = M_LoginResp first_login\<rparr>], w4)"
    by (simp add: login_dispatch [OF traffic_requests(1)] w4 Let_def typed_reply_def)
  from dev_login_identity [OF sample_runtime _ w1 traffic_requests(1) d1 w3 traffic_requests(1) d2] d2
  show ?thesis by (auto simp: first_login_def)
qed

end
