(* ===== verification/Connection.thy ===== *)
theory Connection
  imports Kernel Sample_Codec
begin

text \<open>
  A client connection of \<open>internal/transport/connection.go\<close>: its buffered send channel, the closed flag and done
  channel, the socket, and the two pumps. The read pump hands binary messages to the kernel and leaves on a read
  error or a fatal protocol violation; the write pump drains the buffer, sends pings and leaves when the
  connection is stopped or a write fails. The pumps are a step relation, so that every interleaving with each
  other, with the hub and with other connections' handlers is covered.

  Shown here: the buffer is a bounded queue and what is written to the socket is what was accepted, in order;
  responses leave in the order of their requests; a stopped connection accepts nothing and both its pumps end.
\<close>

section \<open>The connection\<close>

definition maxWebSocketMessageSize :: int where "maxWebSocketMessageSize = 4 * 1024 * 1024"
definition writeWait :: int where "writeWait = 10 * 1000000000"
definition pongWait :: int where "pongWait = 90 * 1000000000"
definition pingPeriod :: int where "pingPeriod = (pongWait * 9) div 10"
definition sendBufSize :: nat where "sendBufSize = 256"

text \<open>The buffered channel holds its messages oldest first; \<open>c_socket\<close> is \<open>None\<close> for a nil socket and else
  tells whether it is open. Its session has the address \<open>c_sess\<close>.\<close>

record connection =
  c_socket :: "bool option"
  c_send :: "byte list list"
  c_sess :: sid
  c_done :: bool
  c_closed :: bool

definition newConnection :: "bool option \<Rightarrow> sid \<Rightarrow> connection" where
  "newConnection socket sess =
     \<lparr>c_socket = socket, c_send = [], c_sess = sess, c_done = False, c_closed = False\<rparr>"

definition enqueue :: "byte list \<Rightarrow> connection \<Rightarrow> go_error option \<times> connection" where
  "enqueue data c =
     (if c_closed c then (Some (Sentinel ErrConnectionClosed), c)
      else if length (c_send c) < sendBufSize then (None, c\<lparr>c_send := c_send c @ [data]\<rparr>)
      else (Some (Sentinel ErrSendBufferFull), c))"

definition conn_stop :: "connection \<Rightarrow> connection" where
  "conn_stop c =
     (if c_closed c then c
      else c\<lparr>c_closed := True, c_done := True, c_socket := map_option (\<lambda>_. False) (c_socket c)\<rparr>)"

definition sendMessage ::
  "codec \<Rightarrow> u32 \<Rightarrow> u16 \<Rightarrow> message option \<Rightarrow> connection \<Rightarrow> go_error option \<times> connection" where
  "sendMessage C seq msg_id payload c =
     (case Encode C msg_id seq payload of
        Inl err \<Rightarrow> (Some err, c)
      | Inr data \<Rightarrow>
          (case enqueue data c of
             (Some err, c') \<Rightarrow> if err \<noteq> Sentinel ErrSendBufferFull then (Some err, c') else (None, c')
           | (None, c') \<Rightarrow> (None, c')))"

definition Conn_Reply ::
  "codec \<Rightarrow> u32 \<Rightarrow> u16 \<Rightarrow> message option \<Rightarrow> connection \<Rightarrow> go_error option \<times> connection" where
  "Conn_Reply C seq msg_id payload c = sendMessage C seq msg_id payload c"

definition Conn_Push :: "codec \<Rightarrow> u16 \<Rightarrow> message option \<Rightarrow> connection \<Rightarrow> go_error option \<times> connection" where
  "Conn_Push C msg_id payload c = sendMessage C 0 msg_id payload c"

text \<open>The kernel only logs an error of \<open>Session.Reply\<close>.\<close>

definition send_reply :: "codec \<Rightarrow> reply \<Rightarrow> connection \<Rightarrow> connection" where
  "send_reply C r c = snd (Conn_Reply C (rp_seq r) (rp_id r) (Some (rp_payload r)) c)"

lemma enqueue_cases:
  obtains (accepted) "\<not> c_closed c" "length (c_send c) < sendBufSize" "enqueue data c = (None, c\<lparr>c_send := c_send c @ [data]\<rparr>)"
  | (closed) "c_closed c" "enqueue data c = (Some (Sentinel ErrConnectionClosed), c)"
  | (full) "\<not> c_closed c" "sendBufSize \<le> length (c_send c)" "enqueue data c = (Some (Sentinel ErrSendBufferFull), c)"
  by (cases "c_closed c"; cases "length (c_send c) < sendBufSize") (auto simp: enqueue_def)

lemma conn_stop_simps [simp]:
  "c_closed (conn_stop c)" "c_send (conn_stop c) = c_send c" "c_sess (conn_stop c) = c_sess c"
  "conn_stop (conn_stop c) = conn_stop c"
  by (simp_all add: conn_stop_def)

section \<open>The pumps\<close>

text \<open>What \<open>ReadMessage\<close> returns: an error (also when the read deadline or the size limit is exceeded), or a
  message, binary or not.\<close>

datatype ws_read = ReadError | ReadMessage bool "byte list"

text \<open>One round of the read loop: whether it breaks, and the connection and world after it.\<close>

definition read_step ::
  "codec \<Rightarrow> 'w world kernel \<Rightarrow> ws_read \<Rightarrow> connection \<Rightarrow> 'w world \<Rightarrow> bool \<times> connection \<times> 'w world" where
  "read_step C k ev c w =
     (case ev of
        ReadError \<Rightarrow> (True, c, w)
      | ReadMessage binary data \<Rightarrow>
          if \<not> binary then (False, c, w)
          else
            (case Dispatch C k (WithSession Background (c_sess c)) data w of
               (err, replies, w') \<Rightarrow>
                 (case err of Some e \<Rightarrow> errors_is e ErrFatalProtocol | None \<Rightarrow> False,
                  fold (send_reply C) replies c, w')))"

datatype reader = Reading | Leaving | ReaderDone
datatype writer = Writing | WriterDone

text \<open>
  A connection at work. The last five fields are history: what was read, what the socket has sent, a message
  taken from the buffer whose write failed, what the buffer accepted, and the session's close callbacks that
  were run.
\<close>

record 'w link =
  l_conn :: connection
  l_world :: "'w world"
  l_reader :: reader
  l_writer :: writer
  l_reads :: "ws_read list"
  l_wire :: "byte list list"
  l_lost :: "byte list list"
  l_queued :: "byte list list"
  l_callbacks :: "callback list"

definition new_link :: "sid \<Rightarrow> 'w world \<Rightarrow> 'w link" where
  "new_link s w = \<lparr>l_conn = newConnection (Some True) s, l_world = w, l_reader = Reading, l_writer = Writing,
     l_reads = [], l_wire = [], l_lost = [], l_queued = [], l_callbacks = []\<rparr>"

text \<open>The connection after a step that may have added to its buffer, with the history of the buffer.\<close>

definition set_conn :: "connection \<Rightarrow> 'w link \<Rightarrow> 'w link" where
  "set_conn c l = l\<lparr>l_conn := c, l_queued := l_queued l @ drop (length (c_send (l_conn l))) (c_send c)\<rparr>"

text \<open>
  The steps of the two pumps. A read or write on a closed socket fails. The select of the write pump takes any
  ready case: the done channel, a message, or the ping ticker.
\<close>

inductive pump_step :: "codec \<Rightarrow> 'w world kernel \<Rightarrow> 'w link \<Rightarrow> 'w link \<Rightarrow> bool" for C k where
  read_more: "l_reader l = Reading \<Longrightarrow> ev = ReadError \<or> c_socket (l_conn l) = Some True \<Longrightarrow>
     read_step C k ev (l_conn l) (l_world l) = (False, c, w) \<Longrightarrow>
     pump_step C k l ((set_conn c l)\<lparr>l_world := w, l_reads := l_reads l @ [ev]\<rparr>)"
| read_break: "l_reader l = Reading \<Longrightarrow> ev = ReadError \<or> c_socket (l_conn l) = Some True \<Longrightarrow>
     read_step C k ev (l_conn l) (l_world l) = (True, c, w) \<Longrightarrow>
     pump_step C k l ((set_conn c l)\<lparr>l_world := w, l_reads := l_reads l @ [ev], l_reader := Leaving\<rparr>)"
| read_leave: "l_reader l = Leaving \<Longrightarrow>
     pump_step C k l (l\<lparr>l_conn := conn_stop (l_conn l), l_reader := ReaderDone,
       l_callbacks := l_callbacks l @ Session_Close (w_sessions (l_world l) (c_sess (l_conn l)))\<rparr>)"
| write_done: "l_writer l = Writing \<Longrightarrow> c_done (l_conn l) \<Longrightarrow>
     pump_step C k l (l\<lparr>l_conn := conn_stop (l_conn l), l_writer := WriterDone\<rparr>)"
| write_message: "l_writer l = Writing \<Longrightarrow> c_send (l_conn l) = m # ms \<Longrightarrow> c_socket (l_conn l) = Some True \<Longrightarrow>
     pump_step C k l (l\<lparr>l_conn := (l_conn l)\<lparr>c_send := ms\<rparr>, l_wire := l_wire l @ [m]\<rparr>)"
| write_failed: "l_writer l = Writing \<Longrightarrow> c_send (l_conn l) = m # ms \<Longrightarrow>
     pump_step C k l (l\<lparr>l_conn := conn_stop ((l_conn l)\<lparr>c_send := ms\<rparr>), l_lost := l_lost l @ [m], l_writer := WriterDone\<rparr>)"
| ping: "l_writer l = Writing \<Longrightarrow> c_socket (l_conn l) = Some True \<Longrightarrow> pump_step C k l l"
| ping_failed: "l_writer l = Writing \<Longrightarrow>
     pump_step C k l (l\<lparr>l_conn := conn_stop (l_conn l), l_writer := WriterDone\<rparr>)"

text \<open>
  What the rest of the server does to it meanwhile: pushes (broadcasts, messages to a player, \<open>Session.Push\<close>), which
  carry sequence number 0; the hub or the other pump stopping it; and other connections' handlers changing
  the world.
\<close>

inductive env_step :: "codec \<Rightarrow> 'w link \<Rightarrow> 'w link \<Rightarrow> bool" for C where
  env_push: "Encode C i 0 (Some m) = Inr data \<Longrightarrow> env_step C l (set_conn (snd (enqueue data (l_conn l))) l)"
| env_stop: "env_step C l (l\<lparr>l_conn := conn_stop (l_conn l)\<rparr>)"
| env_world: "env_step C l (l\<lparr>l_world := w\<rparr>)"

inductive link_run :: "codec \<Rightarrow> 'w world kernel \<Rightarrow> 'w link \<Rightarrow> 'w link \<Rightarrow> bool" for C k where
  link_refl: "link_run C k l l"
| link_pump: "link_run C k l0 l \<Longrightarrow> pump_step C k l l' \<Longrightarrow> link_run C k l0 l'"
| link_env: "link_run C k l0 l \<Longrightarrow> env_step C l l' \<Longrightarrow> link_run C k l0 l'"

inductive_cases pump_stepE: "pump_step C k l l'"
inductive_cases env_stepE: "env_step C l l'"

section \<open>The buffer\<close>

text \<open>Sending appends what it accepts to the buffer and changes nothing else.\<close>

definition sent :: "connection \<Rightarrow> byte list list \<Rightarrow> connection \<Rightarrow> bool" where
  "sent c ds c' \<longleftrightarrow> c' = c\<lparr>c_send := c_send c @ ds\<rparr>
     \<and> (length (c_send c) \<le> sendBufSize \<longrightarrow> length (c_send c @ ds) \<le> sendBufSize)
     \<and> (ds \<noteq> [] \<longrightarrow> \<not> c_closed c)"

lemma sent_refl [simp]: "sent c [] c"
  by (simp add: sent_def)

lemma sent_trans: "sent c ds c' \<Longrightarrow> sent c' es c'' \<Longrightarrow> sent c (ds @ es) c''"
  by (auto simp: sent_def)

lemma sent_enqueue: "sent c (if fst (enqueue d c) = None then [d] else []) (snd (enqueue d c))"
  by (cases rule: enqueue_cases [of c d]) (simp_all add: sent_def)

lemma sendMessage_sent:
  obtains ds where "sent c ds (snd (sendMessage C seq i p c))"
    "ds = [] \<or> (\<exists>d. ds = [d] \<and> Encode C i seq p = Inr d)"
proof (cases "Encode C i seq p")
  case (Inl e)
  then show ?thesis by (intro that [of "[]"]) (simp_all add: sendMessage_def)
next
  case (Inr d)
  then have "snd (sendMessage C seq i p c) = snd (enqueue d c)"
    by (simp add: sendMessage_def split: prod.split option.split)
  with sent_enqueue [of c d] that [of "if fst (enqueue d c) = None then [d] else []"] Inr show ?thesis by simp
qed

text \<open>The sequence number of a frame; 0, as of a push, when it does not decode.\<close>

definition seq_of :: "byte list \<Rightarrow> u32" where
  "seq_of data = (case Decode data of Inr f \<Rightarrow> Seq f | Inl _ \<Rightarrow> 0)"

lemma seq_of_Encode: "Encode C i seq p = Inr d \<Longrightarrow> seq_of d = seq"
  using Encode_Inr [of C i seq p d] by (auto simp: seq_of_def)

text \<open>One round of the read loop sends at most one frame, a response to the frame it read.\<close>

lemma read_step_sent:
  assumes "read_step C k ev c w = (b, c', w')"
  obtains ds where "sent c ds c'"
    "ds = [] \<or> (\<exists>d data. ds = [d] \<and> ev = ReadMessage True data \<and> seq_of d = seq_of data \<and> seq_of data \<noteq> 0)"
proof (cases "\<exists>data. ev = ReadMessage True data")
  case False
  with assms have "c' = c" by (cases ev) (auto simp: read_step_def)
  then show ?thesis by (intro that [of "[]"]) simp_all
next
  case True
  then obtain data where ev: "ev = ReadMessage True data" by blast
  obtain err rs w1 where d: "Dispatch C k (WithSession Background (c_sess c)) data w = (err, rs, w1)"
    by (metis surj_pair)
  with assms ev have c': "c' = fold (send_reply C) rs c" by (auto simp: read_step_def)
  from Dispatch_replies [OF d] show ?thesis
  proof
    assume "rs = []"
    with c' show ?thesis by (intro that [of "[]"]) simp_all
  next
    assume "\<exists>r f. rs = [r] \<and> Decode data = Inr f \<and> Seq f \<noteq> 0 \<and> rp_seq r = Seq f"
    then obtain r f where r: "rs = [r]" "Decode data = Inr f" "Seq f \<noteq> 0" "rp_seq r = Seq f" by blast
    then have "c' = snd (sendMessage C (Seq f) (rp_id r) (Some (rp_payload r)) c)"
      using c' by (simp add: send_reply_def Conn_Reply_def)
    then obtain ds where "sent c ds c'" "ds = [] \<or> (\<exists>d. ds = [d] \<and> Encode C (rp_id r) (Seq f) (Some (rp_payload r)) = Inr d)"
      by (metis sendMessage_sent)
    moreover have "seq_of data = Seq f" using r by (simp add: seq_of_def)
    ultimately show ?thesis using ev r(3) by (intro that [of ds]) (auto dest: seq_of_Encode)
  qed
qed

section \<open>Invariants of a connection at work\<close>

text \<open>The flags of a connection agree, the buffer is bounded, and every accepted message is on the wire, lost
  with the write that failed, or still in the buffer, in order.\<close>

definition link_inv :: "'w link \<Rightarrow> bool" where
  "link_inv l \<longleftrightarrow>
     (let c = l_conn l in
      (if c_closed c then c_done c \<and> c_socket c = Some False else \<not> c_done c \<and> c_socket c = Some True)
      \<and> length (c_send c) \<le> sendBufSize
      \<and> l_queued l = l_wire l @ l_lost l @ c_send c
      \<and> (if l_writer l = Writing then l_lost l = [] else c_closed c \<and> length (l_lost l) \<le> 1)
      \<and> (l_reader l = ReaderDone \<longrightarrow> c_closed c))"

lemma link_inv_sent:
  assumes "link_inv l" "sent (l_conn l) ds c"
  shows "link_inv (set_conn c l)"
  using assms by (auto simp: link_inv_def sent_def set_conn_def Let_def)

lemma link_inv_stop: "link_inv l \<Longrightarrow> link_inv (l\<lparr>l_conn := conn_stop (l_conn l)\<rparr>)"
  by (auto simp: link_inv_def Let_def conn_stop_def)

lemma link_inv_frame:
  "link_inv l \<Longrightarrow> link_inv (l\<lparr>l_world := w, l_reads := rs\<rparr>)"
  "link_inv l \<Longrightarrow> link_inv (l\<lparr>l_world := w, l_reads := rs, l_reader := Leaving\<rparr>)"
  "link_inv l \<Longrightarrow> link_inv (l\<lparr>l_world := w\<rparr>)"
  by (auto simp: link_inv_def Let_def split: if_splits)

lemma link_inv_new: "link_inv (new_link s w)"
  by (simp add: new_link_def newConnection_def link_inv_def sendBufSize_def)

lemma pump_step_inv:
  assumes "pump_step C k l l'" "link_inv l"
  shows "link_inv l'"
  using assms
proof cases
  case (read_more ev c w)
  from read_step_sent [OF read_more(4)] obtain ds where "sent (l_conn l) ds c" by metis
  with read_more(1) link_inv_sent [OF assms(2)] show ?thesis by (simp add: link_inv_frame)
next
  case (read_break ev c w)
  from read_step_sent [OF read_break(4)] obtain ds where "sent (l_conn l) ds c" by metis
  with read_break(1) link_inv_sent [OF assms(2)] show ?thesis by (simp add: link_inv_frame)
qed (use assms(2) in \<open>auto simp: link_inv_def Let_def conn_stop_def split: if_splits\<close>)

lemma env_step_inv:
  assumes "env_step C l l'" "link_inv l"
  shows "link_inv l'"
  using assms
proof cases
  case (env_push i m data)
  with link_inv_sent [OF assms(2) sent_enqueue] show ?thesis by simp
next
  case env_stop
  with link_inv_stop [OF assms(2)] show ?thesis by simp
next
  case (env_world w)
  with assms(2) show ?thesis by (simp add: link_inv_frame)
qed

lemma link_run_inv: "link_run C k l0 l \<Longrightarrow> link_inv l0 \<Longrightarrow> link_inv l"
  by (induction rule: link_run.induct) (simp_all add: pump_step_inv env_step_inv)

section \<open>The order of responses\<close>

text \<open>The sequence numbers of the requests that were read.\<close>

definition read_seq :: "ws_read \<Rightarrow> u32" where
  "read_seq ev = (case ev of ReadMessage True data \<Rightarrow> seq_of data | _ \<Rightarrow> 0)"

definition request_seqs :: "ws_read list \<Rightarrow> u32 list" where
  "request_seqs evs = filter (\<lambda>q. q \<noteq> 0) (map read_seq evs)"

definition response_seqs :: "byte list list \<Rightarrow> u32 list" where
  "response_seqs ds = filter (\<lambda>q. q \<noteq> 0) (map seq_of ds)"

lemma seqs_append [simp]:
  "request_seqs (evs @ evs') = request_seqs evs @ request_seqs evs'"
  "response_seqs (ds @ ds') = response_seqs ds @ response_seqs ds'"
  by (simp_all add: request_seqs_def response_seqs_def)

definition order_inv :: "'w link \<Rightarrow> bool" where
  "order_inv l \<longleftrightarrow> subseq (response_seqs (l_queued l)) (request_seqs (l_reads l))"

lemma read_step_order:
  assumes "read_step C k ev (l_conn l) w = (b, c', w')" "order_inv l"
  shows "subseq (response_seqs (l_queued (set_conn c' l))) (request_seqs (l_reads l @ [ev]))"
proof -
  from read_step_sent [OF assms(1)] obtain ds where ds: "sent (l_conn l) ds c'"
    "ds = [] \<or> (\<exists>d data. ds = [d] \<and> ev = ReadMessage True data \<and> seq_of d = seq_of data \<and> seq_of data \<noteq> 0)"
    by metis
  from ds(2) have "subseq (response_seqs ds) (request_seqs [ev])"
    by (auto simp: response_seqs_def request_seqs_def read_seq_def)
  with assms(2) ds(1) show ?thesis
    by (simp add: order_inv_def set_conn_def sent_def list_emb_append_mono)
qed

lemma link_run_order:
  assumes "link_run C k l0 l" "order_inv l0"
  shows "order_inv l"
  using assms
proof (induction rule: link_run.induct)
  case (link_pump l0 l l')
  then have inv: "order_inv l" by simp
  from link_pump.hyps(2) show ?case
  proof cases
    case (read_more ev c w)
    with read_step_order [OF read_more(4) inv] show ?thesis by (simp add: order_inv_def)
  next
    case (read_break ev c w)
    with read_step_order [OF read_break(4) inv] show ?thesis by (simp add: order_inv_def)
  qed (use inv in \<open>simp_all add: order_inv_def\<close>)
next
  case (link_env l0 l l')
  then have inv: "order_inv l" by simp
  from link_env.hyps(2) show ?case
  proof cases
    case (env_push i m data)
    then have "seq_of data = 0" by (simp add: seq_of_Encode)
    moreover from env_push have "l_queued l' = l_queued l @ (if fst (enqueue data (l_conn l)) = None then [data] else [])"
      using sent_enqueue [of "l_conn l" data] by (simp add: set_conn_def sent_def)
    ultimately show ?thesis using inv env_push by (simp add: order_inv_def set_conn_def response_seqs_def)
  qed (use inv in \<open>simp_all add: order_inv_def\<close>)
qed simp

section \<open>The pumps end\<close>

text \<open>How many steps the pumps of a stopped connection have left.\<close>

definition pumps_left :: "'w link \<Rightarrow> nat" where
  "pumps_left l = (case l_reader l of Reading \<Rightarrow> 2 | Leaving \<Rightarrow> 1 | ReaderDone \<Rightarrow> 0)
     + (case l_writer l of Writing \<Rightarrow> 1 | WriterDone \<Rightarrow> 0)"

lemma pump_step_closed:
  assumes inv: "link_inv l" and closed: "c_closed (l_conn l)" and step: "pump_step C k l l'"
  shows "pumps_left l' < pumps_left l"
proof -
  from inv closed have s: "c_socket (l_conn l) = Some False" by (simp add: link_inv_def Let_def)
  from step show ?thesis
  proof cases
    case (read_more ev c w)
    with s show ?thesis by (simp add: read_step_def)
  qed (use s in \<open>simp_all add: pumps_left_def set_conn_def\<close>)
qed

lemma pump_step_enabled:
  assumes inv: "link_inv l" and closed: "c_closed (l_conn l)" and left: "pumps_left l \<noteq> 0"
  shows "\<exists>l'. pump_step C k l l'"
proof (cases "l_writer l")
  case Writing
  moreover from inv closed have "c_done (l_conn l)" by (simp add: link_inv_def Let_def)
  ultimately show ?thesis by (blast intro: write_done)
next
  case WriterDone
  with left consider "l_reader l = Reading" | "l_reader l = Leaving"
    by (cases "l_reader l") (simp_all add: pumps_left_def)
  then show ?thesis
  proof cases
    case 1
    have "read_step C k ReadError (l_conn l) (l_world l) = (True, l_conn l, l_world l)" by (simp add: read_step_def)
    from read_break [OF 1 disjI1 [OF refl] this] show ?thesis by blast
  next
    case 2
    from read_leave [OF 2] show ?thesis by blast
  qed
qed

section \<open>Properties\<close>

text \<open>
  C9: A connection is a bounded queue. Under any interleaving of its two pumps with pushes, stops and the rest
  of the server, at most 256 messages wait, everything that was accepted is on the wire in the order of
  acceptance, then waiting, but for at most one message whose write failed; and the responses leave in the
  order of their requests: their sequence numbers are a subsequence of those read.
\<close>

theorem conn_delivers_in_order:
  assumes "link_run C k (new_link s w) l"
  shows "length (c_send (l_conn l)) \<le> 256 \<and> l_queued l = l_wire l @ l_lost l @ c_send (l_conn l)
    \<and> length (l_lost l) \<le> 1 \<and> subseq (response_seqs (l_wire l)) (request_seqs (l_reads l))"
proof -
  have inv: "link_inv l" by (rule link_run_inv [OF assms link_inv_new])
  have "order_inv (new_link s w)" by (simp add: order_inv_def new_link_def request_seqs_def response_seqs_def)
  then have "order_inv l" by (rule link_run_order [OF assms])
  then have "subseq (response_seqs (l_queued l)) (request_seqs (l_reads l))" by (simp add: order_inv_def)
  moreover have q: "l_queued l = l_wire l @ l_lost l @ c_send (l_conn l)" using inv by (simp add: link_inv_def Let_def)
  then have "subseq (response_seqs (l_wire l)) (response_seqs (l_queued l))"
    by (simp add: prefix_imp_subseq)
  ultimately have "subseq (response_seqs (l_wire l)) (request_seqs (l_reads l))" by (rule subseq_order.order_trans [rotated])
  with inv q show ?thesis by (auto simp: link_inv_def Let_def sendBufSize_def split: if_splits)
qed


section \<open>Witnesses\<close>

text \<open>A kernel without handlers answers a request of an unknown kind; then the hub stops the connection.\<close>

definition sample_refusal :: message where
  "sample_refusal = M_ErrorResp \<lparr>er_code = to_i32 ErrInvalidParam, er_msg = ''unsupported message type''\<rparr>"

definition refusal_codec :: codec where
  "refusal_codec = table_codec [sample_refusal]"

definition idle_world :: "unit world" where
  "idle_world = \<lparr>w_sessions = (\<lambda>s. Session_New), w_db = ()\<rparr>"

definition sample_answered :: "unit link" where
  "sample_answered = (new_link 7 idle_world)\<lparr>l_conn := (newConnection (Some True) 7)\<lparr>c_send := [frame_bytes MsgID_Error 5 [0]]\<rparr>,
     l_reads := [ReadMessage True (frame_bytes 999 5 [])], l_queued := [frame_bytes MsgID_Error 5 [0]]\<rparr>"

lemma sample_answered_run: "link_run refusal_codec (Kernel_New None) (new_link 7 idle_world) sample_answered"
proof -
  have dec: "Decode (frame_bytes 999 5 []) = Inr \<lparr>MsgID = 999, Seq = 5, Body = []\<rparr>"
    by (simp add: Decode_frame_bytes HeaderSize_def MaxFrameSize_def)
  have enc: "Encode refusal_codec MsgID_Error 5 (Some sample_refusal) = Inr (frame_bytes MsgID_Error 5 [0])"
    by (simp add: Encode_def refusal_codec_def marshal_table HeaderSize_def MaxFrameSize_def)
  have d: "Dispatch refusal_codec (Kernel_New None) (WithSession Background 7) (frame_bytes 999 5 []) idle_world
      = (None, [\<lparr>rp_seq = 5, rp_id = MsgID_Error, rp_payload = sample_refusal\<rparr>], idle_world)"
    using Dispatch_unknown [OF dec, where k = "Kernel_New None" and w = idle_world and C = refusal_codec
        and ctx = "WithSession Background 7"] by (simp add: Kernel_New_def sample_refusal_def NewBizError_def)
  let ?c = "(newConnection (Some True) 7)\<lparr>c_send := [frame_bytes MsgID_Error 5 [0]]\<rparr>"
  have "send_reply refusal_codec \<lparr>rp_seq = 5, rp_id = MsgID_Error, rp_payload = sample_refusal\<rparr>
      (newConnection (Some True) 7) = ?c"
    by (simp add: send_reply_def Conn_Reply_def sendMessage_def enc enqueue_def newConnection_def sendBufSize_def)
  then have r: "read_step refusal_codec (Kernel_New None) (ReadMessage True (frame_bytes 999 5 [])) (newConnection (Some True) 7)
      idle_world = (False, ?c, idle_world)"
    using d by (simp add: read_step_def newConnection_def)
  have "pump_step refusal_codec (Kernel_New None) (new_link 7 idle_world)
      ((set_conn ?c (new_link 7 idle_world))\<lparr>l_world := idle_world,
        l_reads := l_reads (new_link 7 idle_world) @ [ReadMessage True (frame_bytes 999 5 [])]\<rparr>)"
    by (rule read_more) (use r in \<open>simp_all add: new_link_def newConnection_def\<close>)
  from link_pump [OF link_refl this] show ?thesis
    by (simp add: sample_answered_def set_conn_def new_link_def newConnection_def)
qed

theorem conn_delivers_in_order_witness:
  "\<exists>l. link_run refusal_codec (Kernel_New None) (new_link 7 idle_world) l \<and> l_wire l = [frame_bytes MsgID_Error 5 [0]]
     \<and> subseq (response_seqs (l_wire l)) (request_seqs (l_reads l))"
proof -
  have "pump_step refusal_codec (Kernel_New None) sample_answered
      (sample_answered\<lparr>l_conn := (l_conn sample_answered)\<lparr>c_send := []\<rparr>,
         l_wire := l_wire sample_answered @ [frame_bytes MsgID_Error 5 [0]]\<rparr>)"
    by (rule write_message) (simp_all add: sample_answered_def new_link_def newConnection_def)
  note run = link_pump [OF sample_answered_run this]
  show ?thesis
    by (intro exI conjI, rule run)
       (use conn_delivers_in_order [OF run] in \<open>simp_all add: sample_answered_def new_link_def\<close>)
qed


end
