(* ===== verification/Server.thy ===== *)
theory Server
  imports Hub
begin

text \<open>
  The WebSocket server of \<open>internal/transport/server.go\<close>: its lifecycle under the mutex, the reservation of
  connections in the wait group, the goroutine of each connection, and the staged shutdown. The hub's events
  and the connections' goroutines interleave with all of it in any order; a critical section is one step.

  Shown here: the lifecycle only moves forward; when it has stopped no connection is left and none can come;
  and a shutdown, once begun, cannot be held up.
\<close>

section \<open>The lifecycle states\<close>

datatype server_state = ServerNew | ServerRunning | ServerStopping | ServerStopped

instantiation server_state :: linorder
begin

fun state_rank :: "server_state \<Rightarrow> nat" where
  "state_rank ServerNew = 0"
| "state_rank ServerRunning = 1"
| "state_rank ServerStopping = 2"
| "state_rank ServerStopped = 3"

definition less_eq_server_state :: "server_state \<Rightarrow> server_state \<Rightarrow> bool" where
  "less_eq_server_state a b \<longleftrightarrow> state_rank a \<le> state_rank b"

definition less_server_state :: "server_state \<Rightarrow> server_state \<Rightarrow> bool" where
  "less_server_state a b \<longleftrightarrow> state_rank a < state_rank b"

instance
proof
  fix a b :: server_state
  assume "a \<le> b" "b \<le> a"
  then show "a = b" by (cases a; cases b) (simp_all add: less_eq_server_state_def)
qed (auto simp: less_eq_server_state_def less_server_state_def)

end

lemmas server_order = less_eq_server_state_def less_server_state_def

section \<open>The server\<close>

text \<open>
  Where the goroutine of a connection is: before the request, holding a reservation, in \<open>run\<close>, past the read
  loop's call of \<open>Unregister\<close>, ended, or given up before it ran.
\<close>

datatype conn_pc = Idle | Reserved | Running | Departing | Ended | Failed

text \<open>Where the one execution of \<open>Shutdown\<close> is.\<close>

datatype shutdown_pc = NotShut | StoppingHttp | StoppingHub | WaitingConns | ShutReturned

record server =
  sv_hub :: hub
  sv_state :: server_state
  sv_http :: bool
  sv_active :: nat
  sv_shutdown :: shutdown_pc
  sv_pc :: "cid \<Rightarrow> conn_pc"

text \<open>The connection object that request \<open>c\<close> creates is fresh; its session has the same number.\<close>

definition NewServer :: server where
  "NewServer = \<lparr>sv_hub = NewHub (\<lambda>c. newConnection (Some True) c), sv_state = ServerNew, sv_http = False,
     sv_active = 0, sv_shutdown = NotShut, sv_pc = (\<lambda>c. Idle)\<rparr>"

text \<open>The critical section of \<open>Start\<close>: an error, or the server runs.\<close>

definition Start_begin :: "server \<Rightarrow> go_error option \<times> server" where
  "Start_begin s =
     (case sv_state s of
        ServerNew \<Rightarrow> (None, s\<lparr>sv_state := ServerRunning, sv_http := True, sv_hub := hub_start (sv_hub s)\<rparr>)
      | ServerStopping \<Rightarrow> (Some (Sentinel HttpErrServerClosed), s)
      | ServerStopped \<Rightarrow> (Some (Sentinel HttpErrServerClosed), s)
      | ServerRunning \<Rightarrow> (Some (Sentinel ErrServerAlreadyStarted), s))"

definition reserveConnection :: "server \<Rightarrow> bool \<times> server" where
  "reserveConnection s =
     (if sv_state s \<noteq> ServerRunning then (False, s) else (True, s\<lparr>sv_active := sv_active s + 1\<rparr>))"

definition connections_Done :: "server \<Rightarrow> server" where
  "connections_Done s = s\<lparr>sv_active := sv_active s - 1\<rparr>"

definition Shutdown_begin :: "server \<Rightarrow> server" where
  "Shutdown_begin s =
     (if sv_state s = ServerStopped then s\<lparr>sv_shutdown := ShutReturned\<rparr>
      else s\<lparr>sv_state := ServerStopping, sv_shutdown := StoppingHttp\<rparr>)"

definition set_pc :: "cid \<Rightarrow> conn_pc \<Rightarrow> server \<Rightarrow> server" where
  "set_pc c p s = s\<lparr>sv_pc := (sv_pc s)(c := p)\<rparr>"

text \<open>
  The steps towards the end of a shutdown: of the shutdown itself, of the hub's loop, and of the connections'
  goroutines (a failed upgrade, the registration, \<open>Unregister\<close>, the end of \<open>run\<close>).
\<close>

inductive closing_step :: "(sid \<Rightarrow> i64) \<Rightarrow> server \<Rightarrow> server \<Rightarrow> bool" for uid_of where
  http_stopped: "sv_shutdown s = StoppingHttp \<Longrightarrow> closing_step uid_of s (s\<lparr>sv_shutdown := StoppingHub\<rparr>)"
| hub_closing: "sv_shutdown s = StoppingHub \<Longrightarrow> \<not> h_closing (sv_hub s) \<Longrightarrow> hub_step uid_of (sv_hub s) Closing h \<Longrightarrow>
     closing_step uid_of s (s\<lparr>sv_hub := h\<rparr>)"
| hub_closed: "hub_step uid_of (sv_hub s) ClosedAll h \<Longrightarrow> closing_step uid_of s (s\<lparr>sv_hub := h\<rparr>)"
| hub_stopped: "sv_shutdown s = StoppingHub \<Longrightarrow> h_done (sv_hub s) \<Longrightarrow>
     closing_step uid_of s (s\<lparr>sv_shutdown := WaitingConns\<rparr>)"
| all_gone: "sv_shutdown s = WaitingConns \<Longrightarrow> sv_active s = 0 \<Longrightarrow>
     closing_step uid_of s (s\<lparr>sv_state := ServerStopped, sv_shutdown := ShutReturned\<rparr>)"
| upgrade_failed: "sv_pc s c = Reserved \<Longrightarrow> closing_step uid_of s (connections_Done (set_pc c Failed s))"
| conn_registered: "sv_pc s c = Reserved \<Longrightarrow> hub_step uid_of (sv_hub s) (Registered c True) h \<Longrightarrow>
     closing_step uid_of s (set_pc c Running (s\<lparr>sv_hub := h\<rparr>))"
| conn_refused: "sv_pc s c = Reserved \<Longrightarrow> hub_step uid_of (sv_hub s) (Registered c False) h \<Longrightarrow>
     closing_step uid_of s (connections_Done (set_pc c Failed (s\<lparr>sv_hub := update_conn c conn_stop h\<rparr>)))"
| conn_unregistered: "sv_pc s c = Running \<Longrightarrow> hub_step uid_of (sv_hub s) (Unregistered c) h \<Longrightarrow>
     closing_step uid_of s (set_pc c Departing (s\<lparr>sv_hub := h\<rparr>))"
| conn_ended: "sv_pc s c = Departing \<Longrightarrow>
     closing_step uid_of s (connections_Done (set_pc c Ended (s\<lparr>sv_hub := update_conn c conn_stop (sv_hub s)\<rparr>)))"

text \<open>Everything else: starting, new requests, the beginning of a shutdown, and the hub's traffic.\<close>

definition is_traffic :: "hub_event \<Rightarrow> bool" where
  "is_traffic ev = (case ev of Broadcasted _ \<Rightarrow> True | PushedToUID _ _ _ \<Rightarrow> True | Counted _ \<Rightarrow> True
     | ConnectionEvent _ \<Rightarrow> True | _ \<Rightarrow> False)"

inductive serving_step :: "(sid \<Rightarrow> i64) \<Rightarrow> server \<Rightarrow> server \<Rightarrow> bool" for uid_of where
  start: "Start_begin s = (e, s') \<Longrightarrow> serving_step uid_of s s'"
| request: "sv_pc s c = Idle \<Longrightarrow> reserveConnection s = (True, s') \<Longrightarrow> serving_step uid_of s (set_pc c Reserved s')"
| request_refused: "reserveConnection s = (False, s') \<Longrightarrow> serving_step uid_of s s'"
| shutdown: "sv_shutdown s = NotShut \<Longrightarrow> serving_step uid_of s (Shutdown_begin s)"
| traffic: "is_traffic ev \<Longrightarrow> hub_step uid_of (sv_hub s) ev h \<Longrightarrow> serving_step uid_of s (s\<lparr>sv_hub := h\<rparr>)"

inductive server_run :: "server \<Rightarrow> bool" where
  server_new: "server_run NewServer"
| server_closing: "server_run s \<Longrightarrow> closing_step uid_of s s' \<Longrightarrow> server_run s'"
| server_serving: "server_run s \<Longrightarrow> serving_step uid_of s s' \<Longrightarrow> server_run s'"

inductive_cases closing_stepE: "closing_step uid_of s s'"
inductive_cases serving_stepE: "serving_step uid_of s s'"

section \<open>Counting goroutines\<close>

text \<open>A sum over the connections whose goroutines have a weight.\<close>

definition total :: "(conn_pc \<Rightarrow> nat) \<Rightarrow> (cid \<Rightarrow> conn_pc) \<Rightarrow> nat" where
  "total f pc = (\<Sum>c\<in>{c. pc c \<noteq> Idle}. f (pc c))"

lemma total_upd:
  assumes "finite {c. pc c \<noteq> Idle}" "f Idle = 0"
  shows "total f (pc(c := p)) + f (pc c) = total f pc + f p" "finite {x. (pc(c := p)) x \<noteq> Idle}"
proof -
  let ?A = "insert c {c. pc c \<noteq> Idle}"
  have sub: "{x. (pc(c := p)) x \<noteq> Idle} \<subseteq> ?A" by auto
  then show "finite {x. (pc(c := p)) x \<noteq> Idle}" using assms(1) finite_subset by blast
  have "total f (pc(c := p)) = (\<Sum>x\<in>?A. f ((pc(c := p)) x))"
    unfolding total_def using assms sub by (intro sum.mono_neutral_left) auto
  moreover have "total f pc = (\<Sum>x\<in>?A. f (pc x))"
    unfolding total_def using assms by (intro sum.mono_neutral_left) auto
  moreover have "(\<Sum>x\<in>?A. f ((pc(c := p)) x)) + f (pc c) = (\<Sum>x\<in>?A. f (pc x)) + f p"
    using assms(1) by (simp add: sum.remove [of ?A c] insert_absorb)
  ultimately show "total f (pc(c := p)) + f (pc c) = total f pc + f p" by simp
qed

fun occupied :: "conn_pc \<Rightarrow> nat" where
  "occupied Reserved = 1" | "occupied Running = 1" | "occupied Departing = 1" | "occupied _ = 0"

fun weight :: "conn_pc \<Rightarrow> nat" where
  "weight Reserved = 3" | "weight Running = 2" | "weight Departing = 1" | "weight _ = 0"

fun shutdown_left :: "shutdown_pc \<Rightarrow> nat" where
  "shutdown_left NotShut = 5" | "shutdown_left StoppingHttp = 4" | "shutdown_left StoppingHub = 3"
| "shutdown_left WaitingConns = 1" | "shutdown_left ShutReturned = 0"

section \<open>Invariants of the server\<close>

definition phase_ok :: "server \<Rightarrow> bool" where
  "phase_ok s \<longleftrightarrow>
     (case sv_shutdown s of
        NotShut \<Rightarrow> (sv_state s = ServerNew \<or> sv_state s = ServerRunning) \<and> \<not> h_closing (sv_hub s)
      | StoppingHttp \<Rightarrow> sv_state s = ServerStopping \<and> \<not> h_closing (sv_hub s)
      | StoppingHub \<Rightarrow> sv_state s = ServerStopping
      | WaitingConns \<Rightarrow> sv_state s = ServerStopping \<and> h_done (sv_hub s)
      | ShutReturned \<Rightarrow> sv_state s = ServerStopped \<and> h_done (sv_hub s) \<and> sv_active s = 0)"

definition conns_ok :: "server \<Rightarrow> bool" where
  "conns_ok s \<longleftrightarrow>
     (\<forall>c. (sv_pc s c = Running \<longrightarrow> c \<in> set (h_connections (sv_hub s)) \<or> c_closed (h_conns (sv_hub s) c))
        \<and> (sv_pc s c = Ended \<longrightarrow> c_closed (h_conns (sv_hub s) c)))"

definition sv_inv :: "server \<Rightarrow> bool" where
  "sv_inv s \<longleftrightarrow> finite {c. sv_pc s c \<noteq> Idle} \<and> sv_active s = total occupied (sv_pc s)
     \<and> (h_done (sv_hub s) \<longrightarrow> h_connections (sv_hub s) = [] \<and> h_closing (sv_hub s))
     \<and> phase_ok s \<and> conns_ok s"

lemma sv_inv_new: "sv_inv NewServer"
  by (simp add: sv_inv_def NewServer_def NewHub_def phase_ok_def conns_ok_def total_def)

text \<open>A goroutine that moves on.\<close>

lemma sv_inv_pc:
  assumes "finite {c. sv_pc s c \<noteq> Idle}" "sv_active s = total occupied (sv_pc s)"
  shows "finite {x. ((sv_pc s)(c := p)) x \<noteq> Idle}"
    "total occupied ((sv_pc s)(c := p)) = sv_active s + occupied p - occupied (sv_pc s c)"
  using total_upd [OF assms(1), of occupied c p] assms(2) by simp_all

text \<open>A hub event keeps what the server says of its connections, but for the one it takes off the table.\<close>

lemma conns_ok_hub:
  assumes "conns_ok s" "hub_step uid_of (sv_hub s) ev h" "\<And>c. ev = Unregistered c \<Longrightarrow> sv_pc s' c \<noteq> Running"
    "sv_hub s' = h" "\<And>c. sv_pc s' c = Running \<Longrightarrow> sv_pc s c = Running \<or> ev = Registered c True"
    "\<And>c. sv_pc s' c = Ended \<Longrightarrow> sv_pc s c = Ended"
    "\<And>c. ev = Registered c True \<Longrightarrow> c \<in> set (h_connections h)"
  shows "conns_ok s'"
  using assms hub_step_member [OF assms(2)] hub_step_closed [OF assms(2)] unfolding conns_ok_def by metis

lemma conns_ok_ended:
  assumes "conns_ok s" "sv_pc s' = (sv_pc s)(c := Ended)" "sv_hub s' = update_conn c conn_stop (sv_hub s)"
  shows "conns_ok s'"
  using assms by (auto simp: conns_ok_def conn_closed_stays)

lemma sv_inv_move:
  assumes inv: "sv_inv s" and pc: "sv_pc s' = (sv_pc s)(c := p)" "occupied p \<le> occupied (sv_pc s c)"
    and active: "sv_active s' = sv_active s + occupied p - occupied (sv_pc s c)"
    and same: "sv_state s' = sv_state s" "sv_shutdown s' = sv_shutdown s"
    and hub: "h_done (sv_hub s') = h_done (sv_hub s)" "h_closing (sv_hub s') = h_closing (sv_hub s)"
      "h_done (sv_hub s) \<longrightarrow> h_connections (sv_hub s') = h_connections (sv_hub s)"
    and conns: "conns_ok s'"
  shows "sv_inv s'"
proof -
  have f: "finite {c. sv_pc s c \<noteq> Idle}" "sv_active s = total occupied (sv_pc s)" using inv by (simp_all add: sv_inv_def)
  have "phase_ok s'"
    using inv pc(2) unfolding sv_inv_def phase_ok_def same hub(1,2) active by (simp split: shutdown_pc.splits)
  with sv_inv_pc [OF f, of c p] inv conns hub show ?thesis
    unfolding sv_inv_def pc(1) active by simp
qed

lemma closing_step_inv:
  assumes inv: "sv_inv s" and step: "closing_step uid_of s s'"
  shows "sv_inv s'"
proof -
  have ok: "conns_ok s" using inv by (simp add: sv_inv_def)
  from step show ?thesis
  proof cases
  case http_stopped
  then show ?thesis using inv by (auto simp: sv_inv_def phase_ok_def conns_ok_def)
next
  case (hub_closing h)
  have "conns_ok s'" by (rule conns_ok_hub [OF _ hub_closing(4)]) (use inv hub_closing in \<open>auto simp: sv_inv_def\<close>)
  then show ?thesis
    using inv hub_closing hub_step_flags [OF hub_closing(4)]
    by (auto simp: sv_inv_def phase_ok_def split: shutdown_pc.splits)
next
  case (hub_closed h)
  have "conns_ok s'" by (rule conns_ok_hub [OF _ hub_closed(2)]) (use inv hub_closed in \<open>auto simp: sv_inv_def\<close>)
  then show ?thesis
    using inv hub_closed hub_step_flags [OF hub_closed(2)]
    by (auto simp: sv_inv_def phase_ok_def split: shutdown_pc.splits)
next
  case hub_stopped
  then show ?thesis using inv by (auto simp: sv_inv_def phase_ok_def conns_ok_def)
next
  case all_gone
  then show ?thesis using inv by (auto simp: sv_inv_def phase_ok_def conns_ok_def)
next
  case (upgrade_failed c)
  then show ?thesis
    using inv
    by (intro sv_inv_move [OF inv, of s' c Failed])
       (auto simp: set_pc_def connections_Done_def sv_inv_def conns_ok_def)
next
  case (conn_registered c h)
  note f = hub_step_flags [OF conn_registered(3)]
  have "c \<in> set (h_connections h)" using conn_registered(3) by (auto elim: hub_stepE simp: on_register_def)
  moreover have "sv_pc s' = (sv_pc s)(c := Running)" "sv_hub s' = h" using conn_registered(1) by (simp_all add: set_pc_def)
  ultimately have "conns_ok s'"
    by (intro conns_ok_hub [OF ok conn_registered(3)]) (auto split: if_splits)
  then show ?thesis
    by (intro sv_inv_move [OF inv, of s' c Running]) (simp_all add: conn_registered(1,2) f set_pc_def)
next
  case (conn_refused c h)
  note f = hub_step_flags [OF conn_refused(3)]
  have "conns_ok (set_pc c Failed (s\<lparr>sv_hub := h\<rparr>))"
    by (rule conns_ok_hub [OF ok conn_refused(3)]) (auto simp: set_pc_def split: if_splits)
  then have "conns_ok s'"
    using conn_refused(1) by (auto simp: conns_ok_def set_pc_def connections_Done_def conn_closed_stays)
  then show ?thesis
    by (intro sv_inv_move [OF inv, of s' c Failed]) (simp_all add: conn_refused(1,2) f set_pc_def connections_Done_def)
next
  case (conn_unregistered c h)
  note f = hub_step_flags [OF conn_unregistered(3)]
  have "sv_pc s' = (sv_pc s)(c := Departing)" "sv_hub s' = h" using conn_unregistered(1) by (simp_all add: set_pc_def)
  then have "conns_ok s'"
    by (intro conns_ok_hub [OF ok conn_unregistered(3)]) (auto split: if_splits)
  then show ?thesis
    by (intro sv_inv_move [OF inv, of s' c Departing]) (simp_all add: conn_unregistered(1,2) f set_pc_def)
next
  case (conn_ended c)
  have "conns_ok s'"
    by (rule conns_ok_ended [OF ok, where c = c]) (simp_all add: conn_ended set_pc_def connections_Done_def)
  then show ?thesis
    by (intro sv_inv_move [OF inv, of s' c Ended]) (simp_all add: conn_ended set_pc_def connections_Done_def)
  qed
qed

lemma serving_step_inv:
  assumes inv: "sv_inv s" and step: "serving_step uid_of s s'"
  shows "sv_inv s'"
  using step
proof cases
  case (start e)
  then show ?thesis
    using inv by (auto simp: Start_begin_def sv_inv_def phase_ok_def conns_ok_def split: server_state.splits shutdown_pc.splits)
next
  case (request c s1)
  have f: "finite {c. sv_pc s c \<noteq> Idle}" "sv_active s = total occupied (sv_pc s)" using inv by (simp_all add: sv_inv_def)
  from request have s1: "s1 = s\<lparr>sv_active := sv_active s + 1\<rparr>" "sv_state s = ServerRunning"
    by (auto simp: reserveConnection_def split: if_splits)
  have "conns_ok s'" using inv request(1) s1 by (auto simp: sv_inv_def conns_ok_def set_pc_def)
  moreover have "phase_ok s'" using inv request(1) s1 by (auto simp: sv_inv_def phase_ok_def set_pc_def split: shutdown_pc.splits)
  ultimately show ?thesis
    using inv sv_inv_pc [OF f, of c Reserved] request(1,2) s1 by (simp add: sv_inv_def set_pc_def)
next
  case request_refused
  then show ?thesis using inv by (simp add: reserveConnection_def split: if_splits)
next
  case shutdown
  then show ?thesis using inv by (auto simp: Shutdown_begin_def sv_inv_def phase_ok_def conns_ok_def)
next
  case (traffic ev h)
  note f = hub_step_flags [OF traffic(3)]
  have ev: "ev \<noteq> Closing" "ev \<noteq> ClosedAll" "ev \<noteq> Unregistered c" "ev \<noteq> Registered c b" for c b
    using traffic(2) by (auto simp: is_traffic_def)
  have "conns_ok s'"
    by (rule conns_ok_hub [OF _ traffic(3)]) (use inv traffic ev in \<open>auto simp: sv_inv_def\<close>)
  moreover have "phase_ok s'"
    using inv traffic f ev unfolding sv_inv_def phase_ok_def by (simp split: shutdown_pc.splits)
  ultimately show ?thesis using inv traffic f ev by (simp add: sv_inv_def)
qed

lemma server_run_inv: "server_run s \<Longrightarrow> sv_inv s"
  by (induction rule: server_run.induct) (blast intro: sv_inv_new closing_step_inv serving_step_inv)+

section \<open>Progress of a shutdown\<close>

lemma server_run_started:
  assumes "server_run s"
  shows "h_closing (sv_hub s) \<longrightarrow> h_started (sv_hub s)"
  using assms
proof (induction rule: server_run.induct)
  case server_new
  then show ?case by (simp add: NewServer_def NewHub_def)
next
  case (server_closing s s')
  from server_closing(2) show ?case
    using server_closing(3) hub_step_flags(2) hub_step_started
    by (cases) (fastforce simp: set_pc_def connections_Done_def)+
next
  case (server_serving s s')
  from server_serving(2) show ?case
  proof cases
    case (traffic ev h)
    then show ?thesis using server_serving(3) hub_step_flags(2) [OF traffic(3)] hub_step_started [OF traffic(3)]
      by (auto simp: is_traffic_def)
  qed (use server_serving(3) in
      \<open>auto simp: Start_begin_def reserveConnection_def Shutdown_begin_def set_pc_def split: server_state.splits if_splits\<close>)
qed

text \<open>The work left of a shutdown: its own stages, the hub's, and the goroutines of connections.\<close>

definition shutdown_work :: "server \<Rightarrow> nat" where
  "shutdown_work s = shutdown_left (sv_shutdown s) + (if h_closing (sv_hub s) then 0 else 1)
     + (if h_done (sv_hub s) then 0 else 1) + total weight (sv_pc s)"

lemma total_weight_upd:
  assumes "sv_inv s"
  shows "total weight ((sv_pc s)(c := p)) + weight (sv_pc s c) = total weight (sv_pc s) + weight p"
  using assms by (intro total_upd) (simp_all add: sv_inv_def)

lemma closing_step_work:
  assumes inv: "sv_inv s" and step: "closing_step uid_of s s'"
  shows "shutdown_work s' < shutdown_work s"
  using step
proof cases
  case (hub_closed h)
  then have "\<not> h_done (sv_hub s)" by (auto elim: hub_stepE simp: serving_def)
  with hub_closed hub_step_flags [OF hub_closed(2)] show ?thesis by (simp add: shutdown_work_def)
next
  case (hub_closing h)
  with hub_step_flags [OF hub_closing(4)] show ?thesis by (simp add: shutdown_work_def)
next
  case (upgrade_failed c)
  with total_weight_upd [OF inv, of c Failed] show ?thesis
    by (simp add: shutdown_work_def set_pc_def connections_Done_def)
next
  case (conn_registered c h)
  with total_weight_upd [OF inv, of c Running] hub_step_flags [OF conn_registered(3)] show ?thesis
    by (simp add: shutdown_work_def set_pc_def)
next
  case (conn_refused c h)
  with total_weight_upd [OF inv, of c Failed] hub_step_flags [OF conn_refused(3)] show ?thesis
    by (simp add: shutdown_work_def set_pc_def connections_Done_def)
next
  case (conn_unregistered c h)
  with total_weight_upd [OF inv, of c Departing] hub_step_flags [OF conn_unregistered(3)] show ?thesis
    by (simp add: shutdown_work_def set_pc_def)
next
  case (conn_ended c)
  with total_weight_upd [OF inv, of c Ended] show ?thesis
    by (simp add: shutdown_work_def set_pc_def connections_Done_def)
qed (simp_all add: shutdown_work_def)

lemma serving_step_work:
  assumes inv: "sv_inv s" and shut: "sv_shutdown s \<noteq> NotShut" and step: "serving_step uid_of s s'"
  shows "shutdown_work s' = shutdown_work s \<and> sv_shutdown s' = sv_shutdown s"
proof -
  from inv shut have st: "sv_state s = ServerStopping \<or> sv_state s = ServerStopped"
    by (auto simp: sv_inv_def phase_ok_def split: shutdown_pc.splits)
  from step show ?thesis
  proof cases
    case (start e)
    with st show ?thesis by (auto simp: Start_begin_def)
  next
    case (request c s1)
    with st show ?thesis by (auto simp: reserveConnection_def)
  next
    case request_refused
    with st show ?thesis by (auto simp: reserveConnection_def)
  next
    case (traffic ev h)
    with hub_step_flags [OF traffic(3)] show ?thesis by (auto simp: shutdown_work_def is_traffic_def)
  qed (use shut in simp)
qed

lemma total_zero:
  assumes "finite {c. pc c \<noteq> Idle}" "f Idle = 0"
  shows "total f pc = 0 \<longleftrightarrow> (\<forall>c. f (pc c) = 0)"
proof -
  have "total f pc = 0 \<longleftrightarrow> (\<forall>c\<in>{c. pc c \<noteq> Idle}. f (pc c) = 0)"
    unfolding total_def using assms(1) by (rule sum_eq_0_iff)
  moreover have "f (pc c) = 0" if "pc c = Idle" for c using that assms(2) by simp
  ultimately show ?thesis by blast
qed

lemma closing_step_enabled:
  assumes run: "server_run s" and shut: "sv_shutdown s \<noteq> NotShut" "sv_shutdown s \<noteq> ShutReturned"
  shows "\<exists>s'. closing_step uid_of s s'"
proof -
  have inv: "sv_inv s" by (rule server_run_inv [OF run])
  from shut consider "sv_shutdown s = StoppingHttp" | "sv_shutdown s = StoppingHub" | "sv_shutdown s = WaitingConns"
    by (cases "sv_shutdown s") simp_all
  then show ?thesis
  proof cases
    case 1
    then show ?thesis by (intro exI, rule http_stopped)
  next
    case 2
    show ?thesis
    proof (cases "h_done (sv_hub s)")
      case True
      from hub_stopped [OF 2 this] show ?thesis by (rule exI)
    next
      case False
      show ?thesis
      proof (cases "h_closing (sv_hub s)")
        case True
        with False server_run_started [OF run]
        have "hub_step uid_of (sv_hub s) ClosedAll (on_closeAll (remdups (h_connections (sv_hub s))) (sv_hub s))"
          by (intro close_all table_order_exists) (simp_all add: serving_def)
        from hub_closed [OF this] show ?thesis by (rule exI)
      next
        case False
        from hub_closing [OF 2 this closing] show ?thesis by (rule exI)
      qed
    qed
  next
    case 3
    show ?thesis
    proof (cases "sv_active s = 0")
      case True
      from all_gone [OF 3 this] show ?thesis by (rule exI)
    next
      case False
      have "finite {c. sv_pc s c \<noteq> Idle}" "sv_active s = total occupied (sv_pc s)"
        using inv by (simp_all add: sv_inv_def)
      with False total_zero [of "sv_pc s" occupied] have "\<not> (\<forall>c. occupied (sv_pc s c) = 0)" by simp
      then obtain c where "occupied (sv_pc s c) \<noteq> 0" by blast
      then consider "sv_pc s c = Reserved" | "sv_pc s c = Running" | "sv_pc s c = Departing"
        by (cases "sv_pc s c") simp_all
      moreover have "h_done (sv_hub s)" using inv 3 by (simp add: sv_inv_def phase_ok_def)
      then have skip: "hub_step uid_of (sv_hub s) (Unregistered c) (hub_start (sv_hub s))"
        by (intro unregister_skipped) (simp add: gives_up_def)
      ultimately show ?thesis
      proof cases
        case 1
        from upgrade_failed [OF 1] show ?thesis by (rule exI)
      next
        case 2
        from conn_unregistered [OF 2 skip] show ?thesis by (rule exI)
      next
        case 3
        from conn_ended [OF 3] show ?thesis by (rule exI)
      qed
    qed
  qed
qed

section \<open>Properties\<close>


text \<open>
  C31: The lifecycle only moves forward, new to running to stopping to stopped, and the wait group never grows
  once the server is stopping, so waiting for it cannot race with a new connection.
\<close>

theorem server_moves_forward:
  assumes "server_run s" and "closing_step uid_of s s' \<or> serving_step uid_of s s'"
  shows "sv_state s \<le> sv_state s' \<and> (ServerStopping \<le> sv_state s \<longrightarrow> sv_active s' \<le> sv_active s)"
proof -
  have inv: "sv_inv s" by (rule server_run_inv [OF assms(1)])
  from assms(2) show ?thesis
  proof
    assume "closing_step uid_of s s'"
    then show ?thesis
      using inv by cases (auto simp: server_order set_pc_def connections_Done_def sv_inv_def phase_ok_def)
  next
    assume "serving_step uid_of s s'"
    then show ?thesis
      using inv
      by cases (auto simp: server_order set_pc_def Start_begin_def reserveConnection_def Shutdown_begin_def sv_inv_def
          phase_ok_def split: server_state.splits if_splits)
  qed
qed


section \<open>Witnesses\<close>

lemma closing_step_shut: "closing_step uid_of s s' \<Longrightarrow> sv_shutdown s \<noteq> NotShut \<Longrightarrow> sv_shutdown s' \<noteq> NotShut"
  by (auto elim!: closing_stepE simp: set_pc_def connections_Done_def)

lemma shutdown_reaches_stopped:
  assumes "server_run s" "sv_shutdown s \<noteq> NotShut"
  shows "\<exists>s'. server_run s' \<and> sv_state s' = ServerStopped"
  using assms
proof (induction "shutdown_work s" arbitrary: s rule: less_induct)
  case less
  note inv = server_run_inv [OF less(2)]
  show ?case
  proof (cases "sv_shutdown s = ShutReturned")
    case True
    with inv less(2) show ?thesis by (auto simp: sv_inv_def phase_ok_def)
  next
    case False
    with closing_step_enabled [OF less(2,3)] obtain s' where s': "closing_step uid_of s s'" by blast
    from less(1) [OF closing_step_work [OF inv s'] server_closing [OF less(2) s'] closing_step_shut [OF s' less(3)]]
    show ?thesis .
  qed
qed

text \<open>A server with one connection running, as its shutdown begins.\<close>

definition running_server :: server where
  "running_server = snd (Start_begin NewServer)"

definition connected_server :: server where
  "connected_server = set_pc 3 Running ((set_pc 3 Reserved (running_server\<lparr>sv_active := 1\<rparr>))
     \<lparr>sv_hub := on_register 3 (hub_start (sv_hub running_server))\<rparr>)"

lemma running_server_simps [simp]:
  "sv_state running_server = ServerRunning" "sv_active running_server = 0" "sv_shutdown running_server = NotShut"
  "sv_pc running_server = (\<lambda>c. Idle)" "h_done (sv_hub running_server) = False"
  by (simp_all add: running_server_def Start_begin_def NewServer_def NewHub_def)

lemma running_server_run: "server_run running_server"
  by (rule server_serving [OF server_new start [of NewServer "fst (Start_begin NewServer)"]])
     (simp add: running_server_def)

lemma connected_server_run: "server_run connected_server"
proof -
  have r: "reserveConnection running_server = (True, running_server\<lparr>sv_active := 1\<rparr>)"
    by (simp add: reserveConnection_def)
  have r2: "server_run (set_pc 3 Reserved (running_server\<lparr>sv_active := 1\<rparr>))"
    by (rule server_serving [OF running_server_run request [OF _ r]]) simp
  show ?thesis
    unfolding connected_server_def
    by (rule server_closing [OF r2 conn_registered], simp add: set_pc_def)
       (use register [of "sv_hub running_server" uid_of 3] in \<open>simp add: set_pc_def serving_def\<close>)
qed

lemma connected_server_shutdown: "server_run (Shutdown_begin connected_server)"
  by (rule server_serving [OF connected_server_run serving_step.shutdown])
     (simp add: connected_server_def set_pc_def)

lemma connected_server_shut: "sv_shutdown (Shutdown_begin connected_server) = StoppingHttp"
  by (simp add: Shutdown_begin_def connected_server_def set_pc_def)


theorem server_moves_forward_witness: "ServerRunning \<le> sv_state (Shutdown_begin connected_server)"
proof -
  have "sv_shutdown connected_server = NotShut" "sv_state connected_server = ServerRunning"
    by (simp_all add: connected_server_def set_pc_def)
  with server_moves_forward [OF connected_server_run disjI2 [OF serving_step.shutdown]]
  show ?thesis by simp
qed


end
