(* ===== verification/Redis_Store.thy ===== *)
theory Redis_Store
  imports Data_Stores Go_Float_Bounds Config
begin

text \<open>
  \<open>RedisStore\<close> of \<open>internal/store/redis.go\<close>: session hashes, leaderboards in sorted sets, and the rate limit
  script. The client library and the server behind it are a parameter, a record of the commands used; what
  proofs need of them is the predicate \<open>lawful_redis\<close>, the documented behaviour of the commands on a healthy
  server. The Lua script is translated like the Go code.

  Shown here: the session store keeps the contract of a session repository, and of the requests in a window
  exactly the first ones up to the limit are allowed.
\<close>

section \<open>The client\<close>

datatype redis_arg = IntArg i64 | StrArg string

fun arg_text :: "redis_arg \<Rightarrow> string" where
  "arg_text (IntArg n) = show_i64 n"
| "arg_text (StrArg s) = s"

text \<open>The commands a script may call, and a script: a function of the keys and arguments that the server runs
  atomically; a failed command ends it.\<close>

record 'db redis_calls =
  call_INCR :: "string \<Rightarrow> 'db \<Rightarrow> (go_error + i64) \<times> 'db"
  call_EXPIRE :: "string \<Rightarrow> string \<Rightarrow> 'db \<Rightarrow> (go_error + i64) \<times> 'db"

type_synonym 'db lua_script =
  "'db redis_calls \<Rightarrow> string list \<Rightarrow> string list \<Rightarrow> 'db \<Rightarrow> (go_error + i64) \<times> 'db"

record 'db redis_client =
  cl_Ping :: "'db \<Rightarrow> go_error option \<times> 'db"
  cl_Close :: "'db \<Rightarrow> go_error option \<times> 'db"
  cl_HSet :: "string \<Rightarrow> (string \<times> redis_arg) list \<Rightarrow> 'db \<Rightarrow> go_error option \<times> 'db"
  cl_Expire :: "string \<Rightarrow> go_int \<Rightarrow> 'db \<Rightarrow> go_error option \<times> 'db"
  cl_HGetAll :: "string \<Rightarrow> 'db \<Rightarrow> go_error + (string \<times> string) list"
  cl_Del :: "string \<Rightarrow> 'db \<Rightarrow> go_error option \<times> 'db"
  cl_ZAdd :: "string \<Rightarrow> redis_z \<Rightarrow> 'db \<Rightarrow> go_error option \<times> 'db"
  cl_ZRevRangeWithScores :: "string \<Rightarrow> i64 \<Rightarrow> i64 \<Rightarrow> 'db \<Rightarrow> go_error + redis_z list"
  cl_ZRevRank :: "string \<Rightarrow> string \<Rightarrow> 'db \<Rightarrow> go_error + i64"
  cl_Eval :: "'db lua_script \<Rightarrow> string list \<Rightarrow> redis_arg list \<Rightarrow> 'db \<Rightarrow> (go_error + i64) \<times> 'db"

section \<open>Sessions\<close>

definition sessionKeyPrefix :: string where "sessionKeyPrefix = ''session:''"

definition session_key :: "i64 \<Rightarrow> string" where
  "session_key uid = sessionKeyPrefix @ show_i64 uid"

definition Redis_SetSession ::
  "'db redis_client \<Rightarrow> i64 \<Rightarrow> session_data \<Rightarrow> 'db \<Rightarrow> go_error option \<times> 'db" where
  "Redis_SetSession c uid data d =
     (let key = session_key uid in
      case cl_HSet c key [(''uid'', IntArg (sd_uid data)), (''nickname'', StrArg (sd_nickname data)),
                          (''token'', StrArg (sd_token data))] d of
        (Some err, d1) \<Rightarrow> (Some err, d1)
      | (None, d1) \<Rightarrow> cl_Expire c key (2 * 3600 * 1000000000) d1)"

text \<open>\<open>strconv.ParseInt\<close> with its error dropped: 0 for a text that is no number, the nearest bound for one out
  of range.\<close>

fun parse_uint :: "nat \<Rightarrow> string \<Rightarrow> nat option" where
  "parse_uint acc [] = Some acc"
| "parse_uint acc (c # cs) =
     (case digit_value c of
        None \<Rightarrow> None
      | Some k \<Rightarrow> if 2 ^ 64 \<le> acc * 10 + k then Some (2 ^ 64 - 1) else parse_uint (acc * 10 + k) cs)"

definition parse_int_value :: "string \<Rightarrow> i64" where
  "parse_int_value s =
     (case s of [] \<Rightarrow> 0
      | c # cs \<Rightarrow>
        let neg = (c = CHR ''-''); digits = (if c = CHR ''-'' \<or> c = CHR ''+'' then cs else s)
        in if digits = [] then 0
           else case parse_uint 0 digits of
               None \<Rightarrow> 0
             | Some n \<Rightarrow>
                 if neg then (if 2 ^ 63 < n then word_of_int (- (2 ^ 63)) else word_of_int (- int n))
                 else if 2 ^ 63 \<le> n then max_int64 else word_of_int (int n))"

definition hash_field :: "(string \<times> string) list \<Rightarrow> string \<Rightarrow> string" where
  "hash_field result k = (case map_of result k of None \<Rightarrow> [] | Some v \<Rightarrow> v)"

definition Redis_GetSession :: "'db redis_client \<Rightarrow> i64 \<Rightarrow> 'db \<Rightarrow> go_error + session_data option" where
  "Redis_GetSession c uid d =
     (case cl_HGetAll c (session_key uid) d of
        Inl err \<Rightarrow> Inl err
      | Inr result \<Rightarrow>
          if result = [] then Inr None
          else Inr (Some \<lparr>sd_uid = parse_int_value (hash_field result ''uid''),
                          sd_nickname = hash_field result ''nickname'', sd_token = hash_field result ''token''\<rparr>))"

definition Redis_DelSession :: "'db redis_client \<Rightarrow> i64 \<Rightarrow> 'db \<Rightarrow> go_error option \<times> 'db" where
  "Redis_DelSession c uid d = cl_Del c (session_key uid) d"

section \<open>Leaderboards\<close>

definition rankKeyPrefix :: string where "rankKeyPrefix = ''rank:''"

definition getRankKey :: "go_int \<Rightarrow> string" where
  "getRankKey rank_type = rankKeyPrefix @ show_i64 rank_type"

definition rank_member :: "i64 \<Rightarrow> string \<Rightarrow> string" where
  "rank_member uid nickname = show_i64 uid @ '':'' @ nickname"

definition Redis_UpdateRank ::
  "'db redis_client \<Rightarrow> go_int \<Rightarrow> i64 \<Rightarrow> string \<Rightarrow> i64 \<Rightarrow> 'db \<Rightarrow> go_error option \<times> 'db" where
  "Redis_UpdateRank c rank_type uid nickname score d =
     cl_ZAdd c (getRankKey rank_type)
       \<lparr>z_score = f64_of_int (sint score), z_member = Some (rank_member uid nickname)\<rparr> d"

definition Redis_GetRank ::
  "'db redis_client \<Rightarrow> go_int \<Rightarrow> go_int \<Rightarrow> go_int \<Rightarrow> 'db \<Rightarrow> go_error + redis_z list" where
  "Redis_GetRank c rank_type start stop d = cl_ZRevRangeWithScores c (getRankKey rank_type) start stop d"

definition Redis_GetPlayerRank ::
  "'db redis_client \<Rightarrow> go_int \<Rightarrow> i64 \<Rightarrow> string \<Rightarrow> 'db \<Rightarrow> go_error + i64" where
  "Redis_GetPlayerRank c rank_type uid nickname d =
     (case cl_ZRevRank c (getRankKey rank_type) (rank_member uid nickname) d of
        Inl err \<Rightarrow> Inl err | Inr rank \<Rightarrow> Inr (rank + 1))"

section \<open>The rate limit\<close>

definition rateLimitKeyPrefix :: string where "rateLimitKeyPrefix = ''rate:''"

text \<open>A Lua number is a double; \<open>tonumber\<close> of a decimal integer rounds it once.\<close>

definition lua_number :: "i64 \<Rightarrow> float64" where
  "lua_number n = f64_of_int (sint n)"

definition lua_tonumber :: "string \<Rightarrow> float64 option" where
  "lua_tonumber s = map_option lua_number (parse_int s)"

definition rate_script :: "'db lua_script" where
  "rate_script calls keys argv d =
     (case call_INCR calls (keys ! 0) d of
        (Inl err, d1) \<Rightarrow> (Inl err, d1)
      | (Inr count, d1) \<Rightarrow>
          (case (if lua_number count = lua_number 1 then call_EXPIRE calls (keys ! 0) (argv ! 1) d1 else (Inr 0, d1)) of
             (Inl err, d2) \<Rightarrow> (Inl err, d2)
           | (Inr _, d2) \<Rightarrow>
               (case lua_tonumber (argv ! 0) of
                  None \<Rightarrow> (Inl (External ''attempt to compare nil with number''), d2)
                | Some limit \<Rightarrow> if f64_less limit (lua_number count) then (Inr 0, d2) else (Inr 1, d2))))"

text \<open>\<open>Duration.Seconds\<close> of a duration in nanoseconds, and its conversion to \<open>int\<close>. Go's division truncates.\<close>

definition quot_trunc :: "int \<Rightarrow> int \<Rightarrow> int" where
  "quot_trunc a b = (if a < 0 then - ((- a) div b) else a div b)"

definition Duration_Seconds :: "go_int \<Rightarrow> float64" where
  "Duration_Seconds t =
     (let n = sint t; sec = quot_trunc n 1000000000; nsec = n - sec * 1000000000
      in f64_add (f64_of_int sec) (f64_of (round_ratio binary64 (nsec < 0) \<bar>nsec\<bar> 1000000000 0)))"

definition Redis_CheckRateLimit ::
  "'db redis_client \<Rightarrow> string \<Rightarrow> go_int \<Rightarrow> go_int \<Rightarrow> 'db \<Rightarrow> (go_error + bool) \<times> 'db" where
  "Redis_CheckRateLimit c key limit window d =
     (case cl_Eval c rate_script [rateLimitKeyPrefix @ key]
             [IntArg limit, IntArg (f64_to_i64 (Duration_Seconds window))] d of
        (Inl err, d1) \<Rightarrow> (Inl err, d1)
      | (Inr result, d1) \<Rightarrow> (Inr (result = 1), d1))"

section \<open>The store\<close>

text \<open>\<open>validateAndCloseOnFailure\<close> of \<open>mysql.go\<close>, which both stores open with.\<close>

definition validateAndCloseOnFailure ::
  "('db \<Rightarrow> go_error option \<times> 'db) \<Rightarrow> ('db \<Rightarrow> go_error option \<times> 'db) \<Rightarrow> 'db \<Rightarrow> go_error option \<times> 'db" where
  "validateAndCloseOnFailure validate closeResource d =
     (case validate d of
        (None, d1) \<Rightarrow> (None, d1)
      | (Some err, d1) \<Rightarrow> (Some err, snd (closeResource d1)))"

definition NewRedisStore ::
  "(string \<Rightarrow> string \<Rightarrow> go_int \<Rightarrow> 'db redis_client) \<Rightarrow> redis_config \<Rightarrow> 'db \<Rightarrow> (go_error + 'db redis_client) \<times> 'db" where
  "NewRedisStore new_client cfg d =
     (let client = new_client (RedisConfig_Addr cfg) (rc_Password cfg) (rc_DB cfg) in
      case validateAndCloseOnFailure (cl_Ping client) (cl_Close client) d of
        (Some err, d1) \<Rightarrow> (Inl (Wrap (bytes_of [0xE8, 0xBF, 0x9E, 0xE6, 0x8E, 0xA5] @ '' Redis ''
           @ bytes_of [0xE5, 0xA4, 0xB1, 0xE8, 0xB4, 0xA5] @ '': '') err []), d1)
      | (None, d1) \<Rightarrow> (Inr client, d1))"

definition Redis_Close :: "'db redis_client \<Rightarrow> 'db \<Rightarrow> go_error option \<times> 'db" where
  "Redis_Close c d = cl_Close c d"

text \<open>The store as the handlers hold it, and as a session repository.\<close>

definition redis_store_of :: "'db redis_client \<Rightarrow> 'db redis_store" where
  "redis_store_of c = \<lparr>rd_SetSession = Redis_SetSession c, rd_GetSession = Redis_GetSession c,
     rd_DelSession = Redis_DelSession c, rd_UpdateRank = Redis_UpdateRank c, rd_GetRank = Redis_GetRank c,
     rd_CheckRateLimit = Redis_CheckRateLimit c\<rparr>"

definition redis_sessions :: "'db redis_store \<Rightarrow> 'db session_repository" where
  "redis_sessions s = \<lparr>SetSession = rd_SetSession s, GetSession = rd_GetSession s, DelSession = rd_DelSession s\<rparr>"

section \<open>What the commands promise\<close>

text \<open>What a healthy server holds under the three key prefixes: hashes, sorted sets and counters.\<close>

record redis_view =
  rv_hash :: "string \<Rightarrow> string \<rightharpoonup> string"
  rv_zset :: "string \<Rightarrow> string \<rightharpoonup> int"
  rv_counter :: "string \<Rightarrow> int"

text \<open>A sorted set, whose scores are integers that a double holds exactly, from its best entry down.\<close>

definition exact_score :: "int \<Rightarrow> bool" where
  "exact_score n \<longleftrightarrow> 0 \<le> n \<and> n < 2 ^ 53"

definition ranking :: "(string \<rightharpoonup> int) \<Rightarrow> (string \<times> int) list \<Rightarrow> bool" where
  "ranking z es \<longleftrightarrow> distinct (map fst es) \<and> map_of es = z \<and> sorted_wrt (\<lambda>a b. snd b \<le> snd a) es"

definition z_entry :: "string \<times> int \<Rightarrow> redis_z" where
  "z_entry e = \<lparr>z_score = f64_of_int (snd e), z_member = Some (fst e)\<rparr>"

definition lawful_hashes :: "'db redis_client \<Rightarrow> ('db \<Rightarrow> redis_view) \<Rightarrow> bool" where
  "lawful_hashes c view \<longleftrightarrow>
     (\<forall>k d. has_prefix k sessionKeyPrefix \<longrightarrow>
        (\<forall>fs. distinct (map fst fs) \<longrightarrow> fst (cl_HSet c k fs d) = None \<and> view (snd (cl_HSet c k fs d)) =
            (view d)\<lparr>rv_hash := (rv_hash (view d))
               (k := rv_hash (view d) k ++ map_of (map (\<lambda>(f, a). (f, arg_text a)) fs))\<rparr>)
        \<and> (\<forall>t. fst (cl_Expire c k t d) = None \<and> view (snd (cl_Expire c k t d)) = view d)
        \<and> (\<exists>xs. cl_HGetAll c k d = Inr xs \<and> map_of xs = rv_hash (view d) k)
        \<and> fst (cl_Del c k d) = None
        \<and> view (snd (cl_Del c k d)) = (view d)\<lparr>rv_hash := (rv_hash (view d))(k := Map.empty)\<rparr>)"

definition lawful_zsets :: "'db redis_client \<Rightarrow> ('db \<Rightarrow> redis_view) \<Rightarrow> bool" where
  "lawful_zsets c view \<longleftrightarrow>
     (\<forall>k d. has_prefix k rankKeyPrefix \<longrightarrow>
        (\<forall>n m. exact_score n \<longrightarrow> fst (cl_ZAdd c k (z_entry (m, n)) d) = None
           \<and> view (snd (cl_ZAdd c k (z_entry (m, n)) d)) =
               (view d)\<lparr>rv_zset := (rv_zset (view d))(k := (rv_zset (view d) k)(m \<mapsto> n))\<rparr>)
        \<and> (\<exists>es. ranking (rv_zset (view d) k) es
             \<and> (\<forall>a b. 0 \<le> sint a \<longrightarrow> sint a \<le> sint b \<longrightarrow> cl_ZRevRangeWithScores c k a b d =
                   Inr (map z_entry (take (nat (sint b - sint a + 1)) (drop (nat (sint a)) es))))
             \<and> (\<forall>i < length es. cl_ZRevRank c k (fst (es ! i)) d = Inr (word_of_nat i))))"

definition lawful_scripts :: "'db redis_client \<Rightarrow> 'db redis_calls \<Rightarrow> ('db \<Rightarrow> redis_view) \<Rightarrow> bool" where
  "lawful_scripts c calls view \<longleftrightarrow>
     (\<forall>(script :: 'db lua_script) keys args d. cl_Eval c script keys args d = script calls keys (map arg_text args) d)
     \<and> (\<forall>k d. has_prefix k rateLimitKeyPrefix \<longrightarrow>
          (rv_counter (view d) k < 2 ^ 63 - 1 \<longrightarrow>
             fst (call_INCR calls k d) = Inr (word_of_int (rv_counter (view d) k + 1))
             \<and> view (snd (call_INCR calls k d)) =
                 (view d)\<lparr>rv_counter := (rv_counter (view d))(k := rv_counter (view d) k + 1)\<rparr>)
          \<and> (\<forall>t. \<exists>n. fst (call_EXPIRE calls k t d) = Inr n \<and> view (snd (call_EXPIRE calls k t d)) = view d))"

section \<open>The session repository\<close>

lemma parse_digits_mono: "parse_digits acc cs = Some n \<Longrightarrow> acc \<le> n"
  by (induction acc cs rule: parse_digits.induct) (fastforce split: option.splits)+

lemma parse_uint_digits: "parse_digits acc cs = Some n \<Longrightarrow> n < 2 ^ 64 \<Longrightarrow> parse_uint acc cs = Some n"
proof (induction acc cs rule: parse_digits.induct)
  case (2 acc c cs)
  then obtain k where k: "digit_value c = Some k" "parse_digits (acc * 10 + k) cs = Some n"
    by (auto split: option.splits)
  with parse_digits_mono [OF k(2)] 2 show ?case by simp
qed simp

lemma parse_int_value_Some: "parse_int s = Some n \<Longrightarrow> parse_int_value s = n"
  by (auto simp: parse_int_def parse_int_value_def Let_def parse_uint_digits
      simp del: parse_uint.simps parse_digits.simps split: list.splits if_splits option.splits)

lemma session_key_eq [simp]: "session_key a = session_key b \<longleftrightarrow> a = b"
proof
  assume "session_key a = session_key b"
  then have "parse_int (show_i64 a) = parse_int (show_i64 b)" by (simp add: session_key_def)
  then show "a = b" by (simp only: parse_show_i64 option.inject)
qed simp

lemma session_key_prefix [simp]: "has_prefix (session_key uid) sessionKeyPrefix"
  by (simp add: session_key_def)

definition session_of_hash :: "(string \<rightharpoonup> string) \<Rightarrow> session_data option" where
  "session_of_hash h =
     (let field = (\<lambda>k. case h k of None \<Rightarrow> [] | Some x \<Rightarrow> x)
      in if h = Map.empty then None
         else Some \<lparr>sd_uid = parse_int_value (field ''uid''), sd_nickname = field ''nickname'', sd_token = field ''token''\<rparr>)"

definition redis_sessions_in :: "redis_view \<Rightarrow> i64 \<Rightarrow> session_data option" where
  "redis_sessions_in v uid = session_of_hash (rv_hash v (session_key uid))"

lemma redis_sessions_in_upd:
  "redis_sessions_in (v\<lparr>rv_hash := (rv_hash v)(session_key uid := h)\<rparr>) = (redis_sessions_in v)(uid := session_of_hash h)"
  by (simp add: redis_sessions_in_def fun_eq_iff)

lemma session_of_hash_set:
  "session_of_hash (m ++ map_of [(''uid'', show_i64 u), (''nickname'', n), (''token'', t)]) =
     Some \<lparr>sd_uid = u, sd_nickname = n, sd_token = t\<rparr>"
proof -
  have "(m ++ map_of [(''uid'', show_i64 u), (''nickname'', n), (''token'', t)]) ''uid'' \<noteq> None" by simp
  then have "m ++ map_of [(''uid'', show_i64 u), (''nickname'', n), (''token'', t)] \<noteq> Map.empty" by metis
  then show ?thesis by (simp add: session_of_hash_def Let_def parse_int_value_Some [OF parse_show_i64])
qed

lemma Redis_GetSession_view:
  assumes "lawful_hashes c view"
  shows "Redis_GetSession c uid d = Inr (redis_sessions_in (view d) uid)"
proof -
  from assms obtain xs where "cl_HGetAll c (session_key uid) d = Inr xs" "map_of xs = rv_hash (view d) (session_key uid)"
    unfolding lawful_hashes_def by (metis session_key_prefix)
  then show ?thesis
    by (auto simp: Redis_GetSession_def redis_sessions_in_def session_of_hash_def hash_field_def Let_def map_of_eq_empty_iff)
qed

lemma Redis_SetSession_view:
  assumes law: "lawful_hashes c view"
  shows "fst (Redis_SetSession c uid s d) = None"
    "redis_sessions_in (view (snd (Redis_SetSession c uid s d))) = (redis_sessions_in (view d))(uid := Some s)"
proof -
  define fs where "fs = [(''uid'', IntArg (sd_uid s)), (''nickname'', StrArg (sd_nickname s)), (''token'', StrArg (sd_token s))]"
  define d1 where "d1 = snd (cl_HSet c (session_key uid) fs d)"
  define d2 where "d2 = snd (cl_Expire c (session_key uid) (2 * 3600 * 1000000000) d1)"
  note L = law [unfolded lawful_hashes_def, rule_format, OF session_key_prefix]
  have "distinct (map fst fs)" by (simp add: fs_def)
  from L [THEN conjunct1, rule_format, OF this]
  have h: "cl_HSet c (session_key uid) fs d = (None, d1)" "view d1 = (view d)\<lparr>rv_hash := (rv_hash (view d))
      (session_key uid := rv_hash (view d) (session_key uid) ++ map_of (map (\<lambda>(f, a). (f, arg_text a)) fs))\<rparr>"
    unfolding d1_def by (simp_all only: prod_eq_iff fst_conv snd_conv simp_thms)
  from L [THEN conjunct2, THEN conjunct1, rule_format]
  have x: "cl_Expire c (session_key uid) (2 * 3600 * 1000000000) d1 = (None, d2)" "view d2 = view d1"
    unfolding d2_def by (simp_all only: prod_eq_iff fst_conv snd_conv simp_thms)
  have r: "Redis_SetSession c uid s d = (None, d2)"
    unfolding Redis_SetSession_def Let_def fs_def [symmetric] h x prod.case option.case by (rule refl)
  show "fst (Redis_SetSession c uid s d) = None" by (simp only: r fst_conv)
  show "redis_sessions_in (view (snd (Redis_SetSession c uid s d))) = (redis_sessions_in (view d))(uid := Some s)"
    unfolding r snd_conv x h(2) redis_sessions_in_upd fs_def list.map prod.case arg_text.simps session_of_hash_set
    by (cases s) simp
qed

lemma Redis_DelSession_view:
  assumes "lawful_hashes c view"
  shows "fst (Redis_DelSession c uid d) = None"
    "redis_sessions_in (view (snd (Redis_DelSession c uid d))) = (redis_sessions_in (view d))(uid := None)"
  using assms by (simp_all add: Redis_DelSession_def lawful_hashes_def redis_sessions_in_upd session_of_hash_def)

section \<open>Counting in a window\<close>

lemma f64_of_int_exact:
  assumes "exact_score n"
  obtains m e where "f64_val (f64_of_int n) = FFin False m e" "real_of_int m * pow2 e = of_int n" "0 \<le> m"
proof -
  have n: "0 \<le> n" "n < 2 ^ 53" using assms by (simp_all add: exact_score_def)
  then have rep: "representable binary64 (of_int n)" by (intro representable_int) (simp_all add: binary64_def)
  have "real_of_int n < of_int (2 ^ 53)" using n(2) by (simp only: of_int_less_iff)
  also have "\<dots> = pow2 53" by (simp add: pow2_nat)
  also have "\<dots> \<le> pow2 (emax binary64 - 1)" by (rule pow2_mono) (simp add: binary64_def)
  finally have fin: "real_of_int n < pow2 (emax binary64 - 1)" .
  have le: "real_of_int n \<le> of_int n * pow2 0" "real_of_int n * pow2 0 \<le> of_int n" by simp_all
  from round_between [OF formats(1,2) n(1) rep le(1) rep le(2) fin]
  obtain m g where mg: "round_ratio binary64 False n 1 0 = FFin False m g" "canonical binary64 m g"
    "of_int n \<le> of_int m * pow2 g" "of_int m * pow2 g \<le> of_int n" by blast
  then have "f64_val (f64_of_int n) = FFin False m g"
    using n(1) by (simp add: f64_of_int_def round_int_nonneg f64_val_of)
  moreover have "0 \<le> m" using mg(2) by (simp add: canonical_def)
  ultimately show ?thesis using that mg(3,4) by force
qed

lemma f64_less_of_int:
  assumes "exact_score a" "exact_score b"
  shows "f64_less (f64_of_int a) (f64_of_int b) \<longleftrightarrow> a < b"
proof -
  obtain m e where a: "f64_val (f64_of_int a) = FFin False m e" "real_of_int m * pow2 e = of_int a"
    using f64_of_int_exact [OF assms(1)] by metis
  obtain n f where b: "f64_val (f64_of_int b) = FFin False n f" "real_of_int n * pow2 f = of_int b"
    using f64_of_int_exact [OF assms(2)] by metis
  show ?thesis unfolding f64_less_real [OF a(1) b(1)] a(2) b(2) by simp
qed

text \<open>One check: the counter goes up and the verdict compares it with the limit.\<close>

lemma Redis_CheckRateLimit_step:
  assumes law: "lawful_scripts c calls view" and limit: "0 \<le> sint limit" "sint limit < 2 ^ 53"
    and used: "rv_counter (view d) (rateLimitKeyPrefix @ key) = n" "0 \<le> n" "n + 1 < 2 ^ 53"
  shows "fst (Redis_CheckRateLimit c key limit window d) = Inr (n < sint limit)"
    "rv_counter (view (snd (Redis_CheckRateLimit c key limit window d))) (rateLimitKeyPrefix @ key) = n + 1"
proof -
  let ?k = "rateLimitKeyPrefix @ key"
  note L = law [unfolded lawful_scripts_def, THEN conjunct2, rule_format, of ?k, OF has_prefix_append]
  obtain count :: i64 where count: "word_of_int (n + 1) = count" "sint count = n + 1"
    using used sint_of_int_64 [of "n + 1"] by simp
  define d1 where "d1 = snd (call_INCR calls ?k d)"
  have "rv_counter (view d) ?k < 2 ^ 63 - 1" using used by simp
  from L [THEN conjunct1, rule_format, OF this]
  have i: "call_INCR calls ?k d = (Inr count, d1)" "rv_counter (view d1) ?k = n + 1"
    by (simp_all add: d1_def prod_eq_iff used flip: count(1))
  define t where "t = show_i64 (f64_to_i64 (Duration_Seconds window))"
  define d2 where "d2 = (if lua_number count = lua_number 1 then snd (call_EXPIRE calls ?k t d1) else d1)"
  obtain y where y: "call_EXPIRE calls ?k t d1 = (Inr y, snd (call_EXPIRE calls ?k t d1))"
    "view (snd (call_EXPIRE calls ?k t d1)) = view d1"
    using L [of d1, THEN conjunct2, rule_format, of t] by (metis prod.collapse)
  define x where "x = (if lua_number count = lua_number 1 then y else 0)"
  have x: "(if lua_number count = lua_number 1 then call_EXPIRE calls ?k t d1 else (Inr 0, d1)) = (Inr x, d2)"
    "rv_counter (view d2) ?k = n + 1"
    using y i(2) by (simp_all add: d2_def x_def)
  have less: "f64_less (lua_number limit) (lua_number count) \<longleftrightarrow> sint limit < n + 1"
    unfolding lua_number_def count(2)
    using limit used by (intro f64_less_of_int) (simp_all add: exact_score_def)
  have "rate_script calls [?k] [show_i64 limit, t] d = (if sint limit < n + 1 then (Inr 0, d2) else (Inr 1, d2))"
    unfolding rate_script_def nth_Cons_0 nth_Cons_Suc One_nat_def i prod.case sum.case x(1)
    by (simp add: lua_tonumber_def parse_show_i64 less)
  moreover have "cl_Eval c rate_script [?k] [IntArg limit, IntArg (f64_to_i64 (Duration_Seconds window))] d =
      rate_script calls [?k] [show_i64 limit, t] d"
    using law by (simp add: lawful_scripts_def t_def)
  ultimately have "Redis_CheckRateLimit c key limit window d = (Inr (\<not> sint limit < n + 1), d2)"
    by (simp add: Redis_CheckRateLimit_def)
  then show "fst (Redis_CheckRateLimit c key limit window d) = Inr (n < sint limit)"
    "rv_counter (view (snd (Redis_CheckRateLimit c key limit window d))) ?k = n + 1"
    by (auto simp: x(2))
qed

fun rate_checks ::
  "'db redis_client \<Rightarrow> string \<Rightarrow> go_int \<Rightarrow> go_int \<Rightarrow> nat \<Rightarrow> 'db \<Rightarrow> (go_error + bool) list" where
  "rate_checks c key limit window 0 d = []"
| "rate_checks c key limit window (Suc n) d =
     (case Redis_CheckRateLimit c key limit window d of (r, d') \<Rightarrow> r # rate_checks c key limit window n d')"

text \<open>Scores read back from a leaderboard.\<close>

lemma f64_to_i64_of_int:
  assumes "exact_score n"
  shows "f64_to_i64 (f64_of_int n) = word_of_int n"
proof -
  obtain m e where v: "f64_val (f64_of_int n) = FFin False m e" "real_of_int m * pow2 e = of_int n" "0 \<le> m"
    using f64_of_int_exact [OF assms] by metis
  have "(if 0 \<le> e then m * 2 ^ nat e else m div 2 ^ nat (- e)) = n"
  proof (cases "0 \<le> e")
    case True
    then have "real_of_int (m * 2 ^ nat e) = of_int n" using v(2) by (simp add: pow2_nat)
    with True show ?thesis by (simp only: of_int_eq_iff if_True)
  next
    case False
    then have "pow2 e = 1 / 2 ^ nat (- e)" by (simp add: power_int_def field_simps)
    with v(2) have "real_of_int m = of_int (n * 2 ^ nat (- e))" by (simp add: field_simps)
    then have "m = n * 2 ^ nat (- e)" by (simp only: of_int_eq_iff)
    with False show ?thesis by simp
  qed
  with assms show ?thesis by (simp add: f64_to_i64_def v(1) exact_score_def)
qed

section \<open>Properties\<close>

text \<open>
  C33: The Redis session store keeps the contract of a session repository that the in-memory store keeps and
  the login relies on: over a healthy server, setting, reading and deleting never fail, a session is read
  back as it was set, whatever its strings hold, and no other player's session is touched.
\<close>

theorem redis_sessions_lawful:
  assumes "lawful_hashes c view"
  shows "lawful_sessions (redis_sessions (redis_store_of c)) (\<lambda>d. redis_sessions_in (view d))"
  by unfold_locales
     (simp_all add: redis_sessions_def redis_store_of_def Redis_GetSession_view [OF assms]
       Redis_SetSession_view [OF assms] Redis_DelSession_view [OF assms])

text \<open>
  C34: The rate limit is exact. Of the checks made in one window, of which \<open>m\<close> were made before, the ones
  allowed are those among the first \<open>limit\<close>; all later ones are refused, and none fails. The comparison in
  the script's floating point numbers changes nothing for counts a double holds exactly.
\<close>

theorem redis_rate_limit_exact:
  assumes "lawful_scripts c calls view" and "0 \<le> sint limit" and "sint limit < 2 ^ 53"
    and "rv_counter (view d) (rateLimitKeyPrefix @ key) = int m" and "m + n < 2 ^ 53"
  shows "rate_checks c key limit window n d = map (\<lambda>i. Inr (int i < sint limit)) [m..<m + n]"
  using assms(4,5)
proof (induction n arbitrary: d m)
  case (Suc n)
  have b: "int m + 1 < 2 ^ 53" using Suc.prems(2) by simp
  obtain r d' where c: "Redis_CheckRateLimit c key limit window d = (r, d')" by force
  from Redis_CheckRateLimit_step [OF assms(1-3) Suc.prems(1) _ b, of window] c
  have "r = Inr (int m < sint limit)" "rv_counter (view d') (rateLimitKeyPrefix @ key) = int (Suc m)" by simp_all
  moreover from Suc.IH [OF this(2)] Suc.prems(2)
  have "rate_checks c key limit window n d' = map (\<lambda>i. Inr (int i < sint limit)) [Suc m..<Suc m + n]" by simp
  ultimately show ?case by (simp add: c upt_conv_Cons del: upt_Suc)
qed simp

end
