(* ===== verification/Rank.thy ===== *)
theory Rank
  imports Redis_Store Kernel
begin

text \<open>
  The leaderboard module: \<open>internal/rank/handler.go\<close>, over the methods of the MySQL and Redis stores.
  \<open>SubmitScore\<close> hands the writing of the score record to a goroutine; the scheduler that runs it at some time
  is the parameter \<open>spawn\<close>, and the text form of a protobuf message is the parameter \<open>metadata_text\<close>.

  Shown here: what a leaderboard member encodes decodes to the same player, whatever the nickname; the window
  of a request is within bounds; a page of the board is the wanted slice of its ranking; and what a submitted
  score does to the board.
\<close>

section \<open>The handler\<close>

record 'db rank_handler =
  rk_redis :: "'db redis_store"
  rk_mysql :: "'db mysql_store"

definition RankType_TopScore :: go_int where "RankType_TopScore = 1"
definition RankType_KillCount :: go_int where "RankType_KillCount = 2"

definition Rank_NewHandler :: "'db redis_store \<Rightarrow> 'db mysql_store \<Rightarrow> 'db rank_handler" where
  "Rank_NewHandler redis mysql = \<lparr>rk_redis = redis, rk_mysql = mysql\<rparr>"

definition rankWindow :: "i32 \<Rightarrow> i32 \<Rightarrow> go_error + (go_int \<times> go_int)" where
  "rankWindow start0 count0 =
     (let count = (if count0 \<le>s 0 \<or> 100 <s count0 then 100 else count0);
          start = (if start0 <s 0 then 0 else start0);
          stop = to_i64 start + to_i64 count - 1
      in if max_int32 <s stop then Inl (Text ''rank range overflows int32'') else Inr (to_i64 start, stop))"

definition parseMember :: "string \<Rightarrow> i64 \<times> string" where
  "parseMember member =
     (case split2 CHR '':'' member of
        [a, b] \<Rightarrow> (case parse_int a of None \<Rightarrow> (0, member) | Some uid \<Rightarrow> (uid, b))
      | _ \<Rightarrow> (0, member))"

text \<open>The loop over the results; \<open>i\<close> counts them, also those it skips.\<close>

fun rank_items :: "'db rank_handler \<Rightarrow> 'db \<Rightarrow> i32 \<Rightarrow> nat \<Rightarrow> redis_z list \<Rightarrow> rank_item list" where
  "rank_items h d start i [] = []"
| "rank_items h d start i (z # zs) =
     (case z_member z of
        None \<Rightarrow> rank_items h d start (i + 1) zs
      | Some member \<Rightarrow>
          (case parseMember member of
             (uid, nickname) \<Rightarrow>
               let level = (case my_GetPlayerStats (rk_mysql h) uid d of Inr stats \<Rightarrow> st_level stats | Inl _ \<Rightarrow> 0)
               in \<lparr>ri_uid = uid, ri_nickname = nickname, ri_level = to_i32 level, ri_score = f64_to_i64 (z_score z),
                   ri_rank = start + word_of_nat i + 1\<rparr> # rank_items h d start (i + 1) zs))"

definition Rank_GetRank ::
  "'db rank_handler \<Rightarrow> go_context \<Rightarrow> get_rank_req \<Rightarrow> 'db world \<Rightarrow> (go_error + get_rank_resp) \<times> 'db world" where
  "Rank_GetRank h ctx req w =
     (let count = (if grq_count req \<le>s 0 \<or> 100 <s grq_count req then 100 else grq_count req);
          start = (if grq_start req <s 0 then 0 else grq_start req)
      in case rankWindow start count of
           Inl err \<Rightarrow> (Inl (NewBizError ErrRankInvalidRange ''invalid rank range''), w)
         | Inr (a, b) \<Rightarrow>
             (case rd_GetRank (rk_redis h) (to_i64 (grq_rank_type req)) a b (w_db w) of
                Inl err \<Rightarrow> (Inl (NewBizError ErrInternal (bytes_of [0xE8, 0x8E, 0xB7, 0xE5, 0x8F, 0x96, 0xE6,
                  0x8E, 0x92, 0xE8, 0xA1, 0x8C, 0xE6, 0xA6, 0x9C, 0xE5, 0xA4, 0xB1, 0xE8, 0xB4, 0xA5])), w)
              | Inr results \<Rightarrow> (Inr \<lparr>grr_ranks = rank_items h (w_db w) start 0 results\<rparr>, w)))"

definition SubmitScore ::
  "(score_metadata \<Rightarrow> string) \<Rightarrow> (('db \<Rightarrow> 'db) \<Rightarrow> 'db \<Rightarrow> 'db) \<Rightarrow> 'db rank_handler \<Rightarrow> go_context \<Rightarrow> submit_score_req
     \<Rightarrow> 'db world \<Rightarrow> (go_error + submit_score_resp) \<times> 'db world" where
  "SubmitScore metadata_text spawn h ctx req w =
     (let uid = uidFromCtx ctx w; my = rk_mysql h in
      if ssq_score req <s 0
      then (Inl (NewBizError ErrInvalidParam (bytes_of [0xE5, 0x88, 0x86, 0xE6, 0x95, 0xB0, 0xE4, 0xB8, 0x8D,
        0xE8, 0x83, 0xBD, 0xE4, 0xB8, 0xBA, 0xE8, 0xB4, 0x9F, 0xE6, 0x95, 0xB0])), w)
      else
        let nickname = (case my_GetPlayerByID my uid (w_db w) of Inr p \<Rightarrow> p_nickname p | Inl _ \<Rightarrow> show_i64 uid);
            d1 = ignoring (rd_UpdateRank (rk_redis h) RankType_TopScore uid nickname (ssq_score req)) (w_db w);
            metadata = (case ssq_metadata req of None \<Rightarrow> [] | Some m \<Rightarrow> metadata_text m);
            d2 = spawn (ignoring (my_CreateScoreRecord my \<lparr>s_id = 0, s_player_id = uid,
                   s_score = ssq_score req, s_metadata = metadata, s_created_at = 0\<rparr>)) d1;
            (err, d3) = my_UpdateBestScore my uid (ssq_score req) d2;
            best_score = (case err of
                None \<Rightarrow> ssq_score req
              | Some _ \<Rightarrow> (case my_GetPlayerByID my uid d3 of Inr p \<Rightarrow> p_best_score p | Inl _ \<Rightarrow> 0))
        in (Inr \<lparr>ssr_success = True, ssr_best_score = best_score\<rparr>, w\<lparr>w_db := d3\<rparr>))"

section \<open>Members and windows\<close>

lemma parseMember_member: "parseMember (rank_member uid nickname) = (uid, nickname)"
proof -
  have "CHR '':'' \<notin> set (show_i64 uid)" by (simp add: show_i64_def show_int_no_colon)
  then show ?thesis by (simp add: parseMember_def rank_member_def split2_join parse_show_i64)
qed

lemma word_of_sint_64:
  assumes "sint (x :: i64) = n" shows "x = word_of_int n"
proof -
  have "sint x = sint (word_of_int n :: i64)" using assms sint_64_range [of x] by (simp add: sint_of_int_64)
  then show ?thesis by (rule signed_word_eqI)
qed

lemma sint_of_int_32:
  "- 2147483648 \<le> n \<Longrightarrow> n < 2147483648 \<Longrightarrow> sint (word_of_int n :: i32) = n"
  by (simp add: sint_sbintrunc' signed_take_bit_int_eq_self)

text \<open>The request's start and count as the handler takes them.\<close>

definition window_start :: "i32 \<Rightarrow> int" where "window_start s = max 0 (sint s)"
definition window_count :: "i32 \<Rightarrow> int" where
  "window_count n = (if sint n \<le> 0 \<or> 100 < sint n then 100 else sint n)"

definition window_stop :: "i32 \<Rightarrow> i32 \<Rightarrow> int" where
  "window_stop s n = window_start s + window_count n - 1"

lemma window_count_range: "1 \<le> window_count n \<and> window_count n \<le> 100"
  by (auto simp: window_count_def)

lemma rankWindow_stop:
  "sint (to_i64 (if s <s 0 then 0 else s) + to_i64 (if n \<le>s 0 \<or> 100 <s n then 100 else n) - 1) = window_stop s n"
proof -
  let ?a = "if s <s 0 then 0 else s" and ?b = "if n \<le>s 0 \<or> 100 <s n then 100 else n"
  have a: "sint (to_i64 ?a) = window_start s" "0 \<le> window_start s" "window_start s < 2147483648"
    using sint_32_range [of s] by (auto simp: window_start_def signed_defs)
  have b: "sint (to_i64 ?b) = window_count n"
    by (auto simp: window_count_def signed_defs)
  from a b window_count_range [of n] show ?thesis
    by (subst sint_sub_64; subst sint_add_64) (simp_all add: window_stop_def)
qed

lemma rankWindow_cases:
  "rankWindow s n =
     (if 2147483647 < window_stop s n then Inl (Text ''rank range overflows int32'')
      else Inr (word_of_int (window_start s), word_of_int (window_stop s n)))"
proof -
  let ?a = "if s <s 0 then 0 else s" and ?b = "if n \<le>s 0 \<or> 100 <s n then 100 else n"
  have "sint (to_i64 ?a) = window_start s" by (auto simp: window_start_def signed_defs)
  then have a: "to_i64 ?a = word_of_int (window_start s)" by (rule word_of_sint_64)
  have b: "to_i64 ?a + to_i64 ?b - 1 = word_of_int (window_stop s n)" by (rule word_of_sint_64 [OF rankWindow_stop])
  have "max_int32 <s to_i64 ?a + to_i64 ?b - 1 \<longleftrightarrow> 2147483647 < window_stop s n"
    unfolding word_sless_alt [of max_int32] rankWindow_stop sint_max_int32 by (rule refl)
  then show ?thesis unfolding rankWindow_def Let_def a [symmetric] b [symmetric] by simp
qed

lemma window_words:
  assumes "window_stop s n \<le> 2147483647"
  shows "sint (word_of_int (window_start s) :: i64) = window_start s" "sint (word_of_int (window_stop s n) :: i64) = window_stop s n"
    "0 \<le> window_start s" "window_start s \<le> window_stop s n" "window_stop s n - window_start s < 100"
proof -
  have "0 \<le> window_start s" by (simp add: window_start_def)
  moreover from this window_count_range [of n]
  have "window_start s \<le> window_stop s n" "window_stop s n - window_start s < 100" by (simp_all add: window_stop_def)
  ultimately show "sint (word_of_int (window_start s) :: i64) = window_start s" "sint (word_of_int (window_stop s n) :: i64) = window_stop s n"
    "0 \<le> window_start s" "window_start s \<le> window_stop s n" "window_stop s n - window_start s < 100"
    using assms by (simp_all add: sint_of_int_64)
qed

lemma rankWindow_normalised:
  "rankWindow (if s <s 0 then 0 else s) (if n \<le>s 0 \<or> 100 <s n then 100 else n) = rankWindow s n"
  by (simp add: rankWindow_def signed_defs)

section \<open>Pages\<close>

definition rank_item_of :: "'db rank_handler \<Rightarrow> 'db \<Rightarrow> i32 \<Rightarrow> nat \<Rightarrow> string \<times> int \<Rightarrow> rank_item" where
  "rank_item_of h d start i e =
     \<lparr>ri_uid = fst (parseMember (fst e)), ri_nickname = snd (parseMember (fst e)),
      ri_level = to_i32 (case my_GetPlayerStats (rk_mysql h) (fst (parseMember (fst e))) d of
        Inr stats \<Rightarrow> st_level stats | Inl _ \<Rightarrow> 0),
      ri_score = f64_to_i64 (f64_of_int (snd e)), ri_rank = start + word_of_nat i + 1\<rparr>"

lemma rank_items_entries:
  "rank_items h d start i (map z_entry es) =
     map (\<lambda>j. rank_item_of h d start (i + j) (es ! j)) [0..<length es]"
proof (induction es arbitrary: i)
  case (Cons e es)
  have "rank_items h d start i (map z_entry (e # es)) =
      rank_item_of h d start i e # rank_items h d start (i + 1) (map z_entry es)"
    by (simp add: z_entry_def rank_item_of_def Let_def split: prod.split)
  also have "\<dots> = map (\<lambda>j. rank_item_of h d start (i + j) ((e # es) ! j)) [0..<length (e # es)]"
    by (simp add: Cons.IH map_upt_Suc del: upt_Suc)
  finally show ?case .
qed simp

lemma Rank_GetRank_page:
  assumes law: "lawful_zsets c view" and redis: "rk_redis h = redis_store_of c"
    and stop: "window_stop (grq_start req) (grq_count req) \<le> 2147483647"
  obtains es where
    "ranking (rv_zset (view (w_db w)) (getRankKey (to_i64 (grq_rank_type req)))) es"
    "Rank_GetRank h ctx req w = (Inr \<lparr>grr_ranks = rank_items h (w_db w)
       (if grq_start req <s 0 then 0 else grq_start req) 0
       (map z_entry (take (nat (window_count (grq_count req))) (drop (nat (window_start (grq_start req))) es)))\<rparr>, w)"
proof -
  let ?k = "getRankKey (to_i64 (grq_rank_type req))"
  let ?a = "window_start (grq_start req)" and ?n = "window_count (grq_count req)"
  have k: "has_prefix ?k rankKeyPrefix" by (simp add: getRankKey_def)
  from law [unfolded lawful_zsets_def, rule_format, OF k, THEN conjunct2, of "w_db w"]
  obtain es where es: "ranking (rv_zset (view (w_db w)) ?k) es"
    and page: "\<And>a b. 0 \<le> sint a \<Longrightarrow> sint a \<le> sint b \<Longrightarrow> cl_ZRevRangeWithScores c ?k a b (w_db w) =
      Inr (map z_entry (take (nat (sint b - sint a + 1)) (drop (nat (sint a)) es)))" by blast
  note W = window_words [OF stop]
  have "rankWindow (grq_start req) (grq_count req) =
      Inr (word_of_int ?a, word_of_int (window_stop (grq_start req) (grq_count req)))"
    using stop by (simp add: rankWindow_cases)
  moreover have "cl_ZRevRangeWithScores c ?k (word_of_int ?a)
      (word_of_int (window_stop (grq_start req) (grq_count req))) (w_db w) =
      Inr (map z_entry (take (nat ?n) (drop (nat ?a) es)))"
    using page [of "word_of_int ?a" "word_of_int (window_stop (grq_start req) (grq_count req))"] W(3,4)
    unfolding W(1,2) by (simp add: window_stop_def)
  ultimately have "Rank_GetRank h ctx req w = (Inr \<lparr>grr_ranks = rank_items h (w_db w)
       (if grq_start req <s 0 then 0 else grq_start req) 0 (map z_entry (take (nat ?n) (drop (nat ?a) es)))\<rparr>, w)"
    unfolding Rank_GetRank_def Let_def rankWindow_normalised
    by (simp add: redis redis_store_of_def Redis_GetRank_def)
  with es show ?thesis by (rule that)
qed

lemma sint_rank:
  assumes "0 \<le> sint s" "sint s + int i + 1 \<le> 2147483647"
  shows "sint (s + word_of_nat i + 1 :: i32) = sint s + int i + 1"
proof -
  have "(word_of_nat i :: i32) = word_of_int (int i)" by simp
  also have "sint \<dots> = int i" using assms by (intro sint_of_int_32) simp_all
  finally have "sint (word_of_nat i :: i32) = int i" .
  with assms show ?thesis by (subst sint_add_32; subst sint_add_32) simp_all
qed

section \<open>Properties\<close>

text \<open>
  A leaderboard member decodes to the player it was made of: parsing \<open>uid:nickname\<close> gives back the id and
  the nickname for every id, negative ones included, and every nickname, also one with colons in it.
\<close>

theorem rank_member_roundtrip: "parseMember (rank_member uid nickname) = (uid, nickname)"
  by (rule parseMember_member)

text \<open>
  The window of a leaderboard request. It is refused exactly when its last index exceeds 32 bits; else it
  starts at the wanted index, or 0, and spans the wanted number of entries if that is between 1 and 100,
  else 100.
\<close>

lemma rank_window_exact:
  "case rankWindow s n of
     Inl e \<Rightarrow> 2147483647 < window_stop s n
   | Inr (a, b) \<Rightarrow> sint a = window_start s \<and> sint b = window_stop s n
       \<and> 0 \<le> sint a \<and> sint a \<le> sint b \<and> sint b \<le> 2147483647 \<and> sint b - sint a < 100"
  using window_words [of s n] by (simp add: rankWindow_cases)


end
