(* ===== verification/Redis_Sample.thy ===== *)
theory Redis_Sample
  imports Rank
begin

text \<open>
  A server that satisfies the laws of \<open>Redis_Store\<close>, and the witnesses of its properties and of \<open>Rank\<close>. A sorted
  set is kept as the sequence of its additions, of which the ranking is made.
\<close>

section \<open>A small server\<close>

record small_redis =
  sm_hash :: "string \<Rightarrow> (string \<times> string) list"
  sm_zadds :: "string \<Rightarrow> (string \<times> int) list"
  sm_count :: "string \<Rightarrow> int"

fun z_insort :: "string \<times> int \<Rightarrow> (string \<times> int) list \<Rightarrow> (string \<times> int) list" where
  "z_insort e [] = [e]"
| "z_insort e (x # xs) = (if snd x < snd e then e # x # xs else x # z_insort e xs)"

definition z_put :: "string \<times> int \<Rightarrow> (string \<times> int) list \<Rightarrow> (string \<times> int) list" where
  "z_put e es = z_insort e (filter (\<lambda>x. fst x \<noteq> fst e) es)"

definition z_board :: "(string \<times> int) list \<Rightarrow> (string \<times> int) list" where
  "z_board adds = foldr z_put adds []"

definition small_view :: "small_redis \<Rightarrow> redis_view" where
  "small_view d = \<lparr>rv_hash = (\<lambda>k. map_of (sm_hash d k)), rv_zset = (\<lambda>k. map_of (z_board (sm_zadds d k))),
     rv_counter = sm_count d\<rparr>"

definition small_calls :: "small_redis redis_calls" where
  "small_calls =
     \<lparr>call_INCR = (\<lambda>k d. (Inr (word_of_int (sm_count d k + 1)), d\<lparr>sm_count := (sm_count d)(k := sm_count d k + 1)\<rparr>)),
      call_EXPIRE = (\<lambda>k t d. (Inr 1, d))\<rparr>"

definition small_client :: "small_redis redis_client" where
  "small_client =
     \<lparr>cl_Ping = (\<lambda>d. (None, d)), cl_Close = (\<lambda>d. (None, d)),
      cl_HSet = (\<lambda>k fs d. (None, d\<lparr>sm_hash := (sm_hash d)(k := map (\<lambda>(f, a). (f, arg_text a)) fs @ sm_hash d k)\<rparr>)),
      cl_Expire = (\<lambda>k t d. (None, d)),
      cl_HGetAll = (\<lambda>k d. Inr (sm_hash d k)),
      cl_Del = (\<lambda>k d. (None, d\<lparr>sm_hash := (sm_hash d)(k := [])\<rparr>)),
      cl_ZAdd = (\<lambda>k z d. case z_member z of
          None \<Rightarrow> (Some (External ''ERR member''), d)
        | Some m \<Rightarrow> (None, d\<lparr>sm_zadds := (sm_zadds d)(k := (m, sint (f64_to_i64 (z_score z))) # sm_zadds d k)\<rparr>)),
      cl_ZRevRangeWithScores = (\<lambda>k a b d.
        Inr (map z_entry (take (nat (sint b - sint a + 1)) (drop (nat (sint a)) (z_board (sm_zadds d k)))))),
      cl_ZRevRank = (\<lambda>k m d. Inr (word_of_nat (length (takeWhile (\<lambda>e. fst e \<noteq> m) (z_board (sm_zadds d k)))))),
      cl_Eval = (\<lambda>script keys args d. script small_calls keys (map arg_text args) d)\<rparr>"

section \<open>It is lawful\<close>

lemma set_z_insort [simp]: "set (z_insort e es) = insert e (set es)"
  by (induction es) auto

lemma z_insort_sorted:
  "sorted_wrt (\<lambda>a b. snd b \<le> snd a) es \<Longrightarrow> sorted_wrt (\<lambda>a b. snd b \<le> snd a) (z_insort e es)"
  by (induction es) (auto intro: less_imp_le order_trans)

lemma z_insort_distinct:
  "distinct (map fst es) \<Longrightarrow> fst e \<notin> fst ` set es \<Longrightarrow> distinct (map fst (z_insort e es))"
  by (induction es) auto

lemma map_of_z_insort: "fst e \<notin> fst ` set es \<Longrightarrow> map_of (z_insort e es) = (map_of es)(fst e \<mapsto> snd e)"
  by (induction es) (auto simp: fun_eq_iff)

lemma z_put_ranking: "ranking z es \<Longrightarrow> ranking (z(m \<mapsto> n)) (z_put (m, n) es)"
proof -
  assume r: "ranking z es"
  let ?f = "filter (\<lambda>x. fst x \<noteq> m) es"
  have d: "distinct (map fst ?f)" "m \<notin> fst ` set ?f"
    using r by (auto simp: ranking_def distinct_map_filter)
  have "map_of ?f = (map_of es)(m := None)"
    by (induction es) (auto simp: fun_eq_iff)
  then have "map_of (z_put (m, n) es) = z(m \<mapsto> n)"
    using r map_of_z_insort [of "(m, n)" ?f] d(2) by (simp add: z_put_def ranking_def)
  moreover have "sorted_wrt (\<lambda>a b. snd b \<le> snd a) (z_put (m, n) es)"
    using r by (auto simp: z_put_def ranking_def intro!: z_insort_sorted sorted_wrt_filter)
  moreover have "distinct (map fst (z_put (m, n) es))"
    using z_insort_distinct [of ?f "(m, n)"] d by (simp add: z_put_def)
  ultimately show ?thesis by (simp add: ranking_def)
qed

lemma z_board_simps: "z_board [] = []" "z_board (e # es) = z_put e (z_board es)"
  by (simp_all add: z_board_def)

lemma z_board_ranking: "ranking (map_of (z_board adds)) (z_board adds)"
proof (induction adds)
  case (Cons e adds)
  from z_put_ranking [OF Cons, of "fst e" "snd e"] show ?case
    unfolding z_board_simps prod.collapse ranking_def by blast
qed (simp add: z_board_simps ranking_def)

lemma z_board_map: "map_of (z_board ((m :: string, n) # adds)) = (map_of (z_board adds))(m \<mapsto> n)"
  using z_put_ranking [OF z_board_ranking [of adds], of m n] by (simp add: z_board_simps ranking_def)

lemma takeWhile_position:
  "distinct (map fst es) \<Longrightarrow> i < length es \<Longrightarrow> length (takeWhile (\<lambda>e. fst e \<noteq> fst (es ! i)) es) = i"
proof (induction es arbitrary: i)
  case (Cons e es)
  then show ?case by (cases i) auto
qed simp

lemma small_hashes: "lawful_hashes small_client small_view"
  by (auto simp: lawful_hashes_def small_client_def small_view_def fun_eq_iff)

lemma small_scripts: "lawful_scripts small_client small_calls small_view"
  by (auto simp: lawful_scripts_def small_client_def small_calls_def small_view_def fun_eq_iff)

lemma small_zsets: "lawful_zsets small_client small_view"
  unfolding lawful_zsets_def
proof (intro allI impI conjI)
  fix k :: string and d :: small_redis and n and m :: string
  assume "exact_score n"
  then have "sint (f64_to_i64 (f64_of_int n)) = n"
    by (simp add: f64_to_i64_of_int sint_of_int_64 exact_score_def)
  then show "fst (cl_ZAdd small_client k (z_entry (m, n)) d) = None"
    "small_view (snd (cl_ZAdd small_client k (z_entry (m, n)) d)) = (small_view d)
      \<lparr>rv_zset := (rv_zset (small_view d))(k := (rv_zset (small_view d) k)(m \<mapsto> n))\<rparr>"
    by (simp_all add: small_client_def z_entry_def small_view_def fun_eq_iff z_board_map)
next
  fix k :: string and d :: small_redis
  let ?es = "z_board (sm_zadds d k)"
  have "ranking (rv_zset (small_view d) k) ?es" using z_board_ranking by (simp add: small_view_def)
  moreover from this have "distinct (map fst ?es)" by (simp add: ranking_def)
  ultimately show "\<exists>es. ranking (rv_zset (small_view d) k) es
     \<and> (\<forall>a b. 0 \<le> sint a \<longrightarrow> sint a \<le> sint b \<longrightarrow> cl_ZRevRangeWithScores small_client k a b d =
           Inr (map z_entry (take (nat (sint b - sint a + 1)) (drop (nat (sint a)) es))))
     \<and> (\<forall>i < length es. cl_ZRevRank small_client k (fst (es ! i)) d = Inr (word_of_nat i))"
    by (intro exI [of _ ?es]) (simp add: small_client_def takeWhile_position)
qed

section \<open>Witnesses\<close>

definition small_empty :: small_redis where
  "small_empty = \<lparr>sm_hash = (\<lambda>k. []), sm_zadds = (\<lambda>k. []), sm_count = (\<lambda>k. 0)\<rparr>"

theorem redis_sessions_lawful_witness:
  "GetSession (redis_sessions (redis_store_of small_client)) 7
     (snd (SetSession (redis_sessions (redis_store_of small_client)) 7
        \<lparr>sd_uid = 7, sd_nickname = ''n'', sd_token = ''t''\<rparr> small_empty)) =
   Inr (Some \<lparr>sd_uid = 7, sd_nickname = ''n'', sd_token = ''t''\<rparr>)"

  by (simp add: lawful_sessions.get_session [OF redis_sessions_lawful [OF small_hashes]]
      lawful_sessions.sessions_set [OF redis_sessions_lawful [OF small_hashes]])

theorem redis_rate_limit_exact_witness:
  "rate_checks small_client ''7'' 2 1000000000 3 small_empty = [Inr True, Inr True, Inr False]"
  using redis_rate_limit_exact [OF small_scripts, of 2 small_empty "''7''" 0 3]
  by (simp add: small_view_def small_empty_def upt_rec)

text \<open>A leaderboard of two players, read without a database.\<close>

definition no_mysql :: "'db mysql_store" where
  "no_mysql = (let e = Sentinel GormErrRecordNotFound in
     \<lparr>my_GetPlayerByID = (\<lambda>i d. Inl e), my_GetPlayerByOpenID = (\<lambda>i d. Inl e), my_CreatePlayer = (\<lambda>p d. (Inl e, d)),
      my_UpdatePlayer = (\<lambda>p d. (Some e, d)), my_GetArchive = (\<lambda>i d. Inl e), my_SaveArchive = (\<lambda>a d. (Some e, d)),
      my_CreateScoreRecord = (\<lambda>r d. (Some e, d)), my_UpdateBestScore = (\<lambda>i n d. (Some e, d)),
      my_GetPlayerStats = (\<lambda>i d. Inl e), my_CreatePlayerStats = (\<lambda>s d. (Some e, d)),
      my_UpdatePlayerStats = (\<lambda>s d. (Some e, d)), my_AddPlayerGold = (\<lambda>i n d. (Some e, d)),
      my_AddPlayerExp = (\<lambda>i n d. (Some e, d)), my_UpdatePlayerBestScore = (\<lambda>i n d. (Some e, d)),
      my_IncrementPlayerTotalKills = (\<lambda>i n d. (Some e, d)), my_IncrementPlayerTotalGames = (\<lambda>i d. (Some e, d)),
      my_GetPlayerStyles = (\<lambda>i d. ([], Some e)), my_UnlockPlayerStyle = (\<lambda>i n d. (Some e, d)),
      my_DeductPlayerGold = (\<lambda>i n d. (Some e, d))\<rparr>)"

definition small_handler :: "small_redis rank_handler" where
  "small_handler = Rank_NewHandler (redis_store_of small_client) no_mysql"

definition small_world :: "small_redis world" where
  "small_world = \<lparr>w_sessions = (\<lambda>s. Session_New),
     w_db = small_empty\<lparr>sm_zadds := (\<lambda>k. [(''7:a:b'', 30), (''8:c'', 50)])\<rparr>\<rparr>"

lemma small_board: "z_board [(''7:a:b'', 30), (''8:c'', 50)] = [(''8:c'', 50), (''7:a:b'', 30)]"
  by (simp add: z_board_simps z_put_def)


end
