(* ===== verification/MySQL_Settlement.thy ===== *)
theory MySQL_Settlement
  imports MySQL_Store Combat_Handler
begin

text \<open>
  The settlement repository of \<open>internal/store/mysql_settlement.go\<close>: one transaction that locks the player,
  answers a run settled before with the stored response, and else credits archive and statistics, records the
  score and stores the response under the run. The two repositories of the program, this one and
  \<open>Mem_Settle\<close>, share \<open>settleArchive\<close>.

  Shown here: a settlement is all or nothing, also when it reports an error; no run is credited twice; and a
  repeated run is answered with the first response.
\<close>

section \<open>The repository\<close>

record 'db mysql_settlement_repository =
  ms_db :: "'db gorm"
  ms_policy :: reward_policy

text \<open>A nil store, or one without a database, gives a nil repository; the left side is a panic.\<close>

definition NewMySQLCombatSettlementRepository ::
  "'db gorm option \<Rightarrow> reward_policy \<Rightarrow> go_error + 'db mysql_settlement_repository option" where
  "NewMySQLCombatSettlementRepository mysql policy =
     (case mysql of
        None \<Rightarrow> Inr None
      | Some db \<Rightarrow>
          (case validateCombatRewardPolicy policy of
             Some err \<Rightarrow> Inl err
           | None \<Rightarrow> Inr (Some \<lparr>ms_db = db, ms_policy = policy\<rparr>)))"

definition decodeSettlementResponse :: "codec \<Rightarrow> byte list \<Rightarrow> go_error + combat_result_resp" where
  "decodeSettlementResponse C data =
     (case unmarshal_combat_result C data of
        Inl err \<Rightarrow> Inl (Wrap ''decode stored settlement response: '' err [])
      | Inr response \<Rightarrow> Inr response)"

text \<open>\<open>errors.As\<close> finds the first MySQL error of the chain.\<close>

definition isDuplicateKey :: "go_error \<Rightarrow> bool" where
  "isDuplicateKey err =
     (case find (\<lambda>e. case e of MySQLError _ _ \<Rightarrow> True | _ \<Rightarrow> False) (error_chain err) of
        Some (MySQLError n _) \<Rightarrow> n = 1062 | _ \<Rightarrow> False)"

definition settlementArchiveFromTransaction ::
  "codec \<Rightarrow> 'db gorm \<Rightarrow> i64 \<Rightarrow> 'db \<Rightarrow> go_error + player_archive" where
  "settlementArchiveFromTransaction C tx pid d =
     (case tb_First (g_archives tx) True [by_player pid] d of
        Inl err \<Rightarrow>
          if errors_is err GormErrRecordNotFound then Inr (zero_archive\<lparr>pa_schema_version := 1\<rparr>) else Inl err
      | Inr stored \<Rightarrow>
          (case unmarshal_archive C (a_data stored) of
             Inl err \<Rightarrow> Inl (Wrap [] (Sentinel ErrMalformedSettlementArchive) ('': '' @ error_text err))
           | Inr archive \<Rightarrow> Inr archive))"

text \<open>The credit to the statistics in memory: an error, or the new row. On 64 bits the first check compares
  an \<open>int64\<close> with the largest one.\<close>

definition credit_stats ::
  "combat_result_req \<Rightarrow> combat_result_resp \<Rightarrow> player_stats \<Rightarrow> go_error + player_stats" where
  "credit_stats req response stats =
     (if max_int64 <s st_gold stats + to_i64 (cr_reward_gold response)
         \<or> max_int64 <s st_exp stats + to_i64 (cr_reward_exp response)
      then Inl (Text ''store: player stats reward overflow'')
      else
        let s1 = stats\<lparr>st_gold := st_gold stats + to_i64 (cr_reward_gold response),
                       st_exp := st_exp stats + to_i64 (cr_reward_exp response)\<rparr>
        in if max_int64 - st_total_kills s1 <s to_i64 (cq_kills req) \<or> st_total_games s1 = max_int64
           then Inl (Text ''store: player stats totals overflow'')
           else
             let s2 = s1\<lparr>st_total_kills := st_total_kills s1 + to_i64 (cq_kills req),
                         st_total_games := st_total_games s1 + 1\<rparr>;
                 s3 = (if st_best_score s2 <s cq_score req then s2\<lparr>st_best_score := cq_score req\<rparr> else s2);
                 s4 = (if to_i32 (st_level s3) <s cq_player_level req
                       then s3\<lparr>st_level := to_i64 (cq_player_level req)\<rparr> else s3)
             in Inr s4)"

definition initial_stats :: "i64 \<Rightarrow> combat_result_req \<Rightarrow> player_stats" where
  "initial_stats pid req =
     \<lparr>st_id = 0, st_player_id = pid, st_level = to_i64 (cq_player_level req), st_exp = 0, st_gold = 0,
      st_max_hp = 100, st_max_stamina = 100, st_attack_power = 10, st_best_score = 0, st_total_kills = 0,
      st_total_games = 0, st_created_at = 0, st_updated_at = 0\<rparr>"

definition updateSettlementStats ::
  "'db gorm \<Rightarrow> i64 \<Rightarrow> combat_result_req \<Rightarrow> combat_result_resp \<Rightarrow> 'db \<Rightarrow> go_error option \<times> 'db" where
  "updateSettlementStats tx pid req response d =
     (case (case tb_First (g_stats tx) True [by_player pid] d of
              Inr stats \<Rightarrow> Inr (stats, False)
            | Inl err \<Rightarrow>
                if errors_is err GormErrRecordNotFound then Inr (initial_stats pid req, True) else Inl err) of
        Inl err \<Rightarrow> (Some err, d)
      | Inr (stats, created) \<Rightarrow>
          (case credit_stats req response stats of
             Inl err \<Rightarrow> (Some err, d)
           | Inr stats' \<Rightarrow>
               if created then create_error (tb_Create (g_stats tx) stats' d) else tb_Save (g_stats tx) stats' d))"

text \<open>The stored response, marked as a repetition of the run.\<close>

definition as_duplicate :: "combat_result_req \<Rightarrow> combat_result_resp \<Rightarrow> combat_result_resp" where
  "as_duplicate req stored = stored\<lparr>cr_duplicate := True, cr_run_id := cq_run_id req\<rparr>"

definition find_settlement ::
  "'db gorm \<Rightarrow> i64 \<Rightarrow> combat_result_req \<Rightarrow> 'db \<Rightarrow> go_error + combat_settlement" where
  "find_settlement tx pid req d =
     tb_First (g_settlements tx) False [by_player pid, ColEq ''run_id'' (SqlText (cq_run_id req))] d"

text \<open>The steps after the archive is credited, each ending the transaction when it fails.\<close>

definition record_settlement ::
  "codec \<Rightarrow> i64 \<Rightarrow> combat_result_req \<Rightarrow> combat_result_resp \<Rightarrow> 'db gorm \<Rightarrow> 'db \<Rightarrow> go_error option \<times> 'db" where
  "record_settlement C pid req response tx d =
     (case updateSettlementStats tx pid req response d of
        (Some err, d1) \<Rightarrow> (Some err, d1)
      | (None, d1) \<Rightarrow>
     (case CombatScoreMetadataJSON (Some req) of
        Inl err \<Rightarrow> (Some err, d1)
      | Inr metadata \<Rightarrow>
     (case create_error (tb_Create (g_scores tx) \<lparr>s_id = 0, s_player_id = pid, s_score = cq_score req,
             s_metadata = metadata, s_created_at = 0\<rparr> d1) of
        (Some err, d2) \<Rightarrow> (Some err, d2)
      | (None, d2) \<Rightarrow>
     (case marshal_pointer C (map_option M_PlayerArchive (cr_archive response)) of
        Inl err \<Rightarrow> (Some (Wrap ''encode settlement archive: '' err []), d2)
      | Inr archive_bytes \<Rightarrow>
     (case saveArchiveQuery tx (new_archive pid archive_bytes) d2 of
        (Some err, d3) \<Rightarrow> (Some err, d3)
      | (None, d3) \<Rightarrow>
     (case marshal C (M_CombatResultResp response) of
        Inl err \<Rightarrow> (Some (Wrap ''encode settlement response: '' err []), d3)
      | Inr response_bytes \<Rightarrow>
     (case create_error (tb_Create (g_settlements tx) \<lparr>c_id = 0, c_player_id = pid, c_run_id = cq_run_id req,
             c_response = response_bytes, c_created_at = 0\<rparr> d3) of
        (Some err, d4) \<Rightarrow> (Some (if isDuplicateKey err then Sentinel ErrDuplicateCombatSettlement else err), d4)
      | (None, d4) \<Rightarrow> (None, d4))))))))"

definition settle_transaction ::
  "codec \<Rightarrow> reward_policy \<Rightarrow> i64 \<Rightarrow> combat_result_req \<Rightarrow> 'db gorm \<Rightarrow> 'db
     \<Rightarrow> (go_error option \<times> combat_result_resp option) \<times> 'db" where
  "settle_transaction C policy pid req tx d =
     (case tb_First (g_players tx) True [ColEq ''id'' (SqlInt (sint pid))] d of
        Inl err \<Rightarrow>
          if errors_is err GormErrRecordNotFound
          then ((Some (Wrap (''player '' @ show_i64 pid @ '': '') (Sentinel ErrNotFound) []), None), d)
          else ((Some err, None), d)
      | Inr player \<Rightarrow>
     (case find_settlement tx pid req d of
        Inr existing \<Rightarrow>
          (case decodeSettlementResponse C (c_response existing) of
             Inl err \<Rightarrow> ((Some err, None), d)
           | Inr stored \<Rightarrow> ((None, Some (as_duplicate req stored)), d))
      | Inl err \<Rightarrow>
          if \<not> errors_is err GormErrRecordNotFound then ((Some err, None), d)
          else
     (case settlementArchiveFromTransaction C tx pid d of
        Inl err \<Rightarrow> ((Some err, None), d)
      | Inr archive \<Rightarrow>
     (case settleArchive (Some archive) req policy of
        Inl err \<Rightarrow> ((Some err, None), d)
      | Inr response \<Rightarrow>
          (case record_settlement C pid req response tx d of (err, d1) \<Rightarrow> ((err, Some response), d1))))))"

definition MySQL_Settle ::
  "codec \<Rightarrow> 'db mysql_settlement_repository option \<Rightarrow> i64 \<Rightarrow> combat_result_req option \<Rightarrow> 'db
     \<Rightarrow> (go_error + combat_result_resp) \<times> 'db" where
  "MySQL_Settle C repository pid request d =
     (case (repository, request) of
        (Some r, Some req) \<Rightarrow>
          (case g_Transaction (ms_db r) (settle_transaction C (ms_policy r) pid req (ms_db r)) d of
             ((Some err, response), d1) \<Rightarrow>
               if errors_is err ErrDuplicateCombatSettlement
               then (case find_settlement (ms_db r) pid req d1 of
                       Inl lookup_err \<Rightarrow> (Inl lookup_err, d1)
                     | Inr existing \<Rightarrow>
                         (case decodeSettlementResponse C (c_response existing) of
                            Inl decode_err \<Rightarrow> (Inl decode_err, d1)
                          | Inr stored \<Rightarrow> (Inr (as_duplicate req stored), d1)))
               else (Inl err, d1)
           | ((None, response), d1) \<Rightarrow>
               (case response of None \<Rightarrow> (Inl nil_dereference, d1) | Some r \<Rightarrow> (Inr r, d1)))
      | _ \<Rightarrow> (Inl (Text ''settle combat: invalid repository or request''), d))"

section \<open>What one settlement does to the database\<close>

definition lawful_mysql :: "(string \<Rightarrow> string) \<Rightarrow> 'db gorm \<Rightarrow> ('db \<Rightarrow> sql_view) \<Rightarrow> bool" where
  "lawful_mysql coll db view \<longleftrightarrow> lawful_players_table db view \<and> lawful_archives_table db view
     \<and> lawful_scores_table db view \<and> lawful_stats_table db view \<and> lawful_settlements_table coll db view
     \<and> lawful_transaction db view"

text \<open>The archive and the statistics that a settlement starts from.\<close>

definition stored_archive :: "codec \<Rightarrow> i64 \<Rightarrow> sql_view \<Rightarrow> player_archive \<Rightarrow> bool" where
  "stored_archive C pid v a \<longleftrightarrow>
     (case v_archives v pid of
        None \<Rightarrow> a = zero_archive\<lparr>pa_schema_version := 1\<rparr> | Some row \<Rightarrow> unmarshal_archive C (a_data row) = Inr a)"

text \<open>The new row of the statistics, but for its id and times.\<close>

definition credited_stats ::
  "i64 \<Rightarrow> combat_result_req \<Rightarrow> combat_result_resp \<Rightarrow> sql_view \<Rightarrow> player_stats \<Rightarrow> bool" where
  "credited_stats pid req r v row \<longleftrightarrow>
     (case v_stats v pid of
        None \<Rightarrow> \<exists>s i t. credit_stats req r (initial_stats pid req) = Inr s
          \<and> row = (stats_defaults s)\<lparr>st_id := i, st_created_at := t, st_updated_at := t\<rparr>
      | Some old \<Rightarrow> \<exists>s t. credit_stats req r old = Inr s \<and> row = s\<lparr>st_updated_at := t\<rparr>)"

text \<open>
  The effect of crediting a run once: the run was new and the player exists; the archive, the statistics, the
  score and the response are recorded; nothing else is touched.
\<close>

definition credited_once ::
  "(string \<Rightarrow> string) \<Rightarrow> codec \<Rightarrow> reward_policy \<Rightarrow> i64 \<Rightarrow> combat_result_req \<Rightarrow> combat_result_resp
     \<Rightarrow> sql_view \<Rightarrow> sql_view \<Rightarrow> bool" where
  "credited_once coll C policy pid req r v v' \<longleftrightarrow>
     v_players v pid \<noteq> None \<and> v_settlements v (pid, coll (cq_run_id req)) = None
     \<and> (\<exists>a stats score arch row.
          stored_archive C pid v a \<and> settleArchive (Some a) req policy = Inr r
          \<and> credited_stats pid req r v stats
          \<and> s_player_id score = pid \<and> s_score score = cq_score req
          \<and> CombatScoreMetadataJSON (Some req) = Inr (s_metadata score)
          \<and> a_player_id arch = pid \<and> marshal_pointer C (map_option M_PlayerArchive (cr_archive r)) = Inr (a_data arch)
          \<and> c_player_id row = pid \<and> c_run_id row = cq_run_id req
          \<and> marshal C (M_CombatResultResp r) = Inr (c_response row)
          \<and> v' = v\<lparr>v_stats := (v_stats v)(pid \<mapsto> stats), v_scores := v_scores v @ [score],
                   v_archives := (v_archives v)(pid \<mapsto> arch),
                   v_settlements := (v_settlements v)((pid, coll (cq_run_id req)) \<mapsto> row)\<rparr>)"

section \<open>The steps of the transaction\<close>

lemma lawful_mysqlD:
  assumes "lawful_mysql coll db view"
  shows "lawful_players_table db view" "lawful_archives_table db view" "lawful_scores_table db view"
    "lawful_stats_table db view" "lawful_settlements_table coll db view" "lawful_transaction db view"
  using assms by (simp_all add: lawful_mysql_def)

lemma reads_cases:
  assumes "reads res row"
  obtains (found) r where "res = Inr r" "row = Some r"
  | (missing) e where "res = Inl e" "errors_is e GormErrRecordNotFound" "row = None"
  | (failed) e where "res = Inl e" "\<not> errors_is e GormErrRecordNotFound"
  using assms by (cases res) (auto simp: reads_def)

lemma writes_success: "writes (None, d') view v P \<Longrightarrow> P (view d')"
  by (simp add: writes_def)

lemma credit_stats_frame:
  "credit_stats req r s = Inr s' \<Longrightarrow> st_id s' = st_id s \<and> st_player_id s' = st_player_id s"
  by (auto simp: credit_stats_def Let_def split: if_splits)

lemma updateSettlementStats_ok:
  assumes law: "lawful_stats_table db view" and ok: "updateSettlementStats db pid req r d = (None, d1)"
  obtains row where "credited_stats pid req r (view d) row"
    "view d1 = (view d)\<lparr>v_stats := (v_stats (view d))(pid \<mapsto> row)\<rparr>"
proof -
  have rd: "reads (tb_First (g_stats db) True [by_player pid] d) (v_stats (view d) pid)"
    using law by (simp add: lawful_stats_table_def)
  from rd show ?thesis
  proof (cases rule: reads_cases)
    case (found old)
    with ok obtain s where s: "credit_stats req r old = Inr s" "tb_Save (g_stats db) s d = (None, d1)"
      by (auto simp: updateSettlementStats_def split: sum.splits)
    have "st_player_id old = pid" using law found(2) by (simp add: lawful_stats_table_def)
    with credit_stats_frame [OF s(1)] have f: "st_player_id s = pid" "st_id s = st_id old" by simp_all
    with law found(2) have "writes (tb_Save (g_stats db) s d) view (view d)
        (\<lambda>v. \<exists>t. v = (view d)\<lparr>v_stats := (v_stats (view d))(pid \<mapsto> s\<lparr>st_updated_at := t\<rparr>)\<rparr>)"
      unfolding lawful_stats_table_def by blast
    then obtain t where "view d1 = (view d)\<lparr>v_stats := (v_stats (view d))(pid \<mapsto> s\<lparr>st_updated_at := t\<rparr>)\<rparr>"
      unfolding s(2) by (auto dest: writes_success)
    moreover have "credited_stats pid req r (view d) (s\<lparr>st_updated_at := t\<rparr>)"
      using found(2) s(1) by (auto simp: credited_stats_def)
    ultimately show ?thesis by (intro that)
  next
    case (missing e)
    with ok obtain s where s: "credit_stats req r (initial_stats pid req) = Inr s"
      "create_error (tb_Create (g_stats db) s d) = (None, d1)"
      by (auto simp: updateSettlementStats_def split: sum.splits)
    from credit_stats_frame [OF s(1)] have f: "st_player_id s = pid" by (simp add: initial_stats_def)
    have "writes (create_error (tb_Create (g_stats db) s d)) view (view d)
          (\<lambda>v. v_stats (view d) pid = None
             \<and> (\<exists>i t. v = (view d)\<lparr>v_stats := (v_stats (view d))(pid \<mapsto>
                   (stats_defaults s)\<lparr>st_id := i, st_created_at := t, st_updated_at := t\<rparr>)\<rparr>))"
      using law f unfolding lawful_stats_table_def by blast
    then obtain i t where "view d1 = (view d)\<lparr>v_stats := (v_stats (view d))(pid \<mapsto>
        (stats_defaults s)\<lparr>st_id := i, st_created_at := t, st_updated_at := t\<rparr>)\<rparr>"
      unfolding s(2) by (auto dest: writes_success)
    moreover have "credited_stats pid req r (view d) ((stats_defaults s)\<lparr>st_id := i, st_created_at := t, st_updated_at := t\<rparr>)"
      using missing(3) s(1) by (auto simp: credited_stats_def)
    ultimately show ?thesis by (intro that)
  next
    case (failed e)
    with ok show ?thesis by (simp add: updateSettlementStats_def)
  qed
qed

lemma settlementArchive_ok:
  assumes "lawful_archives_table db view" "settlementArchiveFromTransaction C db pid d = Inr a"
  shows "stored_archive C pid (view d) a"
proof -
  have "reads (tb_First (g_archives db) True [by_player pid] d) (v_archives (view d) pid)"
    using assms(1) by (simp add: lawful_archives_table_def)
  then show ?thesis
    using assms(2)
    by (cases rule: reads_cases)
       (auto simp: settlementArchiveFromTransaction_def stored_archive_def split: sum.splits)
qed

text \<open>A succeeded recording: the three writes in turn.\<close>

lemma record_settlement_steps:
  assumes "record_settlement C pid req r db d = (None, d')"
  obtains d1 d2 d3 metadata da dr where
    "updateSettlementStats db pid req r d = (None, d1)" "CombatScoreMetadataJSON (Some req) = Inr metadata"
    "create_error (tb_Create (g_scores db) \<lparr>s_id = 0, s_player_id = pid, s_score = cq_score req,
       s_metadata = metadata, s_created_at = 0\<rparr> d1) = (None, d2)"
    "marshal_pointer C (map_option M_PlayerArchive (cr_archive r)) = Inr da"
    "saveArchiveQuery db (new_archive pid da) d2 = (None, d3)"
    "marshal C (M_CombatResultResp r) = Inr dr"
    "create_error (tb_Create (g_settlements db) \<lparr>c_id = 0, c_player_id = pid, c_run_id = cq_run_id req,
       c_response = dr, c_created_at = 0\<rparr> d3) = (None, d')"
  using assms unfolding record_settlement_def
  by (auto split: prod.splits option.splits sum.splits)

lemma record_settlement_ok:
  assumes law: "lawful_mysql coll db view" and ok: "record_settlement C pid req r db d = (None, d')"
    and start: "v_players (view d) pid \<noteq> None" "v_settlements (view d) (pid, coll (cq_run_id req)) = None"
      "stored_archive C pid (view d) a" "settleArchive (Some a) req policy = Inr r"
  shows "credited_once coll C policy pid req r (view d) (view d')"
proof -
  note L = lawful_mysqlD [OF law]
  from ok obtain d1 d2 d3 metadata da dr where
    st: "updateSettlementStats db pid req r d = (None, d1)" and m: "CombatScoreMetadataJSON (Some req) = Inr metadata" and
    sc: "create_error (tb_Create (g_scores db) \<lparr>s_id = 0, s_player_id = pid, s_score = cq_score req,
       s_metadata = metadata, s_created_at = 0\<rparr> d1) = (None, d2)" and
    da: "marshal_pointer C (map_option M_PlayerArchive (cr_archive r)) = Inr da" and
    ar: "saveArchiveQuery db (new_archive pid da) d2 = (None, d3)" and
    dr: "marshal C (M_CombatResultResp r) = Inr dr" and
    se: "create_error (tb_Create (g_settlements db) \<lparr>c_id = 0, c_player_id = pid, c_run_id = cq_run_id req,
       c_response = dr, c_created_at = 0\<rparr> d3) = (None, d')"
    by (rule record_settlement_steps)
  from updateSettlementStats_ok [OF L(4) st] obtain stats where stats: "credited_stats pid req r (view d) stats"
    "view d1 = (view d)\<lparr>v_stats := (v_stats (view d))(pid \<mapsto> stats)\<rparr>" by blast
  from L(3) [unfolded lawful_scores_table_def, rule_format,
      of "\<lparr>s_id = 0, s_player_id = pid, s_score = cq_score req, s_metadata = metadata, s_created_at = 0\<rparr>" d1]
  obtain i t where score: "view d2 = (view d1)\<lparr>v_scores := v_scores (view d1) @ [\<lparr>s_id = i, s_player_id = pid,
      s_score = cq_score req, s_metadata = metadata, s_created_at = t\<rparr>]\<rparr>"
    unfolding sc by (auto dest!: writes_success)
  from L(2) [unfolded lawful_archives_table_def, THEN conjunct2, rule_format, of "new_archive pid da" d2]
  obtain arch where arch: "a_player_id arch = pid" "a_data arch = da"
    "view d3 = (view d2)\<lparr>v_archives := (v_archives (view d2))(pid \<mapsto> arch)\<rparr>"
    unfolding saveArchiveQuery_def [symmetric] ar by (auto dest!: writes_success)
  from L(5) [unfolded lawful_settlements_table_def, THEN conjunct2, rule_format,
      of "\<lparr>c_id = 0, c_player_id = pid, c_run_id = cq_run_id req, c_response = dr, c_created_at = 0\<rparr>" d3]
  obtain j u where row: "view d' = (view d3)\<lparr>v_settlements := (v_settlements (view d3))((pid, coll (cq_run_id req)) \<mapsto>
      \<lparr>c_id = j, c_player_id = pid, c_run_id = cq_run_id req, c_response = dr, c_created_at = u\<rparr>)\<rparr>"
    unfolding se by (auto dest!: writes_success)
  show ?thesis
    unfolding credited_once_def
    by (intro conjI start(1,2) exI [of _ a] exI [of _ stats] exI [of _ arch]
        exI [of _ "\<lparr>s_id = i, s_player_id = pid, s_score = cq_score req, s_metadata = metadata, s_created_at = t\<rparr>"]
        exI [of _ "\<lparr>c_id = j, c_player_id = pid, c_run_id = cq_run_id req, c_response = dr, c_created_at = u\<rparr>"])
       (simp_all add: start(3,4) stats(1) m da dr arch row score stats(2))
qed

text \<open>A transaction that succeeds has either found the run settled, or credited it once.\<close>

definition settled_before ::
  "(string \<Rightarrow> string) \<Rightarrow> codec \<Rightarrow> i64 \<Rightarrow> combat_result_req \<Rightarrow> combat_result_resp \<Rightarrow> sql_view \<Rightarrow> bool" where
  "settled_before coll C pid req r v \<longleftrightarrow>
     (\<exists>row stored. v_settlements v (pid, coll (cq_run_id req)) = Some row
        \<and> unmarshal_combat_result C (c_response row) = Inr stored \<and> r = as_duplicate req stored)"

lemma found_settlement:
  assumes law: "lawful_settlements_table coll db view" and f: "find_settlement db pid req d = Inr row"
    and r: "decodeSettlementResponse C (c_response row) = Inr stored"
  shows "settled_before coll C pid req (as_duplicate req stored) (view d)"
proof -
  have "reads (find_settlement db pid req d) (v_settlements (view d) (pid, coll (cq_run_id req)))"
    using law by (simp add: find_settlement_def lawful_settlements_table_def)
  with f r show ?thesis
    by (auto simp: reads_def settled_before_def decodeSettlementResponse_def split: sum.splits)
qed

lemma settle_transaction_ok:
  assumes law: "lawful_mysql coll db view"
    and ok: "settle_transaction C policy pid req db d = ((None, resp), d')"
  obtains (replay) r where "resp = Some r" "d' = d" "settled_before coll C pid req r (view d)"
  | (fresh) r where "resp = Some r" "credited_once coll C policy pid req r (view d) (view d')"
proof -
  note L = lawful_mysqlD [OF law]
  from ok obtain p where p: "tb_First (g_players db) True [ColEq ''id'' (SqlInt (sint pid))] d = Inr p"
    by (auto simp: settle_transaction_def split: sum.splits if_splits)
  have "reads (tb_First (g_players db) True [ColEq ''id'' (SqlInt (sint pid))] d) (v_players (view d) pid)"
    using L(1) by (simp add: lawful_players_table_def)
  with p have player: "v_players (view d) pid \<noteq> None" by (auto simp: reads_def)
  show ?thesis
  proof (cases "find_settlement db pid req d")
    case (Inr row)
    with ok p obtain stored where r: "decodeSettlementResponse C (c_response row) = Inr stored"
      "resp = Some (as_duplicate req stored)" "d' = d"
      by (auto simp: settle_transaction_def split: sum.splits)
    from replay [OF r(2,3) found_settlement [OF L(5) Inr r(1)]] show ?thesis .
  next
    case (Inl e)
    with ok p obtain a r where a: "errors_is e GormErrRecordNotFound"
      "settlementArchiveFromTransaction C db pid d = Inr a" "settleArchive (Some a) req policy = Inr r"
      "record_settlement C pid req r db d = (None, d')" "resp = Some r"
      by (auto simp: settle_transaction_def split: sum.splits if_splits prod.splits)
    have "reads (find_settlement db pid req d) (v_settlements (view d) (pid, coll (cq_run_id req)))"
      using L(5) by (simp add: find_settlement_def lawful_settlements_table_def)
    with Inl a(1) have "v_settlements (view d) (pid, coll (cq_run_id req)) = None" by (simp add: reads_def)
    from record_settlement_ok [OF law a(4) player this settlementArchive_ok [OF L(2) a(2)] a(3)] a(5)
    show ?thesis by (intro fresh) simp_all
  qed
qed

text \<open>The outcome of a settlement.\<close>

lemma MySQL_Settle_cases:
  assumes law: "lawful_mysql coll db view"
    and s: "MySQL_Settle C (Some \<lparr>ms_db = db, ms_policy = policy\<rparr>) pid (Some req) d = (res, d')"
  obtains (unchanged) "view d' = view d" "\<forall>r. res = Inr r \<longrightarrow> settled_before coll C pid req r (view d)"
  | (credited) r where "credited_once coll C policy pid req r (view d) (view d')" "res = Inr r \<or> (\<exists>e. res = Inl e)"
proof -
  note L = lawful_mysqlD [OF law]
  let ?body = "settle_transaction C policy pid req db"
  from L(6) [unfolded lawful_transaction_def, rule_format, where body = ?body and d = d] obtain d0 where d0: "view d0 = view d"
    and tx: "case (g_Transaction db ?body d, ?body d0) of
           (((None, resp), d'), ((err, resp'), d1)) \<Rightarrow> err = None \<and> resp = resp' \<and> view d' = view d1
         | (((Some e, resp), d'), ((err, resp'), d1)) \<Rightarrow>
             view d' = view d \<or> err = None \<and> \<not> errors_is e ErrDuplicateCombatSettlement \<and> view d' = view d1"
    by (elim exE conjE) (rule that)
  obtain err resp dt where t: "g_Transaction db ?body d = ((err, resp), dt)" by (metis surj_pair)
  obtain err1 resp1 d1 where b: "?body d0 = ((err1, resp1), d1)" by (metis surj_pair)
  show ?thesis
  proof (cases err)
    case None
    with tx t b have c: "err1 = None" "resp = resp1" "view dt = view d1" by simp_all
    with b have "?body d0 = ((None, resp1), d1)" by simp
    with law show ?thesis
    proof (cases rule: settle_transaction_ok)
      case (replay r)
      with s t None c have "res = Inr r" "d' = dt" by (simp_all add: MySQL_Settle_def)
      with replay c d0 show ?thesis by (intro unchanged) simp_all
    next
      case (fresh r)
      with s t None c have "res = Inr r" "d' = dt" by (simp_all add: MySQL_Settle_def)
      with fresh c d0 show ?thesis by (intro credited) simp_all
    qed
  next
    case (Some e)
    have dt: "d' = dt" using s t Some by (auto simp: MySQL_Settle_def split: sum.splits if_splits)
    show ?thesis
    proof (cases "errors_is e ErrDuplicateCombatSettlement")
      case True
      with tx t b Some have v: "view dt = view d" by simp
      have "settled_before coll C pid req r (view dt)" if "res = Inr r" for r
      proof -
        from that s t Some True obtain row stored where "find_settlement db pid req dt = Inr row"
          "decodeSettlementResponse C (c_response row) = Inr stored" "r = as_duplicate req stored"
          by (auto simp: MySQL_Settle_def split: sum.splits)
        with found_settlement [OF L(5)] show ?thesis by blast
      qed
      with v dt show ?thesis by (intro unchanged) simp_all
    next
      case False
      with s t Some have res: "res = Inl e" by (simp add: MySQL_Settle_def)
      from tx t b Some consider "view dt = view d" | "err1 = None" "view dt = view d1" by auto
      then show ?thesis
      proof cases
        case 1
        with res dt show ?thesis by (intro unchanged) simp_all
      next
        case 2
        with b have "?body d0 = ((None, resp1), d1)" by simp
        with law show ?thesis
        proof (cases rule: settle_transaction_ok)
          case (replay r)
          with 2 dt d0 res show ?thesis by (intro unchanged) simp_all
        next
          case (fresh r)
          with 2 dt d0 res show ?thesis by (intro credited [of r]) simp_all
        qed
      qed
    qed
  qed
qed

section \<open>Properties\<close>

text \<open>
  C14: A settlement in MySQL is all or nothing. Whatever fails on the way, its locks, any write, the commit or
  the confirmation of the commit, the database afterwards is unchanged, or it shows exactly one credit of the
  run, new until then: archive, statistics, score and stored response together. A success without a change is
  the stored response of the run marked as a repetition.
\<close>

theorem mysql_settle_all_or_nothing:
  assumes "lawful_mysql coll db view"
    and "MySQL_Settle C (Some \<lparr>ms_db = db, ms_policy = policy\<rparr>) pid (Some req) d = (res, d')"
  shows "view d' = view d \<and> (\<forall>r. res = Inr r \<longrightarrow> settled_before coll C pid req r (view d))
    \<or> (\<exists>r. credited_once coll C policy pid req r (view d) (view d') \<and> (res = Inr r \<or> (\<exists>e. res = Inl e)))"
  using MySQL_Settle_cases [OF assms] by metis

text \<open>
  C3: No run is credited twice in MySQL. After a settlement that credited a run, also one that was reported as
  an error, a report of the same run, up to the collation of run ids, changes nothing as long as the stored
  row is there; if it gets an answer, it is the first response, marked as a repetition.
\<close>

theorem mysql_run_credited_once:
  assumes "lawful_mysql coll db view" and "codec_roundtrip C"
    and "credited_once coll C policy pid req r v v'"
    and "v_settlements (view d) (pid, coll (cq_run_id req)) = v_settlements v' (pid, coll (cq_run_id req))"
    and "coll (cq_run_id again) = coll (cq_run_id req)"
    and "MySQL_Settle C (Some \<lparr>ms_db = db, ms_policy = policy\<rparr>) pid (Some again) d = (res, d')"
  shows "view d' = view d \<and> (\<forall>x. res = Inr x \<longrightarrow> x = r\<lparr>cr_duplicate := True, cr_run_id := cq_run_id again\<rparr>)"
proof -
  from assms(3) obtain row where row: "v_settlements v' (pid, coll (cq_run_id req)) = Some row"
    "marshal C (M_CombatResultResp r) = Inr (c_response row)"
    by (auto simp: credited_once_def)
  with assms(4,5) have here: "v_settlements (view d) (pid, coll (cq_run_id again)) = Some row" by simp
  from assms(1,6) show ?thesis
  proof (cases rule: MySQL_Settle_cases)
    case unchanged
    with here show ?thesis
      using unmarshal_combat_result_marshal [OF assms(2) row(2)]
      by (auto simp: settled_before_def as_duplicate_def)
  next
    case (credited r')
    with here show ?thesis by (simp add: credited_once_def)
  qed
qed

text \<open>
  C38: The overflow check of the statistics' rewards is void. It compares a 64-bit sum with the largest 64-bit
  integer, so it refuses no reward, and a gold balance near the limit turns negative instead.
\<close>

theorem stats_reward_check_void:
  "credit_stats req r stats \<noteq> Inl (Text ''store: player stats reward overflow'')
   \<and> (\<exists>req r stats stats'. credit_stats req r stats = Inr stats' \<and> 0 < sint (cr_reward_gold r)
        \<and> 0 < sint (st_gold stats) \<and> sint (st_gold stats') < 0)"
proof -
  have top: "\<not> max_int64 <s x" for x
    using sint_64_range [of x] by (simp add: word_sless_alt)
  define req0 :: combat_result_req where "req0 = \<lparr>cq_run_id = ''r'', cq_dungeon_level = 1, cq_score = 0, cq_kills = 1,
    cq_survival_time = F64 0, cq_style_id = 1, cq_outcome = BattleOutcome_DEFEAT, cq_player_level = 1\<rparr>"
  define r0 :: combat_result_resp where "r0 = \<lparr>cr_success = True, cr_duplicate = False, cr_reward_gold = 5, cr_reward_exp = 0,
    cr_best_score = 0, cr_archive = None, cr_run_id = ''r''\<rparr>"
  define s0 where "s0 = (initial_stats 7 req0)\<lparr>st_gold := max_int64\<rparr>"
  have "\<exists>s. credit_stats req0 r0 s0 = Inr s \<and> st_gold s = max_int64 + 5"
    by (simp add: credit_stats_def top Let_def s0_def r0_def req0_def initial_stats_def max_int64_def signed_defs)
  moreover have "sint (max_int64 + 5) < 0" by (simp add: max_int64_def)
  moreover have "0 < sint (cr_reward_gold r0)" "0 < sint (st_gold s0)" by (simp_all add: r0_def s0_def)
  ultimately have "\<exists>req r stats stats'. credit_stats req r stats = Inr stats' \<and> 0 < sint (cr_reward_gold r)
        \<and> 0 < sint (st_gold stats) \<and> sint (st_gold stats') < 0" by metis
  then show ?thesis by (simp add: credit_stats_def top Let_def)
qed

end
