(* ===== verification/MySQL_Styles.thy ===== *)
theory MySQL_Styles
  imports MySQL_Store Combat_Handler
begin

text \<open>
  Buying a combat style in production: \<open>UnlockStyle\<close> of \<open>internal/combat/handler.go\<close> over the MySQL store. The
  gold is taken first and the style recorded after, in two statements.

  Shown here: gold is never overdrawn, an answer is true to what was paid and recorded, and the one way in
  which gold can be lost.
\<close>

section \<open>Spending gold\<close>

text \<open>The statistics of a player after \<open>n\<close> gold were paid out of at least as much.\<close>

definition gold_paid :: "i64 \<Rightarrow> int \<Rightarrow> sql_view \<Rightarrow> sql_view \<Rightarrow> bool" where
  "gold_paid uid n v v' \<longleftrightarrow>
     (\<exists>s s'. v_stats v uid = Some s \<and> n \<le> sint (st_gold s) \<and> sint (st_gold s') = sint (st_gold s) - n
        \<and> s' = s\<lparr>st_gold := st_gold s', st_updated_at := st_updated_at s'\<rparr>
        \<and> v' = v\<lparr>v_stats := (v_stats v)(uid \<mapsto> s')\<rparr>)"

lemma MySQL_DeductPlayerGold_cases:
  assumes law: "lawful_stats_table db view" and n: "0 \<le> sint amount"
    and r: "MySQL_DeductPlayerGold db uid amount d = (err, d')"
  shows "case err of None \<Rightarrow> gold_paid uid (sint amount) (view d) (view d') | Some e \<Rightarrow> view d' = view d"
proof -
  obtain e rows d1 where u: "tb_Update (g_stats db) [by_player uid, ColAtLeast ''gold'' (SqlInt (sint amount))]
      ''gold'' (Minus ''gold'' (SqlInt (sint amount))) d = ((e, rows), d1)" by (metis surj_pair)
  note L = law [unfolded lawful_stats_table_def, THEN conjunct2, THEN conjunct2, THEN conjunct2, rule_format,
      where pid = uid and n = "sint amount" and d = d, unfolded u prod.case]
  have d1: "d' = d1" using r u by (auto simp: MySQL_DeductPlayerGold_def split: option.splits if_splits)
  show ?thesis
  proof (cases e)
    case (Some x)
    with r u have "err = Some x" by (simp add: MySQL_DeductPlayerGold_def)
    with L Some show ?thesis by (simp add: d1)
  next
    case None
    note L' = L [unfolded None option.case]
    show ?thesis
    proof (cases "v_stats (view d) uid")
      case None
      with L' r u \<open>e = None\<close> show ?thesis by (auto simp: MySQL_DeductPlayerGold_def)
    next
      case (Some s)
      note L'' = L' [unfolded Some option.case]
      show ?thesis
      proof (cases "sint amount \<le> sint (st_gold s)")
        case False
        with L'' r u \<open>e = None\<close> show ?thesis by (auto simp: MySQL_DeductPlayerGold_def)
      next
        case True
        with L'' obtain t where rows: "rows = 1" and v: "view d1 = (view d)\<lparr>v_stats := (v_stats (view d))
            (uid \<mapsto> s\<lparr>st_gold := word_of_int (sint (st_gold s) - sint amount), st_updated_at := t\<rparr>)\<rparr>" by auto
        have g: "sint (word_of_int (sint (st_gold s) - sint amount) :: i64) = sint (st_gold s) - sint amount"
          using True n sint_64_range [of "st_gold s"] by (intro sint_of_int_64) simp_all
        have "gold_paid uid (sint amount) (view d) (view d1)"
          unfolding gold_paid_def
          by (intro exI [of _ s] exI [of _ "s\<lparr>st_gold := word_of_int (sint (st_gold s) - sint amount), st_updated_at := t\<rparr>"]
              conjI) (use True Some v g in \<open>simp_all del: of_int_diff\<close>)
        moreover have "err = None" using r u rows \<open>e = None\<close> by (simp add: MySQL_DeductPlayerGold_def)
        ultimately show ?thesis by (simp add: d1)
      qed
    qed
  qed
qed

lemma MySQL_UnlockPlayerStyle_cases:
  assumes law: "lawful_styles_table db view" and r: "MySQL_UnlockPlayerStyle db uid n d = (err, d')"
  shows "case err of
      None \<Rightarrow> view d' = (view d)\<lparr>v_styles := (v_styles (view d))(uid := insert n (v_styles (view d) uid))\<rparr>
    | Some e \<Rightarrow> view d' = view d"
  using law [unfolded lawful_styles_table_def, THEN conjunct2, rule_format,
      of "\<lparr>ps_id = 0, ps_player_id = uid, ps_style_id = n, ps_created_at = 0\<rparr>" uid n d] r
  by (simp add: MySQL_UnlockPlayerStyle_def writes_def split: option.splits)

section \<open>Buying a style\<close>

definition style_added :: "i64 \<Rightarrow> go_int \<Rightarrow> sql_view \<Rightarrow> sql_view" where
  "style_added uid n v = v\<lparr>v_styles := (v_styles v)(uid := insert n (v_styles v uid))\<rparr>"

text \<open>What a request to unlock a style may do.\<close>

definition style_outcome ::
  "i64 \<Rightarrow> unlock_style_req \<Rightarrow> go_error + unlock_style_resp \<Rightarrow> sql_view \<Rightarrow> sql_view \<Rightarrow> bool" where
  "style_outcome uid req res v v' \<longleftrightarrow>
     (let n = to_i64 (usq_style_id req) in
      case res of
        Inr resp \<Rightarrow> usr_success resp
          \<and> (usr_gold_cost resp = 0 \<and> n \<in> v_styles v uid \<and> v' = v
             \<or> usr_gold_cost resp = 0 \<and> usq_style_id req = 1 \<and> v' = style_added uid n v
             \<or> usr_gold_cost resp = 100 \<and> (\<exists>v1. gold_paid uid 100 v v1 \<and> v' = style_added uid n v1))
      | Inl e \<Rightarrow> v' = v \<or> gold_paid uid 100 v v' \<and> (\<exists>m. e = BizError ErrInternal m))"

text \<open>The last part of \<open>UnlockStyle\<close>, for a style that exists and is not owned yet.\<close>

lemma unlock_new_style:
  assumes lawful: "lawful_stats_table db view" "lawful_styles_table db view"
    and mysql: "ch_mysql h = Some (mysql_store_of db)"
    and known: "getStyleConfig (to_i64 (usq_style_id req)) \<noteq> None"
    and none: "\<not> (\<exists>s \<in> set (fst (MySQL_GetPlayerStyles db (uidFromCtx ctx w) (w_db w))).
      ps_style_id s = to_i64 (usq_style_id req))"
    and res: "UnlockStyle h ctx req w = (res, w')"
  shows "style_outcome (uidFromCtx ctx w) req res (view (w_db w)) (view (w_db w'))"
proof -
  let ?uid = "uidFromCtx ctx w" and ?n = "to_i64 (usq_style_id req)"
  have pos: "0 <s (100 :: i64)" by (simp add: signed_defs)
  note U = res [unfolded UnlockStyle_def, simplified known mysql Let_def, simplified]
  show ?thesis
  proof (cases "usq_style_id req = 1")
    case True
    obtain err d1 where u: "MySQL_UnlockPlayerStyle db ?uid ?n (w_db w) = (err, d1)" by force
    from MySQL_UnlockPlayerStyle_cases [OF lawful(2) u] U none True u known show ?thesis
      by (cases err) (auto simp: mysql_store_of_def on_db_def style_outcome_def style_added_def Let_def)
  next
    case False
    obtain e0 d0 where g: "MySQL_DeductPlayerGold db ?uid 100 (w_db w) = (e0, d0)" by force
    from MySQL_DeductPlayerGold_cases [OF lawful(1) _ g]
    have paid: "case e0 of None \<Rightarrow> gold_paid ?uid 100 (view (w_db w)) (view d0) | Some e \<Rightarrow> view d0 = view (w_db w)"
      by (cases e0) simp_all
    show ?thesis
    proof (cases e0)
      case (Some e)
      with U none False g paid pos known show ?thesis
        by (auto simp: mysql_store_of_def on_db_def style_outcome_def Let_def split: if_splits)
    next
      case None
      obtain err d1 where u: "MySQL_UnlockPlayerStyle db ?uid ?n d0 = (err, d1)" by force
      from MySQL_UnlockPlayerStyle_cases [OF lawful(2) u] U none False None g paid u pos known show ?thesis
        by (cases err) (auto simp: mysql_store_of_def on_db_def style_outcome_def style_added_def Let_def NewBizError_def)
    qed
  qed
qed

text \<open>
  C37: Buying a style. Over a database whose statements each fail without effect or succeed, a success answers
  the cost that was really paid, out of at least as much gold, and the style is then recorded; no other
  player's rows change. An error leaves everything as it was, but for one case: when the style cannot be
  recorded the gold is gone already.
\<close>

theorem unlock_style_outcomes:
  assumes "lawful_stats_table db view" and "lawful_styles_table db view"
    and "ch_mysql h = Some (mysql_store_of db)"
    and "UnlockStyle h ctx req w = (res, w')"
  shows "style_outcome (uidFromCtx ctx w) req res (view (w_db w)) (view (w_db w'))"
proof (cases "getStyleConfig (to_i64 (usq_style_id req)) = None")
  case True
  with assms(4) show ?thesis by (auto simp: UnlockStyle_def style_outcome_def)
next
  case False
  let ?uid = "uidFromCtx ctx w" and ?n = "to_i64 (usq_style_id req)"
  let ?rows = "fst (MySQL_GetPlayerStyles db ?uid (w_db w))"
  note U = assms(4) [unfolded UnlockStyle_def, simplified False assms(3) Let_def, simplified]
  show ?thesis
  proof (cases "\<exists>s \<in> set ?rows. ps_style_id s = ?n")
    case True
    with U have r: "res = Inr \<lparr>usr_success = True, usr_gold_cost = 0\<rparr>" "w' = w"
      by (auto simp: mysql_store_of_def)
    from assms(2) have "ps_style_id ` set ?rows \<subseteq> v_styles (view (w_db w)) ?uid"
      unfolding lawful_styles_table_def MySQL_GetPlayerStyles_def by (metis (no_types, lifting) case_prod_beta)
    with True r show ?thesis by (force simp: style_outcome_def)
  qed (rule unlock_new_style [OF assms(1-3) False _ assms(4)])
qed

end
