(* ===== verification/MySQL_Sample.thy ===== *)
theory MySQL_Sample
  imports MySQL_Refinement MySQL_Styles Memory_History
begin

text \<open>
  A database that satisfies the laws of \<open>MySQL_Store\<close>, and the witnesses of the properties of \<open>MySQL_Settlement\<close>,
  \<open>MySQL_Refinement\<close> and \<open>MySQL_Styles\<close>. Its state is what it shows; it knows the queries the program makes.
\<close>

section \<open>A small database\<close>

definition row_or_missing :: "'r option \<Rightarrow> go_error + 'r" where
  "row_or_missing row = (case row of None \<Rightarrow> Inl (Sentinel GormErrRecordNotFound) | Some r \<Rightarrow> Inr r)"

definition duplicate_key :: go_error where
  "duplicate_key = MySQLError 1062 ''Duplicate entry''"

definition unsupported :: go_error where
  "unsupported = External ''unsupported''"

definition failing_table :: "('r, 'db) gorm_table" where
  "failing_table =
     \<lparr>tb_First = (\<lambda>lock cs d. Inl unsupported), tb_Find = (\<lambda>cs d. ([], Some unsupported)),
      tb_Create = (\<lambda>r d. (Inl unsupported, d)), tb_Save = (\<lambda>r d. (Some unsupported, d)),
      tb_Update = (\<lambda>cs c e d. ((Some unsupported, 0), d)), tb_Updates = (\<lambda>cs om r d. ((Some unsupported, 0), d)),
      tb_Upsert = (\<lambda>om key cols r d. (Some unsupported, d)), tb_FirstOrCreate = (\<lambda>cs r d. (Some unsupported, d))\<rparr>"

fun by_int :: "string \<Rightarrow> (i64 \<Rightarrow> 'r option) \<Rightarrow> condition list \<Rightarrow> go_error + 'r" where
  "by_int col rows [ColEq c (SqlInt n)] = (if c = col then row_or_missing (rows (word_of_int n)) else Inl unsupported)"
| "by_int col rows _ = Inl unsupported"

fun by_run :: "(i64 \<times> string \<Rightarrow> 'r option) \<Rightarrow> condition list \<Rightarrow> go_error + 'r" where
  "by_run rows [ColEq c (SqlInt n), ColEq c' (SqlText run)] = row_or_missing (rows (word_of_int n, run))"
| "by_run rows _ = Inl unsupported"

fun add_style :: "condition list \<Rightarrow> sql_view \<Rightarrow> go_error option \<times> sql_view" where
  "add_style [ColEq _ (SqlInt p), ColEq _ (SqlInt n)] v =
     (None, v\<lparr>v_styles := (v_styles v)(word_of_int p := insert (word_of_int n) (v_styles v (word_of_int p)))\<rparr>)"
| "add_style _ v = (Some unsupported, v)"

fun spend :: "condition list \<Rightarrow> sql_expr \<Rightarrow> sql_view \<Rightarrow> (go_error option \<times> i64) \<times> sql_view" where
  "spend [ColEq _ (SqlInt p), ColAtLeast _ (SqlInt n)] (Minus _ (SqlInt k)) v =
     (case v_stats v (word_of_int p) of
        None \<Rightarrow> ((None, 0), v)
      | Some s \<Rightarrow>
          if n \<le> sint (st_gold s)
          then if sint (st_gold s) - n < 2 ^ 63
               then ((None, 1), v\<lparr>v_stats := (v_stats v)(word_of_int p \<mapsto>
                  s\<lparr>st_gold := word_of_int (sint (st_gold s) - n), st_updated_at := 0\<rparr>)\<rparr>)
               else ((Some (External ''out of range''), 0), v)
          else ((None, 0), v))"
| "spend _ _ v = ((Some unsupported, 0), v)"

text \<open>Rows of the statistics whose player is not their key do not count.\<close>

definition stats_of :: "sql_view \<Rightarrow> sql_view" where
  "stats_of v = v\<lparr>v_stats := (\<lambda>p. case v_stats v p of None \<Rightarrow> None | Some s \<Rightarrow> Some (s\<lparr>st_player_id := p\<rparr>))\<rparr>"

definition small_gorm :: "sql_view gorm" where
  "small_gorm =
     \<lparr>g_players = failing_table\<lparr>tb_First := (\<lambda>lock cs v. by_int ''id'' (v_players v) cs)\<rparr>,
      g_archives = failing_table
        \<lparr>tb_First := (\<lambda>lock cs v. by_int ''player_id'' (v_archives v) cs),
         tb_Upsert := (\<lambda>om key cols a v. (None, v\<lparr>v_archives := (v_archives v)(a_player_id a \<mapsto> a)\<rparr>))\<rparr>,
      g_scores = failing_table
        \<lparr>tb_Create := (\<lambda>r v. (Inr r, v\<lparr>v_scores := v_scores v @ [r]\<rparr>))\<rparr>,
      g_orders = failing_table,
      g_stats = failing_table
        \<lparr>tb_First := (\<lambda>lock cs v. by_int ''player_id'' (v_stats (stats_of v)) cs),
         tb_Create := (\<lambda>s v. if v_stats v (st_player_id s) \<noteq> None then (Inl duplicate_key, v)
           else (Inr s, v\<lparr>v_stats := (v_stats v)(st_player_id s \<mapsto>
             (stats_defaults s)\<lparr>st_id := 1, st_created_at := 0, st_updated_at := 0\<rparr>)\<rparr>)),
         tb_Save := (\<lambda>s v. (None, v\<lparr>v_stats := (v_stats v)(st_player_id s \<mapsto> s\<lparr>st_updated_at := 0\<rparr>)\<rparr>)),
         tb_Update := (\<lambda>cs c e v. spend cs e v)\<rparr>,
      g_styles = failing_table\<lparr>tb_FirstOrCreate := (\<lambda>cs r v. add_style cs v)\<rparr>,
      g_settlements = failing_table
        \<lparr>tb_First := (\<lambda>lock cs v. by_run (v_settlements v) cs),
         tb_Create := (\<lambda>r v. if v_settlements v (c_player_id r, c_run_id r) \<noteq> None then (Inl duplicate_key, v)
           else (Inr r, v\<lparr>v_settlements := (v_settlements v)((c_player_id r, c_run_id r) \<mapsto> r)\<rparr>))\<rparr>,
      g_Transaction = (\<lambda>body v. case body v of
          ((Some e, resp), v') \<Rightarrow> ((Some e, resp), v) | ((None, resp), v') \<Rightarrow> ((None, resp), v')),
      g_AutoMigrate = (\<lambda>ts v. (None, v)), g_DB = (\<lambda>v. None), g_SetMaxIdleConns = (\<lambda>n v. v),
      g_SetMaxOpenConns = (\<lambda>n v. v), g_Close = (\<lambda>v. (None, v))\<rparr>"

section \<open>It is lawful\<close>

lemma reads_row [simp]: "reads (row_or_missing row) row"
  by (cases row) (simp_all add: reads_def row_or_missing_def)

lemma stats_of_simps [simp]:
  "v_players (stats_of v) = v_players v" "v_archives (stats_of v) = v_archives v" "v_scores (stats_of v) = v_scores v"
  "v_styles (stats_of v) = v_styles v" "v_settlements (stats_of v) = v_settlements v"
  by (simp_all add: stats_of_def)

lemma stats_of_upd:
  "stats_of (v\<lparr>v_stats := (v_stats v)(p \<mapsto> s)\<rparr>) =
     (stats_of v)\<lparr>v_stats := (v_stats (stats_of v))(p \<mapsto> s\<lparr>st_player_id := p\<rparr>)\<rparr>"
  by (simp add: stats_of_def fun_eq_iff)

lemma stats_of_row: "v_stats (stats_of v) p = map_option (\<lambda>s. s\<lparr>st_player_id := p\<rparr>) (v_stats v p)"
  by (simp add: stats_of_def split: option.split)

lemma small_players: "lawful_players_table small_gorm stats_of"
  by (simp add: lawful_players_table_def small_gorm_def)

lemma small_archives: "lawful_archives_table small_gorm stats_of"
  by (auto simp: lawful_archives_table_def small_gorm_def by_player_def writes_def stats_of_def)

lemma small_scores: "lawful_scores_table small_gorm stats_of"
  unfolding lawful_scores_table_def
proof (intro allI)
  fix r :: score_record and d
  show "writes (create_error (tb_Create (g_scores small_gorm) r d)) stats_of (stats_of d)
        (\<lambda>v. \<exists>i t. v = (stats_of d)\<lparr>v_scores := v_scores (stats_of d) @ [r\<lparr>s_id := i, s_created_at := t\<rparr>]\<rparr>)"
    by (simp add: small_gorm_def create_error_def writes_def)
       (intro exI [of _ "s_id r"] exI [of _ "s_created_at r"], simp add: stats_of_def)
qed

lemma small_styles: "lawful_styles_table small_gorm stats_of"
  by (auto simp: lawful_styles_table_def small_gorm_def failing_table_def by_player_def writes_def stats_of_def)

lemma small_settlements: "lawful_settlements_table id small_gorm stats_of"
  unfolding lawful_settlements_table_def
proof (intro conjI allI)
  fix pid run lock d
  show "reads (tb_First (g_settlements small_gorm) lock [by_player pid, ColEq ''run_id'' (SqlText run)] d)
      (v_settlements (stats_of d) (pid, id run))"
    by (simp add: small_gorm_def by_player_def)
next
  fix r :: combat_settlement and d
  show "writes (create_error (tb_Create (g_settlements small_gorm) r d)) stats_of (stats_of d)
          (\<lambda>v. v_settlements (stats_of d) (c_player_id r, id (c_run_id r)) = None
             \<and> (\<exists>i t. v = (stats_of d)\<lparr>v_settlements := (v_settlements (stats_of d))
                  ((c_player_id r, id (c_run_id r)) \<mapsto> r\<lparr>c_id := i, c_created_at := t\<rparr>)\<rparr>))"
    by (simp add: small_gorm_def create_error_def writes_def)
       (intro impI exI [of _ "c_id r"] exI [of _ "c_created_at r"], simp add: stats_of_def)
qed

lemma small_transaction: "lawful_transaction small_gorm stats_of"
  unfolding lawful_transaction_def
proof (intro allI)
  fix body :: "sql_view \<Rightarrow> (go_error option \<times> combat_result_resp option) \<times> sql_view" and d
  obtain err resp d1 where b: "body d = ((err, resp), d1)" by (metis surj_pair)
  show "\<exists>d0. stats_of d0 = stats_of d \<and>
        (case (g_Transaction small_gorm body d, body d0) of
           (((None, resp), d'), ((err, resp'), d1)) \<Rightarrow> err = None \<and> resp = resp' \<and> stats_of d' = stats_of d1
         | (((Some e, resp), d'), ((err, resp'), d1)) \<Rightarrow>
             stats_of d' = stats_of d \<or> err = None \<and> \<not> errors_is e ErrDuplicateCombatSettlement \<and> stats_of d' = stats_of d1)"
    by (rule exI [of _ d]) (cases err, simp_all add: small_gorm_def b)
qed

lemma small_stats: "lawful_stats_table small_gorm stats_of"
  unfolding lawful_stats_table_def
proof (intro conjI allI impI)
  fix pid lock d
  show "reads (tb_First (g_stats small_gorm) lock [by_player pid] d) (v_stats (stats_of d) pid)"
    by (simp add: small_gorm_def by_player_def)
next
  fix pid d s assume "v_stats (stats_of d) pid = Some s"
  then show "st_player_id s = pid" by (auto simp: stats_of_def split: option.splits)
next
  fix s :: player_stats and d
  have "s\<lparr>st_updated_at := 0, st_player_id := st_player_id s\<rparr> = s\<lparr>st_updated_at := 0\<rparr>" by (cases s) simp
  then show "writes (tb_Save (g_stats small_gorm) s d) stats_of (stats_of d)
      (\<lambda>v. \<exists>t. v = (stats_of d)\<lparr>v_stats := (v_stats (stats_of d))(st_player_id s \<mapsto> s\<lparr>st_updated_at := t\<rparr>)\<rparr>)"
    unfolding writes_def by (simp add: small_gorm_def stats_of_upd) (rule exI [of _ 0], simp)
next
  fix s :: player_stats and d
  have "(stats_defaults s)\<lparr>st_id := 1, st_created_at := 0, st_updated_at := 0, st_player_id := st_player_id s\<rparr> =
      (stats_defaults s)\<lparr>st_id := 1, st_created_at := 0, st_updated_at := 0\<rparr>" by (cases s) (simp add: stats_defaults_def)
  then show "writes (create_error (tb_Create (g_stats small_gorm) s d)) stats_of (stats_of d)
          (\<lambda>v. v_stats (stats_of d) (st_player_id s) = None
             \<and> (\<exists>i t. v = (stats_of d)\<lparr>v_stats := (v_stats (stats_of d))(st_player_id s \<mapsto>
                   (stats_defaults s)\<lparr>st_id := i, st_created_at := t, st_updated_at := t\<rparr>)\<rparr>))"
    unfolding writes_def create_error_def
    by (simp add: small_gorm_def stats_of_upd stats_of_row) (intro impI exI [of _ 1] exI [of _ 0], simp)
next
  fix pid n and d :: sql_view
  show "case tb_Update (g_stats small_gorm) [by_player pid, ColAtLeast ''gold'' (SqlInt n)]
             ''gold'' (Minus ''gold'' (SqlInt n)) d of
       ((Some e, rows), d') \<Rightarrow> stats_of d' = stats_of d
     | ((None, rows), d') \<Rightarrow>
         (case v_stats (stats_of d) pid of
            None \<Rightarrow> rows = 0 \<and> stats_of d' = stats_of d
          | Some s \<Rightarrow>
              if n \<le> sint (st_gold s)
              then rows = 1 \<and> sint (st_gold s) - n < 2 ^ 63 \<and> (\<exists>t. stats_of d' = (stats_of d)\<lparr>v_stats := (v_stats (stats_of d))
                     (pid \<mapsto> s\<lparr>st_gold := word_of_int (sint (st_gold s) - n), st_updated_at := t\<rparr>)\<rparr>)
              else rows = 0 \<and> stats_of d' = stats_of d)"
  proof (cases "v_stats d pid")
    case None
    then show ?thesis by (simp add: small_gorm_def by_player_def stats_of_row)
  next
    case (Some s)
    then have row: "v_stats (stats_of d) pid = Some (s\<lparr>st_player_id := pid\<rparr>)" by (simp add: stats_of_row)
    show ?thesis
    proof (cases "n \<le> sint (st_gold s) \<and> sint (st_gold s) - n < 2 ^ 63")
      case True
      have reorder: "s\<lparr>st_gold := g, st_updated_at := 0, st_player_id := pid\<rparr> =
          s\<lparr>st_player_id := pid, st_gold := g, st_updated_at := 0\<rparr>" for g by (cases s) simp
      from True Some row show ?thesis
        by (simp add: small_gorm_def by_player_def stats_of_upd reorder del: of_int_diff) (rule exI [of _ 0], rule refl)
    next
      case False
      with Some row show ?thesis by (auto simp: small_gorm_def by_player_def)
    qed
  qed
qed

lemma small_mysql: "lawful_mysql id small_gorm stats_of"
  by (simp add: lawful_mysql_def small_players small_archives small_scores small_stats small_settlements small_transaction)

section \<open>Witnesses\<close>

text \<open>A player with 150 gold, and a run of theirs.\<close>

definition rich_stats :: player_stats where
  "rich_stats = \<lparr>st_id = 1, st_player_id = 7, st_level = 1, st_exp = 0, st_gold = 150, st_max_hp = 100,
     st_max_stamina = 100, st_attack_power = 10, st_best_score = 0, st_total_kills = 0, st_total_games = 0,
     st_created_at = 0, st_updated_at = 0\<rparr>"

definition rich_view :: sql_view where
  "rich_view = \<lparr>v_players = [7 \<mapsto> (new_player ''x'')\<lparr>p_id := 7\<rparr>], v_archives = Map.empty, v_scores = [],
     v_stats = [7 \<mapsto> rich_stats], v_styles = (\<lambda>p. {}), v_settlements = Map.empty\<rparr>"

definition rich_world :: "sql_view world" where
  "rich_world = \<lparr>w_sessions = (\<lambda>s. Session_Bind 7 Session_New), w_db = rich_view\<rparr>"

definition sql_handler :: "sql_view combat_handler" where
  "sql_handler = \<lparr>ch_mysql = Some (mysql_store_of small_gorm), ch_redis = None, ch_cfg = DefaultCombatConfig,
     ch_settlement = None, ch_archives = None, ch_stats = None\<rparr>"

theorem unlock_style_outcomes_witness:
  "\<exists>res w'. UnlockStyle sql_handler (WithSession Background 1) \<lparr>usq_style_id = 2\<rparr> rich_world = (res, w')
     \<and> style_outcome 7 \<lparr>usq_style_id = 2\<rparr> res (stats_of rich_view) (stats_of (w_db w'))"
proof -
  obtain res w' where u: "UnlockStyle sql_handler (WithSession Background 1) \<lparr>usq_style_id = 2\<rparr> rich_world = (res, w')"
    by force
  have "ch_mysql sql_handler = Some (mysql_store_of small_gorm)" by (simp add: sql_handler_def)
  from unlock_style_outcomes [OF small_stats small_styles this u] u show ?thesis
    by (simp add: rich_world_def)
qed

text \<open>The run of \<open>Memory_History\<close>, reported twice.\<close>

definition sql_policy :: reward_policy where
  "sql_policy = \<lparr>GoldPerKill = 5, ExpPerKill = 10\<rparr>"

theorem mysql_settle_all_or_nothing_witness:
  "\<exists>res d'. MySQL_Settle sample_codec (Some \<lparr>ms_db = small_gorm, ms_policy = sql_policy\<rparr>) 7 (Some sample_run) rich_view = (res, d')
     \<and> (stats_of d' = stats_of rich_view
        \<or> (\<exists>r. credited_once id sample_codec sql_policy 7 sample_run r (stats_of rich_view) (stats_of d')))"
proof -
  obtain res d' where u: "MySQL_Settle sample_codec (Some \<lparr>ms_db = small_gorm, ms_policy = sql_policy\<rparr>) 7 (Some sample_run)
      rich_view = (res, d')" by force
  from mysql_settle_all_or_nothing [OF small_mysql u] u show ?thesis by blast
qed

definition credited_stats_row :: player_stats where
  "credited_stats_row = rich_stats\<lparr>st_gold := 160, st_exp := 20, st_total_kills := 2, st_total_games := 1,
     st_best_score := 10, st_level := 3\<rparr>"

definition credited_view :: sql_view where
  "credited_view = (let meta = (case CombatScoreMetadataJSON (Some sample_run) of Inr m \<Rightarrow> m | Inl e \<Rightarrow> []) in
     rich_view\<lparr>v_stats := [7 \<mapsto> credited_stats_row],
       v_scores := [\<lparr>s_id = 1, s_player_id = 7, s_score = 10, s_metadata = meta, s_created_at = 0\<rparr>],
       v_archives := [7 \<mapsto> new_archive 7 [0]],
       v_settlements := [(7, ''r1'') \<mapsto> \<lparr>c_id = 1, c_player_id = 7, c_run_id = ''r1'', c_response = [1], c_created_at = 0\<rparr>]\<rparr>)"

lemma sample_metadata: "\<exists>m. CombatScoreMetadataJSON (Some sample_run) = Inr m"
proof -
  have "f64_val (F64 0) = FFin False 0 (emin binary64)" by (simp add: Let_def decode_fval_def)
  moreover obtain ds dp where "shortest False 0 (emin binary64) (F64 0) = (ds, dp)" by force
  ultimately obtain t where "format_json (F64 0) = Some t"
    by (simp add: format_json_def Let_def del: f64_val.simps)
  then show ?thesis by (simp add: CombatScoreMetadataJSON_def sample_run_def)
qed

lemma sample_credited: "credited_once id sample_codec sql_policy 7 sample_run sample_response rich_view credited_view"
proof -
  obtain m where m: "CombatScoreMetadataJSON (Some sample_run) = Inr m" using sample_metadata by blast
  have run: "cq_run_id sample_run = ''r1''" "cq_score sample_run = 10" by (simp_all add: sample_run_def)
  have enc: "marshal sample_codec (M_PlayerArchive sample_archive) = Inr [0]"
    "marshal sample_codec (M_CombatResultResp sample_response) = Inr [1]"
    "cr_archive sample_response = Some sample_archive"
    by (simp_all add: sample_codec_def marshal_table sample_response_def)
  have st: "credit_stats sample_run sample_response rich_stats = Inr credited_stats_row"
    by (simp add: credit_stats_def sample_run_def sample_response_def rich_stats_def credited_stats_row_def
        Let_def signed_defs max_int64_def)
  have upd: "credited_stats_row\<lparr>st_updated_at := 0\<rparr> = credited_stats_row"
    by (simp add: credited_stats_row_def rich_stats_def)
  show ?thesis
    unfolding credited_once_def
    by (intro conjI exI [of _ "zero_archive\<lparr>pa_schema_version := 1\<rparr>"] exI [of _ credited_stats_row]
        exI [of _ "\<lparr>s_id = 1, s_player_id = 7, s_score = 10, s_metadata = m, s_created_at = 0\<rparr>"]
        exI [of _ "new_archive 7 [0]"]
        exI [of _ "\<lparr>c_id = 1, c_player_id = 7, c_run_id = ''r1'', c_response = [1], c_created_at = 0\<rparr>"])
       (use st upd in \<open>simp_all add: run enc m credited_view_def rich_view_def stored_archive_def credited_stats_def
          sample_settleArchive sql_policy_def marshal_pointer_def exI [of _ 0]\<close>)
qed

theorem mysql_run_credited_once_witness:
  "stats_of (snd (MySQL_Settle sample_codec (Some \<lparr>ms_db = small_gorm, ms_policy = sql_policy\<rparr>) 7 (Some sample_run)
     credited_view)) = stats_of credited_view"
proof -
  obtain res d' where u: "MySQL_Settle sample_codec (Some \<lparr>ms_db = small_gorm, ms_policy = sql_policy\<rparr>) 7 (Some sample_run)
      credited_view = (res, d')" by force
  from mysql_run_credited_once [OF small_mysql sample_codec_roundtrip sample_credited _ refl u] u show ?thesis by simp
qed


end
