(* ===== verification/GM.thy ===== *)
theory GM
  imports Data_Stores Kernel
begin

text \<open>
  The game master module, \<open>internal/gm/handler.go\<close>: commands that only configured players may send. The hub is
  reached through the interface \<open>Broadcaster\<close>; the arguments of a command are JSON, whose decoding into the two
  parameter structs is the parameter \<open>gm_json\<close>.

  Shown here: what a command may change, and what it answers.
\<close>

section \<open>The handler\<close>

record 'db broadcaster =
  bc_Broadcast :: "u16 \<Rightarrow> message \<Rightarrow> 'db \<Rightarrow> 'db"
  bc_OnlineCount :: "'db \<Rightarrow> go_int"

record 'db gm_handler =
  gm_mysql :: "'db mysql_store"
  gm_redis :: "'db redis_store"
  gm_hub :: "'db broadcaster"
  gm_adminUIDs :: "i64 \<rightharpoonup> bool"

text \<open>\<open>json.Unmarshal\<close> into the struct with the field \<open>uid\<close>, and into the one with the field \<open>content\<close>.\<close>

record gm_json =
  json_uid :: "byte list \<Rightarrow> go_error + i64"
  json_content :: "byte list \<Rightarrow> go_error + string"

definition GM_NewHandler ::
  "'db mysql_store \<Rightarrow> 'db redis_store \<Rightarrow> 'db broadcaster \<Rightarrow> i64 list \<Rightarrow> 'db gm_handler" where
  "GM_NewHandler mysql redis hub admin_uids =
     \<lparr>gm_mysql = mysql, gm_redis = redis, gm_hub = hub,
      gm_adminUIDs = fold (\<lambda>uid allowed. allowed(uid \<mapsto> True)) admin_uids Map.empty\<rparr>"

definition handleKick :: "gm_json \<Rightarrow> byte list \<Rightarrow> go_error + string" where
  "handleKick J args =
     (case json_uid J args of
        Inl err \<Rightarrow> Inl (Wrap ''invalid arguments: '' err [])
      | Inr uid \<Rightarrow>
          if uid \<le>s 0 then Inl (Text ''invalid uid'')
          else Inr (''kick requested for '' @ show_i64 uid))"

definition handleBroadcast ::
  "gm_json \<Rightarrow> 'db gm_handler \<Rightarrow> byte list \<Rightarrow> 'db \<Rightarrow> (go_error + string) \<times> 'db" where
  "handleBroadcast J h args d =
     (case json_content J args of
        Inl err \<Rightarrow> (Inl (Wrap ''invalid arguments: '' err []), d)
      | Inr content \<Rightarrow>
          if content = [] then (Inl (Text ''broadcast content is empty''), d)
          else (Inr (''broadcast sent: '' @ content),
                bc_Broadcast (gm_hub h) MsgID_GMCommandResp
                  (M_GMCommandResp \<lparr>gmr_cmd = ''broadcast'', gmr_result = content\<rparr>) d))"

definition handleQueryPlayer :: "gm_json \<Rightarrow> 'db gm_handler \<Rightarrow> byte list \<Rightarrow> 'db \<Rightarrow> go_error + string" where
  "handleQueryPlayer J h args d =
     (case json_uid J args of
        Inl err \<Rightarrow> Inl (Wrap ''invalid arguments: '' err [])
      | Inr uid \<Rightarrow>
          (case my_GetPlayerByID (gm_mysql h) uid d of
             Inl err \<Rightarrow> Inl (Wrap ''get player: '' err [])
           | Inr p \<Rightarrow> Inr (''UID='' @ show_i64 (p_id p) @ '' nickname='' @ p_nickname p
               @ '' best_score='' @ show_i64 (p_best_score p))))"

definition handleReloadConfig :: "byte list \<Rightarrow> go_error + string" where
  "handleReloadConfig args = Inr ''reload config is not implemented''"

text \<open>The switch over the command: its result or error, and the new state.\<close>

definition run_command ::
  "gm_json \<Rightarrow> 'db gm_handler \<Rightarrow> gm_command_req \<Rightarrow> 'db \<Rightarrow> (go_error + string) \<times> 'db" where
  "run_command J h req d =
     (let cmd = gmq_cmd req; args = gmq_args_json req in
      if cmd = ''kick'' then (handleKick J args, d)
      else if cmd = ''broadcast'' then handleBroadcast J h args d
      else if cmd = ''query_player'' then (handleQueryPlayer J h args d, d)
      else if cmd = ''online'' then (Inr (''online: '' @ show_i64 (bc_OnlineCount (gm_hub h) d)), d)
      else if cmd = ''reload_config'' then (handleReloadConfig args, d)
      else (Inr (''unknown command: '' @ cmd), d))"

definition GM_Command ::
  "gm_json \<Rightarrow> 'db gm_handler \<Rightarrow> go_context \<Rightarrow> gm_command_req \<Rightarrow> 'db world
     \<Rightarrow> (go_error + gm_command_resp) \<times> 'db world" where
  "GM_Command J h ctx req w =
     (let uid = uidFromCtx ctx w in
      if gm_adminUIDs h uid \<noteq> Some True
      then (Inl (NewBizError ErrUnauthorized ''GM permission required''), w)
      else
        case on_db (run_command J h req) w of
          (Inl err, w1) \<Rightarrow>
            (Inr \<lparr>gmr_cmd = gmq_cmd req, gmr_result = ''execution failed: '' @ error_text err\<rparr>, w1)
        | (Inr result, w1) \<Rightarrow> (Inr \<lparr>gmr_cmd = gmq_cmd req, gmr_result = result\<rparr>, w1))"

section \<open>Who may command, and what changes\<close>

lemma fold_allowed:
  "fold (\<lambda>uid allowed. allowed(uid \<mapsto> True)) us m x = (if x \<in> set us then Some True else m x)"
  by (induction us arbitrary: m) auto

lemma admin_iff [simp]: "gm_adminUIDs (GM_NewHandler my rd hub us) uid = Some True \<longleftrightarrow> uid \<in> set us"
  by (simp add: GM_NewHandler_def fold_allowed)

lemma GM_NewHandler_simps [simp]:
  "gm_hub (GM_NewHandler my rd hub us) = hub" "gm_mysql (GM_NewHandler my rd hub us) = my"
  by (simp_all add: GM_NewHandler_def)

text \<open>The text that a well-formed broadcast sends to everybody.\<close>

definition broadcast_content :: "gm_json \<Rightarrow> gm_command_req \<Rightarrow> string option" where
  "broadcast_content J req =
     (if gmq_cmd req = ''broadcast''
      then (case json_content J (gmq_args_json req) of Inr (c # cs) \<Rightarrow> Some (c # cs) | _ \<Rightarrow> None) else None)"

lemma run_command_state:
  "snd (run_command J h req d) =
     (case broadcast_content J req of
        None \<Rightarrow> d
      | Some content \<Rightarrow> bc_Broadcast (gm_hub h) MsgID_GMCommandResp
          (M_GMCommandResp \<lparr>gmr_cmd = ''broadcast'', gmr_result = content\<rparr>) d)"
  by (auto simp: run_command_def broadcast_content_def handleBroadcast_def Let_def split: sum.split list.split)

lemma GM_Command_refused:
  "gm_adminUIDs h (uidFromCtx ctx w) \<noteq> Some True \<Longrightarrow>
     GM_Command J h ctx req w = (Inl (NewBizError ErrUnauthorized ''GM permission required''), w)"
  by (simp add: GM_Command_def)

lemma GM_Command_runs:
  assumes "gm_adminUIDs h (uidFromCtx ctx w) = Some True"
  shows "GM_Command J h ctx req w =
    (Inr \<lparr>gmr_cmd = gmq_cmd req,
          gmr_result = (case fst (run_command J h req (w_db w)) of
              Inl err \<Rightarrow> ''execution failed: '' @ error_text err | Inr result \<Rightarrow> result)\<rparr>,
     w\<lparr>w_db := snd (run_command J h req (w_db w))\<rparr>)"
  using assms by (simp add: GM_Command_def Let_def on_db_def split: prod.split sum.split)

section \<open>Property\<close>

text \<open>
  C39: A command is refused with \<open>ErrUnauthorized\<close>, and changes nothing, unless its session is bound to a player
  of the configured list. An administrator's command is always answered, with the command's name; it leaves
  every session alone, and the only thing it ever changes is that a broadcast with a non-empty text is handed
  to the hub, once: a kick changes nothing.
\<close>

theorem gm_commands_guarded:
  "case GM_Command J (GM_NewHandler my rd hub admins) ctx req w of (r, w') \<Rightarrow>
     if uidFromCtx ctx w \<notin> set admins
     then (\<exists>m. r = Inl (BizError ErrUnauthorized m)) \<and> w' = w
     else (\<exists>text. r = Inr \<lparr>gmr_cmd = gmq_cmd req, gmr_result = text\<rparr>)
       \<and> w_sessions w' = w_sessions w
       \<and> w_db w' = (case broadcast_content J req of
            None \<Rightarrow> w_db w
          | Some content \<Rightarrow> bc_Broadcast hub MsgID_GMCommandResp
              (M_GMCommandResp \<lparr>gmr_cmd = ''broadcast'', gmr_result = content\<rparr>) (w_db w))"
proof (cases "uidFromCtx ctx w \<in> set admins")
  case True
  then show ?thesis by (simp add: GM_Command_runs run_command_state split: option.split)
next
  case False
  then show ?thesis by (simp add: GM_Command_refused NewBizError_def)
qed

end
