(* ===== verification/Wechat.thy ===== *)
theory Wechat
  imports Login Config
begin

text \<open>
  The WeChat client of \<open>internal/login/wechat.go\<close>, which exchanges a login code for an identity over HTTP. The
  HTTP client (a GET request: the error of the request, or the status and the body, whose reading may fail) and
  the JSON decoder of the answer are parameters.

  Shown here: what the client makes of every kind of answer, that an error of the request loses the URL, which
  contains the application's secret, and which reply a login gets for it.
\<close>

section \<open>The client\<close>

record http_response =
  hr_StatusCode :: go_int
  hr_Body :: "go_error + byte list"

type_synonym 'db http_client = "string \<Rightarrow> 'db \<Rightarrow> (go_error + http_response) \<times> 'db"
type_synonym session_decoder = "byte list \<Rightarrow> go_error + code2session_result"

record 'db wechat_api_client =
  wx_appID :: string
  wx_appSecret :: string
  wx_httpClient :: "'db http_client"

text \<open>An \<open>http.Client\<close> is made of its timeout, 10 seconds in nanoseconds.\<close>

definition NewWechatClient :: "(go_int \<Rightarrow> 'db http_client) \<Rightarrow> wechat_config \<Rightarrow> 'db wechat_api_client" where
  "NewWechatClient new_http cfg =
     \<lparr>wx_appID = wc_AppID cfg, wx_appSecret = wc_AppSecret cfg, wx_httpClient = new_http (10 * 1000000000)\<rparr>"

definition code2session_url :: "'db wechat_api_client \<Rightarrow> string \<Rightarrow> string" where
  "code2session_url c code =
     ''https://api.weixin.qq.com/sns/jscode2session?appid='' @ wx_appID c @ ''&secret='' @ wx_appSecret c
     @ ''&js_code='' @ code @ ''&grant_type=authorization_code''"

definition newWechatTransportError :: "go_error \<Rightarrow> go_error" where
  "newWechatTransportError err =
     WechatTransportError
       (case List.find (\<lambda>e. case e of UrlError _ _ _ \<Rightarrow> True | _ \<Rightarrow> False) (error_chain err) of
          Some (UrlError op url (Some cause)) \<Rightarrow> cause
        | _ \<Rightarrow> err)"

definition wechatAPIError :: "code2session_result \<Rightarrow> go_error" where
  "wechatAPIError result =
     (if w_ErrCode result = 40029
      then Wrap [] (Sentinel ErrInvalidLoginCode)
             ('': wechat API code='' @ show_i64 (w_ErrCode result) @ '' msg='' @ w_ErrMsg result)
      else Text (''wechat API error: code='' @ show_i64 (w_ErrCode result) @ '' msg='' @ w_ErrMsg result))"

definition Code2Session :: "session_decoder \<Rightarrow> 'db wechat_api_client \<Rightarrow> 'db wechat_client" where
  "Code2Session unmarshal_json c code d =
     (case wx_httpClient c (code2session_url c code) d of
        (Inl err, d1) \<Rightarrow> (Inl (newWechatTransportError err), d1)
      | (Inr resp, d1) \<Rightarrow>
          (case hr_Body resp of
             Inl err \<Rightarrow> (Inl (Wrap (bytes_of [0xE8, 0xAF, 0xBB, 0xE5, 0x8F, 0x96, 0xE5, 0xBE, 0xAE, 0xE4, 0xBF,
               0xA1, 0xE5, 0x93, 0x8D, 0xE5, 0xBA, 0x94, 0xE5, 0xA4, 0xB1, 0xE8, 0xB4, 0xA5] @ '': '') err []), d1)
           | Inr body \<Rightarrow>
               if hr_StatusCode resp <s 200 \<or> 300 \<le>s hr_StatusCode resp
               then (Inl (Wrap [] (Sentinel ErrWechatUpstreamResponse)
                      ('': HTTP status '' @ show_i64 (hr_StatusCode resp))), d1)
               else
                 (case unmarshal_json body of
                    Inl err \<Rightarrow> (Inl (Wrap (bytes_of [0xE8, 0xA7, 0xA3, 0xE6, 0x9E, 0x90, 0xE5, 0xBE, 0xAE, 0xE4,
                      0xBF, 0xA1, 0xE5, 0x93, 0x8D, 0xE5, 0xBA, 0x94, 0xE5, 0xA4, 0xB1, 0xE8, 0xB4, 0xA5] @ '': '')
                      err []), d1)
                  | Inr result \<Rightarrow>
                      if w_ErrCode result \<noteq> 0 then (Inl (wechatAPIError result), d1)
                      else if trim_space (w_OpenID result) = [] then (Inl ErrWechatIdentityMissing, d1)
                      else (Inr (Some result), d1))))"

section \<open>Errors of the request\<close>

text \<open>The request's URL, which contains the secret, is in no text of the error that the client returns, and an
  error of \<open>net/http\<close>, a \<open>*url.Error\<close> with a cause, is not in its chain.\<close>

lemma transport_error_text: "error_text (newWechatTransportError err) = ''wechat API request failed''"
  by (simp add: newWechatTransportError_def)

lemma transport_error_url:
  "newWechatTransportError (UrlError op url (Some cause)) = WechatTransportError cause"
  by (simp add: newWechatTransportError_def)

lemma transport_error_cause:
  "\<exists>e. newWechatTransportError err = WechatTransportError e \<and> set (error_chain e) \<subseteq> set (error_chain err)"
proof (cases "List.find (\<lambda>e. case e of UrlError _ _ _ \<Rightarrow> True | _ \<Rightarrow> False) (error_chain err)")
  case None
  then show ?thesis by (simp add: newWechatTransportError_def)
next
  case (Some u)
  have sub: "u \<in> set (error_chain e) \<Longrightarrow> set (error_chain u) \<subseteq> set (error_chain e)" for e
    by (induction e rule: error_chain.induct) auto
  from Some have "u \<in> set (error_chain err)" by (auto simp: find_Some_iff)
  from sub [OF this] Some show ?thesis
    by (auto simp: newWechatTransportError_def split: go_error.split option.split)
qed

section \<open>What WeChat says\<close>

datatype wechat_verdict = Accepted string | CodeRejected | Unavailable

definition wechat_verdict :: "session_decoder \<Rightarrow> go_error + http_response \<Rightarrow> wechat_verdict" where
  "wechat_verdict unmarshal_json answer =
     (case answer of
        Inl err \<Rightarrow> Unavailable
      | Inr resp \<Rightarrow>
          if sint (hr_StatusCode resp) < 200 \<or> 299 < sint (hr_StatusCode resp) then Unavailable
          else
            case hr_Body resp of
              Inl err \<Rightarrow> Unavailable
            | Inr body \<Rightarrow>
                (case unmarshal_json body of
                   Inl err \<Rightarrow> Unavailable
                 | Inr r \<Rightarrow>
                     if w_ErrCode r = 40029 then CodeRejected
                     else if w_ErrCode r = 0 \<and> trim_space (w_OpenID r) \<noteq> [] then Accepted (w_OpenID r)
                     else Unavailable))"

text \<open>The errors of the HTTP client, of the body and of the decoder are not the program's own sentinel.\<close>

definition foreign_errors :: "session_decoder \<Rightarrow> 'db http_client \<Rightarrow> bool" where
  "foreign_errors unmarshal_json http \<longleftrightarrow>
     (\<forall>url d. case fst (http url d) of
         Inl e \<Rightarrow> \<not> errors_is e ErrInvalidLoginCode
       | Inr resp \<Rightarrow> (case hr_Body resp of
             Inl e \<Rightarrow> \<not> errors_is e ErrInvalidLoginCode
           | Inr body \<Rightarrow> (case unmarshal_json body of Inl e \<Rightarrow> \<not> errors_is e ErrInvalidLoginCode | Inr r \<Rightarrow> True)))"

lemma transport_error_is:
  "\<not> errors_is e s \<Longrightarrow> \<not> errors_is (newWechatTransportError e) s"
  using transport_error_cause [of e] by (auto simp: errors_is_def)

lemma Code2Session_verdict:
  assumes "foreign_errors uj (wx_httpClient c)" and h: "wx_httpClient c (code2session_url c code) d = (answer, d1)"
  shows "case wechat_verdict uj answer of
      Accepted x \<Rightarrow> trim_space x \<noteq> [] \<and> (\<exists>r. Code2Session uj c code d = (Inr (Some r), d1) \<and> w_OpenID r = x)
    | CodeRejected \<Rightarrow> \<exists>e. Code2Session uj c code d = (Inl e, d1) \<and> errors_is e ErrInvalidLoginCode
    | Unavailable \<Rightarrow> \<exists>e. Code2Session uj c code d = (Inl e, d1) \<and> \<not> errors_is e ErrInvalidLoginCode"
proof -
  have f: "case answer of
         Inl e \<Rightarrow> \<not> errors_is e ErrInvalidLoginCode
       | Inr resp \<Rightarrow> (case hr_Body resp of
             Inl e \<Rightarrow> \<not> errors_is e ErrInvalidLoginCode
           | Inr body \<Rightarrow> (case uj body of Inl e \<Rightarrow> \<not> errors_is e ErrInvalidLoginCode | Inr r \<Rightarrow> True))"
    using assms(1) h unfolding foreign_errors_def by (metis fst_conv)
  have status: "(n <s 200 \<or> 300 \<le>s n) = (sint n < 200 \<or> 299 < sint n)" for n :: go_int
    by (auto simp: word_sless_alt word_sle_eq)
  show ?thesis
  proof (cases answer)
    case (Inl e)
    then show ?thesis
      using f h by (simp add: Code2Session_def wechat_verdict_def transport_error_is)
  next
    case (Inr resp)
    note a = this
    show ?thesis
    proof (cases "hr_Body resp")
      case (Inl e)
      then show ?thesis using f h a by (simp add: Code2Session_def wechat_verdict_def)
    next
      case (Inr body)
      then show ?thesis
        using f h a
        by (auto simp: Code2Session_def wechat_verdict_def status wechatAPIError_def ErrWechatIdentityMissing_def
            split: sum.splits)
    qed
  qed
qed

section \<open>Property\<close>

text \<open>
  C35: What a login with a WeChat code gets depends on WeChat's answer alone. A code that WeChat calls invalid
  (40029) is answered with \<open>ErrLoginInvalidCode\<close>; every other failure, of the connection, of the status, of the
  body or of the API, with \<open>ErrLoginWechatFailed\<close>; in both cases the state is left as the exchange left it and
  the session is not bound. Only an accepted code with a non-blank identity logs in, as the player of that
  identity.
\<close>

theorem wechat_login_replies:
  assumes "foreign_errors uj (wx_httpClient c)"
    and "ls_exchanger svc = WechatCodeExchanger_Exchange (Some (Code2Session uj c))"
    and "\<not> has_prefix (lq_code req) ''dev:''" and "trim_space (lq_code req) \<noteq> []"
    and "wx_httpClient c (code2session_url c (lq_code req)) (w_db w) = (answer, d1)"
  shows "case wechat_verdict uj answer of
      CodeRejected \<Rightarrow> \<exists>m. Login_Login svc ctx req w = (Inl (BizError ErrLoginInvalidCode m), w\<lparr>w_db := d1\<rparr>)
    | Unavailable \<Rightarrow> \<exists>m. Login_Login svc ctx req w = (Inl (BizError ErrLoginWechatFailed m), w\<lparr>w_db := d1\<rparr>)
    | Accepted x \<Rightarrow> \<forall>r w'. Login_Login svc ctx req w = (Inr r, w') \<longrightarrow>
        (\<exists>p d2. login_player svc x d1 = (Inr p, d2) \<and> lr_uid r = p_id p \<and> lr_nickname r = p_nickname p)"
proof -
  note c = Code2Session_verdict [OF assms(1,5)]
  show ?thesis
  proof (cases "wechat_verdict uj answer")
    case (Accepted x)
    with c obtain r where "trim_space x \<noteq> []" "Code2Session uj c (lq_code req) (w_db w) = (Inr (Some r), d1)"
      "w_OpenID r = x" by auto
    then have "ls_exchanger svc (lq_code req) (w_db w) = (Inr \<lparr>li_open_id = x\<rparr>, d1)"
      using assms(2-4) by (simp add: WechatCodeExchanger_Exchange_def)
    with Accepted show ?thesis
      by (auto simp: Login_Login_def on_db_def LoginService_Login_def Let_def
          split: prod.splits sum.splits option.splits)
  next
    case CodeRejected
    with c obtain e where "Code2Session uj c (lq_code req) (w_db w) = (Inl e, d1)" "errors_is e ErrInvalidLoginCode"
      by auto
    with CodeRejected assms(2-4) show ?thesis
      by (simp add: Login_Login_def on_db_def LoginService_Login_def WechatCodeExchanger_Exchange_def
          classifyLoginError_def NewBizError_def)
  next
    case Unavailable
    with c obtain e where "Code2Session uj c (lq_code req) (w_db w) = (Inl e, d1)" "\<not> errors_is e ErrInvalidLoginCode"
      by auto
    with Unavailable assms(2-4) show ?thesis
      by (simp add: Login_Login_def on_db_def LoginService_Login_def WechatCodeExchanger_Exchange_def
          classifyLoginError_def NewBizError_def)
  qed
qed

text \<open>A server that calls every code invalid, and stores in which a login finds nobody.\<close>

definition rejecting_client :: "unit wechat_api_client" where
  "rejecting_client =
     \<lparr>wx_appID = ''app'', wx_appSecret = ''secret'',
      wx_httpClient = (\<lambda>url d. (Inr \<lparr>hr_StatusCode = 200, hr_Body = Inr []\<rparr>, d))\<rparr>"

definition rejecting_decoder :: session_decoder where
  "rejecting_decoder body =
     Inr \<lparr>w_OpenID = [], w_SessionKey = [], w_UnionID = [], w_ErrCode = 40029, w_ErrMsg = ''invalid code''\<rparr>"

definition nobody_service :: "unit login_service" where
  "nobody_service =
     \<lparr>ls_players = \<lparr>GetPlayerByID = (\<lambda>i d. Inl (Sentinel ErrNotFound)), GetPlayerByOpenID = (\<lambda>x d. Inl (Sentinel ErrNotFound)),
        CreatePlayer = (\<lambda>p d. (Inr p, d)), UpdatePlayer = (\<lambda>p d. (None, d))\<rparr>,
      ls_sessions = \<lparr>SetSession = (\<lambda>i x d. (None, d)), GetSession = (\<lambda>i d. Inr None), DelSession = (\<lambda>i d. (None, d))\<rparr>,
      ls_exchanger = WechatCodeExchanger_Exchange (Some (Code2Session rejecting_decoder rejecting_client)),
      ls_generate = (\<lambda>d. (Inr ''token'', d))\<rparr>"

theorem wechat_login_replies_witness:
  "\<exists>m. Login_Login nobody_service Background \<lparr>lq_code = ''7''\<rparr> \<lparr>w_sessions = (\<lambda>s. Session_New), w_db = ()\<rparr> =
     (Inl (BizError ErrLoginInvalidCode m), \<lparr>w_sessions = (\<lambda>s. Session_New), w_db = ()\<rparr>)"
proof -
  have "foreign_errors rejecting_decoder (wx_httpClient rejecting_client)"
    by (simp add: foreign_errors_def rejecting_client_def rejecting_decoder_def)
  moreover have "ls_exchanger nobody_service = WechatCodeExchanger_Exchange (Some (Code2Session rejecting_decoder rejecting_client))"
    by (simp add: nobody_service_def)
  moreover have "\<not> has_prefix ''7'' ''dev:''" by (simp add: has_prefix_def)
  moreover have "trim_space ''7'' \<noteq> []" 
    by (simp add: trim_space_id leading_def space_encodings_def bytes_of_def has_prefix_def char_of_def bit_simps)
  moreover have "wx_httpClient rejecting_client url d = (Inr \<lparr>hr_StatusCode = 200, hr_Body = Inr []\<rparr>, d)" for url d
    by (simp add: rejecting_client_def)
  ultimately show ?thesis
    using wechat_login_replies [of rejecting_decoder rejecting_client nobody_service "\<lparr>lq_code = ''7''\<rparr>"
        "\<lparr>w_sessions = (\<lambda>s. Session_New), w_db = ()\<rparr>" "Inr \<lparr>hr_StatusCode = 200, hr_Body = Inr []\<rparr>" "()" Background]
    by (simp add: wechat_verdict_def rejecting_decoder_def)
qed

end
