(* ===== verification/Prod_Runtime.thy ===== *)
theory Prod_Runtime
  imports Dev_Runtime MySQL_Settlement Rank GM Wechat
begin

text \<open>
  The production composition of \<open>newRuntime\<close> in \<open>cmd/server/main.go\<close>, and the closing of its resources. What the
  composition takes from outside the repository is one record: the database driver, the Redis client, the HTTP
  client, the random source, the decoders, the scheduler and the hub.

  Shown here: a start that fails leaves nothing open, and one that succeeds handles every route of the route
  table; what a request passes before its handler runs; and that each resource is closed once.
\<close>

section \<open>The stores as repositories\<close>

definition mysql_players :: "'db mysql_store \<Rightarrow> 'db player_repository" where
  "mysql_players my =
     \<lparr>GetPlayerByID = (\<lambda>i d. map_sum id Some (my_GetPlayerByID my i d)),
      GetPlayerByOpenID = (\<lambda>x d. map_sum id Some (my_GetPlayerByOpenID my x d)),
      CreatePlayer = my_CreatePlayer my, UpdatePlayer = my_UpdatePlayer my\<rparr>"

definition mysql_archives :: "'db mysql_store \<Rightarrow> 'db archive_repository" where
  "mysql_archives my =
     \<lparr>GetArchive = (\<lambda>i d. map_sum id Some (my_GetArchive my i d)), SaveArchive = my_SaveArchive my\<rparr>"

text \<open>The production handler of the combat module; the left side is the panic of an invalid reward policy.\<close>

definition Combat_NewHandler ::
  "codec \<Rightarrow> 'db gorm \<Rightarrow> 'db redis_store \<Rightarrow> go_error + 'db combat_handler" where
  "Combat_NewHandler C mysql redis =
     (let cfg = DefaultCombatConfig in
      case NewMySQLCombatSettlementRepository (Some mysql) (settlementRewardPolicy cfg) of
        Inl panic \<Rightarrow> Inl panic
      | Inr repository \<Rightarrow>
          Inr \<lparr>ch_mysql = Some (mysql_store_of mysql), ch_redis = Some redis, ch_cfg = cfg,
               ch_settlement = Some (NewSettlementService
                 (Some (\<lambda>pid req. MySQL_Settle C repository pid (Some req))) (Some cfg)),
               ch_archives = Some (mysql_archives (mysql_store_of mysql)), ch_stats = None\<rparr>)"

section \<open>Opening and closing the stores\<close>

type_synonym 'db closer = "'db \<Rightarrow> go_error option \<times> 'db"

record 'db platform =
  pf_codec :: codec
  pf_mysql :: "string \<Rightarrow> 'db \<Rightarrow> (go_error + 'db gorm) \<times> 'db"
  pf_redis :: "string \<Rightarrow> string \<Rightarrow> go_int \<Rightarrow> 'db redis_client"
  pf_http :: "go_int \<Rightarrow> 'db http_client"
  pf_wechat_json :: session_decoder
  pf_rand :: "'db \<Rightarrow> (go_error + byte list) \<times> 'db"
  pf_metadata_text :: "score_metadata \<Rightarrow> string"
  pf_spawn :: "('db \<Rightarrow> 'db) \<Rightarrow> 'db \<Rightarrow> 'db"
  pf_gm_json :: gm_json
  pf_hub :: "'db broadcaster"

definition openMySQLStore ::
  "'db platform \<Rightarrow> mysql_config \<Rightarrow> 'db \<Rightarrow> (go_error + 'db gorm \<times> 'db closer option) \<times> 'db" where
  "openMySQLStore P cfg d =
     (case NewMySQLStore (pf_mysql P) cfg d of
        (Inl err, d1) \<Rightarrow> (Inl err, d1)
      | (Inr store, d1) \<Rightarrow> (Inr (store, Some (MySQL_Close store)), d1))"

definition openRedisStore ::
  "'db platform \<Rightarrow> redis_config \<Rightarrow> 'db \<Rightarrow> (go_error + 'db redis_client \<times> 'db closer option) \<times> 'db" where
  "openRedisStore P cfg d =
     (case NewRedisStore (pf_redis P) cfg d of
        (Inl err, d1) \<Rightarrow> (Inl err, d1)
      | (Inr store, d1) \<Rightarrow> (Inr (store, Some (Redis_Close store)), d1))"

text \<open>The closure of \<open>newRuntimeClose\<close>: its variables \<open>once\<close> and \<open>firstErr\<close>, and a call.\<close>

record close_state =
  cs_once :: bool
  cs_firstErr :: "go_error option"

definition newRuntimeClose :: close_state where
  "newRuntimeClose = \<lparr>cs_once = False, cs_firstErr = None\<rparr>"

fun run_closers :: "'db closer option list \<Rightarrow> go_error option \<Rightarrow> 'db \<Rightarrow> go_error option \<times> 'db" where
  "run_closers [] first d = (first, d)"
| "run_closers (None # cs) first d = run_closers cs first d"
| "run_closers (Some close # cs) first d =
     (case close d of (err, d1) \<Rightarrow> run_closers cs (if err \<noteq> None \<and> first = None then err else first) d1)"

definition runtime_close ::
  "'db closer option list \<Rightarrow> close_state \<Rightarrow> 'db \<Rightarrow> go_error option \<times> close_state \<times> 'db" where
  "runtime_close closers st d =
     (if cs_once st then (cs_firstErr st, st, d)
      else
        case run_closers closers (cs_firstErr st) d of
          (first, d1) \<Rightarrow> (first, \<lparr>cs_once = True, cs_firstErr = first\<rparr>, d1))"

section \<open>The composition\<close>

definition prod_login_service :: "'db platform \<Rightarrow> wechat_config \<Rightarrow> 'db mysql_store \<Rightarrow> 'db redis_store \<Rightarrow> 'db login_service" where
  "prod_login_service P cfg my rd =
     \<lparr>ls_players = mysql_players my, ls_sessions = redis_sessions rd,
      ls_exchanger = WechatCodeExchanger_Exchange
        (Some (Code2Session (pf_wechat_json P) (NewWechatClient (pf_http P) cfg))),
      ls_generate = GenerateToken (pf_rand P)\<rparr>"

definition rank_registrations :: "'db platform \<Rightarrow> 'db rank_handler \<Rightarrow> 'db world registration list" where
  "rank_registrations P h =
     [(MsgID_GetRankReq, Some (typed_func T_GetRankReq T_GetRankResp
         (\<lambda>m. case m of M_GetRankReq q \<Rightarrow> Some q | _ \<Rightarrow> None) M_GetRankResp (Rank_GetRank h)), []),
      (MsgID_SubmitScoreReq, Some (typed_func T_SubmitScoreReq T_SubmitScoreResp
         (\<lambda>m. case m of M_SubmitScoreReq q \<Rightarrow> Some q | _ \<Rightarrow> None) M_SubmitScoreResp
         (SubmitScore (pf_metadata_text P) (pf_spawn P) h)), [])]"

definition combat_registrations :: "codec \<Rightarrow> 'db combat_handler \<Rightarrow> 'db world registration list" where
  "combat_registrations C h =
     [combat_result_registration h,
      (MsgID_GetEnemyConfigsReq, Some (typed_func T_GetEnemyConfigsReq T_GetEnemyConfigsResp
         (\<lambda>m. case m of M_GetEnemyConfigsReq q \<Rightarrow> Some q | _ \<Rightarrow> None) M_GetEnemyConfigsResp (Combat_GetEnemyConfigs h)), []),
      (MsgID_GetDungeonConfigReq, Some (typed_func T_GetDungeonConfigReq T_GetDungeonConfigResp
         (\<lambda>m. case m of M_GetDungeonConfigReq q \<Rightarrow> Some q | _ \<Rightarrow> None) M_GetDungeonConfigResp (Combat_GetDungeonConfig h)), []),
      (MsgID_GetStyleConfigsReq, Some (typed_func T_GetStyleConfigsReq T_GetStyleConfigsResp
         (\<lambda>m. case m of M_GetStyleConfigsReq q \<Rightarrow> Some q | _ \<Rightarrow> None) M_GetStyleConfigsResp (Combat_GetStyleConfigs h)), []),
      (MsgID_UnlockStyleReq, Some (typed_func T_UnlockStyleReq T_UnlockStyleResp
         (\<lambda>m. case m of M_UnlockStyleReq q \<Rightarrow> Some q | _ \<Rightarrow> None) M_UnlockStyleResp (UnlockStyle h)), []),
      player_stats_registration C h,
      (MsgID_UpdatePlayerStatsReq, Some (typed_func T_UpdatePlayerStatsReq T_UpdatePlayerStatsResp
         (\<lambda>m. case m of M_UpdatePlayerStatsReq q \<Rightarrow> Some q | _ \<Rightarrow> None) M_UpdatePlayerStatsResp (UpdatePlayerStats h)), [])]"

definition gm_registration :: "'db platform \<Rightarrow> 'db gm_handler \<Rightarrow> 'db world registration" where
  "gm_registration P h =
     (MsgID_GMCommandReq, Some (typed_func T_GMCommandReq T_GMCommandResp
        (\<lambda>m. case m of M_GMCommandReq q \<Rightarrow> Some q | _ \<Rightarrow> None) M_GMCommandResp (GM_Command (pf_gm_json P) h)), [])"

definition prod_registrations ::
  "'db platform \<Rightarrow> config \<Rightarrow> 'db gorm \<Rightarrow> 'db redis_client \<Rightarrow> 'db combat_handler \<Rightarrow> 'db world registration list" where
  "prod_registrations P cfg db c combat =
     (let my = mysql_store_of db; rd = redis_store_of c; C = pf_codec P in
      create_order_registration
      # registerOnlineSessionHandlers C (prod_login_service P (cf_Wechat cfg) my rd) (mysql_archives my)
      @ rank_registrations P (Rank_NewHandler rd my)
      @ combat_registrations C combat
      @ [gm_registration P (GM_NewHandler my rd (pf_hub P) (gm_AdminUIDs (cf_GM cfg)))])"

record 'db prod_runtime =
  pr_kernel :: "'db world kernel"
  pr_close :: "'db closer option list"
  pr_development :: bool

definition newProductionRuntime ::
  "'db platform \<Rightarrow> config \<Rightarrow> 'db \<Rightarrow> (start_failure + 'db prod_runtime) \<times> 'db" where
  "newProductionRuntime P cfg d =
     (if wc_PaymentEnabled (cf_Wechat cfg)
      then (Inl (StartError (Text ''payment is enabled but secure payment provider is unavailable'')), d)
      else
        case openMySQLStore P (cf_MySQL cfg) d of
          (Inl err, d1) \<Rightarrow> (Inl (StartError (Wrap ''initialize mysql: '' err [])), d1)
        | (Inr (db, closeMySQL), d1) \<Rightarrow>
            (case openRedisStore P (cf_Redis cfg) d1 of
               (Inl err, d2) \<Rightarrow>
                 (Inl (StartError (Wrap ''initialize redis: '' err [])),
                  case closeMySQL of None \<Rightarrow> d2 | Some close \<Rightarrow> ignoring close d2)
             | (Inr (c, closeRedis), d2) \<Rightarrow>
                 let rd = redis_store_of c in
                 case Combat_NewHandler (pf_codec P) db rd of
                   Inl panic \<Rightarrow> (Inl (PolicyPanic panic), d2)
                 | Inr combat \<Rightarrow>
                     (case register_all (prod_registrations P cfg db c combat) (Kernel_New (Some Hooks_New)) of
                        Inl p \<Rightarrow> (Inl (RegisterPanic p), d2)
                      | Inr k \<Rightarrow>
                          (Inr \<lparr>pr_kernel = k\<lparr>k_hooks := AddBefore (RateLimit rd k 100 1000000000)
                                   (AddBefore (Auth (redis_sessions rd) k) (k_hooks k))\<rparr>,
                                pr_close = [closeRedis, closeMySQL], pr_development = False\<rparr>, d2))))"

text \<open>\<open>newRuntime\<close>: the development runtime works on its own state, the production runtime on the platform's.\<close>

definition newRuntime ::
  "'db platform \<Rightarrow> ('r \<Rightarrow> (go_error + byte list) \<times> 'r) \<Rightarrow> config \<Rightarrow> 'db
     \<Rightarrow> ((start_failure + 'r dev_runtime) + (start_failure + 'db prod_runtime)) \<times> 'db" where
  "newRuntime P rand cfg d =
     (if dv_Enabled (cf_Development cfg) then (Inl (newDevelopmentRuntime (pf_codec P) rand cfg), d)
      else case newProductionRuntime P cfg d of (rt, d1) \<Rightarrow> (Inr rt, d1))"

section \<open>Registering a list of typed handlers\<close>

text \<open>A registration that the kernel accepts, if the id is still free, and whose handler answers.\<close>

definition fits :: "'w registration \<Rightarrow> bool" where
  "fits x \<longleftrightarrow> (case x of (i, f, opts) \<Rightarrow>
     set opts \<subseteq> {AuthFree} \<and>
     (case (RouteFor i, f) of
        (Some r, Some g) \<Rightarrow> handler_shape g \<and> fn_in g ! 1 = PtrTo (request_prototype r)
          \<and> fn_out g ! 0 = PtrTo (response_prototype r) \<and> func_typed g
          \<and> (\<forall>ctx m w. fst (fn_value g ctx m w) \<noteq> (None, None))
      | _ \<Rightarrow> False))"

definition route_entry :: "u16 \<Rightarrow> 'w go_func option \<times> 'w register_option list \<Rightarrow> 'w handler_entry" where
  "route_entry i x = fold (\<lambda>opt e. opt e) (snd x)
     \<lparr>respID = response_id (the (RouteFor i)), reqType = request_prototype (the (RouteFor i)),
      fn = fn_value (the (fst x)), authFree = False\<rparr>"

lemma fits_typed:
  assumes "map_option (\<lambda>r. (request_prototype r, response_prototype r)) (RouteFor i) = Some (tq, tp)"
    "\<forall>x. type_of_message (wrap x) = tp" "set opts \<subseteq> {AuthFree}"
  shows "fits (i, Some (typed_func tq tp arg wrap h), opts)"
  using assms typed_func_typed [of wrap tp tq arg h]
  by (auto simp: fits_def handler_shape_def typed_func_shape typed_func_answers)

lemma RegisterRoute_fits:
  assumes "fits (i, f, opts)" "handlers k i = None"
  shows "RegisterRoute i f opts k = Inr (k\<lparr>handlers := (handlers k)(i \<mapsto> route_entry i (f, opts))\<rparr>)"
proof -
  from assms(1) obtain r g where "RouteFor i = Some r" "f = Some g" "handler_shape g"
    "fn_in g ! 1 = PtrTo (request_prototype r)" "fn_out g ! 0 = PtrTo (response_prototype r)"
    by (auto simp: fits_def split: option.splits)
  with assms(2) show ?thesis
    by (simp add: RegisterRoute_def Register_def Let_def route_entry_def)
qed

lemma RegisterRoute_built:
  assumes "fits (i, f, opts)" "built k" "RegisterRoute i f opts k = Inr k'"
  shows "built k'"
proof -
  from assms(3) obtain r where r: "RouteFor i = Some r" "Register i (response_id r) f opts k = Inr k'"
    by (auto simp: RegisterRoute_def split: option.splits)
  with assms(1) have "set opts \<subseteq> {AuthFree}" "\<forall>g. f = Some g \<longrightarrow> func_typed g"
    by (auto simp: fits_def split: option.splits)
  with built_register [OF assms(2) r(2)] show ?thesis by blast
qed

lemma register_all_fits:
  assumes "\<forall>x \<in> set rs. fits x" "distinct (map fst rs)" "\<forall>i \<in> fst ` set rs. handlers k i = None" "built k"
  shows "\<exists>k'. register_all rs k = Inr k' \<and> k_hooks k' = k_hooks k \<and> built k'
    \<and> handlers k' = (\<lambda>i. case map_of rs i of Some x \<Rightarrow> Some (route_entry i x) | None \<Rightarrow> handlers k i)"
  using assms
proof (induction rs arbitrary: k)
  case Nil
  then show ?case by simp
next
  case (Cons x rs)
  obtain i f opts where x: "x = (i, f, opts)" by (cases x) auto
  let ?k = "k\<lparr>handlers := (handlers k)(i \<mapsto> route_entry i (f, opts))\<rparr>"
  from Cons.prems x have fit: "fits (i, f, opts)" and free: "handlers k i = None" by simp_all
  note reg = RegisterRoute_fits [OF fit free]
  have "built ?k" by (rule RegisterRoute_built [OF fit Cons.prems(4) reg])
  moreover have "\<forall>j \<in> fst ` set rs. handlers ?k j = None"
  proof
    fix j
    assume j: "j \<in> fst ` set rs"
    with Cons.prems(2) x have "j \<noteq> i" by auto
    with j Cons.prems(3) show "handlers ?k j = None" by auto
  qed
  ultimately obtain k' where k': "register_all rs ?k = Inr k'" "k_hooks k' = k_hooks k" "built k'"
    "handlers k' = (\<lambda>j. case map_of rs j of Some y \<Rightarrow> Some (route_entry j y) | None \<Rightarrow> handlers ?k j)"
    using Cons.IH [of ?k] Cons.prems(1,2) by auto
  have "map_of rs i = None" using Cons.prems(2) x by (simp add: map_of_eq_None_iff)
  then have "handlers k' = (\<lambda>j. case map_of (x # rs) j of Some y \<Rightarrow> Some (route_entry j y) | None \<Rightarrow> handlers k j)"
    by (simp add: k'(4) x fun_eq_iff split: option.split)
  moreover have "register_all (x # rs) k = Inr k'" using k'(1) by (simp add: x reg)
  ultimately show ?case using k'(2,3) by blast
qed

lemma register_all_new:
  assumes "\<forall>x \<in> set rs. fits x" "distinct (map fst rs)"
  shows "\<exists>k. register_all rs (Kernel_New (Some h)) = Inr k \<and> k_hooks k = h \<and> built k
    \<and> handlers k = (\<lambda>i. map_option (route_entry i) (map_of rs i))"
proof -
  have "handlers (Kernel_New (Some h)) i = None" "k_hooks (Kernel_New (Some h)) = h" for i
    by (simp_all add: Kernel_New_def)
  moreover have "(\<lambda>i. case map_of rs i of Some x \<Rightarrow> Some (route_entry i x) | None \<Rightarrow> None)
      = (\<lambda>i. map_option (route_entry i) (map_of rs i))"
    by (simp add: fun_eq_iff split: option.split)
  ultimately show ?thesis
    using register_all_fits [OF assms, of "Kernel_New (Some h)"] built_new [of "Some h"] by (simp cong: option.case_cong)
qed

lemma route_entry_simps [simp]:
  "authFree (route_entry i (f, [])) = False" "authFree (route_entry i (f, [AuthFree])) = True"
  by (simp_all add: route_entry_def AuthFree_def)

lemma answers_fits:
  assumes "\<forall>x \<in> set rs. fits x" "handlers k = (\<lambda>i. map_option (route_entry i) (map_of rs i))"
  shows "answers k"
  unfolding answers_def
proof (intro allI impI)
  fix i e ctx m w
  assume "handlers k i = Some e"
  with assms(2) obtain f opts where m: "map_of rs i = Some (f, opts)" "e = route_entry i (f, opts)" by auto
  then have "fits (i, f, opts)" using assms(1) map_of_SomeD by metis
  then have "set opts \<subseteq> {AuthFree}" "\<exists>g. f = Some g \<and> (\<forall>ctx m w. fst (fn_value g ctx m w) \<noteq> (None, None))"
    by (auto simp: fits_def split: option.splits)
  with m(2) show "fst (fn e ctx m w) \<noteq> (None, None)" by (auto simp: route_entry_def fold_AuthFree)
qed

section \<open>The production kernel\<close>

lemma prod_routes:
  "RouteFor MsgID_GetRankReq = Some \<lparr>request_id = MsgID_GetRankReq, response_id = MsgID_GetRankResp,
     request_prototype = T_GetRankReq, response_prototype = T_GetRankResp\<rparr>"
  "RouteFor MsgID_SubmitScoreReq = Some \<lparr>request_id = MsgID_SubmitScoreReq, response_id = MsgID_SubmitScoreResp,
     request_prototype = T_SubmitScoreReq, response_prototype = T_SubmitScoreResp\<rparr>"
  "RouteFor MsgID_GetEnemyConfigsReq = Some \<lparr>request_id = MsgID_GetEnemyConfigsReq,
     response_id = MsgID_GetEnemyConfigsResp, request_prototype = T_GetEnemyConfigsReq,
     response_prototype = T_GetEnemyConfigsResp\<rparr>"
  "RouteFor MsgID_GetDungeonConfigReq = Some \<lparr>request_id = MsgID_GetDungeonConfigReq,
     response_id = MsgID_GetDungeonConfigResp, request_prototype = T_GetDungeonConfigReq,
     response_prototype = T_GetDungeonConfigResp\<rparr>"
  "RouteFor MsgID_GetStyleConfigsReq = Some \<lparr>request_id = MsgID_GetStyleConfigsReq,
     response_id = MsgID_GetStyleConfigsResp, request_prototype = T_GetStyleConfigsReq,
     response_prototype = T_GetStyleConfigsResp\<rparr>"
  "RouteFor MsgID_UnlockStyleReq = Some \<lparr>request_id = MsgID_UnlockStyleReq, response_id = MsgID_UnlockStyleResp,
     request_prototype = T_UnlockStyleReq, response_prototype = T_UnlockStyleResp\<rparr>"
  "RouteFor MsgID_UpdatePlayerStatsReq = Some \<lparr>request_id = MsgID_UpdatePlayerStatsReq,
     response_id = MsgID_UpdatePlayerStatsResp, request_prototype = T_UpdatePlayerStatsReq,
     response_prototype = T_UpdatePlayerStatsResp\<rparr>"
  "RouteFor MsgID_GMCommandReq = Some \<lparr>request_id = MsgID_GMCommandReq, response_id = MsgID_GMCommandResp,
     request_prototype = T_GMCommandReq, response_prototype = T_GMCommandResp\<rparr>"
  by (simp_all add: RouteFor_def canonical_routes_def msg_id_defs)

lemmas registration_defs = create_order_registration_def registerOnlineSessionHandlers_def
  combat_result_registration_def player_stats_registration_def rank_registrations_def combat_registrations_def
  gm_registration_def

lemma prod_fits: "\<forall>x \<in> set (prod_registrations P cfg db c combat). fits x"
  by (simp add: prod_registrations_def registration_defs Let_def fits_typed dev_routes prod_routes)

lemma prod_ids:
  "map fst (prod_registrations P cfg db c combat) =
     [MsgID_CreateOrderReq, MsgID_LoginReq, MsgID_HeartbeatReq, MsgID_SaveArchiveReq, MsgID_LoadArchiveReq,
      MsgID_GetRankReq, MsgID_SubmitScoreReq, MsgID_CombatResultReq, MsgID_GetEnemyConfigsReq,
      MsgID_GetDungeonConfigReq, MsgID_GetStyleConfigsReq, MsgID_UnlockStyleReq, MsgID_GetPlayerStatsReq,
      MsgID_UpdatePlayerStatsReq, MsgID_GMCommandReq]"
  by (simp add: prod_registrations_def registration_defs Let_def)

lemma prod_ids_distinct: "distinct (map fst (prod_registrations P cfg db c combat))"
  unfolding prod_ids by (simp add: msg_id_defs)

lemma prod_ids_set: "fst ` set (prod_registrations P cfg db c combat) = request_id ` set canonical_routes"
proof -
  have "fst ` set (prod_registrations P cfg db c combat) = set (map fst (prod_registrations P cfg db c combat))" by simp
  then show ?thesis unfolding prod_ids by (auto simp: canonical_routes_def)
qed

lemma prod_free:
  "(\<exists>f. (i, f, [AuthFree]) \<in> set (prod_registrations P cfg db c combat)) \<longleftrightarrow> i \<in> {MsgID_LoginReq, MsgID_HeartbeatReq}"
  by (auto simp: prod_registrations_def registration_defs Let_def)

lemma prod_options:
  "(i, f, opts) \<in> set (prod_registrations P cfg db c combat) \<Longrightarrow> opts = [] \<or> opts = [AuthFree]"
  by (auto simp: prod_registrations_def registration_defs Let_def)

text \<open>The kernel of the registrations: a handler for every route, login and heartbeat free of authentication.\<close>

lemma prod_kernel:
  obtains k where
    "register_all (prod_registrations P cfg db c combat) (Kernel_New (Some Hooks_New)) = Inr k"
    "k_hooks k = Hooks_New" "built k" "answers k" "dom (handlers k) = request_id ` set canonical_routes"
    "\<And>i. IsAuthFree k i \<longleftrightarrow> i \<in> {MsgID_LoginReq, MsgID_HeartbeatReq}"
proof -
  let ?rs = "prod_registrations P cfg db c combat"
  from register_all_new [OF prod_fits prod_ids_distinct] obtain k where
    k: "register_all ?rs (Kernel_New (Some Hooks_New)) = Inr k" "k_hooks k = Hooks_New" "built k"
    and h: "handlers k = (\<lambda>i. map_option (route_entry i) (map_of ?rs i))" by blast
  have "dom (handlers k) = fst ` set ?rs" unfolding h dom_map_of_conv_image_fst [symmetric] by (auto simp: dom_def)
  then have "dom (handlers k) = request_id ` set canonical_routes" by (simp only: prod_ids_set)
  moreover have "IsAuthFree k i \<longleftrightarrow> i \<in> {MsgID_LoginReq, MsgID_HeartbeatReq}" for i
  proof -
    have "IsAuthFree k i \<longleftrightarrow> (\<exists>f. map_of ?rs i = Some (f, [AuthFree]))"
    proof (cases "map_of ?rs i")
      case None
      then show ?thesis by (simp add: IsAuthFree_def h)
    next
      case (Some x)
      obtain f opts where "x = (f, opts)" by (cases x)
      with Some prod_options [OF map_of_SomeD, of P cfg db c combat i f opts]
      show ?thesis by (auto simp: IsAuthFree_def h)
    qed
    also have "\<dots> \<longleftrightarrow> (\<exists>f. (i, f, [AuthFree]) \<in> set ?rs)"
      using prod_ids_distinct [of P cfg db c combat] by (simp add: map_of_eq_Some_iff)
    finally show ?thesis by (simp only: prod_free)
  qed
  ultimately show thesis
    using that [OF k answers_fits [OF prod_fits h]] by blast
qed

lemma Combat_NewHandler_Inr: "\<exists>h. Combat_NewHandler C db rd = Inr h"
proof -
  have "validateCombatRewardPolicy (settlementRewardPolicy DefaultCombatConfig) = None" by code_simp
  then show ?thesis by (simp add: Combat_NewHandler_def NewMySQLCombatSettlementRepository_def Let_def)
qed

text \<open>The Redis client that the configuration gives, and the hooks over it.\<close>

definition prod_redis :: "'db platform \<Rightarrow> config \<Rightarrow> 'db redis_store" where
  "prod_redis P cfg = redis_store_of (pf_redis P (RedisConfig_Addr (cf_Redis cfg)) (rc_Password (cf_Redis cfg))
     (rc_DB (cf_Redis cfg)))"

definition prod_hooks :: "'db redis_store \<Rightarrow> 'db world kernel \<Rightarrow> 'db world hooks" where
  "prod_hooks rd k = \<lparr>Before = [Auth (redis_sessions rd) k, RateLimit rd k 100 1000000000], After = []\<rparr>"

text \<open>How a start ends.\<close>

definition prod_started :: "'db platform \<Rightarrow> config \<Rightarrow> 'db prod_runtime \<Rightarrow> bool" where
  "prod_started P cfg rt \<longleftrightarrow> built (pr_kernel rt) \<and> answers (pr_kernel rt)
     \<and> dom (handlers (pr_kernel rt)) = request_id ` set canonical_routes
     \<and> (\<forall>i. IsAuthFree (pr_kernel rt) i \<longleftrightarrow> i \<in> {MsgID_LoginReq, MsgID_HeartbeatReq})
     \<and> (\<exists>k. k_hooks (pr_kernel rt) = prod_hooks (prod_redis P cfg) k \<and> handlers k = handlers (pr_kernel rt))"

lemma openRedisStore_client:
  assumes "openRedisStore P rcfg d = (Inr (c, close), d')"
  shows "c = pf_redis P (RedisConfig_Addr rcfg) (rc_Password rcfg) (rc_DB rcfg) \<and> close = Some (Redis_Close c)"
  using assms by (auto simp: openRedisStore_def NewRedisStore_def Let_def split: prod.splits sum.splits option.splits)

lemma openMySQLStore_close:
  assumes "openMySQLStore P mcfg d = (Inr (db, close), d')"
  shows "close = Some (MySQL_Close db)"
  using assms by (auto simp: openMySQLStore_def split: prod.splits sum.splits)

lemma newProductionRuntime_opened:
  assumes pay: "\<not> wc_PaymentEnabled (cf_Wechat cfg)"
    and my: "openMySQLStore P (cf_MySQL cfg) d = (Inr (db, closeMySQL), d1)"
    and rd: "openRedisStore P (cf_Redis cfg) d1 = (Inr (c, closeRedis), d2)"
  shows "\<exists>rt. newProductionRuntime P cfg d = (Inr rt, d2) \<and> prod_started P cfg rt
    \<and> pr_close rt = [Some (Redis_Close c), Some (MySQL_Close db)]"
proof -
  note c = openRedisStore_client [OF rd]
  have store: "redis_store_of c = prod_redis P cfg" using c by (simp add: prod_redis_def)
  obtain combat where h: "Combat_NewHandler (pf_codec P) db (redis_store_of c) = Inr combat"
    using Combat_NewHandler_Inr by blast
  obtain k where
    k: "register_all (prod_registrations P cfg db c combat) (Kernel_New (Some Hooks_New)) = Inr k"
       "k_hooks k = Hooks_New" "built k" "answers k" "dom (handlers k) = request_id ` set canonical_routes"
       "\<And>i. IsAuthFree k i \<longleftrightarrow> i \<in> {MsgID_LoginReq, MsgID_HeartbeatReq}"
    by (rule prod_kernel [of P cfg db c combat]) blast
  let ?k = "k\<lparr>k_hooks := prod_hooks (prod_redis P cfg) k\<rparr>"
  have hooks: "AddBefore f (AddBefore g Hooks_New) = \<lparr>Before = [g, f], After = []\<rparr>" for f g :: "'a world before_handler"
    by (simp add: AddBefore_def Hooks_New_def)
  have "newProductionRuntime P cfg d =
      (Inr \<lparr>pr_kernel = ?k, pr_close = [closeRedis, closeMySQL], pr_development = False\<rparr>, d2)"
    using pay k(2) by (simp add: newProductionRuntime_def my rd h [unfolded store] k(1) store Let_def prod_hooks_def hooks)
  moreover have "built ?k" using k(3) by (rule built_hooks)
  moreover have "answers ?k" using k(4) by (simp add: answers_def)
  moreover have "IsAuthFree ?k i = IsAuthFree k i" for i by (simp add: IsAuthFree_def)
  ultimately show ?thesis
    using k(5,6) c openMySQLStore_close [OF my] by (auto simp: prod_started_def)
qed

lemma newProductionRuntime_failure:
  assumes "newProductionRuntime P cfg d = (Inl f, d1)"
  shows "\<exists>e. f = StartError e"
proof (rule ccontr)
  assume no: "\<not> ?thesis"
  with assms obtain db my c rd d2 where
    "\<not> wc_PaymentEnabled (cf_Wechat cfg)" "openMySQLStore P (cf_MySQL cfg) d = (Inr (db, my), d2)"
    "openRedisStore P (cf_Redis cfg) d2 = (Inr (c, rd), d1)"
    by (auto simp: newProductionRuntime_def Let_def split: if_splits prod.splits sum.splits)
  from newProductionRuntime_opened [OF this] assms show False by auto
qed

section \<open>What a request passes\<close>

text \<open>The verdict of the two hooks on a request that is not free of authentication.\<close>

definition prod_gate :: "'db redis_store \<Rightarrow> i64 \<Rightarrow> 'db \<Rightarrow> go_int option \<times> 'db" where
  "prod_gate rd uid d =
     (if uid \<le>s 0 then (Some ErrUnauthorized, d)
      else if rd_GetSession rd uid d = Inr None then (Some ErrLoginTokenExpired, d)
      else
        case rd_CheckRateLimit rd (show_i64 uid) 100 1000000000 d of
          (r, d1) \<Rightarrow> (if r = Inr False then Some ErrTooFrequent else None, d1))"

lemma prod_hooks_gate:
  assumes free: "\<not> IsAuthFree k (MsgIDFromContext ctx)" and sess: "FromContext ctx = Some s"
  shows "\<exists>m. ExecuteBefore (prod_hooks rd k) ctx req w =
    ((ctx, req, map_option (\<lambda>code. BizError code m) (fst (prod_gate rd (Session_UID (w_sessions w s)) (w_db w)))),
     w\<lparr>w_db := snd (prod_gate rd (Session_UID (w_sessions w s)) (w_db w))\<rparr>)"
proof -
  let ?uid = "Session_UID (w_sessions w s)"
  have uid: "uidFromCtx ctx w = ?uid" using sess by (simp add: uidFromCtx_def)
  have get: "GetSession (redis_sessions rd) = rd_GetSession rd" by (simp add: redis_sessions_def)
  show ?thesis
  proof (cases "?uid \<le>s 0")
    case True
    with Auth_unbound [OF free, of w "redis_sessions rd" req] uid show ?thesis
      by (auto simp: ExecuteBefore_def prod_hooks_def prod_gate_def NewBizError_def)
  next
    case False
    then have pos: "0 <s uidFromCtx ctx w" by (simp add: uid signed_defs)
    show ?thesis
    proof (cases "rd_GetSession rd ?uid (w_db w) = Inr None")
      case True
      with Auth_expired [OF free pos, of "redis_sessions rd" req] False show ?thesis
        by (auto simp: ExecuteBefore_def prod_hooks_def prod_gate_def NewBizError_def get uid)
    next
      case known: False
      with Auth_passes [OF free pos, of "redis_sessions rd" req]
      have auth: "Auth (redis_sessions rd) k ctx req w = ((ctx, req, None), w)" by (simp add: get uid)
      show ?thesis
        using free sess False known
        by (auto simp: ExecuteBefore_def prod_hooks_def auth prod_gate_def RateLimit_def on_db_def NewBizError_def Let_def
            split: prod.split sum.split)
    qed
  qed
qed

section \<open>Closing\<close>

text \<open>What the resources answer when each is closed once, in order.\<close>

fun close_results :: "'db closer list \<Rightarrow> 'db \<Rightarrow> go_error option list" where
  "close_results [] d = []"
| "close_results (close # cs) d = fst (close d) # close_results cs (snd (close d))"

fun present :: "'db closer option list \<Rightarrow> 'db closer list" where
  "present [] = []"
| "present (None # cs) = present cs"
| "present (Some close # cs) = close # present cs"

definition first_error :: "go_error option list \<Rightarrow> go_error option" where
  "first_error rs = (case List.find (\<lambda>r. r \<noteq> None) rs of Some e \<Rightarrow> e | None \<Rightarrow> None)"

lemma run_closers_eq:
  "run_closers closers first d =
     (if first = None then first_error (close_results (present closers) d) else first,
      fold (\<lambda>close. snd \<circ> close) (present closers) d)"
  by (induction closers first d rule: run_closers.induct)
    (auto simp: first_error_def split: prod.splits)

section \<open>Properties\<close>


lemma prod_runtime_started:
  assumes "newProductionRuntime P cfg d = (Inr rt, d')"
  shows "prod_started P cfg rt"
proof -
  from assms obtain db my d1 c rd where
    "\<not> wc_PaymentEnabled (cf_Wechat cfg)" "openMySQLStore P (cf_MySQL cfg) d = (Inr (db, my), d1)"
    "openRedisStore P (cf_Redis cfg) d1 = (Inr (c, rd), d')"
    by (auto simp: newProductionRuntime_def Let_def split: if_splits prod.splits sum.splits)
  with newProductionRuntime_opened [OF this] assms show ?thesis by auto
qed

text \<open>
  C7: In production a request other than login and heartbeat reaches its handler only through three gates, in
  this order: the session is bound to a player (else \<open>ErrUnauthorized\<close>), the player's session is in Redis (else
  \<open>ErrLoginTokenExpired\<close>), and the rate limit of 100 requests per second allows it (else \<open>ErrTooFrequent\<close>). A
  request stopped at a gate is answered with exactly that error and changes nothing but the rate limit's
  counter; one that passes gets one reply, its route's response or an error. A store that fails stops nobody.
\<close>

theorem prod_requests_gated:
  assumes "newProductionRuntime P cfg d0 = (Inr rt, d1)"
    and "Decode data = Inr f" and "Seq f \<noteq> 0" and "RouteFor (MsgID f) = Some route"
    and "MsgID f \<notin> {MsgID_LoginReq, MsgID_HeartbeatReq}"
    and "unmarshal C (request_prototype route) (Body f) = Inr req"
    and "prod_gate (prod_redis P cfg) (Session_UID (w_sessions w s)) (w_db w) = (verdict, d2)"
  shows "case verdict of
      Some code \<Rightarrow> \<exists>m. Dispatch C (pr_kernel rt) (WithSession Background s) data w =
        (None, [\<lparr>rp_seq = Seq f, rp_id = MsgID_Error,
                 rp_payload = M_ErrorResp \<lparr>er_code = to_i32 code, er_msg = m\<rparr>\<rparr>], w\<lparr>w_db := d2\<rparr>)
    | None \<Rightarrow> \<exists>r w'. Dispatch C (pr_kernel rt) (WithSession Background s) data w = (None, [r], w') \<and> reply_for f r"
proof -
  from prod_runtime_started [OF assms(1)] obtain k where
    k: "k_hooks (pr_kernel rt) = prod_hooks (prod_redis P cfg) k" "handlers k = handlers (pr_kernel rt)"
    and dom: "dom (handlers (pr_kernel rt)) = request_id ` set canonical_routes"
    and free: "\<not> IsAuthFree (pr_kernel rt) (MsgID f)"
    and built: "built (pr_kernel rt)" and ans: "answers (pr_kernel rt)"
    using assms(5) by (auto simp: prod_started_def)
  have "MsgID f \<in> request_id ` set canonical_routes" using RouteFor_Some [OF assms(4)] by force
  with dom obtain e where e: "handlers (pr_kernel rt) (MsgID f) = Some e" by blast
  from built_kernel_ok [OF built] e have "entry_ok (MsgID f) e" by (simp add: kernel_ok_def)
  with assms(4) have "reqType e = request_prototype route" unfolding entry_ok_def by auto
  with assms(6) have req: "unmarshal C (reqType e) (Body f) = Inr req" by simp
  show ?thesis
  proof (cases verdict)
    case None
    have "After (k_hooks (pr_kernel rt)) = []" by (simp add: k(1) prod_hooks_def)
    from Dispatch_one_reply [OF built_kernel_ok [OF built] ans this _ assms(2,3), of "WithSession Background s" s]
    show ?thesis by (simp add: None)
  next
    case (Some code)
    let ?ctx = "WithMsgID (WithSession Background s) (MsgID f)"
    have "\<not> IsAuthFree k (MsgIDFromContext ?ctx)" "FromContext ?ctx = Some s"
      using free k(2) by (simp_all add: IsAuthFree_def MsgIDFromContext_def WithMsgID_def FromContext_def WithSession_def)
    from prod_hooks_gate [OF this, of "prod_redis P cfg" req w] assms(7) Some obtain m where
      "ExecuteBefore (k_hooks (pr_kernel rt)) ?ctx req w = ((?ctx, req, Some (BizError code m)), w\<lparr>w_db := d2\<rparr>)"
      by (auto simp: k(1))
    from Dispatch_hook_error [OF assms(2,3) e req this] Some show ?thesis by (simp add: finish_def)
  qed
qed

text \<open>
  Closing the runtime closes every resource that was opened, each exactly once and in the order given, however
  often and with whatever errors: the first call does it and returns the first of their errors, and every later
  call touches nothing and returns that error again.
\<close>

theorem runtime_close_once:
  "case runtime_close closers newRuntimeClose d of
     (err, st, d1) \<Rightarrow>
       d1 = fold (\<lambda>close. snd \<circ> close) (present closers) d
       \<and> err = first_error (close_results (present closers) d)
       \<and> (\<forall>d'. runtime_close closers st d' = (err, st, d'))"
  by (simp add: runtime_close_def newRuntimeClose_def run_closers_eq)

end
