(* ===== verification/Logger.thy ===== *)
theory Logger
  imports Go_Errors
begin

text \<open>
  The logger of \<open>pkg/logger/logger.go\<close>: its package variables as one state, the guarded log file, \<open>Init\<close>, \<open>Close\<close>
  and the wrappers. The libraries behind it are parameters: the rotating file writer (\<open>lumberjack\<close>) with its
  operations on a writer's state, the two encoders of \<open>zap\<close>, and the formatting of the arguments. A \<open>zap\<close> logger
  is what matters of it here: nothing, or a level with an optional file behind it. Every operation holds
  \<open>lifecycleMu\<close>, and every operation of a file its own lock, so each is one step.

  Shown here: at most one file is open at any time, it is the current logger's, and nothing ever reaches a file
  again after it has been closed, whoever still holds a logger on it.
\<close>

section \<open>The guarded file\<close>

text \<open>The writer: its settings, and its operations.\<close>

record file_settings =
  fs_Filename :: string
  fs_MaxSize :: go_int
  fs_MaxBackups :: go_int
  fs_MaxAge :: go_int
  fs_Compress :: bool

record 'w log_library =
  ll_new :: "file_settings \<Rightarrow> 'w"
  ll_Write :: "byte list \<Rightarrow> 'w \<Rightarrow> (go_int \<times> go_error option) \<times> 'w"
  ll_Close :: "'w \<Rightarrow> go_error option \<times> 'w"

record 'w guarded_file =
  gf_writer :: 'w
  gf_closed :: bool

definition Guarded_Write ::
  "'w log_library \<Rightarrow> byte list \<Rightarrow> 'w guarded_file \<Rightarrow> (go_int \<times> go_error option) \<times> 'w guarded_file" where
  "Guarded_Write L data f =
     (if gf_closed f then ((word_of_nat (length data), None), f)
      else case ll_Write L data (gf_writer f) of (r, writer) \<Rightarrow> (r, f\<lparr>gf_writer := writer\<rparr>))"

definition Guarded_Sync :: "'w guarded_file \<Rightarrow> go_error option \<times> 'w guarded_file" where
  "Guarded_Sync f = (None, f)"

definition Guarded_Close :: "'w log_library \<Rightarrow> 'w guarded_file \<Rightarrow> go_error option \<times> 'w guarded_file" where
  "Guarded_Close L f =
     (if gf_closed f then (None, f)
      else
        let f1 = f\<lparr>gf_closed := True\<rparr>
        in case ll_Close L (gf_writer f1) of (err, writer) \<Rightarrow> (err, f1\<lparr>gf_writer := writer\<rparr>))"

section \<open>Levels and loggers\<close>

datatype log_level = DebugLevel | InfoLevel | WarnLevel | ErrorLevel | FatalLevel

fun level_number :: "log_level \<Rightarrow> int" where
  "level_number DebugLevel = - 1"
| "level_number InfoLevel = 0"
| "level_number WarnLevel = 1"
| "level_number ErrorLevel = 2"
| "level_number FatalLevel = 5"

definition parseLevel :: "string \<Rightarrow> log_level" where
  "parseLevel level =
     (if level = ''debug'' then DebugLevel
      else if level = ''info'' then InfoLevel
      else if level = ''warn'' then WarnLevel
      else if level = ''error'' then ErrorLevel
      else InfoLevel)"

text \<open>A file is named by the order of its creation. The first argument of a logger is its least level.\<close>

type_synonym fid = nat

datatype zap_logger = NopLogger | Logger log_level "fid option"

text \<open>The package variables, what \<open>zap.L()\<close> returns, the files, and what has been printed on the console.
  \<open>restoreGlobal\<close>, a function that puts a global logger back, is the logger it puts back.\<close>

record 'w log_state =
  globalLogger :: zap_logger
  globalLogFile :: "fid option"
  restoreGlobal :: "zap_logger option"
  zap_L :: zap_logger
  log_files :: "'w guarded_file list"
  console :: "(log_level \<times> string) list"

definition log_start :: "'w log_state" where
  "log_start = \<lparr>globalLogger = NopLogger, globalLogFile = None, restoreGlobal = None, zap_L = NopLogger,
     log_files = [], console = []\<rparr>"

definition on_file :: "('w guarded_file \<Rightarrow> 'r \<times> 'w guarded_file) \<Rightarrow> fid \<Rightarrow> 'w log_state \<Rightarrow> 'w log_state" where
  "on_file f i st = st\<lparr>log_files := (log_files st)[i := snd (f (log_files st ! i))]\<rparr>"

text \<open>A \<open>Sync\<close> of a logger: the console needs none, and that of a file does nothing.\<close>

definition logger_Sync :: "zap_logger \<Rightarrow> 'w log_state \<Rightarrow> 'w log_state" where
  "logger_Sync l st = (case l of Logger lv (Some i) \<Rightarrow> on_file Guarded_Sync i st | _ \<Rightarrow> st)"

text \<open>Writing an entry with a logger: both cores have the logger's level.\<close>

definition log_entry ::
  "'w log_library \<Rightarrow> (log_level \<Rightarrow> string \<Rightarrow> byte list) \<Rightarrow> zap_logger \<Rightarrow> log_level \<Rightarrow> string
     \<Rightarrow> 'w log_state \<Rightarrow> 'w log_state" where
  "log_entry L encode l level msg st =
     (case l of
        NopLogger \<Rightarrow> st
      | Logger least file \<Rightarrow>
          if level_number level < level_number least then st
          else
            let st1 = st\<lparr>console := console st @ [(level, msg)]\<rparr>
            in case file of None \<Rightarrow> st1 | Some i \<Rightarrow> on_file (Guarded_Write L (encode level msg)) i st1)"

section \<open>Life cycle\<close>

definition close_file :: "'w log_library \<Rightarrow> fid option \<Rightarrow> 'w log_state \<Rightarrow> 'w log_state" where
  "close_file L file st = (case file of None \<Rightarrow> st | Some i \<Rightarrow> on_file (Guarded_Close L) i st)"

definition Init ::
  "'w log_library \<Rightarrow> string \<Rightarrow> string \<Rightarrow> go_int \<Rightarrow> go_int \<Rightarrow> go_int \<Rightarrow> 'w log_state \<Rightarrow> 'w log_state" where
  "Init L level filename maxSize maxBackups maxAge st =
     (let zapLevel = parseLevel level;
          (logFile, st1) =
            (if filename \<noteq> []
             then (Some (length (log_files st)),
                   st\<lparr>log_files := log_files st @
                     [\<lparr>gf_writer = ll_new L \<lparr>fs_Filename = filename, fs_MaxSize = maxSize, fs_MaxBackups = maxBackups,
                         fs_MaxAge = maxAge, fs_Compress = True\<rparr>, gf_closed = False\<rparr>]\<rparr>)
             else (None, st));
          logger = Logger zapLevel logFile;
          previousLogger = globalLogger st1;
          previousLogFile = globalLogFile st1;
          st2 = st1\<lparr>globalLogger := logger, globalLogFile := logFile,
                    restoreGlobal := (case restoreGlobal st1 of None \<Rightarrow> Some (zap_L st1) | Some l \<Rightarrow> Some l),
                    zap_L := logger\<rparr>
      in close_file L previousLogFile (logger_Sync previousLogger st2))"

definition closeCurrentLocked :: "'w log_library \<Rightarrow> 'w log_state \<Rightarrow> 'w log_state" where
  "closeCurrentLocked L st =
     (let logger = globalLogger st;
          logFile = globalLogFile st;
          st1 = st\<lparr>globalLogger := NopLogger, globalLogFile := None\<rparr>;
          st2 = (case restoreGlobal st1 of None \<Rightarrow> st1 | Some l \<Rightarrow> st1\<lparr>zap_L := l, restoreGlobal := None\<rparr>)
      in close_file L logFile (logger_Sync logger st2))"

definition Logger_Close :: "'w log_library \<Rightarrow> 'w log_state \<Rightarrow> 'w log_state" where
  "Logger_Close L st = closeCurrentLocked L st"

definition Logger_Sync :: "'w log_state \<Rightarrow> 'w log_state" where
  "Logger_Sync st = logger_Sync (globalLogger st) st"

section \<open>The wrappers\<close>

text \<open>
  Each wrapper logs with the current logger at its level; the plain ones format their arguments with the
  parameter \<open>sprint\<close>, the others with \<open>sprintf\<close>. After a fatal entry the process exits: the flag of the result.
\<close>

record 'a log_format =
  sprint :: "'a list \<Rightarrow> string"
  sprintf :: "string \<Rightarrow> 'a list \<Rightarrow> string"
  encode_entry :: "log_level \<Rightarrow> string \<Rightarrow> byte list"

definition Log_Debug :: "'w log_library \<Rightarrow> 'a log_format \<Rightarrow> 'a list \<Rightarrow> 'w log_state \<Rightarrow> 'w log_state" where
  "Log_Debug L F args st = log_entry L (encode_entry F) (globalLogger st) DebugLevel (sprint F args) st"

definition Log_Debugf :: "'w log_library \<Rightarrow> 'a log_format \<Rightarrow> string \<Rightarrow> 'a list \<Rightarrow> 'w log_state \<Rightarrow> 'w log_state" where
  "Log_Debugf L F template args st =
     log_entry L (encode_entry F) (globalLogger st) DebugLevel (sprintf F template args) st"

definition Log_Info :: "'w log_library \<Rightarrow> 'a log_format \<Rightarrow> 'a list \<Rightarrow> 'w log_state \<Rightarrow> 'w log_state" where
  "Log_Info L F args st = log_entry L (encode_entry F) (globalLogger st) InfoLevel (sprint F args) st"

definition Log_Infof :: "'w log_library \<Rightarrow> 'a log_format \<Rightarrow> string \<Rightarrow> 'a list \<Rightarrow> 'w log_state \<Rightarrow> 'w log_state" where
  "Log_Infof L F template args st =
     log_entry L (encode_entry F) (globalLogger st) InfoLevel (sprintf F template args) st"

definition Log_Warn :: "'w log_library \<Rightarrow> 'a log_format \<Rightarrow> 'a list \<Rightarrow> 'w log_state \<Rightarrow> 'w log_state" where
  "Log_Warn L F args st = log_entry L (encode_entry F) (globalLogger st) WarnLevel (sprint F args) st"

definition Log_Warnf :: "'w log_library \<Rightarrow> 'a log_format \<Rightarrow> string \<Rightarrow> 'a list \<Rightarrow> 'w log_state \<Rightarrow> 'w log_state" where
  "Log_Warnf L F template args st =
     log_entry L (encode_entry F) (globalLogger st) WarnLevel (sprintf F template args) st"

definition Log_Error :: "'w log_library \<Rightarrow> 'a log_format \<Rightarrow> 'a list \<Rightarrow> 'w log_state \<Rightarrow> 'w log_state" where
  "Log_Error L F args st = log_entry L (encode_entry F) (globalLogger st) ErrorLevel (sprint F args) st"

definition Log_Errorf :: "'w log_library \<Rightarrow> 'a log_format \<Rightarrow> string \<Rightarrow> 'a list \<Rightarrow> 'w log_state \<Rightarrow> 'w log_state" where
  "Log_Errorf L F template args st =
     log_entry L (encode_entry F) (globalLogger st) ErrorLevel (sprintf F template args) st"

definition Log_Fatal :: "'w log_library \<Rightarrow> 'a log_format \<Rightarrow> 'a list \<Rightarrow> 'w log_state \<Rightarrow> bool \<times> 'w log_state" where
  "Log_Fatal L F args st =
     (True, log_entry L (encode_entry F) (globalLogger st) FatalLevel (sprint F args) st)"

definition Log_Fatalf ::
  "'w log_library \<Rightarrow> 'a log_format \<Rightarrow> string \<Rightarrow> 'a list \<Rightarrow> 'w log_state \<Rightarrow> bool \<times> 'w log_state" where
  "Log_Fatalf L F template args st =
     (True, log_entry L (encode_entry F) (globalLogger st) FatalLevel (sprintf F template args) st)"

section \<open>Histories\<close>

text \<open>The calls of a program: the functions of the package, and entries written with any logger that some part of
  the program has kept, such as an earlier result of \<open>zap.L()\<close>.\<close>

datatype 'a log_call =
    CallInit string string go_int go_int go_int
  | CallClose
  | CallSync
  | CallDebug "'a list"
  | CallDebugf string "'a list"
  | CallInfo "'a list"
  | CallInfof string "'a list"
  | CallWarn "'a list"
  | CallWarnf string "'a list"
  | CallError "'a list"
  | CallErrorf string "'a list"
  | CallFatal "'a list"
  | CallFatalf string "'a list"
  | KeptLogger zap_logger log_level string

fun exec_log :: "'w log_library \<Rightarrow> 'a log_format \<Rightarrow> 'a log_call \<Rightarrow> 'w log_state \<Rightarrow> 'w log_state" where
  "exec_log L F (CallInit level filename m b a) st = Init L level filename m b a st"
| "exec_log L F CallClose st = Logger_Close L st"
| "exec_log L F CallSync st = Logger_Sync st"
| "exec_log L F (CallDebug args) st = Log_Debug L F args st"
| "exec_log L F (CallDebugf t args) st = Log_Debugf L F t args st"
| "exec_log L F (CallInfo args) st = Log_Info L F args st"
| "exec_log L F (CallInfof t args) st = Log_Infof L F t args st"
| "exec_log L F (CallWarn args) st = Log_Warn L F args st"
| "exec_log L F (CallWarnf t args) st = Log_Warnf L F t args st"
| "exec_log L F (CallError args) st = Log_Error L F args st"
| "exec_log L F (CallErrorf t args) st = Log_Errorf L F t args st"
| "exec_log L F (CallFatal args) st = snd (Log_Fatal L F args st)"
| "exec_log L F (CallFatalf t args) st = snd (Log_Fatalf L F t args st)"
| "exec_log L F (KeptLogger l level msg) st = log_entry L (encode_entry F) l level msg st"

definition log_calls :: "'w log_library \<Rightarrow> 'a log_format \<Rightarrow> 'a log_call list \<Rightarrow> 'w log_state \<Rightarrow> 'w log_state" where
  "log_calls L F cs st = fold (exec_log L F) cs st"

lemma log_calls_simps [simp]:
  "log_calls L F [] st = st" "log_calls L F (c # cs) st = log_calls L F cs (exec_log L F c st)"
  "log_calls L F (cs @ cs') st = log_calls L F cs' (log_calls L F cs st)"
  by (simp_all add: log_calls_def)

lemmas wrapper_defs = Log_Debug_def Log_Debugf_def Log_Info_def Log_Infof_def Log_Warn_def Log_Warnf_def
  Log_Error_def Log_Errorf_def Log_Fatal_def Log_Fatalf_def Logger_Sync_def

text \<open>One operation of a file keeps a closed file as it is, and opens none.\<close>

definition keeps_closed :: "'w log_state \<Rightarrow> 'w log_state \<Rightarrow> bool" where
  "keeps_closed st st' \<longleftrightarrow> length (log_files st) \<le> length (log_files st')
     \<and> (\<forall>i < length (log_files st). gf_closed (log_files st ! i) \<longrightarrow> log_files st' ! i = log_files st ! i)"

lemma keeps_closed_refl: "log_files st' = log_files st \<Longrightarrow> keeps_closed st st'"
  by (simp add: keeps_closed_def)

lemma keeps_closed_trans: "keeps_closed st1 st2 \<Longrightarrow> keeps_closed st2 st3 \<Longrightarrow> keeps_closed st1 st3"
  unfolding keeps_closed_def by (metis le_trans order_less_le_trans)

lemma closed_file_ops [simp]:
  "gf_closed f \<Longrightarrow> snd (Guarded_Write L d f) = f" "gf_closed f \<Longrightarrow> snd (Guarded_Close L f) = f"
  "snd (Guarded_Sync f) = f"
  by (simp_all add: Guarded_Write_def Guarded_Close_def Guarded_Sync_def)

lemma file_ops_closed [simp]:
  "gf_closed (snd (Guarded_Write L d f)) = gf_closed f" "gf_closed (snd (Guarded_Close L f))"
  by (simp_all add: Guarded_Write_def Guarded_Close_def Let_def split: prod.split)

lemma on_file_simps [simp]:
  "length (log_files (on_file f j st)) = length (log_files st)"
  "i < length (log_files st) \<Longrightarrow> log_files (on_file f j st) ! i =
     (if i = j then snd (f (log_files st ! i)) else log_files st ! i)"
  by (simp_all add: on_file_def nth_list_update)

lemma on_file_keeps:
  "(\<And>f. gf_closed f \<Longrightarrow> snd (g f) = f) \<Longrightarrow> keeps_closed st (on_file g i st)"
  by (simp add: keeps_closed_def)

lemma on_file_Sync [simp]: "on_file Guarded_Sync i st = st"
  by (simp add: on_file_def)

lemma logger_Sync_id [simp]: "logger_Sync l st = st"
  by (simp add: logger_Sync_def split: zap_logger.split option.split)

lemma log_entry_keeps: "keeps_closed st (log_entry L encode l level msg st)"
  by (auto simp: log_entry_def keeps_closed_refl Let_def split: zap_logger.split option.split
      intro!: keeps_closed_trans [OF keeps_closed_refl on_file_keeps])

lemma close_file_keeps: "keeps_closed st (close_file L file st)"
  by (auto simp: close_file_def keeps_closed_refl split: option.split intro: on_file_keeps)

lemma Init_keeps: "keeps_closed st (Init L level filename a b c st)"
proof -
  have "keeps_closed st st1" if "log_files st1 = log_files st @ fs" for st1 :: "'a log_state" and fs
    using that by (simp add: keeps_closed_def nth_append)
  note app = this
  show ?thesis
    unfolding Init_def Let_def logger_Sync_id
    by (cases "filename \<noteq> []") (auto intro!: keeps_closed_trans [OF app close_file_keeps])
qed

lemma Close_keeps: "keeps_closed st (Logger_Close L st)"
  unfolding Logger_Close_def closeCurrentLocked_def Let_def logger_Sync_id
  by (rule keeps_closed_trans [OF keeps_closed_refl close_file_keeps]) (simp split: option.split)

lemma log_call_keeps: "keeps_closed st (exec_log L F c st)"
  by (cases c) (simp_all add: wrapper_defs log_entry_keeps Init_keeps Close_keeps keeps_closed_refl)

lemma log_calls_keeps: "keeps_closed st (log_calls L F cs st)"
  by (induction cs arbitrary: st) (auto simp: keeps_closed_refl intro: keeps_closed_trans log_call_keeps)

text \<open>The invariant: the only open file is the current logger's.\<close>

definition log_inv :: "'w log_state \<Rightarrow> bool" where
  "log_inv st \<longleftrightarrow>
     (\<forall>i < length (log_files st). gf_closed (log_files st ! i) \<longleftrightarrow> globalLogFile st \<noteq> Some i)
     \<and> (\<forall>i. globalLogFile st = Some i \<longrightarrow> i < length (log_files st))
     \<and> (case restoreGlobal st of
          None \<Rightarrow> globalLogger st = NopLogger \<and> globalLogFile st = None \<and> zap_L st = NopLogger
        | Some l \<Rightarrow> l = NopLogger \<and> (\<exists>lv. globalLogger st = Logger lv (globalLogFile st)) \<and> zap_L st = globalLogger st)"

lemma log_inv_start: "log_inv log_start"
  by (simp add: log_inv_def log_start_def)

lemma closed_flags_update:
  "gf_closed g = gf_closed (fs ! i) \<Longrightarrow> map gf_closed (fs[i := g]) = map gf_closed fs"
  by (cases "i < length fs") (simp_all add: map_update list_update_same_conv list_update_beyond)

text \<open>Entries change nothing that the invariant speaks of.\<close>

lemma log_entry_frame:
  "globalLogger (log_entry L encode l level msg st) = globalLogger st"
  "globalLogFile (log_entry L encode l level msg st) = globalLogFile st"
  "restoreGlobal (log_entry L encode l level msg st) = restoreGlobal st"
  "zap_L (log_entry L encode l level msg st) = zap_L st"
  "map gf_closed (log_files (log_entry L encode l level msg st)) = map gf_closed (log_files st)"
  by (auto simp: log_entry_def Let_def on_file_def closed_flags_update split: zap_logger.split option.split)

lemma log_inv_cong:
  assumes "globalLogger st' = globalLogger st" "globalLogFile st' = globalLogFile st"
    "restoreGlobal st' = restoreGlobal st" "zap_L st' = zap_L st"
    "map gf_closed (log_files st') = map gf_closed (log_files st)"
  shows "log_inv st' = log_inv st"
proof -
  have len: "length (log_files st') = length (log_files st)" by (rule map_eq_imp_length_eq [OF assms(5)])
  moreover have "gf_closed (log_files st' ! i) = gf_closed (log_files st ! i)" if "i < length (log_files st)" for i
    using arg_cong [OF assms(5), of "\<lambda>xs. xs ! i"] that len by simp
  ultimately show ?thesis by (simp add: log_inv_def assms(1-4) split: option.split)
qed

lemma log_entry_inv: "log_inv (log_entry L encode l level msg st) = log_inv st"
  by (rule log_inv_cong) (rule log_entry_frame)+

text \<open>Closing the previous file leaves only the new one open.\<close>

lemma close_previous:
  assumes "\<forall>i < length (log_files st). gf_closed (log_files st ! i) \<longleftrightarrow> cur \<noteq> Some i \<and> prev \<noteq> Some i"
    "\<forall>i. cur = Some i \<longrightarrow> i < length (log_files st) \<and> prev \<noteq> Some i"
  shows "\<forall>i < length (log_files (close_file L prev st)). gf_closed (log_files (close_file L prev st) ! i) \<longleftrightarrow> cur \<noteq> Some i"
    "length (log_files (close_file L prev st)) = length (log_files st)"
  using assms by (auto simp: close_file_def split: option.split)

lemma close_file_simps [simp]:
  "globalLogger (close_file L f st) = globalLogger st" "globalLogFile (close_file L f st) = globalLogFile st"
  "restoreGlobal (close_file L f st) = restoreGlobal st" "zap_L (close_file L f st) = zap_L st"
  by (simp_all add: close_file_def on_file_def split: option.split)

lemma Init_inv:
  assumes "log_inv st"
  shows "log_inv (Init L level filename a b c st)"
proof -
  define cur where "cur = (if filename \<noteq> [] then Some (length (log_files st)) else None)"
  define files where "files = log_files st @ (if filename \<noteq> []
    then [\<lparr>gf_writer = ll_new L \<lparr>fs_Filename = filename, fs_MaxSize = a, fs_MaxBackups = b,
             fs_MaxAge = c, fs_Compress = True\<rparr>, gf_closed = False\<rparr>] else [])"
  define st2 where "st2 = st\<lparr>log_files := files, globalLogger := Logger (parseLevel level) cur, globalLogFile := cur,
    restoreGlobal := (case restoreGlobal st of None \<Rightarrow> Some (zap_L st) | Some l \<Rightarrow> Some l),
    zap_L := Logger (parseLevel level) cur\<rparr>"
  have eq: "Init L level filename a b c st = close_file L (globalLogFile st) st2"
    by (cases "filename = []") (simp_all add: Init_def Let_def st2_def cur_def files_def split: option.split)
  have old: "i < length (log_files st)" if "globalLogFile st = Some i" for i
    using assms that by (simp add: log_inv_def)
  have "\<forall>i < length (log_files st2). gf_closed (log_files st2 ! i) \<longleftrightarrow> cur \<noteq> Some i \<and> globalLogFile st \<noteq> Some i"
    using assms old by (auto simp: st2_def files_def cur_def log_inv_def nth_append less_Suc_eq split: if_splits)
  moreover have "\<forall>i. cur = Some i \<longrightarrow> i < length (log_files st2) \<and> globalLogFile st \<noteq> Some i"
    using old by (auto simp: st2_def files_def cur_def split: if_splits)
  moreover have "restoreGlobal st2 = Some NopLogger"
    using assms by (auto simp: log_inv_def st2_def split: option.splits)
  moreover have "globalLogger st2 = Logger (parseLevel level) cur" "globalLogFile st2 = cur"
    "zap_L st2 = Logger (parseLevel level) cur" by (simp_all add: st2_def)
  ultimately show ?thesis
    unfolding eq log_inv_def using close_previous [of st2 cur "globalLogFile st" L] by simp
qed

lemma Close_inv:
  assumes "log_inv st"
  shows "log_inv (Logger_Close L st)"
    "globalLogger (Logger_Close L st) = NopLogger \<and> globalLogFile (Logger_Close L st) = None
     \<and> zap_L (Logger_Close L st) = NopLogger"
proof -
  define st2 where "st2 = st\<lparr>globalLogger := NopLogger, globalLogFile := None, zap_L := NopLogger, restoreGlobal := None\<rparr>"
  have "zap_L st = NopLogger" if "restoreGlobal st = None" using assms that by (simp add: log_inv_def)
  moreover have "l = NopLogger" if "restoreGlobal st = Some l" for l using assms that by (simp add: log_inv_def)
  ultimately have eq: "Logger_Close L st = close_file L (globalLogFile st) st2"
    by (cases st, cases "restoreGlobal st") (simp_all add: Logger_Close_def closeCurrentLocked_def Let_def st2_def)
  show "log_inv (Logger_Close L st)"
    using close_previous [of st2 None "globalLogFile st" L] assms
    by (simp add: eq log_inv_def st2_def)
  show "globalLogger (Logger_Close L st) = NopLogger \<and> globalLogFile (Logger_Close L st) = None
     \<and> zap_L (Logger_Close L st) = NopLogger" by (simp add: eq st2_def)
qed

lemma exec_log_inv: "log_inv st \<Longrightarrow> log_inv (exec_log L F c st)"
  by (cases c) (simp_all add: wrapper_defs log_entry_inv Init_inv Close_inv(1))

lemma log_calls_inv: "log_inv st \<Longrightarrow> log_inv (log_calls L F cs st)"
  by (induction cs arbitrary: st) (simp_all add: exec_log_inv)

section \<open>Property\<close>

text \<open>
  C40: Whatever a program calls, in whatever order: at most one log file is open, the one of the current logger,
  which is also the logger of \<open>zap.L()\<close>; nothing changes a file again once it is closed, also not entries written
  with a logger kept from before; and closing the logger, once or repeatedly, closes the last file and puts the
  silent logger back.
\<close>

theorem logger_closes_files:
  "(let st = log_calls L F cs log_start; st' = log_calls L F cs' st; stopped = Logger_Close L st in
    (\<forall>i < length (log_files st). \<not> gf_closed (log_files st ! i) \<longrightarrow>
       globalLogFile st = Some i \<and> zap_L st = globalLogger st \<and> (\<exists>lv. globalLogger st = Logger lv (Some i)))
    \<and> (\<forall>i < length (log_files st). gf_closed (log_files st ! i) \<longrightarrow>
         i < length (log_files st') \<and> log_files st' ! i = log_files st ! i)
    \<and> (\<forall>f \<in> set (log_files stopped). gf_closed f) \<and> globalLogger stopped = NopLogger \<and> zap_L stopped = NopLogger
    \<and> Logger_Close L stopped = stopped)"
proof -
  define st where "st = log_calls L F cs log_start"
  have inv: "log_inv st" unfolding st_def by (rule log_calls_inv) (rule log_inv_start)
  note stop = Close_inv [OF inv, of L]
  have "\<not> gf_closed (log_files st ! i) \<longrightarrow>
      globalLogFile st = Some i \<and> zap_L st = globalLogger st \<and> (\<exists>lv. globalLogger st = Logger lv (Some i))"
    if "i < length (log_files st)" for i
    using inv that by (auto simp: log_inv_def split: option.splits)
  moreover have "\<forall>f \<in> set (log_files (Logger_Close L st)). gf_closed f"
    using stop by (auto simp: log_inv_def in_set_conv_nth)
  moreover have "Logger_Close L (Logger_Close L st) = Logger_Close L st"
    using stop by (auto simp: log_inv_def Logger_Close_def [of L "Logger_Close L st"] closeCurrentLocked_def Let_def
        close_file_def split: option.splits)
  moreover have "keeps_closed st (log_calls L F cs' st)" by (rule log_calls_keeps)
  ultimately show ?thesis using stop(2) unfolding Let_def st_def [symmetric] keeps_closed_def by auto
qed

text \<open>Two files in turn, and an entry with the first logger after the second \<open>Init\<close>.\<close>

definition line_library :: "byte list list log_library" where
  "line_library = \<lparr>ll_new = (\<lambda>s. []), ll_Write = (\<lambda>d w. ((word_of_nat (length d), None), w @ [d])), ll_Close = (\<lambda>w. (None, w))\<rparr>"

definition line_format :: "unit log_format" where
  "line_format = \<lparr>sprint = (\<lambda>xs. ''x''), sprintf = (\<lambda>t xs. t), encode_entry = (\<lambda>lv m. [7])\<rparr>"

definition two_files :: "unit log_call list" where
  "two_files = [CallInit ''info'' ''a.log'' 1 1 1, CallInfo [], CallInit ''warn'' ''b.log'' 1 1 1]"

theorem logger_closes_files_witness:
  "log_files (log_calls line_library line_format [KeptLogger (Logger InfoLevel (Some 0)) InfoLevel ''late''] 
     (log_calls line_library line_format two_files log_start)) ! 0 = \<lparr>gf_writer = [[7]], gf_closed = True\<rparr>"
proof -
  have "log_files (log_calls line_library line_format two_files log_start) ! 0 = \<lparr>gf_writer = [[7]], gf_closed = True\<rparr>
      \<and> length (log_files (log_calls line_library line_format two_files log_start)) = 2"
    by (simp add: two_files_def Init_def Let_def log_start_def parseLevel_def Log_Info_def log_entry_def on_file_def
        Guarded_Write_def line_library_def line_format_def close_file_def Guarded_Close_def)
  with logger_closes_files [of line_library line_format two_files
      "[KeptLogger (Logger InfoLevel (Some 0)) InfoLevel ''late'']"]
  show ?thesis by (simp add: Let_def)
qed

end
