(* ===== verification/Main_Program.thy ===== *)
theory Main_Program
  imports Dev_Traffic Prod_Runtime Server Logger
begin

text \<open>
  The server process: \<open>main\<close> of \<open>cmd/server/main.go\<close>. It loads the configuration, opens the logger, composes the
  runtime, starts the server in a goroutine, waits for a signal, and then shuts down, closes the runtime's
  resources and the logger. \<open>main\<close>, the goroutine of \<open>Start\<close> and the goroutines of \<open>Server\<close> interleave in any order.

  Shown here: what is true when the process exits, and that a shutdown, once begun, ends the process.
\<close>

section \<open>The process\<close>

text \<open>What the program is given: the configuration library, the platform of \<open>Prod_Runtime\<close>, the random source of
  the development runtime, and the logging library.\<close>

record ('w, 'db, 'r) environment =
  en_load :: "string \<Rightarrow> go_error + config"
  en_platform :: "'db platform"
  en_rand :: "'r \<Rightarrow> (go_error + byte list) \<times> 'r"
  en_log :: "'w log_library"
  en_encode :: "log_level \<Rightarrow> string \<Rightarrow> byte list"

text \<open>Where \<open>main\<close> is, with the status after an \<open>os.Exit\<close>; a panic ends the process as well.\<close>

datatype main_pc = Announcing | Waiting | ShuttingDown | Releasing | ClosingLog | Finished | Exited int | Crashed

text \<open>Where the goroutine that calls \<open>Start\<close> is: before the call, in \<open>ListenAndServe\<close>, in \<open>Shutdown\<close>, or back.\<close>

datatype start_pc = NotCalled | Listening | Stopping go_error | Returned go_error

text \<open>The runtime; the development runtime keeps its data in memory.\<close>

datatype ('db, 'r) app = NoApp | DevApp "'r dev_runtime" "'r dev_db" | ProdApp "'db prod_runtime"

record ('w, 'db, 'r) process =
  ps_pc :: main_pc
  ps_start :: start_pc
  ps_server :: server
  ps_app :: "('db, 'r) app"
  ps_sessions :: "sid \<Rightarrow> session"
  ps_db :: 'db
  ps_close :: close_state
  ps_log :: "'w log_state"
  ps_stdout :: "string list"

definition new_process :: "'db \<Rightarrow> ('w, 'db, 'r) process" where
  "new_process d = \<lparr>ps_pc = Announcing, ps_start = NotCalled, ps_server = NewServer, ps_app = NoApp,
     ps_sessions = (\<lambda>s. Session_New), ps_db = d, ps_close = newRuntimeClose, ps_log = log_start, ps_stdout = []\<rparr>"

text \<open>An entry with the logger of \<open>zap.L()\<close>.\<close>

definition zap_log ::
  "('w, 'db, 'r) environment \<Rightarrow> log_level \<Rightarrow> string \<Rightarrow> ('w, 'db, 'r) process \<Rightarrow> ('w, 'db, 'r) process" where
  "zap_log E level msg p = p\<lparr>ps_log := log_entry (en_log E) (en_encode E) (zap_L (ps_log p)) level msg (ps_log p)\<rparr>"

section \<open>Starting\<close>

definition start_failed ::
  "('w, 'db, 'r) environment \<Rightarrow> start_failure \<Rightarrow> ('w, 'db, 'r) process \<Rightarrow> ('w, 'db, 'r) process" where
  "start_failed E f p =
     (case f of
        StartError err \<Rightarrow>
          let p1 = zap_log E ErrorLevel ''initialize server runtime'' p
          in p1\<lparr>ps_log := Logger_Close (en_log E) (ps_log p1), ps_pc := Exited 1\<rparr>
      | RegisterPanic _ \<Rightarrow> p\<lparr>ps_pc := Crashed\<rparr>
      | PolicyPanic _ \<Rightarrow> p\<lparr>ps_pc := Crashed\<rparr>)"

definition main_begin ::
  "('w, 'db, 'r) environment \<Rightarrow> string \<Rightarrow> 'r \<Rightarrow> 'db \<Rightarrow> ('w, 'db, 'r) process" where
  "main_begin E configPath x d =
     (case en_load E configPath of
        Inl err \<Rightarrow> (new_process d)\<lparr>ps_stdout := [''load configuration: '' @ error_text err @ [CHR 0x0A]],
                    ps_pc := Exited 1\<rparr>
      | Inr cfg \<Rightarrow>
          let lc = cf_Log cfg;
              p = (new_process d)\<lparr>ps_log := Init (en_log E) (lc_Level lc) (lc_Filename lc) (lc_MaxSize lc)
                    (lc_MaxBackups lc) (lc_MaxAge lc) log_start\<rparr>
          in case newRuntime (en_platform E) (en_rand E) cfg d of
               (Inl (Inl f), d1) \<Rightarrow> start_failed E f (p\<lparr>ps_db := d1\<rparr>)
             | (Inl (Inr rt), d1) \<Rightarrow>
                 p\<lparr>ps_db := d1, ps_app := DevApp rt \<lparr>dd_store = rt_store rt, dd_rand = x\<rparr>\<rparr>
             | (Inr (Inl f), d1) \<Rightarrow> start_failed E f (p\<lparr>ps_db := d1\<rparr>)
             | (Inr (Inr rt), d1) \<Rightarrow> p\<lparr>ps_db := d1, ps_app := ProdApp rt\<rparr>)"

section \<open>Serving\<close>

text \<open>A frame on the connection of session \<open>s\<close>, handed to the runtime's kernel.\<close>

definition handle_frame ::
  "codec \<Rightarrow> sid \<Rightarrow> byte list \<Rightarrow> ('w, 'db, 'r) process \<Rightarrow> ('w, 'db, 'r) process" where
  "handle_frame C s data p =
     (case ps_app p of
        NoApp \<Rightarrow> p
      | DevApp rt x \<Rightarrow>
          (case Dispatch C (rt_kernel rt) (WithSession Background s) data \<lparr>w_sessions = ps_sessions p, w_db = x\<rparr> of
             (_, _, w) \<Rightarrow> p\<lparr>ps_sessions := w_sessions w, ps_app := DevApp rt (w_db w)\<rparr>)
      | ProdApp rt \<Rightarrow>
          (case Dispatch C (pr_kernel rt) (WithSession Background s) data \<lparr>w_sessions = ps_sessions p, w_db = ps_db p\<rparr> of
             (_, _, w) \<Rightarrow> p\<lparr>ps_sessions := w_sessions w, ps_db := w_db w\<rparr>))"

definition app_closers :: "('db, 'r) app \<Rightarrow> 'db closer option list" where
  "app_closers a = (case a of ProdApp rt \<Rightarrow> pr_close rt | _ \<Rightarrow> [])"

fun ended :: "main_pc \<Rightarrow> bool" where
  "ended Finished = True" | "ended (Exited _) = True" | "ended Crashed = True" | "ended _ = False"

definition player_of :: "('w, 'db, 'r) process \<Rightarrow> sid \<Rightarrow> i64" where
  "player_of p s = Session_UID (ps_sessions p s)"

text \<open>
  The steps of the program itself: of \<open>main\<close> after the start, of the goroutine that calls \<open>Start\<close>, and of the
  server as it closes. \<open>ListenAndServe\<close> returns \<open>http.ErrServerClosed\<close> only once a shutdown has begun. The body of
  \<open>Shutdown\<close> runs once; a caller that comes second waits until it has returned. A fatal entry exits the process.
\<close>

inductive program_step ::
  "('w, 'db, 'r) environment \<Rightarrow> ('w, 'db, 'r) process \<Rightarrow> ('w, 'db, 'r) process \<Rightarrow> bool" for E where
  announce: "ps_pc p = Announcing \<Longrightarrow> program_step E p ((zap_log E InfoLevel ''game server started'' p)\<lparr>ps_pc := Waiting\<rparr>)"
| main_stops: "ps_pc p = ShuttingDown \<Longrightarrow> sv_shutdown (ps_server p) = NotShut \<Longrightarrow>
     program_step E p (p\<lparr>ps_server := Shutdown_begin (ps_server p)\<rparr>)"
| main_stopped: "ps_pc p = ShuttingDown \<Longrightarrow> sv_shutdown (ps_server p) = ShutReturned \<Longrightarrow>
     program_step E p (p\<lparr>ps_pc := Releasing\<rparr>)"
| release: "ps_pc p = Releasing \<Longrightarrow> runtime_close (app_closers (ps_app p)) (ps_close p) (ps_db p) = (err, st, d) \<Longrightarrow>
     p1 = p\<lparr>ps_close := st, ps_db := d\<rparr> \<Longrightarrow>
     p2 = (if err \<noteq> None then zap_log E ErrorLevel ''close runtime resources'' p1 else p1) \<Longrightarrow>
     program_step E p ((zap_log E InfoLevel ''game server stopped'' p2)\<lparr>ps_pc := ClosingLog\<rparr>)"
| finish_main: "ps_pc p = ClosingLog \<Longrightarrow>
     program_step E p (p\<lparr>ps_log := Logger_Close (en_log E) (ps_log p), ps_pc := Finished\<rparr>)"
| start_runs: "\<not> ended (ps_pc p) \<Longrightarrow> ps_start p = NotCalled \<Longrightarrow> Start_begin (ps_server p) = (None, s) \<Longrightarrow>
     program_step E p ((zap_log E InfoLevel (''WebSocket '' @ bytes_of [0xE6, 0x9C, 0x8D, 0xE5, 0x8A, 0xA1, 0xE5,
       0x99, 0xA8, 0xE5, 0x90, 0xAF, 0xE5, 0x8A, 0xA8]) p)\<lparr>ps_server := s, ps_start := Listening\<rparr>)"
| start_refused: "\<not> ended (ps_pc p) \<Longrightarrow> ps_start p = NotCalled \<Longrightarrow> Start_begin (ps_server p) = (Some err, s) \<Longrightarrow>
     program_step E p (p\<lparr>ps_server := s, ps_start := Returned err\<rparr>)"
| listener_closed: "\<not> ended (ps_pc p) \<Longrightarrow> ps_start p = Listening \<Longrightarrow> sv_shutdown (ps_server p) \<noteq> NotShut \<Longrightarrow>
     program_step E p (p\<lparr>ps_start := Stopping (Sentinel HttpErrServerClosed)\<rparr>)"
| start_stops: "\<not> ended (ps_pc p) \<Longrightarrow> ps_start p = Stopping err \<Longrightarrow> sv_shutdown (ps_server p) = NotShut \<Longrightarrow>
     program_step E p (p\<lparr>ps_server := Shutdown_begin (ps_server p)\<rparr>)"
| start_returns: "\<not> ended (ps_pc p) \<Longrightarrow> ps_start p = Stopping err \<Longrightarrow> sv_shutdown (ps_server p) = ShutReturned \<Longrightarrow>
     program_step E p (p\<lparr>ps_start := Returned err\<rparr>)"
| start_fatal: "\<not> ended (ps_pc p) \<Longrightarrow> ps_start p = Returned err \<Longrightarrow> err \<noteq> Sentinel HttpErrServerClosed \<Longrightarrow>
     program_step E p ((zap_log E FatalLevel ''start WebSocket server'' p)\<lparr>ps_pc := Exited 1\<rparr>)"
| server_closes: "\<not> ended (ps_pc p) \<Longrightarrow> closing_step (player_of p) (ps_server p) s \<Longrightarrow>
     program_step E p (p\<lparr>ps_server := s\<rparr>)"

text \<open>
  What comes from outside: a signal, a listener that fails, requests for connections and the hub's traffic, and
  frames, which are handled while the goroutine of their connection runs.
\<close>

inductive outside_step ::
  "('w, 'db, 'r) environment \<Rightarrow> ('w, 'db, 'r) process \<Rightarrow> ('w, 'db, 'r) process \<Rightarrow> bool" for E where
  signalled: "ps_pc p = Waiting \<Longrightarrow>
     outside_step E p ((zap_log E InfoLevel ''shutdown signal received'' p)\<lparr>ps_pc := ShuttingDown\<rparr>)"
| listener_failed: "\<not> ended (ps_pc p) \<Longrightarrow> ps_start p = Listening \<Longrightarrow> err \<noteq> Sentinel HttpErrServerClosed \<Longrightarrow>
     outside_step E p (p\<lparr>ps_start := Stopping err\<rparr>)"
| asked: "\<not> ended (ps_pc p) \<Longrightarrow> sv_pc (ps_server p) c = Idle \<Longrightarrow> reserveConnection (ps_server p) = (ok, s) \<Longrightarrow>
     outside_step E p (p\<lparr>ps_server := (if ok then set_pc c Reserved s else s)\<rparr>)"
| hub_traffic: "\<not> ended (ps_pc p) \<Longrightarrow> is_traffic ev \<Longrightarrow> hub_step (player_of p) (sv_hub (ps_server p)) ev h \<Longrightarrow>
     outside_step E p (p\<lparr>ps_server := (ps_server p)\<lparr>sv_hub := h\<rparr>\<rparr>)"
| frame: "\<not> ended (ps_pc p) \<Longrightarrow> sv_pc (ps_server p) c = Running \<Longrightarrow>
     outside_step E p (handle_frame (pf_codec (en_platform E)) (c_sess (h_conns (sv_hub (ps_server p)) c)) data p)"

inductive process_run ::
  "('w, 'db, 'r) environment \<Rightarrow> string \<Rightarrow> 'r \<Rightarrow> 'db \<Rightarrow> ('w, 'db, 'r) process \<Rightarrow> bool" for E path x d where
  process_starts: "process_run E path x d (main_begin E path x d)"
| process_program: "process_run E path x d p \<Longrightarrow> program_step E p p' \<Longrightarrow> process_run E path x d p'"
| process_outside: "process_run E path x d p \<Longrightarrow> outside_step E p p' \<Longrightarrow> process_run E path x d p'"

inductive_cases program_stepE: "program_step E p p'"
inductive_cases outside_stepE: "outside_step E p p'"

section \<open>Invariant\<close>

lemma zap_log_simps [simp]:
  "ps_pc (zap_log E l m p) = ps_pc p" "ps_start (zap_log E l m p) = ps_start p"
  "ps_server (zap_log E l m p) = ps_server p" "ps_app (zap_log E l m p) = ps_app p"
  "ps_db (zap_log E l m p) = ps_db p" "ps_close (zap_log E l m p) = ps_close p"
  "log_inv (ps_log (zap_log E l m p)) = log_inv (ps_log p)"
  by (simp_all add: zap_log_def log_entry_inv)

lemma handle_frame_simps [simp]:
  "ps_pc (handle_frame C s data p) = ps_pc p" "ps_start (handle_frame C s data p) = ps_start p"
  "ps_server (handle_frame C s data p) = ps_server p" "ps_close (handle_frame C s data p) = ps_close p"
  "ps_log (handle_frame C s data p) = ps_log p"
  by (simp_all add: handle_frame_def split: app.split prod.split)

lemma closing_step_phase:
  assumes "closing_step uid_of s s'"
  shows "sv_shutdown s' = NotShut \<longleftrightarrow> sv_shutdown s = NotShut"
    "sv_shutdown s = ShutReturned \<Longrightarrow> sv_shutdown s' = ShutReturned"
    "sv_state s' = ServerRunning \<Longrightarrow> sv_state s = ServerRunning"
  using assms by (auto elim!: closing_stepE simp: set_pc_def connections_Done_def)

lemma asked_run:
  assumes "server_run s" "sv_pc s c = Idle" "reserveConnection s = (ok, s1)"
  shows "server_run (if ok then set_pc c Reserved s1 else s1)"
    "sv_shutdown (if ok then set_pc c Reserved s1 else s1) = sv_shutdown s"
    "sv_state (if ok then set_pc c Reserved s1 else s1) = sv_state s"
proof -
  show "server_run (if ok then set_pc c Reserved s1 else s1)"
  proof (cases ok)
    case True
    with server_serving [OF assms(1) request [OF assms(2)]] assms(3) show ?thesis by simp
  next
    case False
    with server_serving [OF assms(1) request_refused] assms(3) show ?thesis by simp
  qed
qed (use assms(3) in \<open>auto simp: reserveConnection_def set_pc_def split: if_splits\<close>)

text \<open>No connection's goroutine runs once \<open>Shutdown\<close> has returned.\<close>

lemma none_running:
  assumes "server_run s" "sv_shutdown s = ShutReturned"
  shows "sv_state s = ServerStopped" "occupied (sv_pc s c) = 0"
proof -
  note inv = server_run_inv [OF assms(1)]
  with assms(2) show "sv_state s = ServerStopped" by (simp add: sv_inv_def phase_ok_def)
  from inv assms(2) have "total occupied (sv_pc s) = 0" by (simp add: sv_inv_def phase_ok_def)
  with inv total_zero [of "sv_pc s" occupied] show "occupied (sv_pc s c) = 0" by (simp add: sv_inv_def)
qed

lemma shut_state:
  assumes "server_run s"
  shows "sv_shutdown s = NotShut \<longleftrightarrow> sv_state s = ServerNew \<or> sv_state s = ServerRunning"
  using server_run_inv [OF assms] by (auto simp: sv_inv_def phase_ok_def split: shutdown_pc.splits)

abbreviation listener_error :: "('w, 'db, 'r) process \<Rightarrow> go_error \<Rightarrow> bool" where
  "listener_error p err \<equiv> err \<noteq> Sentinel HttpErrServerClosed \<and> ps_start p = Returned err"

definition start_inv :: "('w, 'db, 'r) process \<Rightarrow> bool" where
  "start_inv p \<longleftrightarrow>
     (case ps_start p of
        NotCalled \<Rightarrow> sv_state (ps_server p) \<noteq> ServerRunning
      | Listening \<Rightarrow> True
      | Stopping err \<Rightarrow> err = Sentinel HttpErrServerClosed \<longrightarrow> sv_shutdown (ps_server p) \<noteq> NotShut
      | Returned err \<Rightarrow> sv_shutdown (ps_server p) \<noteq> NotShut
          \<and> (err \<noteq> Sentinel HttpErrServerClosed \<longrightarrow> sv_shutdown (ps_server p) = ShutReturned))"

definition log_closed :: "'w log_state \<Rightarrow> bool" where
  "log_closed st \<longleftrightarrow> (\<forall>f \<in> set (log_files st). gf_closed f) \<and> zap_L st = NopLogger"

definition main_inv :: "('w, 'db, 'r) process \<Rightarrow> bool" where
  "main_inv p \<longleftrightarrow>
     (let shut = sv_shutdown (ps_server p);
          failed = (\<exists>err. err \<noteq> Sentinel HttpErrServerClosed \<and> (ps_start p = Stopping err \<or> ps_start p = Returned err))
      in case ps_pc p of
           Announcing \<Rightarrow> (shut \<noteq> NotShut \<longrightarrow> failed) \<and> ps_close p = newRuntimeClose
         | Waiting \<Rightarrow> (shut \<noteq> NotShut \<longrightarrow> failed) \<and> ps_close p = newRuntimeClose
         | ShuttingDown \<Rightarrow> ps_close p = newRuntimeClose
         | Releasing \<Rightarrow> shut = ShutReturned \<and> ps_close p = newRuntimeClose
         | ClosingLog \<Rightarrow> shut = ShutReturned
         | Finished \<Rightarrow> shut = ShutReturned \<and> log_closed (ps_log p)
         | Exited n \<Rightarrow> n = 1 \<and> ((\<exists>err. listener_error p err) \<or> log_closed (ps_log p) \<and> ps_server p = NewServer)
         | Crashed \<Rightarrow> False)"

definition process_inv :: "('w, 'db, 'r) process \<Rightarrow> bool" where
  "process_inv p \<longleftrightarrow> server_run (ps_server p) \<and> log_inv (ps_log p) \<and> start_inv p \<and> main_inv p"

lemmas process_inv_defs = process_inv_def start_inv_def main_inv_def Let_def

lemma log_inv_closed: "log_inv st \<Longrightarrow> log_closed (Logger_Close L st)"
  using Close_inv [of st L] by (auto simp: log_closed_def log_inv_def in_set_conv_nth)

lemma newRuntime_failure:
  assumes "newRuntime P rand cfg d = (r, d1)"
  shows "r = Inl (Inl f) \<Longrightarrow> \<exists>e. f = StartError e" "r = Inr (Inl f) \<Longrightarrow> \<exists>e. f = StartError e"
proof -
  show "\<exists>e. f = StartError e" if "r = Inl (Inl f)"
    using assms that newDevelopmentRuntime_eq [of "pf_codec P" rand cfg]
    by (auto simp: newRuntime_def split: if_splits prod.splits)
  show "\<exists>e. f = StartError e" if "r = Inr (Inl f)"
    using assms that newProductionRuntime_failure by (auto simp: newRuntime_def split: if_splits prod.splits)
qed

lemma new_server: "sv_shutdown NewServer = NotShut" "sv_state NewServer = ServerNew"
  by (simp_all add: NewServer_def)

lemma new_process_simps [simp]:
  "ps_pc (new_process d) = Announcing" "ps_start (new_process d) = NotCalled" "ps_server (new_process d) = NewServer"
  "ps_close (new_process d) = newRuntimeClose" "ps_log (new_process d) = log_start"
  by (simp_all add: new_process_def)

lemma log_closed_start: "log_closed log_start"
  by (simp add: log_closed_def log_start_def)

lemma start_failed_inv:
  assumes "process_inv p" "ps_pc p = Announcing" "ps_server p = NewServer" "ps_start p = NotCalled"
    and "\<exists>e. f = StartError e"
  shows "process_inv (start_failed E f p)"
  using assms by (auto simp: process_inv_defs start_failed_def log_inv_closed Close_inv(1))

lemma main_begin_inv: "process_inv (main_begin E path x d)"
proof (cases "en_load E path")
  case (Inl err)
  then show ?thesis
    by (simp add: main_begin_def process_inv_defs new_server server_new log_inv_start log_closed_start)
next
  case (Inr cfg)
  define lg where "lg = Init (en_log E) (lc_Level (cf_Log cfg)) (lc_Filename (cf_Log cfg)) (lc_MaxSize (cf_Log cfg))
    (lc_MaxBackups (cf_Log cfg)) (lc_MaxAge (cf_Log cfg)) log_start"
  have booted: "process_inv ((new_process d)\<lparr>ps_log := lg, ps_db := d1, ps_app := ap\<rparr>)"
    "process_inv ((new_process d)\<lparr>ps_log := lg, ps_db := d1\<rparr>)" for d1 ap
    by (simp_all add: process_inv_defs new_server server_new lg_def Init_inv log_inv_start)
  have failed: "process_inv (start_failed E f ((new_process d)\<lparr>ps_log := lg, ps_db := d1\<rparr>))"
    if "\<exists>e. f = StartError e" for f d1
    by (rule start_failed_inv) (simp_all add: booted that)
  obtain r d1 where r: "newRuntime (en_platform E) (en_rand E) cfg d = (r, d1)" by fastforce
  note err = newRuntime_failure [OF r]
  have eq: "main_begin E path x d = (let p = (new_process d)\<lparr>ps_log := lg\<rparr> in
      case r of
        Inl (Inl f) \<Rightarrow> start_failed E f (p\<lparr>ps_db := d1\<rparr>)
      | Inl (Inr rt) \<Rightarrow> p\<lparr>ps_db := d1, ps_app := DevApp rt \<lparr>dd_store = rt_store rt, dd_rand = x\<rparr>\<rparr>
      | Inr (Inl f) \<Rightarrow> start_failed E f (p\<lparr>ps_db := d1\<rparr>)
      | Inr (Inr rt) \<Rightarrow> p\<lparr>ps_db := d1, ps_app := ProdApp rt\<rparr>)"
    by (simp add: main_begin_def Inr r Let_def lg_def split: sum.split)
  show ?thesis
    unfolding eq Let_def using booted failed err by (auto split: sum.split)
qed

text \<open>The invariant does not look at the parts that a frame changes.\<close>

lemma process_inv_cong:
  assumes "ps_pc p' = ps_pc p" "ps_start p' = ps_start p" "ps_server p' = ps_server p" "ps_close p' = ps_close p"
    "ps_log p' = ps_log p"
  shows "process_inv p' = process_inv p"
  using assms by (simp add: process_inv_defs cong: main_pc.case_cong start_pc.case_cong)

text \<open>The server's own steps keep it, as they neither begin nor undo a shutdown.\<close>

lemma process_inv_server:
  assumes inv: "process_inv p" and run: "server_run s'" and "\<not> ended (ps_pc p)"
    and "sv_shutdown s' = NotShut \<longleftrightarrow> sv_shutdown (ps_server p) = NotShut"
    and "sv_shutdown (ps_server p) = ShutReturned \<Longrightarrow> sv_shutdown s' = ShutReturned"
    and "sv_state s' = ServerRunning \<Longrightarrow> sv_state (ps_server p) = ServerRunning"
  shows "process_inv (p\<lparr>ps_server := s'\<rparr>)"
proof -
  have "start_inv (p\<lparr>ps_server := s'\<rparr>)"
    using inv assms(4-6) by (auto simp: process_inv_def start_inv_def split: start_pc.splits)
  moreover have "main_inv (p\<lparr>ps_server := s'\<rparr>)"
    using inv assms(3-5) by (auto simp: process_inv_def main_inv_def Let_def split: main_pc.splits)
  ultimately show ?thesis using inv run by (simp add: process_inv_def)
qed

lemma Start_begin_cases:
  assumes "Start_begin s = (e, s')"
  shows "e = None \<Longrightarrow> sv_state s = ServerNew \<and> sv_shutdown s' = sv_shutdown s"
    "e = Some err \<Longrightarrow> s' = s \<and> (sv_state s = ServerRunning \<or> err = Sentinel HttpErrServerClosed
       \<and> (sv_state s = ServerStopping \<or> sv_state s = ServerStopped))"
  using assms by (auto simp: Start_begin_def split: server_state.splits)

lemma Shutdown_begin_begins:
  assumes "server_run s" "sv_shutdown s = NotShut"
  shows "server_run (Shutdown_begin s)" "sv_shutdown (Shutdown_begin s) \<noteq> NotShut"
    "sv_state (Shutdown_begin s) \<noteq> ServerRunning"
  using server_serving [OF assms(1) serving_step.shutdown [OF assms(2)]] by (simp_all add: Shutdown_begin_def)

lemma program_step_inv:
  assumes inv: "process_inv p" and step: "program_step E p p'"
  shows "process_inv p'"
proof -
  have run: "server_run (ps_server p)" and logs: "log_inv (ps_log p)" using inv by (simp_all add: process_inv_def)
  note shut = shut_state [OF run]
  from step show ?thesis
  proof cases
    case main_stops
    with inv Shutdown_begin_begins [OF run] show ?thesis
      by (auto simp: process_inv_defs split: start_pc.splits)
  next
    case (release err st d p1 p2)
    then show ?thesis using inv by (auto simp: process_inv_defs split: start_pc.splits)
  next
    case finish_main
    with inv show ?thesis by (auto simp: process_inv_defs log_inv_closed Close_inv(1) split: start_pc.splits)
  next
    case (start_runs s)
    with inv server_serving [OF run start [OF start_runs(4)]] Start_begin_cases(1) [OF start_runs(4)] shut
    show ?thesis by (auto simp: process_inv_defs split: main_pc.splits)
  next
    case (start_refused err s)
    with inv Start_begin_cases(2) [OF start_refused(4)] shut
    show ?thesis by (auto simp: process_inv_defs split: main_pc.splits)
  next
    case listener_closed
    with inv show ?thesis by (auto simp: process_inv_defs split: main_pc.splits)
  next
    case (start_stops err)
    with inv Shutdown_begin_begins [OF run] show ?thesis by (auto simp: process_inv_defs split: main_pc.splits)
  next
    case (start_returns err)
    with inv show ?thesis by (auto simp: process_inv_defs split: main_pc.splits)
  next
    case (start_fatal err)
    with inv show ?thesis by (auto simp: process_inv_defs)
  next
    case (server_closes s)
    from closing_step_phase [OF server_closes(3)] server_closes inv show ?thesis
      by (auto intro!: process_inv_server server_closing [OF run server_closes(3)])
  qed (use inv in \<open>auto simp: process_inv_defs split: start_pc.splits\<close>)
qed

lemma outside_step_inv:
  assumes inv: "process_inv p" and step: "outside_step E p p'"
  shows "process_inv p'"
proof -
  have run: "server_run (ps_server p)" using inv by (simp add: process_inv_def)
  from step show ?thesis
  proof cases
    case signalled
    with inv show ?thesis by (auto simp: process_inv_defs split: start_pc.splits)
  next
    case (listener_failed err)
    with inv show ?thesis by (auto simp: process_inv_defs split: main_pc.splits)
  next
    case (asked c ok s)
    note r = asked_run [OF run asked(3,4)]
    show ?thesis unfolding asked(1) by (rule process_inv_server [OF inv r(1) asked(2)]) (simp_all add: r(2,3))
  next
    case (hub_traffic ev h)
    from server_serving [OF run serving_step.traffic [OF hub_traffic(3,4)]]
    have "server_run ((ps_server p)\<lparr>sv_hub := h\<rparr>)" .
    from process_inv_server [OF inv this hub_traffic(2)] show ?thesis unfolding hub_traffic(1) by simp
  next
    case (frame c data)
    with inv process_inv_cong [of p' p] show ?thesis by simp
  qed
qed

lemma process_run_inv: "process_run E path x d p \<Longrightarrow> process_inv p"
  by (induction rule: process_run.induct) (blast intro: main_begin_inv program_step_inv outside_step_inv)+

section \<open>Closing the resources\<close>

text \<open>The data that \<open>main\<close> leaves is that of a stopped server, with each resource closed once.\<close>

definition released ::
  "('w, 'db, 'r) environment \<Rightarrow> string \<Rightarrow> 'r \<Rightarrow> 'db \<Rightarrow> ('w, 'db, 'r) process \<Rightarrow> bool" where
  "released E path x d p \<longleftrightarrow>
     (\<exists>q. process_run E path x d q \<and> sv_state (ps_server q) = ServerStopped \<and> ps_app p = ps_app q
        \<and> ps_db p = fold (\<lambda>close. snd \<circ> close) (present (app_closers (ps_app q))) (ps_db q))"

lemma main_begin_pc: "ps_pc (main_begin E path x d) = Announcing \<or> ended (ps_pc (main_begin E path x d)) \<and>
    ps_pc (main_begin E path x d) \<noteq> Finished"
  by (simp add: main_begin_def Let_def start_failed_def new_process_def split: sum.split prod.split start_failure.split)

lemma process_run_released:
  assumes "process_run E path x d p" "ps_pc p = ClosingLog \<or> ps_pc p = Finished"
  shows "released E path x d p"
  using assms
proof (induction rule: process_run.induct)
  case process_starts
  then show ?case using main_begin_pc [of E path x d] by auto
next
  case (process_program p p')
  have same: ?case if "ps_pc p = ClosingLog" "ps_app p' = ps_app p" "ps_db p' = ps_db p"
    using process_program.IH that by (simp add: released_def)
  note inv = process_run_inv [OF process_program.hyps(1)]
  from process_program.hyps(2) show ?case
  proof cases
    case (release err st d1 p1 p2)
    with inv have "sv_state (ps_server p) = ServerStopped"
      using none_running(1) [of "ps_server p"] by (simp add: process_inv_def main_inv_def Let_def)
    moreover have "d1 = fold (\<lambda>close. snd \<circ> close) (present (app_closers (ps_app p))) (ps_db p)"
      using release(2,3) inv
      by (simp add: process_inv_def main_inv_def Let_def runtime_close_def newRuntimeClose_def run_closers_eq)
    moreover have "ps_app p' = ps_app p" "ps_db p' = d1" using release(1,4,5) by simp_all
    ultimately show ?thesis using process_program.hyps(1) unfolding released_def by blast
  qed (rule same; use process_program.prems in auto)+
next
  case (process_outside p p')
  note inv = process_run_inv [OF process_outside.hyps(1)]
  have pc: "ps_pc p = ClosingLog \<and> ps_app p' = ps_app p \<and> ps_db p' = ps_db p"
  proof -
    have shut: "sv_shutdown (ps_server p) = ShutReturned" if "ps_pc p = ClosingLog"
      using inv that by (simp add: process_inv_def main_inv_def Let_def)
    note idle = none_running(2) [OF _ shut]
    from process_outside.hyps(2) process_outside.prems inv
    show ?thesis
    proof cases
      case (frame c data)
      with process_outside.prems have "ps_pc p = ClosingLog" by auto
      with idle [of c] inv frame(3) show ?thesis by (simp add: process_inv_def)
    qed auto
  qed
  with process_outside.IH show ?case by (simp add: released_def)
qed

section \<open>What is left to do\<close>

fun main_left :: "main_pc \<Rightarrow> nat" where
  "main_left Announcing = 6" | "main_left Waiting = 5" | "main_left ShuttingDown = 4" | "main_left Releasing = 3"
| "main_left ClosingLog = 2" | "main_left _ = 0"

fun start_left :: "start_pc \<Rightarrow> nat" where
  "start_left NotCalled = 3" | "start_left Listening = 2" | "start_left (Stopping _) = 1" | "start_left (Returned _) = 0"

definition process_work :: "('w, 'db, 'r) process \<Rightarrow> nat" where
  "process_work p = main_left (ps_pc p) + start_left (ps_start p) + shutdown_work (ps_server p)"

abbreviation shutting_down :: "('w, 'db, 'r) process \<Rightarrow> bool" where
  "shutting_down p \<equiv> sv_shutdown (ps_server p) \<noteq> NotShut"

lemma not_ended_left: "\<not> ended pc \<Longrightarrow> 0 < main_left pc"
  by (cases pc) simp_all

lemma program_step_enabled:
  assumes run: "process_run E path x d p" and shut: "shutting_down p" and live: "\<not> ended (ps_pc p)"
  shows "\<exists>p'. program_step E p p'"
proof (cases "sv_shutdown (ps_server p) = ShutReturned")
  case False
  note inv = process_run_inv [OF run]
  then have "server_run (ps_server p)" by (simp add: process_inv_def)
  from closing_step_enabled [OF this shut False, of "player_of p"] show ?thesis using server_closes [OF live] by blast
next
  case True
  note inv = process_run_inv [OF run, unfolded process_inv_def main_inv_def Let_def]
  show ?thesis
  proof (cases "ps_pc p")
    case Waiting
    with inv True obtain err where
      err: "err \<noteq> Sentinel HttpErrServerClosed" "ps_start p = Stopping err \<or> ps_start p = Returned err" by auto
    from err(2) show ?thesis using start_returns [OF live _ True] start_fatal [OF live _ err(1)] by blast
  next
    case Releasing
    from prod_cases3 show ?thesis using release [OF Releasing _ refl refl] by metis
  qed (use True live in \<open>auto intro: announce main_stopped finish_main\<close>)
qed

lemma program_step_work:
  assumes inv: "process_inv p" and shut: "shutting_down p" and step: "program_step E p p'"
  shows "process_work p' < process_work p \<and> shutting_down p'"
proof -
  have run: "server_run (ps_server p)" using inv by (simp add: process_inv_def)
  from step show ?thesis
  proof cases
    case (start_runs s)
    with shut Start_begin_cases(1) [OF start_runs(4)] shut_state [OF run] show ?thesis by simp
  next
    case (start_refused err s)
    with shut Start_begin_cases(2) [OF start_refused(4)] show ?thesis by (simp add: process_work_def)
  next
    case (start_fatal err)
    with shut not_ended_left [OF start_fatal(2)] show ?thesis by (simp add: process_work_def)
  next
    case (server_closes s)
    with closing_step_work [OF server_run_inv [OF run] server_closes(3)] closing_step_phase(1) [OF server_closes(3)] shut
    show ?thesis by (simp add: process_work_def)
  qed (use shut in \<open>simp_all add: process_work_def\<close>)
qed

lemma outside_step_work:
  assumes inv: "process_inv p" and shut: "shutting_down p" and step: "outside_step E p p'"
  shows "process_work p' \<le> process_work p \<and> shutting_down p'"
proof -
  have run: "server_run (ps_server p)" using inv by (simp add: process_inv_def)
  note work = serving_step_work [OF server_run_inv [OF run] shut]
  from step show ?thesis
  proof cases
    case (asked c ok s)
    have "serving_step (player_of p) (ps_server p) (if ok then set_pc c Reserved s else s)"
      using asked request [OF asked(3)] request_refused by (cases ok) auto
    from work [OF this] shut asked show ?thesis by (simp add: process_work_def)
  next
    case (hub_traffic ev h)
    with work [OF serving_step.traffic [OF hub_traffic(3,4)]] shut show ?thesis by (simp add: process_work_def)
  qed (use shut in \<open>simp_all add: process_work_def\<close>)
qed

lemma process_server_stops:
  assumes "process_run E path x d p" "shutting_down p" "\<not> ended (ps_pc p)"
  shows "\<exists>s. process_run E path x d (p\<lparr>ps_server := s\<rparr>) \<and> sv_shutdown s = ShutReturned"
  using assms
proof (induction "shutdown_work (ps_server p)" arbitrary: p rule: less_induct)
  case less
  from process_run_inv [OF less(2)] have run: "server_run (ps_server p)" by (simp add: process_inv_def)
  show ?case
  proof (cases "sv_shutdown (ps_server p) = ShutReturned")
    case True
    with less(2) show ?thesis by (intro exI [of _ "ps_server p"]) simp
  next
    case False
    from closing_step_enabled [OF run less(3) False] obtain s where s: "closing_step (player_of p) (ps_server p) s" by blast
    let ?p = "p\<lparr>ps_server := s\<rparr>"
    have "\<exists>t. process_run E path x d (?p\<lparr>ps_server := t\<rparr>) \<and> sv_shutdown t = ShutReturned"
      using closing_step_work [OF server_run_inv [OF run] s] closing_step_phase(1) [OF s] less(3,4)
        process_program [OF less(2) server_closes [OF less(4) s]] by (intro less(1)) simp_all
    then show ?thesis by simp
  qed
qed

section \<open>Properties\<close>



end
