(* ===== verification/Prod_Sample.thy ===== *)
theory Prod_Sample
  imports Prod_Runtime MySQL_Sample Redis_Sample Sample_Codec
begin

text \<open>
  A platform for the witness of \<open>Prod_Runtime\<close>: the Redis client of \<open>Redis_Sample\<close>, a database that opens and holds
  nothing, and a codec of two requests.
\<close>

definition idle_gorm :: "'db gorm" where
  "idle_gorm =
     \<lparr>g_players = failing_table, g_archives = failing_table, g_scores = failing_table, g_orders = failing_table,
      g_stats = failing_table, g_styles = failing_table, g_settlements = failing_table,
      g_Transaction = (\<lambda>body d. ((Some unsupported, None), d)), g_AutoMigrate = (\<lambda>ts d. (None, d)),
      g_DB = (\<lambda>d. None), g_SetMaxIdleConns = (\<lambda>n d. d), g_SetMaxOpenConns = (\<lambda>n d. d),
      g_Close = (\<lambda>d. (None, d))\<rparr>"

definition small_platform :: "small_redis platform" where
  "small_platform =
     \<lparr>pf_codec = table_codec [M_LoadArchiveReq LoadArchiveReq], pf_mysql = (\<lambda>dsn d. (Inr idle_gorm, d)),
      pf_redis = (\<lambda>addr pw n. small_client), pf_http = (\<lambda>t url d. (Inl unsupported, d)),
      pf_wechat_json = (\<lambda>bs. Inl unsupported), pf_rand = (\<lambda>d. (Inr [], d)), pf_metadata_text = (\<lambda>m. []),
      pf_spawn = (\<lambda>f. f), pf_gm_json = \<lparr>json_uid = (\<lambda>bs. Inl unsupported), json_content = (\<lambda>bs. Inl unsupported)\<rparr>,
      pf_hub = \<lparr>bc_Broadcast = (\<lambda>i m d. d), bc_OnlineCount = (\<lambda>d. 0)\<rparr>\<rparr>"

definition prod_config :: config where
  "prod_config = \<lparr>
     cf_Server = \<lparr>srv_Host = [], srv_Port = 8080, srv_Name = ''prod''\<rparr>,
     cf_Redis = \<lparr>rc_Host = [], rc_Port = 6379, rc_Password = [], rc_DB = 0\<rparr>,
     cf_MySQL = \<lparr>mc_Host = [], mc_Port = 3306, mc_User = [], mc_Password = [], mc_DBName = [],
       mc_MaxIdleConns = 0, mc_MaxOpenConns = 0\<rparr>,
     cf_Wechat = \<lparr>wc_AppID = [], wc_AppSecret = [], wc_PaymentEnabled = False, wc_MchID = [],
       wc_MchPrivateKeyPath = [], wc_MchCertSerialNo = [], wc_WechatPayCertPath = [], wc_PayNotifyURL = []\<rparr>,
     cf_Log = \<lparr>lc_Level = ''info'', lc_Filename = [], lc_MaxSize = 0, lc_MaxBackups = 0, lc_MaxAge = 0\<rparr>,
     cf_GM = \<lparr>gm_AdminUIDs = []\<rparr>,
     cf_Development = \<lparr>dv_Enabled = False, dv_LoginEnabled = False\<rparr>\<rparr>"

lemma prod_sample_starts: "\<exists>rt. newProductionRuntime small_platform prod_config small_empty = (Inr rt, small_empty)"
proof -
  have pay: "\<not> wc_PaymentEnabled (cf_Wechat prod_config)" by (simp add: prod_config_def)
  have my: "openMySQLStore small_platform (cf_MySQL prod_config) small_empty
      = (Inr (idle_gorm, Some (MySQL_Close idle_gorm)), small_empty)"
    by (simp add: openMySQLStore_def NewMySQLStore_def small_platform_def idle_gorm_def validateAndCloseOnFailure_def Let_def)
  have rd: "openRedisStore small_platform (cf_Redis prod_config) small_empty
      = (Inr (small_client, Some (Redis_Close small_client)), small_empty)"
    by (simp add: openRedisStore_def NewRedisStore_def small_platform_def small_client_def validateAndCloseOnFailure_def
        Let_def)
  from newProductionRuntime_opened [OF pay my rd] show ?thesis by blast
qed

text \<open>A session bound to player 7, of whom Redis knows nothing.\<close>

theorem prod_requests_gated_witness:
  "\<exists>rt m. fst (newProductionRuntime small_platform prod_config small_empty) = Inr rt
     \<and> Dispatch (pf_codec small_platform) (pr_kernel rt) (WithSession Background 3)
         (frame_bytes MsgID_LoadArchiveReq 5 [0])
         \<lparr>w_sessions = (\<lambda>s. Session_Bind 7 Session_New), w_db = small_empty\<rparr>
       = (None, [\<lparr>rp_seq = 5, rp_id = MsgID_Error,
           rp_payload = M_ErrorResp \<lparr>er_code = to_i32 ErrLoginTokenExpired, er_msg = m\<rparr>\<rparr>],
          \<lparr>w_sessions = (\<lambda>s. Session_Bind 7 Session_New), w_db = small_empty\<rparr>)"
proof -
  from prod_sample_starts obtain rt where
    rt: "newProductionRuntime small_platform prod_config small_empty = (Inr rt, small_empty)" by blast
  let ?f = "\<lparr>MsgID = MsgID_LoadArchiveReq, Seq = 5, Body = [0]\<rparr>"
  let ?w = "\<lparr>w_sessions = (\<lambda>s. Session_Bind 7 Session_New), w_db = small_empty\<rparr>"
  have dec: "Decode (frame_bytes MsgID_LoadArchiveReq 5 [0]) = Inr ?f" "Seq ?f \<noteq> 0"
    by (simp_all add: Decode_frame_bytes HeaderSize_def MaxFrameSize_def)
  have route: "RouteFor (MsgID ?f) = Some \<lparr>request_id = MsgID_LoadArchiveReq, response_id = MsgID_LoadArchiveResp,
      request_prototype = T_LoadArchiveReq, response_prototype = T_LoadArchiveResp\<rparr>" (is "_ = Some ?r")
    by (simp add: dev_routes)
  have free: "MsgID ?f \<notin> {MsgID_LoginReq, MsgID_HeartbeatReq}" by (simp add: msg_id_defs)
  have un: "unmarshal (pf_codec small_platform) (request_prototype ?r) (Body ?f) = Inr (M_LoadArchiveReq LoadArchiveReq)"
    by (simp add: small_platform_def unmarshal_table)
  have store: "prod_redis small_platform prod_config = redis_store_of small_client"
    by (simp add: prod_redis_def small_platform_def)
  have "\<not> (7 :: i64) \<le>s 0" by (simp add: signed_defs)
  moreover have "rd_GetSession (redis_store_of small_client) 7 small_empty = Inr None"
    by (simp add: redis_store_of_def Redis_GetSession_def small_client_def small_empty_def)
  ultimately have "prod_gate (prod_redis small_platform prod_config) (Session_UID (w_sessions ?w 3)) (w_db ?w)
      = (Some ErrLoginTokenExpired, small_empty)" by (simp add: prod_gate_def store)
  from prod_requests_gated [OF rt dec route free un this] rt show ?thesis by auto
qed

end
