(* ===== verification/Main_Sample.thy ===== *)
theory Main_Sample
  imports Main_Program Prod_Sample
begin

text \<open>
  A run of the server process for the witnesses of \<open>Main_Program\<close>: the production configuration and platform of
  \<open>Prod_Sample\<close>, from the start over a signal to the end.
\<close>

definition sample_environment :: "(byte list list, small_redis, unit) environment" where
  "sample_environment =
     \<lparr>en_load = (\<lambda>path. Inr prod_config), en_platform = small_platform, en_rand = (\<lambda>u. (Inr [], u)),
      en_log = line_library, en_encode = (\<lambda>lv m. [7])\<rparr>"

abbreviation sample_process_run :: "(byte list list, small_redis, unit) process \<Rightarrow> bool" where
  "sample_process_run p \<equiv> process_run sample_environment ''config.yaml'' () small_empty p"

lemma sample_process_starts:
  obtains p where "sample_process_run p" "ps_pc p = Announcing" "ps_start p = NotCalled" "ps_server p = NewServer"
proof -
  from prod_sample_starts obtain rt where rt: "newProductionRuntime small_platform prod_config small_empty = (Inr rt, small_empty)"
    by blast
  have "newRuntime small_platform rand prod_config small_empty = (Inr (Inr rt), small_empty)" for rand :: "unit \<Rightarrow> _"
    by (simp add: newRuntime_def rt) (simp add: prod_config_def)
  then have "ps_pc (main_begin sample_environment ''config.yaml'' () small_empty) = Announcing
      \<and> ps_start (main_begin sample_environment ''config.yaml'' () small_empty) = NotCalled
      \<and> ps_server (main_begin sample_environment ''config.yaml'' () small_empty) = NewServer"
    by (simp add: main_begin_def sample_environment_def Let_def)
  with that [OF process_starts] show thesis by blast
qed

text \<open>The server runs, a signal arrives, and \<open>main\<close> begins the shutdown.\<close>

lemma sample_process_stops:
  obtains p where "sample_process_run p" "ps_pc p = ShuttingDown" "ps_start p = Listening"
    "sv_shutdown (ps_server p) = StoppingHttp"
proof -
  obtain p0 where p0: "sample_process_run p0" "ps_pc p0 = Announcing" "ps_start p0 = NotCalled" "ps_server p0 = NewServer"
    by (rule sample_process_starts)
  have begin_new: "Start_begin (ps_server p0) = (None, running_server)"
    by (simp add: p0(4) running_server_def) (simp add: Start_begin_def NewServer_def)
  have live: "\<not> ended (ps_pc p0)" by (simp add: p0(2))
  from process_program [OF p0(1) start_runs [OF live p0(3) begin_new]] obtain p1 where
    p1: "sample_process_run p1" "ps_pc p1 = Announcing" "ps_start p1 = Listening" "ps_server p1 = running_server"
    by (simp add: p0(2))
  from process_program [OF p1(1) announce [OF p1(2)]] obtain p2 where
    p2: "sample_process_run p2" "ps_pc p2 = Waiting" "ps_start p2 = Listening" "ps_server p2 = running_server"
    by (simp add: p1)
  from process_outside [OF p2(1) signalled [OF p2(2)]] obtain p3 where
    p3: "sample_process_run p3" "ps_pc p3 = ShuttingDown" "ps_start p3 = Listening" "ps_server p3 = running_server"
    by (simp add: p2)
  have "sv_shutdown (ps_server p3) = NotShut" by (simp add: p3(4))
  from process_program [OF p3(1) main_stops [OF p3(2) this]] that p3 show thesis
    by (simp add: Shutdown_begin_def)
qed



end
