(* ===== verification/Prod_Login.thy ===== *)
theory Prod_Login
  imports Prod_Runtime
begin

text \<open>
  Logging in to the production server: the login handler of \<open>internal/login\<close> over the MySQL table of players, the
  sessions in Redis and the WeChat client, as \<open>newRuntime\<close> composes them. What MySQL promises of the table of
  players is \<open>lawful_accounts\<close>; any of its statements may fail. The text of an open id is compared with the
  collation of the column, a parameter.

  Shown here: what a login leaves behind, of every outcome.
\<close>

section \<open>The table of players\<close>

text \<open>The primary key and the unique index.\<close>

definition accounts_ok :: "(string \<Rightarrow> string) \<Rightarrow> sql_view \<Rightarrow> bool" where
  "accounts_ok coll v \<longleftrightarrow>
     (\<forall>i p. v_players v i = Some p \<longrightarrow> p_id p = i)
     \<and> (\<forall>i j p q. v_players v i = Some p \<longrightarrow> v_players v j = Some q \<longrightarrow>
          coll (p_open_id p) = coll (p_open_id q) \<longrightarrow> i = j)"

definition no_account :: "(string \<Rightarrow> string) \<Rightarrow> sql_view \<Rightarrow> string \<Rightarrow> bool" where
  "no_account coll v x \<longleftrightarrow> (\<forall>i p. v_players v i = Some p \<longrightarrow> coll (p_open_id p) \<noteq> coll x)"

text \<open>
  The statements of the login. \<open>Create\<close> fills in the id and the times of the struct; the row may hold the times
  rounded. \<open>Updates\<close> leaves out the id and the time of creation and sets the time of the update; it affects no
  row when there is none or when nothing would change.
\<close>

definition account_reads :: "(string \<Rightarrow> string) \<Rightarrow> 'db gorm \<Rightarrow> ('db \<Rightarrow> sql_view) \<Rightarrow> bool" where
  "account_reads coll db view \<longleftrightarrow>
     (\<forall>x d. case tb_First (g_players db) False [ColEq ''open_id'' (SqlText x)] d of
        Inr p \<Rightarrow> v_players (view d) (p_id p) = Some p \<and> coll (p_open_id p) = coll x
      | Inl e \<Rightarrow> \<not> errors_is e ErrNotFound \<and> (errors_is e GormErrRecordNotFound \<longrightarrow> no_account coll (view d) x))"

definition account_creates :: "(string \<Rightarrow> string) \<Rightarrow> 'db gorm \<Rightarrow> ('db \<Rightarrow> sql_view) \<Rightarrow> bool" where
  "account_creates coll db view \<longleftrightarrow>
     (\<forall>p d. p_id p = 0 \<longrightarrow>
        (case tb_Create (g_players db) p d of
           (Inl e, d') \<Rightarrow> view d' = view d
         | (Inr r, d') \<Rightarrow> \<exists>i t t1 t2. r = p\<lparr>p_id := i, p_created_at := t, p_updated_at := t\<rparr>
             \<and> 0 <s i \<and> v_players (view d) i = None \<and> no_account coll (view d) (p_open_id p)
             \<and> view d' = (view d)\<lparr>v_players := (v_players (view d))
                 (i \<mapsto> r\<lparr>p_created_at := t1, p_updated_at := t2\<rparr>)\<rparr>))"

definition account_updates :: "(string \<Rightarrow> string) \<Rightarrow> 'db gorm \<Rightarrow> ('db \<Rightarrow> sql_view) \<Rightarrow> bool" where
  "account_updates coll db view \<longleftrightarrow>
     (\<forall>p d. case tb_Updates (g_players db) [ColEq ''id'' (SqlInt (sint (p_id p)))] [''id'', ''created_at''] p d of
        ((Some e, rows), d') \<Rightarrow> view d' = view d
      | ((None, rows), d') \<Rightarrow>
          if rows = 0 then view d' = view d
          else \<exists>old t. v_players (view d) (p_id p) = Some old
            \<and> (\<forall>j q. v_players (view d) j = Some q \<longrightarrow> coll (p_open_id q) = coll (p_open_id p) \<longrightarrow> j = p_id p)
            \<and> view d' = (view d)\<lparr>v_players := (v_players (view d))
                (p_id p \<mapsto> p\<lparr>p_created_at := p_created_at old, p_updated_at := t\<rparr>)\<rparr>)"

definition lawful_accounts :: "(string \<Rightarrow> string) \<Rightarrow> 'db gorm \<Rightarrow> ('db \<Rightarrow> sql_view) \<Rightarrow> bool" where
  "lawful_accounts coll db view \<longleftrightarrow>
     account_reads coll db view \<and> account_creates coll db view \<and> account_updates coll db view"

text \<open>MySQL, Redis, WeChat and the random source do not touch each other's data.\<close>

definition separate_stores ::
  "'db platform \<Rightarrow> 'db gorm \<Rightarrow> 'db redis_client \<Rightarrow> ('db \<Rightarrow> sql_view) \<Rightarrow> ('db \<Rightarrow> redis_view) \<Rightarrow> bool" where
  "separate_stores P db c view rview \<longleftrightarrow>
     (\<forall>p d. rview (snd (tb_Create (g_players db) p d)) = rview d)
     \<and> (\<forall>cs om p d. rview (snd (tb_Updates (g_players db) cs om p d)) = rview d)
     \<and> (\<forall>k fs d. view (snd (cl_HSet c k fs d)) = view d) \<and> (\<forall>k t d. view (snd (cl_Expire c k t d)) = view d)
     \<and> (\<forall>t url d. view (snd (pf_http P t url d)) = view d \<and> rview (snd (pf_http P t url d)) = rview d)
     \<and> (\<forall>d. view (snd (pf_rand P d)) = view d \<and> rview (snd (pf_rand P d)) = rview d)"

section \<open>The steps of a login\<close>

text \<open>What the account of an identity may look like after a failure: as before, or created without a token.\<close>

definition account_left :: "(string \<Rightarrow> string) \<Rightarrow> string \<Rightarrow> sql_view \<Rightarrow> sql_view \<Rightarrow> bool" where
  "account_left coll x v v' \<longleftrightarrow> v' = v
     \<or> no_account coll v x \<and> (\<exists>i p. v_players v i = None \<and> p_open_id p = x \<and> p_id p = i \<and> p_token p = []
         \<and> v' = v\<lparr>v_players := (v_players v)(i \<mapsto> p)\<rparr>)"

text \<open>The account of an identity before the token is written, and the row that the code holds of it.\<close>

definition account_found :: "(string \<Rightarrow> string) \<Rightarrow> string \<Rightarrow> sql_view \<Rightarrow> sql_view \<Rightarrow> player \<Rightarrow> bool" where
  "account_found coll x v v' p \<longleftrightarrow> coll (p_open_id p) = coll x
     \<and> (v' = v \<and> v_players v (p_id p) = Some p
        \<or> no_account coll v x \<and> v_players v (p_id p) = None \<and> 0 <s p_id p \<and> p_open_id p = x \<and> p_token p = []
          \<and> p_nickname p = default_nickname (p_id p) \<and> p_best_score p = 0
          \<and> (\<exists>t t'. v' = v\<lparr>v_players := (v_players v)(p_id p \<mapsto> p\<lparr>p_created_at := t, p_updated_at := t'\<rparr>)\<rparr>))"

lemma account_leftI:
  "no_account coll v x \<Longrightarrow> v_players v (p_id p) = None \<Longrightarrow> p_open_id p = x \<Longrightarrow> p_token p = [] \<Longrightarrow>
   v' = v\<lparr>v_players := (v_players v)(p_id p \<mapsto> p)\<rparr> \<Longrightarrow> account_left coll x v v'"
  by (auto simp: account_left_def)

lemma account_found_left: "account_found coll x v v' p \<Longrightarrow> account_left coll x v v'"
  unfolding account_found_def account_left_def
  by (elim conjE disjE exE) (simp, intro disjI2 conjI exI [of _ "p_id p"] exI, simp_all)

lemma mysql_players_simps [simp]:
  "GetPlayerByOpenID (mysql_players (mysql_store_of db)) x d =
     map_sum id Some (tb_First (g_players db) False [ColEq ''open_id'' (SqlText x)] d)"
  "CreatePlayer (mysql_players (mysql_store_of db)) p d = tb_Create (g_players db) p d"
  "UpdatePlayer (mysql_players (mysql_store_of db)) p d = MySQL_UpdatePlayer db (Some p) d"
  by (simp_all add: mysql_players_def mysql_store_of_def MySQL_GetPlayerByOpenID_def MySQL_CreatePlayer_def)

lemma MySQL_UpdatePlayer_cases:
  assumes law: "lawful_accounts coll db view" and u: "MySQL_UpdatePlayer db (Some p) d = (err, d')"
  obtains (failed) e where "err = Some e" "view d' = view d"
  | (updated) old t where "err = None" "v_players (view d) (p_id p) = Some old"
      "\<forall>j q. v_players (view d) j = Some q \<longrightarrow> coll (p_open_id q) = coll (p_open_id p) \<longrightarrow> j = p_id p"
      "view d' = (view d)\<lparr>v_players := (v_players (view d))
         (p_id p \<mapsto> p\<lparr>p_created_at := p_created_at old, p_updated_at := t\<rparr>)\<rparr>"
proof -
  obtain e rows d1 where w: "tb_Updates (g_players db) [ColEq ''id'' (SqlInt (sint (p_id p)))] [''id'', ''created_at''] p d
      = ((e, rows), d1)" by (metis surj_pair)
  note L = law [unfolded lawful_accounts_def account_updates_def, THEN conjunct2, THEN conjunct2,
      THEN spec [of _ p], THEN spec [of _ d], unfolded w, simplified]
  show ?thesis
  proof (cases "e = None \<and> rows \<noteq> 0")
    case True
    with u w have "err = None" "d' = d1" by (simp_all add: MySQL_UpdatePlayer_def)
    with L True updated show ?thesis by auto
  next
    case False
    with u w have "\<exists>x. err = Some x" "d' = d1" by (auto simp: MySQL_UpdatePlayer_def split: option.splits if_splits)
    with L False failed show ?thesis by (cases e) auto
  qed
qed

lemma login_player_accounts:
  assumes law: "lawful_accounts coll db view" and svc: "ls_players svc = mysql_players (mysql_store_of db)"
    and run: "login_player svc x d = (res, d')"
  shows "case res of Inr p \<Rightarrow> account_found coll x (view d) (view d') p | Inl e \<Rightarrow> account_left coll x (view d) (view d')"
proof -
  note read = law [unfolded lawful_accounts_def account_reads_def, THEN conjunct1,
      THEN spec [of _ x], THEN spec [of _ d]]
  show ?thesis
  proof (cases "tb_First (g_players db) False [ColEq ''open_id'' (SqlText x)] d")
    case (Inr p)
    with run svc have "res = Inr p" "d' = d" by (simp_all add: login_player_def)
    with Inr read show ?thesis by (simp add: account_found_def)
  next
    case (Inl e)
    show ?thesis
    proof (cases "errors_is e GormErrRecordNotFound")
      case False
      with Inl run svc read show ?thesis by (auto simp: login_player_def IsNotFound_def account_left_def)
    next
      case True
      with Inl read have none: "no_account coll (view d) x" and nf: "IsNotFound e" by (simp_all add: IsNotFound_def)
      obtain c d1 where c: "tb_Create (g_players db) (new_player x) d = (c, d1)" by fastforce
      note create = law [unfolded lawful_accounts_def account_creates_def, THEN conjunct2, THEN conjunct1,
          THEN spec [of _ "new_player x"], THEN spec [of _ d], unfolded c, simplified]
      show ?thesis
      proof (cases c)
        case Inl
        with run svc \<open>tb_First _ _ _ _ = Inl e\<close> nf c create show ?thesis
          by (auto simp: login_player_def account_left_def new_player_def)
      next
        case (Inr r)
        with create obtain i t t1 t2 where r: "r = (new_player x)\<lparr>p_id := i, p_created_at := t, p_updated_at := t\<rparr>"
          "0 <s i" "v_players (view d) i = None"
          "view d1 = (view d)\<lparr>v_players := (v_players (view d))(i \<mapsto> r\<lparr>p_created_at := t1, p_updated_at := t2\<rparr>)\<rparr>"
          by (auto simp: new_player_def)
        let ?p = "r\<lparr>p_nickname := default_nickname i\<rparr>"
        obtain err d2 where u: "MySQL_UpdatePlayer db (Some ?p) d1 = (err, d2)" by fastforce
        have eq: "(res, d') = (case err of Some e \<Rightarrow> (Inl (LoginOperationError LoginStageUpdateNickname e), d2) | None \<Rightarrow> (Inr ?p, d2))"
          using run svc Inl nf c Inr u by (simp add: login_player_def Let_def r(1) split: option.splits)
        from law u show ?thesis
        proof (cases rule: MySQL_UpdatePlayer_cases)
          case (failed e)
          have "account_left coll x (view d) (view d2)"
            by (rule account_leftI [of _ _ _ "r\<lparr>p_created_at := t1, p_updated_at := t2\<rparr>"])
               (use failed r none in \<open>simp_all add: new_player_def\<close>)
          with eq failed(1) show ?thesis by simp
        next
          case (updated old t')
          have "account_found coll x (view d) (view d2) ?p"
            unfolding account_found_def
            by (intro conjI disjI2 exI [of _ "p_created_at old"] exI [of _ t'])
               (use updated(4) r none in \<open>simp_all add: new_player_def\<close>)
          with eq updated(1) show ?thesis by simp
        qed
      qed
    qed
  qed
qed

lemma Redis_SetSession_sql:
  assumes "separate_stores P db c view rview"
  shows "view (snd (Redis_SetSession c uid s d)) = view d"
  using assms by (auto simp: Redis_SetSession_def separate_stores_def Let_def split: prod.split option.split) (metis snd_conv)+

lemma MySQL_UpdatePlayer_redis:
  assumes "separate_stores P db c view rview"
  shows "rview (snd (MySQL_UpdatePlayer db (Some p) d)) = rview d"
  using assms by (auto simp: MySQL_UpdatePlayer_def separate_stores_def split: prod.split option.split) (metis snd_conv)+

lemma login_player_redis:
  assumes sep: "separate_stores P db c view rview" and svc: "ls_players svc = mysql_players (mysql_store_of db)"
  shows "rview (snd (login_player svc x d)) = rview d"
proof -
  have "rview (snd (tb_Create (g_players db) p d)) = rview d" for p d using sep by (simp add: separate_stores_def)
  note keep = this MySQL_UpdatePlayer_redis [OF sep]
  show ?thesis
    unfolding login_player_def svc mysql_players_simps Let_def
    by (auto split: sum.split option.split prod.split) (metis keep snd_conv)+
qed

lemma exchange_separate:
  assumes "separate_stores P db c view rview"
  shows "view (snd (ls_exchanger (prod_login_service P wc my rd) code d)) = view d"
    "rview (snd (ls_exchanger (prod_login_service P wc my rd) code d)) = rview d"
proof -
  have http: "view (snd (pf_http P t url d)) = view d" "rview (snd (pf_http P t url d)) = rview d" for t url d
    using assms by (simp_all add: separate_stores_def)
  have "view (snd (Code2Session dec (NewWechatClient (pf_http P) wc) code d)) = view d
    \<and> rview (snd (Code2Session dec (NewWechatClient (pf_http P) wc) code d)) = rview d" for dec code d
    unfolding Code2Session_def NewWechatClient_def
    by (auto simp: Let_def split: prod.split sum.split) (metis http snd_conv)+
  note api = this
  show "view (snd (ls_exchanger (prod_login_service P wc my rd) code d)) = view d"
    "rview (snd (ls_exchanger (prod_login_service P wc my rd) code d)) = rview d"
    unfolding prod_login_service_def WechatCodeExchanger_Exchange_def
    by (auto split: prod.split sum.split option.split) (metis api snd_conv)+
qed

section \<open>The whole login\<close>

text \<open>A login as the player \<open>uid\<close>: the account of the identity, found or created, holds the new token; all other
  accounts and tables are as before.\<close>

definition account_logged_in ::
  "(string \<Rightarrow> string) \<Rightarrow> string \<Rightarrow> sql_view \<Rightarrow> sql_view \<Rightarrow> i64 \<Rightarrow> string \<Rightarrow> string \<Rightarrow> bool" where
  "account_logged_in coll x v v' uid nickname token \<longleftrightarrow>
     (\<exists>p. v' = v\<lparr>v_players := (v_players v)(uid \<mapsto> p)\<rparr> \<and> p_id p = uid \<and> coll (p_open_id p) = coll x
        \<and> p_token p = token \<and> p_nickname p = nickname
        \<and> (case v_players v uid of
             Some old \<Rightarrow> p = old\<lparr>p_token := token, p_updated_at := p_updated_at p\<rparr>
           | None \<Rightarrow> no_account coll v x \<and> 0 <s uid \<and> p_open_id p = x \<and> nickname = default_nickname uid))"

lemma accounts_ok_upd:
  assumes ok: "accounts_ok coll v" and "p_id p = i"
    and one: "\<And>j q. v_players v j = Some q \<Longrightarrow> coll (p_open_id q) = coll (p_open_id p) \<Longrightarrow> j = i"
  shows "accounts_ok coll (v\<lparr>v_players := (v_players v)(i \<mapsto> p)\<rparr>)"
  unfolding accounts_ok_def
proof (intro conjI allI impI)
  fix j q
  assume "v_players (v\<lparr>v_players := (v_players v)(i \<mapsto> p)\<rparr>) j = Some q"
  then show "p_id q = j" using ok assms(2) by (auto simp: accounts_ok_def split: if_splits)
next
  fix j k q r
  assume j: "v_players (v\<lparr>v_players := (v_players v)(i \<mapsto> p)\<rparr>) j = Some q"
    and k: "v_players (v\<lparr>v_players := (v_players v)(i \<mapsto> p)\<rparr>) k = Some r" and e: "coll (p_open_id q) = coll (p_open_id r)"
  show "j = k"
  proof (cases "j = i \<or> k = i")
    case True
    with j k e one [of k r] one [of j q] show ?thesis by (auto split: if_splits)
  next
    case False
    with j k e ok show ?thesis by (simp add: accounts_ok_def)
  qed
qed

lemma accounts_ok_left:
  assumes ok: "accounts_ok coll v" and left: "account_left coll x v v'"
  shows "accounts_ok coll v'"
proof (cases "v' = v")
  case False
  with left obtain p where "no_account coll v x" "p_open_id p = x" "v' = v\<lparr>v_players := (v_players v)(p_id p \<mapsto> p)\<rparr>"
    by (auto simp: account_left_def)
  with accounts_ok_upd [OF ok refl, of p] show ?thesis by (auto simp: no_account_def)
qed (use ok in simp)

lemma accounts_ok_logged_in:
  assumes ok: "accounts_ok coll v" and "account_logged_in coll x v v' uid nickname token"
  shows "accounts_ok coll v'"
proof -
  from assms(2) obtain p where p: "v' = v\<lparr>v_players := (v_players v)(uid \<mapsto> p)\<rparr>" "p_id p = uid"
    "case v_players v uid of Some old \<Rightarrow> p = old\<lparr>p_token := token, p_updated_at := p_updated_at p\<rparr>
     | None \<Rightarrow> no_account coll v x \<and> 0 <s uid \<and> p_open_id p = x \<and> nickname = default_nickname uid"
    unfolding account_logged_in_def by blast
  have other: "j = uid" if "v_players v j = Some q" "coll (p_open_id q) = coll (p_open_id p)" for j q
  proof (cases "v_players v uid")
    case None
    with p(3) that show ?thesis by (simp add: no_account_def)
  next
    case (Some old)
    with p(3) have "p = old\<lparr>p_token := token, p_updated_at := p_updated_at p\<rparr>" by simp
    from arg_cong [OF this, of p_open_id] have "p_open_id p = p_open_id old" by simp
    with ok that Some show ?thesis unfolding accounts_ok_def by metis
  qed
  from accounts_ok_upd [OF ok p(2) other] show ?thesis by (simp add: p(1))
qed

lemma account_token_written:
  assumes law: "lawful_accounts coll db view" and found: "account_found coll x v (view d) p"
    and u: "MySQL_UpdatePlayer db (Some (p\<lparr>p_token := token\<rparr>)) d = (None, d')"
  shows "account_logged_in coll x v (view d') (p_id p) (p_nickname p) token"
proof -
  from law u obtain old t where w: "v_players (view d) (p_id p) = Some old" "view d' = (view d)\<lparr>v_players :=
      (v_players (view d))(p_id p \<mapsto> p\<lparr>p_token := token, p_created_at := p_created_at old, p_updated_at := t\<rparr>)\<rparr>"
    by (cases rule: MySQL_UpdatePlayer_cases) auto
  let ?q = "p\<lparr>p_token := token, p_created_at := p_created_at old, p_updated_at := t\<rparr>"
  from found [unfolded account_found_def] consider (old) "view d = v" "v_players v (p_id p) = Some p"
    | (new) "no_account coll v x" "v_players v (p_id p) = None" "0 <s p_id p" "p_open_id p = x"
        "p_nickname p = default_nickname (p_id p)"
        "\<exists>t t'. view d = v\<lparr>v_players := (v_players v)(p_id p \<mapsto> p\<lparr>p_created_at := t, p_updated_at := t'\<rparr>)\<rparr>"
    by auto
  then show ?thesis
  proof cases
    case old
    with w have "p = old" by simp
    have "?q = p\<lparr>p_token := token, p_updated_at := p_updated_at ?q\<rparr>" unfolding \<open>p = old\<close> by (cases old) simp
    with old w found show ?thesis
      unfolding account_logged_in_def by (intro exI [of _ ?q]) (simp add: account_found_def)
  next
    case new
    with w found show ?thesis
      unfolding account_logged_in_def by (intro exI [of _ ?q]) (auto simp: account_found_def)
  qed
qed

lemma prod_login_service_simps [simp]:
  "ls_players (prod_login_service P wc my rd) = mysql_players my"
  "ls_sessions (prod_login_service P wc my rd) = redis_sessions rd"
  "ls_generate (prod_login_service P wc my rd) = GenerateToken (pf_rand P)"
  by (simp_all add: prod_login_service_def)

text \<open>The outcome of the service, from the identity that WeChat vouches for.\<close>

lemma prod_login_identified:
  assumes law: "lawful_accounts coll db view" and hashes: "lawful_hashes c rview"
    and sep: "separate_stores P db c view rview"
    and ident: "ls_exchanger (prod_login_service P wc (mysql_store_of db) (redis_store_of c)) code d = (Inr identity, d1)"
    and run: "LoginService_Login (prod_login_service P wc (mysql_store_of db) (redis_store_of c)) code d = (res, d')"
  shows "case res of
      Inl e \<Rightarrow> account_left coll (li_open_id identity) (view d) (view d') \<and> rview d' = rview d
    | Inr r \<Rightarrow> account_logged_in coll (li_open_id identity) (view d) (view d') (res_UID r) (res_Nickname r) (res_Token r)
        \<and> redis_sessions_in (rview d') = (redis_sessions_in (rview d))(res_UID r \<mapsto>
            \<lparr>sd_uid = res_UID r, sd_nickname = res_Nickname r, sd_token = res_Token r\<rparr>)"
proof -
  let ?svc = "prod_login_service P wc (mysql_store_of db) (redis_store_of c)" and ?x = "li_open_id identity"
  have d1: "view d1 = view d" "rview d1 = rview d"
    using exchange_separate [OF sep, of wc "mysql_store_of db" "redis_store_of c" code d] ident by simp_all
  obtain a d2 where a: "login_player ?svc ?x d1 = (a, d2)" by fastforce
  have acc: "case a of Inr p \<Rightarrow> account_found coll ?x (view d) (view d2) p | Inl e \<Rightarrow> account_left coll ?x (view d) (view d2)"
    using login_player_accounts [OF law _ a] d1(1) by (simp only: prod_login_service_simps)
  have r2: "rview d2 = rview d" using login_player_redis [OF sep, of ?svc ?x d1] a d1 by simp
  show ?thesis
  proof (cases a)
    case (Inl e)
    with run ident a acc r2 show ?thesis by (auto simp: LoginService_Login_def)
  next
    case (Inr p)
    with acc have found: "account_found coll ?x (view d) (view d2) p" by simp
    obtain tok d3 where t: "GenerateToken (pf_rand P) d2 = (tok, d3)" by fastforce
    have d3: "view d3 = view d2" "rview d3 = rview d"
      using t sep r2 by (auto simp: GenerateToken_def separate_stores_def split: prod.splits sum.splits) (metis snd_conv)+
    show ?thesis
    proof (cases tok)
      case (Inl e)
      with run ident a \<open>a = Inr p\<close> t d3 account_found_left [OF found] show ?thesis by (auto simp: LoginService_Login_def)
    next
      case (Inr token)
      obtain err d4 where u: "MySQL_UpdatePlayer db (Some (p\<lparr>p_token := token\<rparr>)) d3 = (err, d4)" by fastforce
      have r4: "rview d4 = rview d" using MySQL_UpdatePlayer_redis [OF sep, of "p\<lparr>p_token := token\<rparr>" d3] u d3 by simp
      show ?thesis
      proof (cases err)
        case (Some e)
        from law u have "view d4 = view d3" by (cases rule: MySQL_UpdatePlayer_cases) (use Some in simp_all)
        with run ident a \<open>a = Inr p\<close> t Inr u Some r4 d3 account_found_left [OF found] show ?thesis
          by (auto simp: LoginService_Login_def Let_def)
      next
        case None
        let ?s = "\<lparr>sd_uid = p_id p, sd_nickname = p_nickname p, sd_token = token\<rparr>"
        have set: "SetSession (redis_sessions (redis_store_of c)) = Redis_SetSession c"
          by (simp add: redis_sessions_def redis_store_of_def)
        obtain d5 where s: "Redis_SetSession c (p_id p) ?s d4 = (None, d5)"
          using Redis_SetSession_view(1) [OF hashes, of "p_id p" ?s d4] by (metis prod.collapse)
        have "view d5 = view d4" using Redis_SetSession_sql [OF sep, of "p_id p" ?s d4] s by simp
        moreover have "redis_sessions_in (rview d5) = (redis_sessions_in (rview d))(p_id p \<mapsto> ?s)"
          using Redis_SetSession_view(2) [OF hashes, of "p_id p" ?s d4] s r4 by simp
        moreover have "account_logged_in coll ?x (view d) (view d4) (p_id p) (p_nickname p) token"
          using account_token_written [OF law _ u [unfolded None], of ?x "view d"] found d3(1) by simp
        moreover have "res = Inr \<lparr>res_UID = p_id p, res_Nickname = p_nickname p, res_Token = token\<rparr>" "d' = d5"
          using run ident a \<open>a = Inr p\<close> t Inr u None s by (simp_all add: LoginService_Login_def Let_def set)
        ultimately show ?thesis by simp
      qed
    qed
  qed
qed

section \<open>Property\<close>

text \<open>
  C8: A production login. With a healthy Redis and a MySQL of which any statement may fail: a login that succeeds
  is as the player of the identity WeChat vouches for, the one account whose open id the database takes for it,
  or a new one if there was none. That account holds the new token and nothing else of it changes, its session
  in Redis is replaced, and the connection's session is bound to it. A login that fails binds nothing and leaves
  at most a new account without a token. Accounts stay unique, and no other account or session is touched.
\<close>

theorem prod_login_account:
  assumes "lawful_accounts coll db view" and "lawful_hashes c rview" and "separate_stores P db c view rview"
    and "accounts_ok coll (view (w_db w))"
    and "svc = prod_login_service P wc (mysql_store_of db) (redis_store_of c)"
    and "ls_exchanger svc (lq_code req) (w_db w) = (identity, d1)"
    and "FromContext ctx = Some s" and "Login_Login svc ctx req w = (res, w')"
  shows "accounts_ok coll (view (w_db w'))
    \<and> (case res of
         Inl e \<Rightarrow> w_sessions w' = w_sessions w
           \<and> redis_sessions_in (rview (w_db w')) = redis_sessions_in (rview (w_db w))
           \<and> (case identity of
                Inl _ \<Rightarrow> view (w_db w') = view (w_db w)
              | Inr i \<Rightarrow> account_left coll (li_open_id i) (view (w_db w)) (view (w_db w')))
       | Inr r \<Rightarrow>
           (\<exists>i. identity = Inr i \<and> account_logged_in coll (li_open_id i) (view (w_db w)) (view (w_db w'))
              (lr_uid r) (lr_nickname r) (lr_token r))
           \<and> redis_sessions_in (rview (w_db w')) = (redis_sessions_in (rview (w_db w)))(lr_uid r \<mapsto>
               \<lparr>sd_uid = lr_uid r, sd_nickname = lr_nickname r, sd_token = lr_token r\<rparr>)
           \<and> Session_UID (w_sessions w' s) = lr_uid r \<and> (\<forall>s'. s' \<noteq> s \<longrightarrow> w_sessions w' s' = w_sessions w s'))"
proof (cases identity)
  case (Inl e)
  with assms(6) have l: "LoginService_Login svc (lq_code req) (w_db w) =
      (Inl (LoginOperationError LoginStageExchangeCode (ExchangeError e)), d1)" by (simp add: LoginService_Login_def)
  have "view d1 = view (w_db w)" "rview d1 = rview (w_db w)"
    using exchange_separate [OF assms(3)] assms(5,6) by (metis snd_conv)+
  with assms(4,8) l Inl show ?thesis by (auto simp: Login_Login_def on_db_def split: prod.splits)
next
  case (Inr i)
  obtain a d' where a: "LoginService_Login svc (lq_code req) (w_db w) = (a, d')" by fastforce
  note out = prod_login_identified [OF assms(1-3) assms(6) [unfolded assms(5) Inr] a [unfolded assms(5)]]
  show ?thesis
  proof (cases a)
    case (Inl e)
    with out accounts_ok_left [OF assms(4)] a assms(8) Inr show ?thesis
      by (auto simp: Login_Login_def on_db_def split: prod.splits)
  next
    case r: (Inr r)
    with out accounts_ok_logged_in [OF assms(4)] a assms(7,8) Inr show ?thesis
      by (auto simp: Login_Login_def on_db_def Let_def session_defs)
  qed
qed

end
