(* ===== verification/Login_Sample.thy ===== *)
theory Login_Sample
  imports Prod_Login Prod_Sample
begin

text \<open>
  The stores for the witness of \<open>Prod_Login\<close>: a table of players as a list of their versions, the last one first,
  beside the Redis client of \<open>Redis_Sample\<close>, and a WeChat that vouches for one identity.
\<close>

section \<open>The stores\<close>

type_synonym login_db = "player list \<times> small_redis"

definition versions :: "player list \<Rightarrow> i64 \<rightharpoonup> player" where
  "versions ps = map_of (map (\<lambda>p. (p_id p, p)) ps)"

definition login_view :: "login_db \<Rightarrow> sql_view" where
  "login_view d = \<lparr>v_players = versions (fst d), v_archives = Map.empty, v_scores = [], v_stats = Map.empty,
     v_styles = (\<lambda>p. {}), v_settlements = Map.empty\<rparr>"

definition login_redis_view :: "login_db \<Rightarrow> redis_view" where
  "login_redis_view d = small_view (snd d)"

definition create_account :: "player \<Rightarrow> login_db \<Rightarrow> (go_error + player) \<times> login_db" where
  "create_account p d =
     (let i = word_of_nat (Suc (length (fst d))); r = p\<lparr>p_id := i, p_created_at := 0, p_updated_at := 0\<rparr> in
      if list_ex (\<lambda>q. p_open_id q = p_open_id p) (fst d) then (Inl duplicate_key, d)
      else if \<not> 0 <s i \<or> versions (fst d) i \<noteq> None then (Inl unsupported, d)
      else (Inr r, (r # fst d, snd d)))"

definition update_account :: "player \<Rightarrow> login_db \<Rightarrow> (go_error option \<times> i64) \<times> login_db" where
  "update_account p d =
     (case versions (fst d) (p_id p) of
        None \<Rightarrow> ((None, 0), d)
      | Some old \<Rightarrow>
          if list_ex (\<lambda>q. p_open_id q = p_open_id p \<and> p_id q \<noteq> p_id p) (fst d) then ((Some duplicate_key, 0), d)
          else ((None, 1), (p\<lparr>p_created_at := p_created_at old, p_updated_at := 0\<rparr> # fst d, snd d)))"

definition find_account :: "condition list \<Rightarrow> login_db \<Rightarrow> go_error + player" where
  "find_account cs d =
     (case cs of
        [ColEq c (SqlText x)] \<Rightarrow>
          row_or_missing (List.find (\<lambda>p. p_open_id p = x \<and> versions (fst d) (p_id p) = Some p) (fst d))
      | _ \<Rightarrow> Inl unsupported)"

definition login_gorm :: "login_db gorm" where
  "login_gorm = idle_gorm\<lparr>g_players := failing_table\<lparr>tb_First := (\<lambda>lock. find_account),
     tb_Create := create_account, tb_Updates := (\<lambda>cs om. update_account)\<rparr>\<rparr>"

text \<open>The hashes of the small client, beside the players.\<close>

definition beside :: "(small_redis \<Rightarrow> 'r \<times> small_redis) \<Rightarrow> login_db \<Rightarrow> 'r \<times> login_db" where
  "beside f d = (case f (snd d) of (r, x) \<Rightarrow> (r, (fst d, x)))"

definition login_client :: "login_db redis_client" where
  "login_client =
     \<lparr>cl_Ping = (\<lambda>d. (None, d)), cl_Close = (\<lambda>d. (None, d)),
      cl_HSet = (\<lambda>k fs. beside (cl_HSet small_client k fs)), cl_Expire = (\<lambda>k t. beside (cl_Expire small_client k t)),
      cl_HGetAll = (\<lambda>k d. cl_HGetAll small_client k (snd d)), cl_Del = (\<lambda>k. beside (cl_Del small_client k)),
      cl_ZAdd = (\<lambda>k z d. (Some unsupported, d)), cl_ZRevRangeWithScores = (\<lambda>k a b d. Inl unsupported),
      cl_ZRevRank = (\<lambda>k m d. Inl unsupported), cl_Eval = (\<lambda>script keys args d. (Inl unsupported, d))\<rparr>"

definition login_platform :: "login_db platform" where
  "login_platform =
     \<lparr>pf_codec = table_codec [], pf_mysql = (\<lambda>dsn d. (Inr login_gorm, d)), pf_redis = (\<lambda>addr pw n. login_client),
      pf_http = (\<lambda>t url d. (Inr \<lparr>hr_StatusCode = 200, hr_Body = Inr [1]\<rparr>, d)),
      pf_wechat_json = (\<lambda>bs. Inr \<lparr>w_OpenID = ''wx'', w_SessionKey = [], w_UnionID = [], w_ErrCode = 0, w_ErrMsg = []\<rparr>),
      pf_rand = (\<lambda>d. (Inr [7], d)), pf_metadata_text = (\<lambda>m. []), pf_spawn = (\<lambda>f. f),
      pf_gm_json = \<lparr>json_uid = (\<lambda>bs. Inl unsupported), json_content = (\<lambda>bs. Inl unsupported)\<rparr>,
      pf_hub = \<lparr>bc_Broadcast = (\<lambda>i m d. d), bc_OnlineCount = (\<lambda>d. 0)\<rparr>\<rparr>"

section \<open>They are lawful\<close>

lemma versions_Cons: "versions (p # ps) = (versions ps)(p_id p \<mapsto> p)"
  by (simp add: versions_def)

lemma versions_mem: "versions ps i = Some p \<Longrightarrow> p \<in> set ps \<and> p_id p = i"
  unfolding versions_def by (drule map_of_SomeD) auto

lemma login_gorm_simps:
  "tb_First (g_players login_gorm) lock = find_account" "tb_Create (g_players login_gorm) = create_account"
  "tb_Updates (g_players login_gorm) cs om = update_account"
  by (simp_all add: login_gorm_def)

lemma login_accounts: "lawful_accounts id login_gorm login_view"
proof -
  have "account_reads id login_gorm login_view"
    unfolding account_reads_def login_gorm_simps
    by (auto simp: find_account_def row_or_missing_def login_view_def no_account_def find_None_iff find_Some_iff
        dest: versions_mem split: option.split)
  moreover have "account_creates id login_gorm login_view"
    unfolding account_creates_def login_gorm_simps
    by (auto simp: create_account_def Let_def login_view_def versions_Cons no_account_def list_ex_iff dest: versions_mem)
  moreover have "account_updates id login_gorm login_view"
    unfolding account_updates_def login_gorm_simps
    by (auto simp: update_account_def login_view_def versions_Cons list_ex_iff dest: versions_mem split: option.split)
  ultimately show ?thesis by (simp add: lawful_accounts_def)
qed

lemma login_hashes: "lawful_hashes login_client login_redis_view"
  using small_hashes
  by (simp add: lawful_hashes_def login_client_def login_redis_view_def beside_def case_prod_beta)

lemma login_separate: "separate_stores login_platform login_gorm login_client login_view login_redis_view"
  by (auto simp: separate_stores_def login_gorm_simps create_account_def update_account_def login_view_def
      login_redis_view_def login_client_def login_platform_def beside_def Let_def case_prod_beta split: option.split)

section \<open>A login\<close>

definition login_world :: "login_db world" where
  "login_world = \<lparr>w_sessions = (\<lambda>s. Session_New), w_db = ([], small_empty)\<rparr>"

definition login_service_sample :: "login_db login_service" where
  "login_service_sample =
     prod_login_service login_platform (cf_Wechat prod_config) (mysql_store_of login_gorm) (redis_store_of login_client)"

lemma trim_wx: "trim_space ''wx'' = ''wx''" "trim_space ''c'' = ''c''"
  by (simp_all add: trim_space_id leading_def space_encodings_def bytes_of_def has_prefix_def char_of_def bit_simps)

lemma sample_exchange: "ls_exchanger login_service_sample ''c'' d = (Inr \<lparr>li_open_id = ''wx''\<rparr>, d)"
  by (simp add: login_service_sample_def prod_login_service_def WechatCodeExchanger_Exchange_def has_prefix_def
      Code2Session_def NewWechatClient_def login_platform_def trim_wx signed_defs)

text \<open>The first login of an identity creates player 1.\<close>

lemma sample_login:
  "\<exists>w'. Login_Login login_service_sample (WithSession Background 3) \<lparr>lq_code = ''c''\<rparr> login_world
     = (Inr \<lparr>lr_uid = 1, lr_nickname = default_nickname 1, lr_token = hex_encode [7]\<rparr>, w')"
  by (simp add: Login_Login_def on_db_def LoginService_Login_def sample_exchange login_player_def)
     (simp add: login_service_sample_def login_world_def login_gorm_simps find_account_def row_or_missing_def
        IsNotFound_def create_account_def update_account_def versions_Cons MySQL_UpdatePlayer_def Let_def new_player_def
        signed_defs versions_def GenerateToken_def login_platform_def redis_sessions_def redis_store_of_def
        Redis_SetSession_def login_client_def small_client_def beside_def)

theorem prod_login_account_witness:
  "\<exists>r w'. Login_Login login_service_sample (WithSession Background 3) \<lparr>lq_code = ''c''\<rparr> login_world = (Inr r, w')
     \<and> lr_uid r = 1 \<and> Session_UID (w_sessions w' 3) = 1
     \<and> account_logged_in id ''wx'' (login_view (w_db login_world)) (login_view (w_db w')) 1 (lr_nickname r) (lr_token r)
     \<and> accounts_ok id (login_view (w_db w'))"
proof -
  obtain w' where w': "Login_Login login_service_sample (WithSession Background 3) \<lparr>lq_code = ''c''\<rparr> login_world
     = (Inr \<lparr>lr_uid = 1, lr_nickname = default_nickname 1, lr_token = hex_encode [7]\<rparr>, w')"
    using sample_login by blast
  have ok: "accounts_ok id (login_view (w_db login_world))"
    by (simp add: accounts_ok_def login_view_def login_world_def versions_def)
  have ctx: "FromContext (WithSession Background 3) = Some 3" by (simp add: FromContext_def WithSession_def)
  have ex: "ls_exchanger login_service_sample (lq_code \<lparr>lq_code = ''c''\<rparr>) (w_db login_world)
      = (Inr \<lparr>li_open_id = ''wx''\<rparr>, w_db login_world)" by (simp add: sample_exchange)
  from prod_login_account [OF login_accounts login_hashes login_separate ok login_service_sample_def ex ctx w'] w'
  show ?thesis by (simp add: id_def)
qed

end
