(* ===== verification/Probe.thy ===== *)
theory Probe
  imports Login
begin

text \<open>
  The acceptance probe of the development server, \<open>cmd/devprobe/main.go\<close>: a client that logs in with a fresh
  development identity, loads, saves and reloads an archive, and reports a run twice. Its WebSocket connection
  is a parameter, a record of the methods it calls on a connection's state; a step of the probe threads the
  last sequence number and that state, and stops at the first error.
\<close>

section \<open>The connection and the steps\<close>

record 'c probe_conn =
  pc_Dial :: "string \<Rightarrow> 'c \<Rightarrow> go_error option \<times> 'c"
  pc_SetWriteDeadline :: "'c \<Rightarrow> go_error option \<times> 'c"
  pc_WriteMessage :: "go_int \<Rightarrow> byte list \<Rightarrow> 'c \<Rightarrow> go_error option \<times> 'c"
  pc_SetReadDeadline :: "'c \<Rightarrow> go_error option \<times> 'c"
  pc_ReadMessage :: "'c \<Rightarrow> (go_error + go_int \<times> byte list) \<times> 'c"
  pc_WriteClose :: "'c \<Rightarrow> go_error option \<times> 'c"
  pc_Close :: "'c \<Rightarrow> go_error option \<times> 'c"

definition BinaryMessage :: go_int where "BinaryMessage = 2"

record 'c probe =
  pr_conn :: 'c
  pr_seq :: u32

type_synonym ('a, 'c) probe_step = "'c probe \<Rightarrow> (go_error + 'a) \<times> 'c probe"

definition fail_with :: "go_error \<Rightarrow> ('a, 'c) probe_step" where
  "fail_with err p = (Inl err, p)"

definition and_then :: "('a, 'c) probe_step \<Rightarrow> ('a \<Rightarrow> ('b, 'c) probe_step) \<Rightarrow> ('b, 'c) probe_step" where
  "and_then step next p = (case step p of (Inl err, p1) \<Rightarrow> (Inl err, p1) | (Inr x, p1) \<Rightarrow> next x p1)"

text \<open>A method of the connection whose error ends the step.\<close>

definition on_conn :: "string \<Rightarrow> ('c \<Rightarrow> go_error option \<times> 'c) \<Rightarrow> (unit, 'c) probe_step" where
  "on_conn what f p =
     (case f (pr_conn p) of
        (Some err, c) \<Rightarrow> (Inl (Wrap what err []), p\<lparr>pr_conn := c\<rparr>)
      | (None, c) \<Rightarrow> (Inr (), p\<lparr>pr_conn := c\<rparr>))"

definition show_id :: "u16 \<Rightarrow> string" where "show_id i = show_nat (unat i)"
definition show_seq :: "u32 \<Rightarrow> string" where "show_seq n = show_nat (unat n)"

definition probe_send ::
  "codec \<Rightarrow> 'c probe_conn \<Rightarrow> u16 \<Rightarrow> message \<Rightarrow> (u32, 'c) probe_step" where
  "probe_send C W msg_id payload p =
     (let p1 = p\<lparr>pr_seq := pr_seq p + 1\<rparr>;
          p2 = (if pr_seq p1 = 0 then p1\<lparr>pr_seq := 1\<rparr> else p1)
      in case Encode C msg_id (pr_seq p2) (Some payload) of
           Inl err \<Rightarrow> (Inl (Wrap (''encode message '' @ show_id msg_id @ '': '') err []), p2)
         | Inr frame \<Rightarrow>
             and_then (on_conn (''set write deadline for message '' @ show_id msg_id @ '': '') (pc_SetWriteDeadline W))
               (\<lambda>_. and_then (on_conn (''write message '' @ show_id msg_id @ '': '') (pc_WriteMessage W BinaryMessage frame))
                 (\<lambda>_ p3. (Inr (pr_seq p3), p3))) p2)"

text \<open>The received message, as what it says or as an error. \<open>arg\<close> reads the destination's type.\<close>

definition read_frame ::
  "codec \<Rightarrow> u16 \<Rightarrow> u32 \<Rightarrow> message_type \<Rightarrow> (message \<Rightarrow> 'a option) \<Rightarrow> go_int \<times> byte list \<Rightarrow> go_error + 'a" where
  "read_frame C expected_id expected_seq t arg received =
     (case received of (kind, data) \<Rightarrow>
       if kind \<noteq> BinaryMessage
       then Inl (Text (''received WebSocket message type '' @ show_i64 kind @ '', want binary''))
       else
         case Decode data of
           Inl err \<Rightarrow> Inl (Wrap (''decode response for message '' @ show_id expected_id @ '': '') err [])
         | Inr message \<Rightarrow>
             if Seq message \<noteq> expected_seq
             then Inl (Text (''response seq = '' @ show_seq (Seq message) @ '', want '' @ show_seq expected_seq))
             else if MsgID message = MsgID_Error
             then (case unmarshal C T_ErrorResp (Body message) of
                     Inl err \<Rightarrow> Inl (Wrap ''decode server error response: '' err [])
                   | Inr (M_ErrorResp e) \<Rightarrow> Inl (Text (''server error '' @ show_i32 (er_code e) @ '': '' @ er_msg e))
                   | Inr _ \<Rightarrow> Inl (External ''proto: mismatched message type''))
             else if MsgID message \<noteq> expected_id
             then Inl (Text (''response message id = '' @ show_id (MsgID message) @ '', want '' @ show_id expected_id))
             else
               case unmarshal C t (Body message) of
                 Inl err \<Rightarrow> Inl (Wrap (''decode message '' @ show_id expected_id @ '' body: '') err [])
               | Inr m \<Rightarrow>
                   (case arg m of None \<Rightarrow> Inl (External ''proto: mismatched message type'') | Some x \<Rightarrow> Inr x))"

definition probe_read ::
  "codec \<Rightarrow> 'c probe_conn \<Rightarrow> u16 \<Rightarrow> u32 \<Rightarrow> message_type \<Rightarrow> (message \<Rightarrow> 'a option) \<Rightarrow> ('a, 'c) probe_step" where
  "probe_read C W expected_id expected_seq t arg =
     and_then (on_conn (''set read deadline for message '' @ show_id expected_id @ '': '') (pc_SetReadDeadline W))
       (\<lambda>_ p. case pc_ReadMessage W (pr_conn p) of
           (Inl err, c) \<Rightarrow> (Inl (Wrap (''read message '' @ show_id expected_id @ '': '') err []), p\<lparr>pr_conn := c\<rparr>)
         | (Inr received, c) \<Rightarrow> (read_frame C expected_id expected_seq t arg received, p\<lparr>pr_conn := c\<rparr>))"

text \<open>A request and its response.\<close>

definition exchange ::
  "codec \<Rightarrow> 'c probe_conn \<Rightarrow> u16 \<Rightarrow> message \<Rightarrow> u16 \<Rightarrow> message_type \<Rightarrow> (message \<Rightarrow> 'a option) \<Rightarrow> ('a, 'c) probe_step" where
  "exchange C W req_id payload resp_id t arg =
     and_then (probe_send C W req_id payload) (\<lambda>seq. probe_read C W resp_id seq t arg)"

definition probe_close :: "'c probe_conn \<Rightarrow> 'c probe \<Rightarrow> 'c probe" where
  "probe_close W p = p\<lparr>pr_conn := snd (pc_Close W (snd (pc_WriteClose W (pr_conn p))))\<rparr>"

section \<open>What the probe sends\<close>

definition newProbeArchive :: player_archive where
  "newProbeArchive =
     \<lparr>pa_schema_version = 1, pa_gold = 7, pa_exp = 11, pa_best_score = 123, pa_total_kills = 17, pa_total_games = 2,
      pa_highest_cleared_dungeon = 4, pa_talent_points = 5, pa_unlocked_styles = [1, 3], pa_last_style_id = 3\<rparr>"

definition newProbeCombatResult :: "string \<Rightarrow> combat_result_req" where
  "newProbeCombatResult run_id =
     \<lparr>cq_run_id = ''probe-'' @ run_id, cq_dungeon_level = 2, cq_score = 100, cq_kills = 2,
      cq_survival_time = f64_lit 1 0, cq_style_id = 1, cq_outcome = BattleOutcome_VICTORY, cq_player_level = 1\<rparr>"

text \<open>\<open>rand.Read\<close> into a slice of 16 bytes is the argument.\<close>

definition newProbeLoginCode :: "go_error + byte list \<Rightarrow> go_error + string" where
  "newProbeLoginCode random =
     (case random of
        Inl err \<Rightarrow> Inl (Wrap ''generate development probe identity: '' err [])
      | Inr identity \<Rightarrow> Inr (''dev:process-probe-'' @ hex_encode identity))"

section \<open>The probe\<close>

abbreviation load_archive :: "codec \<Rightarrow> 'c probe_conn \<Rightarrow> (load_archive_resp, 'c) probe_step" where
  "load_archive C W \<equiv> exchange C W MsgID_LoadArchiveReq (M_LoadArchiveReq LoadArchiveReq) MsgID_LoadArchiveResp
     T_LoadArchiveResp (\<lambda>m. case m of M_LoadArchiveResp r \<Rightarrow> Some r | _ \<Rightarrow> None)"

abbreviation settle_combat :: "codec \<Rightarrow> 'c probe_conn \<Rightarrow> combat_result_req \<Rightarrow> (combat_result_resp, 'c) probe_step" where
  "settle_combat C W req \<equiv> exchange C W MsgID_CombatResultReq (M_CombatResultReq req) MsgID_CombatResultResp
     T_CombatResultResp (\<lambda>m. case m of M_CombatResultResp r \<Rightarrow> Some r | _ \<Rightarrow> None)"

definition probe_login :: "codec \<Rightarrow> 'c probe_conn \<Rightarrow> string \<Rightarrow> (unit, 'c) probe_step" where
  "probe_login C W code =
     and_then (exchange C W MsgID_LoginReq (M_LoginReq \<lparr>lq_code = code\<rparr>) MsgID_LoginResp T_LoginResp
         (\<lambda>m. case m of M_LoginResp r \<Rightarrow> Some r | _ \<Rightarrow> None))
       (\<lambda>login p.
          if lr_uid login \<le>s 0
          then fail_with (Text (''login uid = '' @ show_i64 (lr_uid login) @ '', want positive'')) p
          else if lr_token login = [] then fail_with (Text ''login token is empty'') p
          else (Inr (), p))"

text \<open>\<open>text\<close> is the \<open>%v\<close> of a message.\<close>

definition probe_archive :: "codec \<Rightarrow> 'c probe_conn \<Rightarrow> (message option \<Rightarrow> string) \<Rightarrow> (unit, 'c) probe_step" where
  "probe_archive C W text =
     and_then (load_archive C W) (\<lambda>initial.
       if lar_found initial then fail_with (Text ''initial archive unexpectedly found'')
       else
         let expected = newProbeArchive in
         and_then (exchange C W MsgID_SaveArchiveReq (M_SaveArchiveReq \<lparr>saq_archive = Some expected\<rparr>)
             MsgID_SaveArchiveResp T_SaveArchiveResp (\<lambda>m. case m of M_SaveArchiveResp r \<Rightarrow> Some r | _ \<Rightarrow> None))
           (\<lambda>saved.
              if \<not> sar_success saved then fail_with (Text ''archive save success = false'')
              else
                and_then (load_archive C W) (\<lambda>final p.
                  if \<not> lar_found final \<or> lar_archive final \<noteq> Some expected
                  then fail_with (Text (''archive did not round trip: got ''
                         @ text (map_option M_PlayerArchive (lar_archive final)) @ '', want ''
                         @ text (Some (M_PlayerArchive expected)))) p
                  else (Inr (), p))))"

definition probe_combat ::
  "codec \<Rightarrow> 'c probe_conn \<Rightarrow> (message option \<Rightarrow> string) \<Rightarrow> string \<Rightarrow> (unit, 'c) probe_step" where
  "probe_combat C W text code =
     (let request = newProbeCombatResult code in
      and_then (settle_combat C W request) (\<lambda>first.
        if \<not> cr_success first \<or> cr_duplicate first \<or> cr_archive first = None
        then fail_with (Text (''first combat settlement = '' @ text (Some (M_CombatResultResp first))
               @ '', want successful non-duplicate archive response''))
        else
          and_then (settle_combat C W request) (\<lambda>duplicate p.
            if \<not> cr_success duplicate \<or> \<not> cr_duplicate duplicate \<or> cr_archive duplicate \<noteq> cr_archive first
               \<or> cr_reward_gold duplicate \<noteq> cr_reward_gold first \<or> cr_reward_exp duplicate \<noteq> cr_reward_exp first
               \<or> cr_best_score duplicate \<noteq> cr_best_score first
            then fail_with (Text (''duplicate combat settlement = '' @ text (Some (M_CombatResultResp duplicate))
                   @ '', want stored first settlement snapshot'')) p
            else (Inr (), p))))"

definition probe_session ::
  "codec \<Rightarrow> 'c probe_conn \<Rightarrow> (message option \<Rightarrow> string) \<Rightarrow> go_error + byte list \<Rightarrow> (unit, 'c) probe_step" where
  "probe_session C W text random p =
     (case newProbeLoginCode random of
        Inl err \<Rightarrow> (Inl err, p)
      | Inr code \<Rightarrow>
          and_then (probe_login C W code)
            (\<lambda>_. and_then (probe_archive C W text) (\<lambda>_. probe_combat C W text code)) p)"

definition runProbe ::
  "codec \<Rightarrow> 'c probe_conn \<Rightarrow> (message option \<Rightarrow> string) \<Rightarrow> go_error + byte list \<Rightarrow> string \<Rightarrow> 'c
     \<Rightarrow> go_error option \<times> 'c" where
  "runProbe C W text random address c =
     (case pc_Dial W address c of
        (Some err, c1) \<Rightarrow> (Some (Wrap ''dial development server: '' err []), c1)
      | (None, c1) \<Rightarrow>
          (case probe_session C W text random \<lparr>pr_conn = c1, pr_seq = 0\<rparr> of
             (result, p) \<Rightarrow>
               ((case result of Inl err \<Rightarrow> Some err | Inr _ \<Rightarrow> None), pr_conn (probe_close W p))))"

text \<open>\<open>main\<close>: the exit status, and what is printed to the standard output and to the standard error.\<close>

definition probeAddress :: string where
  "probeAddress = ''ws://127.0.0.1:8080/ws''"

definition probeSuccessEvidence :: string where
  "probeSuccessEvidence = ''development session probe passed: sequenced protobuf login found=false typed save typed reload combat duplicate''"

record probe_exit =
  px_status :: int
  px_stdout :: string
  px_stderr :: string

definition devprobe_main ::
  "codec \<Rightarrow> 'c probe_conn \<Rightarrow> (message option \<Rightarrow> string) \<Rightarrow> go_error + byte list \<Rightarrow> 'c \<Rightarrow> probe_exit \<times> 'c" where
  "devprobe_main C W text random c =
     (case runProbe C W text random probeAddress c of
        (Some err, c1) \<Rightarrow> (\<lparr>px_status = 1, px_stdout = [], px_stderr = error_text err @ [CHR 0x0A]\<rparr>, c1)
      | (None, c1) \<Rightarrow> (\<lparr>px_status = 0, px_stdout = probeSuccessEvidence @ [CHR 0x0A], px_stderr = []\<rparr>, c1))"

end
