(* ===== verification/Probe_Run.thy ===== *)
theory Probe_Run
  imports Probe Dev_Samples Connection
begin

text \<open>
  The probe of \<open>Probe\<close> against the development server: every message it writes is read by the server's connection
  (\<open>read_step\<close>), and what that connection has buffered is what the probe reads. The theorem is the acceptance
  test that the probe was written for.
\<close>

section \<open>A connection to the server\<close>

record 'r loopback =
  lb_world :: "'r dev_db world"
  lb_conn :: connection

definition loop_write ::
  "codec \<Rightarrow> 'r dev_db world kernel \<Rightarrow> go_int \<Rightarrow> byte list \<Rightarrow> 'r loopback \<Rightarrow> go_error option \<times> 'r loopback" where
  "loop_write C k kind data lb =
     (case read_step C k (ReadMessage (kind = BinaryMessage) data) (lb_conn lb) (lb_world lb) of
        (broken, c, w) \<Rightarrow> (None, \<lparr>lb_world = w, lb_conn = (if broken then conn_stop c else c)\<rparr>))"

definition loop_read :: "'r loopback \<Rightarrow> (go_error + go_int \<times> byte list) \<times> 'r loopback" where
  "loop_read lb =
     (case c_send (lb_conn lb) of
        [] \<Rightarrow> (Inl (External ''i/o timeout''), lb)
      | d # ds \<Rightarrow> (Inr (BinaryMessage, d), lb\<lparr>lb_conn := (lb_conn lb)\<lparr>c_send := ds\<rparr>\<rparr>))"

definition loop_methods :: "codec \<Rightarrow> 'r dev_db world kernel \<Rightarrow> 'r loopback probe_conn" where
  "loop_methods C k =
     \<lparr>pc_Dial = (\<lambda>a lb. (None, lb)), pc_SetWriteDeadline = (\<lambda>lb. (None, lb)), pc_WriteMessage = loop_write C k,
      pc_SetReadDeadline = (\<lambda>lb. (None, lb)), pc_ReadMessage = loop_read, pc_WriteClose = (\<lambda>lb. (None, lb)),
      pc_Close = (\<lambda>lb. (None, lb\<lparr>lb_conn := conn_stop (lb_conn lb)\<rparr>))\<rparr>"

section \<open>One exchange\<close>

definition next_seq :: "u32 \<Rightarrow> u32" where
  "next_seq q = (if q + 1 = 0 then 1 else q + 1)"

lemma next_seq_pos [simp]: "next_seq q \<noteq> 0"
  by (simp add: next_seq_def)

text \<open>A message that the codec encodes and that fits into a frame.\<close>

definition sendable :: "codec \<Rightarrow> message \<Rightarrow> bool" where
  "sendable C m \<longleftrightarrow> (\<exists>body. marshal C m = Inr body \<and> HeaderSize + length body \<le> MaxFrameSize)"

lemma sendable_Encode:
  assumes "codec_roundtrip C" "sendable C m"
  obtains data body where "Encode C i seq (Some m) = Inr data" "Decode data = Inr \<lparr>MsgID = i, Seq = seq, Body = body\<rparr>"
    "unmarshal C (type_of_message m) body = Inr m"
proof -
  from assms(2) obtain body where b: "marshal C m = Inr body" "HeaderSize + length body \<le> MaxFrameSize"
    by (auto simp: sendable_def)
  show thesis
    by (rule that [of "frame_bytes i seq body" body])
       (use b codec_roundtripD [OF assms(1) b(1)] in \<open>simp_all add: Encode_def Decode_frame_bytes\<close>)
qed

text \<open>The state of the probe between exchanges: nothing is buffered.\<close>

definition idle_probe :: "'r dev_db world \<Rightarrow> sid \<Rightarrow> u32 \<Rightarrow> 'r loopback probe" where
  "idle_probe w s q = \<lparr>pr_conn = \<lparr>lb_world = w, lb_conn = newConnection (Some True) s\<rparr>, pr_seq = q\<rparr>"

lemma exchange_answered:
  assumes rt: "codec_roundtrip C" and m: "sendable C m" "type_of_message m = t"
    and x: "sendable C (wrap x)" "type_of_message (wrap x) = t'" "arg (wrap x) = Some x" "j \<noteq> MsgID_Error"
    and d: "\<And>data seq. request_frame C i t data seq m \<Longrightarrow> Dispatch C k (WithSession Background s) data w
      = (None, [\<lparr>rp_seq = seq, rp_id = j, rp_payload = wrap x\<rparr>], w')"
  shows "exchange C (loop_methods C k) i m j t' arg (idle_probe w s q) = (Inr x, idle_probe w' s (next_seq q))"
proof -
  obtain data body where e: "Encode C i (next_seq q) (Some m) = Inr data"
    "Decode data = Inr \<lparr>MsgID = i, Seq = next_seq q, Body = body\<rparr>" "unmarshal C t body = Inr m"
    using sendable_Encode [OF rt m(1)] m(2) by blast
  obtain data' body' where e': "Encode C j (next_seq q) (Some (wrap x)) = Inr data'"
    "Decode data' = Inr \<lparr>MsgID = j, Seq = next_seq q, Body = body'\<rparr>" "unmarshal C t' body' = Inr (wrap x)"
    using sendable_Encode [OF rt x(1)] x(2) by blast
  have f: "request_frame C i t data (next_seq q) m" using e by (simp add: request_frame_def)
  let ?c = "newConnection (Some True) s"
  have w: "loop_write C k BinaryMessage data \<lparr>lb_world = w, lb_conn = ?c\<rparr>
      = (None, \<lparr>lb_world = w', lb_conn = ?c\<lparr>c_send := [data']\<rparr>\<rparr>)"
    using d [OF f]
    by (simp add: loop_write_def read_step_def newConnection_def send_reply_def Conn_Reply_def sendMessage_def e'(1)
        enqueue_def sendBufSize_def)
  have r: "loop_read \<lparr>lb_world = w', lb_conn = ?c\<lparr>c_send := [data']\<rparr>\<rparr>
      = (Inr (BinaryMessage, data'), \<lparr>lb_world = w', lb_conn = ?c\<rparr>)"
    by (simp add: loop_read_def newConnection_def)
  have s: "probe_send C (loop_methods C k) i m (idle_probe w s q) = (Inr (next_seq q),
      \<lparr>pr_conn = \<lparr>lb_world = w', lb_conn = ?c\<lparr>c_send := [data']\<rparr>\<rparr>, pr_seq = next_seq q\<rparr>)"
    using e(1) by (cases "q + 1 = 0")
      (simp_all add: next_seq_def probe_send_def Let_def idle_probe_def and_then_def on_conn_def loop_methods_def w)
  have rd: "probe_read C (loop_methods C k) j (next_seq q) t' arg
      \<lparr>pr_conn = \<lparr>lb_world = w', lb_conn = ?c\<lparr>c_send := [data']\<rparr>\<rparr>, pr_seq = next_seq q\<rparr>
      = (Inr x, idle_probe w' s (next_seq q))"
    using x(3,4) by (simp add: probe_read_def and_then_def on_conn_def loop_methods_def r read_frame_def e'(2,3) idle_probe_def)
  show ?thesis by (simp add: exchange_def and_then_def s rd)
qed

section \<open>The identity and the run id\<close>

lemma leading_hd:
  assumes "s \<noteq> []" "hd s \<notin> hd ` set ps"
  shows "leading ps s = None"
proof -
  have "\<not> has_prefix s p" if "p \<in> set ps" "p \<noteq> []" for p
  proof
    assume "has_prefix s p"
    then obtain r where "s = p @ r" by (rule has_prefixE)
    with that assms(2) show False by (metis hd_append2 image_eqI)
  qed
  then show ?thesis by (auto simp: leading_def find_None_iff)
qed

lemma trim_space_solid:
  assumes "s \<noteq> []" "hd s \<notin> hd ` set space_encodings" "last s \<notin> last ` set space_encodings"
  shows "trim_space s = s"
proof (rule trim_space_id)
  show "leading space_encodings s = None" using assms(1,2) by (rule leading_hd)
  have "\<forall>p \<in> set space_encodings. hd (rev p) = last p" by (simp add: hd_rev)
  then have "hd ` set (map rev space_encodings) = last ` set space_encodings" by force
  then show "leading (map rev space_encodings) (rev s) = None"
    using assms(1,3) by (intro leading_hd) (simp_all add: hd_rev)
qed

lemma space_ends:
  "CHR ''p'' \<notin> hd ` set space_encodings" "c \<in> set hex_digits \<Longrightarrow> c \<notin> last ` set space_encodings"
  by (auto simp: space_encodings_def bytes_of_def hex_digits_def char_of_def bit_simps)

lemma length_hex [simp]: "length (hex_encode bs) = 2 * length bs"
  by (induction bs) (simp_all add: hex_encode_def)

lemma set_hex: "set (hex_encode bs) \<subseteq> set hex_digits"
proof -
  have "unat b < 2 ^ LENGTH(8)" for b :: byte by (rule unsigned_less)
  then have "unat b div 16 < length hex_digits" "unat b mod 16 < length hex_digits" for b :: byte
    by (simp_all add: hex_digits_def less_mult_imp_div_less)
  then have "hex_digits ! (unat b div 16) \<in> set hex_digits" "hex_digits ! (unat b mod 16) \<in> set hex_digits" for b :: byte
    by (blast intro: nth_mem)+
  then show ?thesis by (auto simp: hex_encode_def)
qed

lemma trim_hex:
  assumes "bs \<noteq> []"
  shows "trim_space (CHR ''p'' # cs @ hex_encode bs) = CHR ''p'' # cs @ hex_encode bs"
proof -
  have h: "hex_encode bs \<noteq> []" using assms by (metis length_hex length_0_conv mult_is_0 zero_neq_numeral)
  then have "last (hex_encode bs) \<in> set hex_digits" using set_hex last_in_set by blast
  with h show ?thesis by (intro trim_space_solid) (simp_all add: space_ends)
qed

definition probe_code :: "byte list \<Rightarrow> string" where
  "probe_code identity = ''dev:process-probe-'' @ hex_encode identity"

lemma probe_run_accepted:
  assumes "length identity = 16"
  shows "validateCombatResult (Some (newProbeCombatResult (probe_code identity))) (Some DefaultCombatConfig) = None"
proof -
  have "identity \<noteq> []" using assms by auto
  from trim_hex [OF this, of "''robe-dev:process-probe-''"] assms
  have "validRunID (''probe-'' @ probe_code identity)"
    by (simp add: validRunID_def probe_code_def maxCombatRunIDBytes_def)
  moreover have "survival_ok (f64_lit 1 0)" by code_simp
  ultimately show ?thesis
    unfolding validate_accepts_iff using max_kills_between [of 2]
    by (simp add: newProbeCombatResult_def)
qed

section \<open>The worlds the probe passes through\<close>

definition probe_settled :: player_archive where
  "probe_settled = newProbeArchive\<lparr>pa_gold := 17, pa_exp := 31, pa_total_kills := 19, pa_total_games := 3,
     pa_last_style_id := 1\<rparr>"

definition probe_response :: "byte list \<Rightarrow> combat_result_resp" where
  "probe_response identity =
     \<lparr>cr_success = True, cr_duplicate = False, cr_reward_gold = 10, cr_reward_exp = 20, cr_best_score = 123,
      cr_archive = Some probe_settled, cr_run_id = ''probe-'' @ probe_code identity\<rparr>"

definition probe_login_resp :: "byte list \<Rightarrow> login_resp" where
  "probe_login_resp token = \<lparr>lr_uid = 1, lr_nickname = default_nickname 1, lr_token = hex_encode token\<rparr>"

definition probe_player :: "byte list \<Rightarrow> byte list \<Rightarrow> memory_store" where
  "probe_player identity token = new_dev_store\<lparr>nextPlayerID := 2,
     playersByID := [1 \<mapsto> (new_player (probe_code identity))
       \<lparr>p_id := 1, p_nickname := default_nickname 1, p_token := hex_encode token\<rparr>],
     playerIDByOpenID := [probe_code identity \<mapsto> 1],
     sessionsByUID := [1 \<mapsto> \<lparr>sd_uid = 1, sd_nickname = default_nickname 1, sd_token = hex_encode token\<rparr>]\<rparr>"

definition probe_world :: "sid \<Rightarrow> byte list \<Rightarrow> memory_store \<Rightarrow> 'r \<Rightarrow> 'r dev_db world" where
  "probe_world s token store r =
     \<lparr>w_sessions = (\<lambda>s. Session_New)(s := Session_Set SessionKeyToken (StringValue (hex_encode token))
        (Session_Set SessionKeyNickname (StringValue (default_nickname 1)) (Session_Bind 1 Session_New))),
      w_db = \<lparr>dd_store = store, dd_rand = r\<rparr>\<rparr>"

lemma probe_settles:
  "settleArchive (Some newProbeArchive) (newProbeCombatResult (probe_code identity)) \<lparr>GoldPerKill = 5, ExpPerKill = 10\<rparr>
     = Inr (probe_response identity)"
  by (simp add: settleArchive_def newProbeArchive_def newProbeCombatResult_def probe_response_def probe_settled_def
      Let_def signed_defs max_int32_def max_int64_def BattleOutcome_VICTORY_def)

lemma probe_logs_in:
  fixes r r' :: 'r
  assumes "length identity = 16" "rand r = (Inr token, r')"
  shows "Login_Login (dev_login_service rand True) (WithMsgID (WithSession Background s) i) \<lparr>lq_code = probe_code identity\<rparr>
     (dev_start new_dev_store r) = (Inr (probe_login_resp token), probe_world s token (probe_player identity token) r')"
proof -
  note repos = dev_players_def mem_players_def dev_sessions_def mem_sessions_def on_store_eq
  note ops = Mem_GetPlayerByOpenID_def Mem_CreatePlayer_def Mem_UpdatePlayer_def Mem_SetSession_def IsNotFound_def
  have ctx: "FromContext (WithMsgID (WithSession Background s) i) = Some s"
    by (simp add: FromContext_def WithMsgID_def WithSession_def)
  have "identity \<noteq> []" using assms(1) by auto
  from trim_hex [OF this, of "''rocess-probe-''"]
  have ex: "DevelopmentCodeExchanger_Exchange True (probe_code identity) d = (Inr \<lparr>li_open_id = probe_code identity\<rparr>, d)"
    for d :: "'r dev_db"
    by (simp add: DevelopmentCodeExchanger_Exchange_def cut_prefix_def has_prefix_def probe_code_def)
  show ?thesis
    by (simp add: Login_Login_def on_db_def LoginService_Login_def ex login_player_def repos ops ctx
        dev_start_def new_dev_store_def Let_def dev_generate_def GenerateToken_def assms(2) probe_login_resp_def
        probe_world_def probe_player_def)
qed

section \<open>The exchanges\<close>

lemma more_handlers:
  "dev_handlers C rand en MsgID_SaveArchiveReq = Some (dev_entry MsgID_SaveArchiveResp T_SaveArchiveReq False
     (registerOnlineSessionHandlers C (dev_login_service rand en) dev_archives ! 2))"
  "dev_handlers C rand en MsgID_LoadArchiveReq = Some (dev_entry MsgID_LoadArchiveResp T_LoadArchiveReq False
     (registerOnlineSessionHandlers C (dev_login_service rand en) dev_archives ! 3))"
  using msg_ids_distinct by (simp_all add: dev_handlers_def Let_def)

lemma save_dispatch:
  assumes "request_frame C MsgID_SaveArchiveReq T_SaveArchiveReq data seq (M_SaveArchiveReq req)"
    "logged_on (WithSession Background s) w"
  shows "Dispatch C (dev_kernel C rand en) (WithSession Background s) data w =
     (let x = Game_SaveArchive C dev_archives (WithMsgID (WithSession Background s) MsgID_SaveArchiveReq) req w
      in (None, typed_reply seq MsgID_SaveArchiveResp M_SaveArchiveResp (fst x), snd x))"
  using typed_dispatch [OF _ more_handlers(1), where m = "M_SaveArchiveReq req" and wrap = M_SaveArchiveResp
      and h = "\<lambda>ctx. Game_SaveArchive C dev_archives ctx req w"] assms
  by (simp add: registerOnlineSessionHandlers_def typed_func_def)

lemma load_dispatch:
  assumes "request_frame C MsgID_LoadArchiveReq T_LoadArchiveReq data seq (M_LoadArchiveReq req)"
    "logged_on (WithSession Background s) w"
  shows "Dispatch C (dev_kernel C rand en) (WithSession Background s) data w =
     (let x = Game_LoadArchive C dev_archives (WithMsgID (WithSession Background s) MsgID_LoadArchiveReq) req w
      in (None, typed_reply seq MsgID_LoadArchiveResp M_LoadArchiveResp (fst x), snd x))"
  using typed_dispatch [OF _ more_handlers(2), where m = "M_LoadArchiveReq req" and wrap = M_LoadArchiveResp
      and h = "\<lambda>ctx. Game_LoadArchive C dev_archives ctx req w"] assms
  by (simp add: registerOnlineSessionHandlers_def typed_func_def)

lemma reply_ids:
  "MsgID_LoginResp \<noteq> MsgID_Error" "MsgID_SaveArchiveResp \<noteq> MsgID_Error" "MsgID_LoadArchiveResp \<noteq> MsgID_Error"
  "MsgID_CombatResultResp \<noteq> MsgID_Error"
  by (simp_all add: msg_id_defs)

text \<open>In every later world the probe's session is that of player 1.\<close>

lemma probe_world_simps [simp]:
  "Session_UID (w_sessions (probe_world s token store r) s) = 1"
  "w_db (probe_world s token store r) = \<lparr>dd_store = store, dd_rand = r\<rparr>"
  "(probe_world s token store r)\<lparr>w_db := \<lparr>dd_store = store', dd_rand = r\<rparr>\<rparr> = probe_world s token store' r"
  by (simp_all add: probe_world_def)

lemma probe_logged_on:
  "sessionsByUID store 1 \<noteq> None \<Longrightarrow> logged_on (WithSession Background s) (probe_world s token store r)"
  by (simp add: logged_on_def signed_defs)

text \<open>The stores: after saving the archive, and after the settlement.\<close>

definition probe_saved :: "byte list \<Rightarrow> byte list \<Rightarrow> byte list \<Rightarrow> memory_store" where
  "probe_saved identity token data =
     (probe_player identity token)\<lparr>archivesByUID := [1 \<mapsto> new_archive 1 data]\<rparr>"

lemma probe_store_simps [simp]:
  "sessionsByUID (probe_player identity token) 1 \<noteq> None" "sessionsByUID (probe_saved identity token data) 1 \<noteq> None"
  "archivesByUID (probe_player identity token) = Map.empty"
  "archivesByUID (probe_saved identity token data) = [1 \<mapsto> new_archive 1 data]"
  "settlements (probe_saved identity token data) = Map.empty" "playerLevels (probe_saved identity token data) = Map.empty"
  "settlementPolicy (probe_saved identity token data) = \<lparr>GoldPerKill = 5, ExpPerKill = 10\<rparr>"
  by (simp_all add: probe_player_def probe_saved_def new_dev_store_def)

lemma probe_first_load:
  "Game_LoadArchive C dev_archives (WithMsgID (WithSession Background s) i) q (probe_world s token (probe_player identity token) r)
   = (Inr \<lparr>lar_found = False, lar_archive = None\<rparr>, probe_world s token (probe_player identity token) r)"
  using dev_arch.load_new_player [of "\<lparr>dd_store = probe_player identity token, dd_rand = r\<rparr>" 1 C]
  by (simp add: Game_LoadArchive_def)

lemma probe_saves:
  assumes "marshal C (M_PlayerArchive newProbeArchive) = Inr data"
  shows "Game_SaveArchive C dev_archives (WithMsgID (WithSession Background s) i) \<lparr>saq_archive = Some newProbeArchive\<rparr>
      (probe_world s token (probe_player identity token) r)
    = (Inr \<lparr>sar_success = True\<rparr>, probe_world s token (probe_saved identity token data) r)"
  by (simp add: Game_SaveArchive_def on_db_def get_archive_field_def ArchiveService_Save_def assms dev_archives_def
      on_store_eq mem_archives_def Mem_SaveArchive_def probe_saved_def probe_player_def new_dev_store_def)

lemma probe_loads:
  assumes "codec_roundtrip C" "marshal C (M_PlayerArchive newProbeArchive) = Inr data"
  shows "Game_LoadArchive C dev_archives (WithMsgID (WithSession Background s) i) q
      (probe_world s token (probe_saved identity token data) r)
    = (Inr \<lparr>lar_found = True, lar_archive = Some newProbeArchive\<rparr>, probe_world s token (probe_saved identity token data) r)"
  by (simp add: Game_LoadArchive_def ArchiveService_Load_def dev_archives_def mem_archives_def Mem_GetArchive_def
      new_archive_def unmarshal_archive_marshal [OF assms])

definition probe_done :: "byte list \<Rightarrow> byte list \<Rightarrow> byte list \<Rightarrow> byte list \<Rightarrow> byte list \<Rightarrow> memory_store" where
  "probe_done identity token data settled response =
     (probe_saved identity token data)\<lparr>archivesByUID := [1 \<mapsto> new_archive 1 settled], playerLevels := [1 \<mapsto> 1],
       settlements := [(1, ''probe-'' @ probe_code identity) \<mapsto> response]\<rparr>"

lemma probe_settle:
  assumes rt: "codec_roundtrip C" and m: "marshal C (M_PlayerArchive newProbeArchive) = Inr data"
    "marshal C (M_PlayerArchive probe_settled) = Inr settled"
    "marshal C (M_CombatResultResp (probe_response identity)) = Inr response"
  shows "Mem_Settle C 1 (Some (newProbeCombatResult (probe_code identity))) (probe_saved identity token data)
    = (Inr (probe_response identity), probe_done identity token data settled response)"
proof -
  have run: "cq_run_id (newProbeCombatResult c) = ''probe-'' @ c" "cq_player_level (newProbeCombatResult c) = 1" for c
    by (simp_all add: newProbeCombatResult_def)
  have resp: "cr_archive (probe_response identity) = Some probe_settled" by (simp add: probe_response_def)
  show ?thesis
    by (simp add: Mem_Settle_def Let_def run resp probe_settles m(2,3) new_archive_def unmarshal_archive_marshal [OF rt m(1)]
        marshal_pointer_def level_of_def signed_defs probe_done_def)
qed

lemma probe_settle_again:
  assumes rt: "codec_roundtrip C" and m: "marshal C (M_CombatResultResp (probe_response identity)) = Inr response"
  shows "Mem_Settle C 1 (Some (newProbeCombatResult (probe_code identity))) (probe_done identity token data settled response)
    = (Inr ((probe_response identity)\<lparr>cr_duplicate := True\<rparr>), probe_done identity token data settled response)"
proof -
  have run: "cq_run_id (newProbeCombatResult c) = ''probe-'' @ c" for c by (simp add: newProbeCombatResult_def)
  have "unmarshal_combat_result C response = Inr (probe_response identity)"
    using codec_roundtripD [OF rt m] by (simp add: unmarshal_combat_result_def)
  then show ?thesis by (simp add: Mem_Settle_def Let_def run probe_done_def probe_response_def)
qed

lemma probe_reports:
  assumes "length identity = 16"
    and "Mem_Settle C 1 (Some (newProbeCombatResult (probe_code identity))) store = (Inr resp, store')"
  shows "CombatResult (dev_combat_handler C) (WithMsgID (WithSession Background s) i) (newProbeCombatResult (probe_code identity))
      (probe_world s token store r) = (Inr resp, probe_world s token store' r)"
  by (simp add: dev_combat_result probe_run_accepted [OF assms(1)] assms(2))

lemma exchange_served:
  assumes rt: "codec_roundtrip C" and m: "sendable C m" "type_of_message m = t"
    and x: "sendable C (wrap x)" "type_of_message (wrap x) = t'" "arg (wrap x) = Some x" "j \<noteq> MsgID_Error"
    and d: "\<And>data seq. request_frame C i t data seq m \<Longrightarrow> Dispatch C k (WithSession Background s) data w
      = (let y = h in (None, typed_reply seq j wrap (fst y), snd y))"
    and h: "h = (Inr x, w')"
  shows "exchange C (loop_methods C k) i m j t' arg (idle_probe w s q) = (Inr x, idle_probe w' s (next_seq q))"
  by (rule exchange_answered [where wrap = wrap and x = x and arg = arg, OF rt m x]) (simp add: d h typed_reply_def)

text \<open>The messages of a run of the probe, and the archives and responses that the server stores.\<close>

definition probe_messages :: "byte list \<Rightarrow> byte list \<Rightarrow> message list" where
  "probe_messages identity token =
     [M_LoginReq \<lparr>lq_code = probe_code identity\<rparr>, M_LoginResp (probe_login_resp token),
      M_LoadArchiveReq LoadArchiveReq, M_LoadArchiveResp \<lparr>lar_found = False, lar_archive = None\<rparr>,
      M_SaveArchiveReq \<lparr>saq_archive = Some newProbeArchive\<rparr>, M_PlayerArchive newProbeArchive,
      M_SaveArchiveResp \<lparr>sar_success = True\<rparr>,
      M_LoadArchiveResp \<lparr>lar_found = True, lar_archive = Some newProbeArchive\<rparr>,
      M_CombatResultReq (newProbeCombatResult (probe_code identity)), M_PlayerArchive probe_settled,
      M_CombatResultResp (probe_response identity), M_CombatResultResp ((probe_response identity)\<lparr>cr_duplicate := True\<rparr>)]"

text \<open>The three stages of the probe. The first is from the start of the server, the others are on the worlds
  that the stage before leaves.\<close>

lemma probe_login_stage:
  assumes rt: "codec_roundtrip C" and send: "\<forall>m \<in> set (probe_messages identity token). sendable C m"
    and "length identity = 16" and "rand r = (Inr token, r')" and "token \<noteq> []"
  shows "probe_login C (loop_methods C (dev_kernel C rand True)) (probe_code identity)
      (idle_probe (dev_start new_dev_store r) s q)
    = (Inr (), idle_probe (probe_world s token (probe_player identity token) r') s (next_seq q))"
proof -
  let ?code = "probe_code identity"
  have send1: "sendable C (M_LoginReq \<lparr>lq_code = ?code\<rparr>)" "sendable C (M_LoginResp (probe_login_resp token))"
    using send by (simp_all add: probe_messages_def)
  have "exchange C (loop_methods C (dev_kernel C rand True)) MsgID_LoginReq (M_LoginReq \<lparr>lq_code = ?code\<rparr>)
      MsgID_LoginResp T_LoginResp
      (\<lambda>m. case m of M_LoginResp r \<Rightarrow> Some r | _ \<Rightarrow> None) (idle_probe (dev_start new_dev_store r) s q)
      = (Inr (probe_login_resp token), idle_probe (probe_world s token (probe_player identity token) r') s (next_seq q))"
    by (rule exchange_served [OF rt send1(1) _ send1(2) _ _ reply_ids(1) login_dispatch
          probe_logs_in [of identity rand r token r' s, OF assms(3,4)]]) simp_all
  moreover have "hex_encode token \<noteq> []" using assms(5) by (metis length_hex length_0_conv mult_is_0 zero_neq_numeral)
  ultimately show ?thesis
    by (simp add: probe_login_def and_then_def) (simp add: probe_login_resp_def signed_defs)
qed

lemma probe_archive_stage:
  assumes rt: "codec_roundtrip C" and send: "\<forall>m \<in> set (probe_messages identity token). sendable C m"
    and m: "marshal C (M_PlayerArchive newProbeArchive) = Inr data"
  shows "probe_archive C (loop_methods C (dev_kernel C rand True)) text
      (idle_probe (probe_world s token (probe_player identity token) r') s q)
    = (Inr (), idle_probe (probe_world s token (probe_saved identity token data) r') s (next_seq (next_seq (next_seq q))))"
proof -
  let ?W = "loop_methods C (dev_kernel C rand True)"
  let ?w1 = "probe_world s token (probe_player identity token) r'"
  let ?w2 = "probe_world s token (probe_saved identity token data) r'"
  have send1: "sendable C (M_LoadArchiveReq LoadArchiveReq)"
    "sendable C (M_LoadArchiveResp \<lparr>lar_found = False, lar_archive = None\<rparr>)"
    "sendable C (M_SaveArchiveReq \<lparr>saq_archive = Some newProbeArchive\<rparr>)" "sendable C (M_SaveArchiveResp \<lparr>sar_success = True\<rparr>)"
    "sendable C (M_LoadArchiveResp \<lparr>lar_found = True, lar_archive = Some newProbeArchive\<rparr>)"
    using send by (simp_all add: probe_messages_def)
  have on: "logged_on (WithSession Background s) ?w1" "logged_on (WithSession Background s) ?w2"
    by (rule probe_logged_on, simp)+
  have 1: "load_archive C ?W (idle_probe ?w1 s q)
      = (Inr \<lparr>lar_found = False, lar_archive = None\<rparr>, idle_probe ?w1 s (next_seq q))" for q
    by (rule exchange_served [OF rt send1(1) _ send1(2) _ _ reply_ids(3) load_dispatch [OF _ on(1)]
          probe_first_load]) simp_all
  have 2: "exchange C ?W MsgID_SaveArchiveReq (M_SaveArchiveReq \<lparr>saq_archive = Some newProbeArchive\<rparr>)
      MsgID_SaveArchiveResp T_SaveArchiveResp (\<lambda>m. case m of M_SaveArchiveResp r \<Rightarrow> Some r | _ \<Rightarrow> None) (idle_probe ?w1 s q)
      = (Inr \<lparr>sar_success = True\<rparr>, idle_probe ?w2 s (next_seq q))" for q
    by (rule exchange_served [OF rt send1(3) _ send1(4) _ _ reply_ids(2) save_dispatch [OF _ on(1)]
          probe_saves [OF m]]) simp_all
  have 3: "load_archive C ?W (idle_probe ?w2 s q)
      = (Inr \<lparr>lar_found = True, lar_archive = Some newProbeArchive\<rparr>, idle_probe ?w2 s (next_seq q))" for q
    by (rule exchange_served [OF rt send1(1) _ send1(5) _ _ reply_ids(3) load_dispatch [OF _ on(2)]
          probe_loads [OF rt m]]) simp_all
  show ?thesis by (simp add: probe_archive_def and_then_def 1 2 3 Let_def)
qed

lemma probe_combat_stage:
  assumes rt: "codec_roundtrip C" and send: "\<forall>m \<in> set (probe_messages identity token). sendable C m"
    and len: "length identity = 16"
    and m: "marshal C (M_PlayerArchive newProbeArchive) = Inr data"
      "marshal C (M_PlayerArchive probe_settled) = Inr settled"
      "marshal C (M_CombatResultResp (probe_response identity)) = Inr response"
  shows "fst (probe_combat C (loop_methods C (dev_kernel C rand True)) text (probe_code identity)
      (idle_probe (probe_world s token (probe_saved identity token data) r') s q)) = Inr ()"
proof -
  let ?W = "loop_methods C (dev_kernel C rand True)" and ?req = "newProbeCombatResult (probe_code identity)"
  let ?w2 = "probe_world s token (probe_saved identity token data) r'"
  let ?w3 = "probe_world s token (probe_done identity token data settled response) r'"
  have send1: "sendable C (M_CombatResultReq ?req)" "sendable C (M_CombatResultResp (probe_response identity))"
    "sendable C (M_CombatResultResp ((probe_response identity)\<lparr>cr_duplicate := True\<rparr>))"
    using send by (simp_all add: probe_messages_def)
  have on: "logged_on (WithSession Background s) ?w2" "logged_on (WithSession Background s) ?w3"
    by (rule probe_logged_on, simp add: probe_done_def)+
  have 1: "settle_combat C ?W ?req (idle_probe ?w2 s q) = (Inr (probe_response identity), idle_probe ?w3 s (next_seq q))" for q
    by (rule exchange_served [OF rt send1(1) _ send1(2) _ _ reply_ids(4) combat_dispatch [OF _ on(1)]
          probe_reports [OF len probe_settle [OF rt m]]]) simp_all
  have 2: "settle_combat C ?W ?req (idle_probe ?w3 s q)
      = (Inr ((probe_response identity)\<lparr>cr_duplicate := True\<rparr>), idle_probe ?w3 s (next_seq q))" for q
    by (rule exchange_served [OF rt send1(1) _ send1(3) _ _ reply_ids(4) combat_dispatch [OF _ on(2)]
          probe_reports [OF len probe_settle_again [OF rt m(3)]]]) simp_all
  show ?thesis
    by (simp add: probe_combat_def and_then_def 1 2 Let_def) (simp add: probe_response_def)
qed

section \<open>Property\<close>

text \<open>
  C5: The acceptance probe passes against every newly started development server with development logins, whatever
  16 random bytes it draws for its identity and whatever non-empty token the server draws, over any codec that
  round-trips and can send the twelve messages involved: the login yields a positive id and a token, no archive
  is found, the saved archive is read back, the reported run is credited once, and reporting it again returns
  the first response, marked as a duplicate. The probe then exits with status 0 and prints its evidence.
\<close>

theorem probe_passes:
  assumes "newDevelopmentRuntime C rand cfg = Inr rt" and "dv_LoginEnabled (cf_Development cfg)"
    and "codec_roundtrip C" and "\<forall>m \<in> set (probe_messages identity token). sendable C m"
    and "length identity = 16" and "rand r = (Inr token, r')" and "token \<noteq> []"
  shows "fst (devprobe_main C (loop_methods C (rt_kernel rt)) text (Inr identity)
      \<lparr>lb_world = dev_start (rt_store rt) r, lb_conn = newConnection (Some True) s\<rparr>)
    = \<lparr>px_status = 0, px_stdout = probeSuccessEvidence @ [CHR 0x0A], px_stderr = []\<rparr>"
proof -
  have k: "rt_kernel rt = dev_kernel C rand True" "rt_store rt = new_dev_store"
    using runtime_Inr [OF assms(1)] assms(2) by simp_all
  from assms(4) obtain data settled response where m:
    "marshal C (M_PlayerArchive newProbeArchive) = Inr data" "marshal C (M_PlayerArchive probe_settled) = Inr settled"
    "marshal C (M_CombatResultResp (probe_response identity)) = Inr response"
    by (auto simp: probe_messages_def sendable_def)
  note stages = probe_login_stage [of C identity token rand r r', OF assms(3-7)] probe_archive_stage [OF assms(3,4) m(1)]
    probe_combat_stage [OF assms(3-5) m]
  have start: "\<lparr>pr_conn = \<lparr>lb_world = dev_start new_dev_store r, lb_conn = newConnection (Some True) s\<rparr>, pr_seq = 0\<rparr>
      = idle_probe (dev_start new_dev_store r) s 0" by (simp add: idle_probe_def)
  have dial: "pc_Dial (loop_methods C (dev_kernel C rand True)) address lb = (None, lb)" for address lb
    by (simp add: loop_methods_def)
  have code: "newProbeLoginCode (Inr identity) = Inr (probe_code identity)"
    by (simp add: newProbeLoginCode_def probe_code_def)
  obtain res p where ps: "probe_session C (loop_methods C (dev_kernel C rand True)) text (Inr identity)
      (idle_probe (dev_start new_dev_store r) s 0) = (res, p)" by fastforce
  have "fst (probe_session C (loop_methods C (dev_kernel C rand True)) text (Inr identity)
      (idle_probe (dev_start new_dev_store r) s 0)) = Inr ()"
    by (simp add: probe_session_def code and_then_def stages)
  with ps have "fst (runProbe C (loop_methods C (dev_kernel C rand True)) text (Inr identity) probeAddress
      \<lparr>lb_world = dev_start new_dev_store r, lb_conn = newConnection (Some True) s\<rparr>) = None"
    by (simp add: runProbe_def dial start)
  then show ?thesis by (auto simp: devprobe_main_def k split: prod.split option.split)
qed

section \<open>Witness\<close>

lemma position_mem: "m \<in> set ms \<Longrightarrow> \<exists>i. position ms m = Some i"
  by (induction ms) auto

lemma table_sendable: "m \<in> set ms \<Longrightarrow> sendable (table_codec ms) m"
  using position_mem [of m ms] by (auto simp: sendable_def marshal_table HeaderSize_def MaxFrameSize_def)

definition one_byte :: "unit \<Rightarrow> (go_error + byte list) \<times> unit" where
  "one_byte r = (Inr [7], r)"

definition probe_codec :: codec where
  "probe_codec = table_codec (probe_messages (replicate 16 3) [7])"

theorem probe_passes_witness:
  "\<exists>rt. newDevelopmentRuntime probe_codec one_byte sample_config = Inr rt \<and>
     px_status (fst (devprobe_main probe_codec (loop_methods probe_codec (rt_kernel rt)) (\<lambda>m. []) (Inr (replicate 16 3))
       \<lparr>lb_world = dev_start (rt_store rt) (), lb_conn = newConnection (Some True) 9\<rparr>)) = 0"
proof -
  obtain rt where rt: "newDevelopmentRuntime probe_codec one_byte sample_config = Inr rt"
    by (simp add: newDevelopmentRuntime_eq sample_config_def)
  have "one_byte () = (Inr [7], ())" "[7 :: byte] \<noteq> []" "length (replicate 16 (3 :: byte)) = 16"
    by (simp_all add: one_byte_def)
  moreover have "dv_LoginEnabled (cf_Development sample_config)" by (simp add: sample_config_def)
  moreover have "codec_roundtrip probe_codec"
    by (simp add: probe_codec_def table_codec_roundtrip probe_messages_def)
  moreover have "\<forall>m \<in> set (probe_messages (replicate 16 3) [7]). sendable probe_codec m"
    unfolding probe_codec_def by (intro ballI table_sendable)
  ultimately show ?thesis
    using rt probe_passes [OF rt, of "replicate 16 3" "[7]" "()" "()" "\<lambda>m. []" 9] by auto
qed

end
