(* ===== verification/Spec2Isabelle.thy ===== *)
theory Spec2Isabelle
  imports Protocol Combat_Validator Memory_History Game Login Hooks Dev_Samples Server Redis_Sample MySQL_Sample Main_Sample Login_Sample Probe_Run
begin

text \<open>
  Verification library of the game server \<open>game-server-go\<close>.

  \<^bold>\<open>The program.\<close> A client opens a WebSocket connection (\<open>internal/transport\<close>) and sends binary frames
  (\<open>internal/protocol\<close>). The connection's read loop hands each frame to the message kernel
  (\<open>internal/kernel\<close>): it decodes the frame, finds the handler registered for the message id, decodes the
  protobuf body, runs the before-hooks (\<open>internal/pipeline\<close>, \<open>internal/hooks\<close>: authentication, rate limit),
  calls the handler, runs the after-hooks and replies on the session (\<open>internal/session\<close>). The handlers of
  the modules (\<open>internal/login\<close>, \<open>game\<close>, \<open>combat\<close>, \<open>rank\<close>, \<open>gm\<close>, \<open>payment\<close>) work on repositories
  (\<open>internal/store\<close>), which are in-memory tables in development and MySQL and Redis in production.
  \<open>cmd/server/main.go\<close> composes all this; \<open>cmd/devprobe/main.go\<close> is a client that tests a running server.

  \<^bold>\<open>Theories, from the bottom.\<close>
  \<^item> \<open>Prelude\<close>: machine integers, little-endian bytes; \<open>Go_Strings\<close>, \<open>Go_Errors\<close>, \<open>Go_Float\<close>, \<open>Go_Format\<close>: the
    parts of Go's standard library the program uses (\<open>strings\<close>, \<open>strconv\<close>, \<open>errors\<close>, IEEE arithmetic,
    shortest float formatting); \<open>Go_Float_Bounds\<close>: interval arithmetic on the rounded operations.
  \<^item> \<open>Messages\<close>: the protobuf structs and the codec's laws; \<open>Sample_Codec\<close>: a codec that satisfies them.
  \<^item> \<open>Protocol\<close>: \<open>internal/protocol\<close> (ids, error codes, route table, frame codec): decoding is characterised
    exactly, and inverts encoding.
  \<^item> \<open>Session\<close>, \<open>Pipeline\<close>, \<open>Kernel\<close>: the packages of these names; which frames end a connection.
  \<^item> \<open>Store\<close>: entities and repository interfaces, with the laws of a repository as locales; \<open>Settlement\<close>:
    \<open>internal/store/settlement.go\<close>; \<open>Memory_Store\<close>: \<open>memory_development.go\<close> with the interpretations of the
    locales; \<open>Memory_History\<close>: sequences of its operations (player index, one credit for each run);
    \<open>Data_Stores\<close>: the methods of \<open>MySQLStore\<close> and \<open>RedisStore\<close> as records of functions.
  \<^item> \<open>Combat_Config\<close>, \<open>Combat_Validator\<close>, \<open>Combat_Handler\<close>: \<open>internal/combat\<close>.
  \<^item> \<open>Game\<close>, \<open>Login\<close>, \<open>Payment\<close>, \<open>Hooks\<close>, \<open>Config\<close>, \<open>Rank\<close>, \<open>GM\<close>: the packages of these names; \<open>Wechat\<close>: the
    WeChat client of \<open>internal/login/wechat.go\<close>.
  \<^item> \<open>Dev_Database\<close>, \<open>Dev_Runtime\<close>, \<open>Dev_Dispatch\<close>, \<open>Dev_Traffic\<close>: the development composition of \<open>newRuntime\<close>,
    what it does with a frame, and what sequences of frames do: all traffic is a history of the store's
    operations, so that a run reported twice over the network is credited once. \<open>Dev_Samples\<close>: its witnesses.
  \<^item> \<open>Connection\<close>, \<open>Hub\<close>, \<open>Server\<close>: \<open>internal/transport\<close>. The functions of the code are definitions; the
    goroutines that race with each other are step relations over them, with invariants by rule induction,
    and the progress of a shutdown by a measure.
  \<^item> \<open>Redis_Store\<close>: \<open>redis.go\<close>, its Lua script included; \<open>MySQL_Store\<close>: \<open>mysql.go\<close>; \<open>MySQL_Settlement\<close>:
    \<open>mysql_settlement.go\<close>, and \<open>MySQL_Refinement\<close>: it refines the in-memory settlement; \<open>MySQL_Styles\<close>: the
    purchase of a style over both. \<open>Redis_Sample\<close> and
    \<open>MySQL_Sample\<close> hold a client and a database that satisfy the hypotheses, and the witnesses.
  \<^item> \<open>Prod_Runtime\<close>, \<open>Prod_Sample\<close>: the production composition, its start, its gates and its closing;
    \<open>Prod_Login\<close>, \<open>Login_Sample\<close>: a login over MySQL, Redis and WeChat, as a step on the table of accounts.
  \<^item> \<open>Probe\<close>, \<open>Probe_Run\<close>: the probe, and its run against the development server.
  \<^item> \<open>Logger\<close>: \<open>pkg/logger\<close>.
  \<^item> \<open>Main_Program\<close>, \<open>Main_Sample\<close>: \<open>main\<close> as a process around the runtime, the server and the logger: its start, the
    goroutine of \<open>Start\<close>, signals, frames, and the shutdown, after which it exits with everything closed.

  \<^bold>\<open>State.\<close> A handler is a function on the \<open>world\<close>: the sessions by address, and the database state. Locks
  are not modelled where one method holds one lock for its whole body; then the method is one function.
  In the theories of traffic the frames of all connections are served one after another, so a handler is
  one step; a transaction of the database is one step as well. The interleavings that the transport code
  itself has to deal with (pumps, hub, requests, shutdown) are the step relations \<open>pump_step\<close>, \<open>hub_step\<close>,
  \<open>closing_step\<close> and \<open>serving_step\<close>, and for the whole process \<open>program_step\<close> and \<open>outside_step\<close>.

  \<^bold>\<open>Parameters.\<close> Code outside the repository is an argument of the definitions: the protobuf wire format
  (\<open>codec\<close>), the Redis client (\<open>redis_client\<close>), the object-relational mapper and its database (\<open>gorm\<close>), the
  HTTP client and the JSON decoders, the random source, the goroutine scheduler (\<open>pf_spawn\<close>), the rotating
  log writer (\<open>log_library\<close>), the probe's WebSocket and the configuration library. What the proofs need of
  them is a named hypothesis that states their documented behaviour; each has a witness with a concrete
  instance.

  \<^bold>\<open>Bounds.\<close> Integers have the width of the code and wrap as Go's do. The in-memory store numbers players
  with 64-bit integers; theorems on traffic bound the number of frames so that the numbers cannot wrap. No
  definition needs fuel: every loop of the code runs over a list or ends with its connection, and the loops
  that wait (pumps, hub, shutdown) are step relations.

  \<^bold>\<open>Not modelled.\<close> The command line and the delivery of signals (a signal is a step that may come
  once \<open>main\<close> waits for it; an earlier one kills the process), the layout of log entries, reflection and descriptors of generated protobuf code, the mapper's
  schema tags and its own logging, network deadlines (they are errors that may come at any time) and the HTTP
  server, which belong to libraries. The goroutine that writes a score record runs where the scheduler
  parameter puts it within its request; that it may outlive the request is not part of \<open>Main_Program\<close>.
\<close>

end
